(* ===== verification/Js_Prelude.thy ===== *)
theory Js_Prelude
  imports Main "HOL-Library.Sublist"
begin

text \<open>
  The shared vocabulary of the development: JavaScript strings and the string operations of
  the standard library that the frontend uses, together with the lemma collections and the
  generic list lemmas that the component theories rely on.

  A JavaScript string is a sequence of UTF-16 code units, so \<open>jstring\<close> is a list of naturals
  (a code unit is below 65536) and \<open>length\<close> counts what \<open>.length\<close> counts. A literal of the
  source is written \<open>js ''...''\<close>; code units outside ASCII are given by number.
  \<open>toLowerCase\<close> and \<open>toUpperCase\<close> follow the Unicode mappings on Basic Latin, Latin-1,
  Greek and Cyrillic, and on the two code units outside these blocks whose lower case holds an
  ASCII letter (U+0130 and U+212A); capitals of other scripts are left as they are.
\<close>

section \<open>Lemma collections\<close>

named_theorems js_simps \<open>rewriting rules for the string operations\<close>
named_theorems form_simps \<open>unfolding rules of form and payload operations\<close>
named_theorems form_invs \<open>preservation facts of form and store operations\<close>
named_theorems step_defs \<open>the step functions of the stateful components\<close>

section \<open>Strings and literals\<close>

type_synonym jstring = "nat list"

definition js :: "string \<Rightarrow> jstring" where
  "js s = map of_char s"

lemma js_Nil [simp]: "js [] = []"
  by (simp add: js_def)

lemma js_Cons: "js (c # s) = of_char c # js s"
  by (simp add: js_def)

lemma js_eq_iff [simp]: "js s = js t \<longleftrightarrow> s = t"
  by (simp add: js_def inj_map_eq_map inj_of_char)

lemma js_eq_Nil [simp]: "js s = [] \<longleftrightarrow> s = []" "[] = js s \<longleftrightarrow> s = []"
  by (auto simp: js_def)

lemma length_js [simp]: "length (js s) = length s"
  by (simp add: js_def)

lemma js_append: "js (s @ t) = js s @ js t"
  by (simp add: js_def)

text \<open>The double quote, which the outer syntax would need to escape.\<close>

abbreviation dq :: jstring where
  "dq \<equiv> [34]"

section \<open>Character classes\<close>

text \<open>The white space of ECMAScript: what \<open>trim\<close> removes and what \<open>\s\<close> matches.\<close>

definition is_ws :: "nat \<Rightarrow> bool" where
  "is_ws c \<longleftrightarrow> 9 \<le> c \<and> c \<le> 13 \<or> c = 32 \<or> c = 160 \<or> c = 5760 \<or> 8192 \<le> c \<and> c \<le> 8202 \<or>
     c = 8232 \<or> c = 8233 \<or> c = 8239 \<or> c = 8287 \<or> c = 12288 \<or> c = 65279"

definition is_digit :: "nat \<Rightarrow> bool" where
  "is_digit c \<longleftrightarrow> 48 \<le> c \<and> c \<le> 57"

definition is_lower_az :: "nat \<Rightarrow> bool" where
  "is_lower_az c \<longleftrightarrow> 97 \<le> c \<and> c \<le> 122"

definition is_upper_az :: "nat \<Rightarrow> bool" where
  "is_upper_az c \<longleftrightarrow> 65 \<le> c \<and> c \<le> 90"

text \<open>\<open>\w\<close>\<close>

definition is_word :: "nat \<Rightarrow> bool" where
  "is_word c \<longleftrightarrow> is_digit c \<or> is_lower_az c \<or> is_upper_az c \<or> c = 95"

lemmas char_class_defs = is_ws_def is_digit_def is_lower_az_def is_upper_az_def is_word_def

section \<open>trim\<close>

definition trimStart :: "jstring \<Rightarrow> jstring" where
  "trimStart s = dropWhile is_ws s"

definition trimEnd :: "jstring \<Rightarrow> jstring" where
  "trimEnd s = rev (dropWhile is_ws (rev s))"

definition trim :: "jstring \<Rightarrow> jstring" where
  "trim s = trimEnd (trimStart s)"

lemma dropWhile_idem_gen: "(s \<noteq> [] \<Longrightarrow> \<not> P (hd s)) \<Longrightarrow> dropWhile P s = s"
  by (cases s) auto

lemma hd_dropWhile_not: "dropWhile P s \<noteq> [] \<Longrightarrow> \<not> P (hd (dropWhile P s))"
  by (rule hd_dropWhile)

lemma trimEnd_idem: "trimEnd (trimEnd s) = trimEnd s"
  by (simp add: trimEnd_def)

lemma trimEnd_prefix: "\<exists>w. s = trimEnd s @ w \<and> list_all is_ws w"
proof -
  have "rev s = takeWhile is_ws (rev s) @ dropWhile is_ws (rev s)" by simp
  then have "s = trimEnd s @ rev (takeWhile is_ws (rev s))"
    by (metis rev_append rev_rev_ident trimEnd_def)
  moreover have "list_all is_ws (rev (takeWhile is_ws (rev s)))"
    by (simp add: list_all_iff) (meson set_takeWhileD)
  ultimately show ?thesis by blast
qed

lemma trim_no_leading: "trim s \<noteq> [] \<Longrightarrow> \<not> is_ws (hd (trim s))"
proof -
  assume ne: "trim s \<noteq> []"
  obtain w where w: "trimStart s = trim s @ w"
    using trimEnd_prefix unfolding trim_def by blast
  with ne have "trimStart s \<noteq> []" "hd (trimStart s) = hd (trim s)" by auto
  then show ?thesis by (metis hd_dropWhile trimStart_def)
qed

lemma trim_idem [simp]: "trim (trim s) = trim s"
proof -
  have "trimStart (trim s) = trim s"
    unfolding trimStart_def by (rule dropWhile_idem_gen) (rule trim_no_leading)
  then show ?thesis
    by (metis trim_def trimEnd_idem)
qed

lemma trim_Nil [simp]: "trim [] = []"
  by (simp add: trim_def trimStart_def trimEnd_def)

lemma trim_no_ws: "list_all (\<lambda>c. \<not> is_ws c) s \<Longrightarrow> trim s = s"
proof -
  assume a: "list_all (\<lambda>c. \<not> is_ws c) s"
  have st: "dropWhile is_ws s = s"
    by (rule dropWhile_idem_gen) (use a in \<open>simp add: list_all_iff\<close>)
  have "dropWhile is_ws (rev s) = rev s"
    by (rule dropWhile_idem_gen) (use a in \<open>simp add: list_all_iff last_in_set hd_rev\<close>)
  with st show ?thesis by (simp add: trim_def trimStart_def trimEnd_def)
qed

lemma trim_eq_Nil_iff: "trim s = [] \<longleftrightarrow> list_all is_ws s"
proof
  assume "trim s = []"
  then have all: "\<forall>x \<in> set (dropWhile is_ws s). is_ws x"
    by (simp add: trim_def trimStart_def trimEnd_def dropWhile_eq_Nil_conv)
  have "dropWhile is_ws s = []"
    using all hd_dropWhile hd_in_set by blast
  then show "list_all is_ws s" by (simp add: dropWhile_eq_Nil_conv list_all_iff)
next
  assume "list_all is_ws s"
  then have "dropWhile is_ws s = []"
    using dropWhile_eq_Nil_conv [of is_ws s] unfolding list_all_iff by blast
  then show "trim s = []"
    by (simp only: trim_def trimStart_def trimEnd_def rev.simps dropWhile.simps)
qed

lemma set_trim: "set (trim s) \<subseteq> set s"
  unfolding trim_def trimStart_def trimEnd_def
  by (metis set_dropWhileD set_rev subsetI)

lemma length_trim: "length (trim s) \<le> length s"
  by (simp add: trim_def trimStart_def trimEnd_def length_dropWhile_le le_trans [OF length_dropWhile_le])

lemma takeWhile_until: "c \<notin> set s \<Longrightarrow> takeWhile (\<lambda>x. x \<noteq> c) (s @ c # t) = s"
  by (induction s) auto

section \<open>Case mapping\<close>

definition lower_shift :: "nat \<Rightarrow> nat" where
  "lower_shift c =
     (if is_upper_az c then 32
      else if 192 \<le> c \<and> c \<le> 222 \<and> c \<noteq> 215 then 32
      else if 913 \<le> c \<and> c \<le> 939 \<and> c \<noteq> 930 then 32
      else if 1024 \<le> c \<and> c \<le> 1039 then 80
      else if 1040 \<le> c \<and> c \<le> 1071 then 32
      else 0)"

definition lower_unit :: "nat \<Rightarrow> jstring" where
  "lower_unit c =
     (if c = 304 then [105, 775] else if c = 8490 then [107] else [c + lower_shift c])"

definition toLowerCase :: "jstring \<Rightarrow> jstring" where
  "toLowerCase s = concat (map lower_unit s)"

definition upper_unit :: "nat \<Rightarrow> jstring" where
  "upper_unit c =
     (if is_lower_az c then [c - 32]
      else if c = 181 then [924]
      else if c = 223 then [83, 83]
      else if 224 \<le> c \<and> c \<le> 254 \<and> c \<noteq> 247 then [c - 32]
      else if c = 255 then [376]
      else if c = 962 then [931]
      else if 945 \<le> c \<and> c \<le> 971 then [c - 32]
      else if 1072 \<le> c \<and> c \<le> 1103 then [c - 32]
      else if 1104 \<le> c \<and> c \<le> 1119 then [c - 80]
      else [c])"

definition toUpperCase :: "jstring \<Rightarrow> jstring" where
  "toUpperCase s = concat (map upper_unit s)"

lemma toLowerCase_append [js_simps]: "toLowerCase (s @ t) = toLowerCase s @ toLowerCase t"
  by (simp add: toLowerCase_def)

lemma toLowerCase_Nil [simp]: "toLowerCase [] = []"
  by (simp add: toLowerCase_def)

lemma toLowerCase_Cons: "toLowerCase (c # s) = lower_unit c @ toLowerCase s"
  by (simp add: toLowerCase_def)

lemma lower_shift_shift: "lower_shift (c + lower_shift c) = 0"
  by (auto simp: lower_shift_def is_upper_az_def)

lemma lower_shift_range: "c \<noteq> 304 \<Longrightarrow> c \<noteq> 8490 \<Longrightarrow> c + lower_shift c \<noteq> 304 \<and> c + lower_shift c \<noteq> 8490"
  by (auto simp: lower_shift_def is_upper_az_def)

lemma lower_unit_idem: "toLowerCase (lower_unit c) = lower_unit c"
  using lower_shift_shift [of c] lower_shift_range [of c]
  by (auto simp: toLowerCase_def lower_unit_def)
    (simp_all add: lower_shift_def is_upper_az_def)

lemma toLowerCase_idem [simp]: "toLowerCase (toLowerCase s) = toLowerCase s"
  by (induction s) (simp_all add: toLowerCase_Cons toLowerCase_append lower_unit_idem)

lemma lower_unit_not_Nil [simp]: "lower_unit c \<noteq> []"
  by (simp add: lower_unit_def)

lemma toLowerCase_eq_Nil [simp]: "toLowerCase s = [] \<longleftrightarrow> s = []"
  by (cases s) (simp_all add: toLowerCase_Cons)

lemma lower_shift_bounds:
  "lower_shift c \<noteq> 0 \<Longrightarrow>
   65 \<le> c \<and> c \<le> 90 \<and> lower_shift c = 32 \<or> 192 \<le> c \<and> c \<le> 222 \<and> lower_shift c = 32 \<or>
   913 \<le> c \<and> c \<le> 1071 \<and> lower_shift c \<le> 80"
  by (simp add: lower_shift_def is_upper_az_def split: if_splits)

lemma lower_shift_not_ws:
  assumes "lower_shift c \<noteq> 0"
  shows "\<not> is_ws c \<and> \<not> is_ws (c + lower_shift c)"
  using lower_shift_bounds [OF assms]
  by (elim disjE) (auto simp: is_ws_def)

lemma lower_unit_ws: "is_ws c \<Longrightarrow> lower_unit c = [c]"
  using lower_shift_not_ws [of c] by (auto simp: lower_unit_def is_ws_def)

lemma lower_unit_not_ws: "\<not> is_ws c \<Longrightarrow> list_all (\<lambda>d. \<not> is_ws d) (lower_unit c)"
  using lower_shift_not_ws [of c]
  by (cases "lower_shift c = 0") (auto simp: lower_unit_def is_ws_def)

lemma trimStart_Cons: "trimStart (c # s) = (if is_ws c then trimStart s else c # s)"
  by (simp add: trimStart_def)

lemma trimEnd_snoc: "trimEnd (s @ [c]) = (if is_ws c then trimEnd s else s @ [c])"
  by (simp add: trimEnd_def)

lemma toLowerCase_trimStart: "trimStart (toLowerCase s) = toLowerCase (trimStart s)"
proof (induction s)
  case (Cons c s)
  show ?case
  proof (cases "is_ws c")
    case True
    with Cons show ?thesis by (simp add: toLowerCase_Cons lower_unit_ws trimStart_Cons)
  next
    case False
    then have "\<not> is_ws (hd (lower_unit c))"
      using lower_unit_not_ws [of c] by (cases "lower_unit c") auto
    with False show ?thesis
      by (simp add: toLowerCase_Cons trimStart_Cons)
        (cases "lower_unit c", auto simp: trimStart_Cons)
  qed
qed (simp add: trimStart_def)

lemma toLowerCase_trimEnd: "trimEnd (toLowerCase s) = toLowerCase (trimEnd s)"
proof (induction s rule: rev_induct)
  case (snoc c s)
  show ?case
  proof (cases "is_ws c")
    case True
    with snoc show ?thesis
      by (simp add: toLowerCase_append toLowerCase_Cons lower_unit_ws trimEnd_snoc)
  next
    case False
    obtain u d where u: "lower_unit c = u @ [d]"
      by (metis lower_unit_not_Nil rev_exhaust)
    with False have "\<not> is_ws d"
      using lower_unit_not_ws [of c] by simp
    with u False show ?thesis
      by (simp add: toLowerCase_append toLowerCase_Cons trimEnd_snoc flip: append_assoc)
  qed
qed (simp add: trimEnd_def)

lemma toLowerCase_trim: "trim (toLowerCase s) = toLowerCase (trim s)"
  by (simp add: trim_def toLowerCase_trimStart toLowerCase_trimEnd)

section \<open>Searching, splitting and joining\<close>

definition startsWith :: "'a list \<Rightarrow> 'a list \<Rightarrow> bool" where
  "startsWith s p \<longleftrightarrow> take (length p) s = p"

definition endsWith :: "'a list \<Rightarrow> 'a list \<Rightarrow> bool" where
  "endsWith s p \<longleftrightarrow> startsWith (rev s) (rev p)"

fun js_includes :: "'a list \<Rightarrow> 'a list \<Rightarrow> bool" where
  "js_includes [] t = (t = [])"
| "js_includes (c # s) t = (startsWith (c # s) t \<or> js_includes s t)"

text \<open>\<open>s.split(c)\<close> for a separator of one code unit.\<close>

fun split_on :: "'a \<Rightarrow> 'a list \<Rightarrow> 'a list list" where
  "split_on c [] = [[]]"
| "split_on c (x # xs) =
     (if x = c then [] # split_on c xs
      else (case split_on c xs of [] \<Rightarrow> [[x]] | y # ys \<Rightarrow> (x # y) # ys))"

text \<open>\<open>s.split(/[...]+/)\<close>: the separators are the maximal runs of code units in a class.\<close>

function split_runs :: "('a \<Rightarrow> bool) \<Rightarrow> 'a list \<Rightarrow> 'a list list" where
  "split_runs P s =
     (let t = takeWhile (\<lambda>c. \<not> P c) s; r = dropWhile (\<lambda>c. \<not> P c) s
      in if r = [] then [t] else t # split_runs P (dropWhile P r))"
  by pat_completeness auto
termination
proof (relation "measure (length \<circ> snd)", goal_cases)
  case (2 P s t r)
  have "r \<noteq> []" using 2(3) .
  then obtain c r' where r: "r = c # r'" by (meson list.exhaust)
  with 2(2) have "P c" by (metis hd_dropWhile list.sel(1) list.simps(3))
  with r have "length (dropWhile P r) < length r"
    by (simp add: le_imp_less_Suc length_dropWhile_le)
  also have "\<dots> \<le> length s" using 2 by (simp add: length_dropWhile_le)
  finally show ?case by simp
qed simp

declare split_runs.simps [simp del]

fun join :: "'a list \<Rightarrow> 'a list list \<Rightarrow> 'a list" where
  "join sep [] = []"
| "join sep [x] = x"
| "join sep (x # y # ys) = x @ sep @ join sep (y # ys)"

lemma startsWith_append [simp]: "startsWith (p @ s) p"
  by (simp add: startsWith_def)

lemma startsWith_Nil [simp]: "startsWith s []"
  by (simp add: startsWith_def)

lemma startsWith_prefix: "startsWith s p \<longleftrightarrow> prefix p s"
  by (auto simp: startsWith_def prefix_def) (metis append_take_drop_id)

lemma includes_iff_sublist: "js_includes s t \<longleftrightarrow> sublist t s"
  by (induction s) (auto simp: startsWith_prefix sublist_Cons_right)

lemma split_on_not_Nil [simp]: "split_on c s \<noteq> []"
  by (induction s) (auto split: list.splits)

lemma join_split_on [simp]: "join [c] (split_on c s) = s"
proof (induction s)
  case (Cons x xs)
  then show ?case
    by (cases "split_on c xs") (auto, (metis append_Cons append_Nil join.simps(2,3) list.exhaust)+)
qed simp

lemma split_on_no_sep: "c \<notin> set s \<Longrightarrow> split_on c s = [s]"
  by (induction s) auto

lemma split_on_append_sep: "c \<notin> set s \<Longrightarrow> split_on c (s @ c # t) = s # split_on c t"
  by (induction s) auto

lemma split_on_pieces: "p \<in> set (split_on c s) \<Longrightarrow> c \<notin> set p"
proof (induction s arbitrary: p)
  case (Cons x xs)
  then show ?case by (cases "split_on c xs") (auto split: if_splits)
qed simp

lemma split_on_join:
  "xs \<noteq> [] \<Longrightarrow> \<forall>x \<in> set xs. c \<notin> set x \<Longrightarrow> split_on c (join [c] xs) = xs"
  by (induction "[c]" xs rule: join.induct) (auto simp: split_on_no_sep split_on_append_sep)

lemma split_runs_not_Nil [simp]: "split_runs P s \<noteq> []"
  by (subst split_runs.simps) (simp add: Let_def)

lemma split_runs_pieces: "p \<in> set (split_runs P s) \<Longrightarrow> list_all (\<lambda>c. \<not> P c) p"
proof (induction P s rule: split_runs.induct)
  case (1 P s)
  from "1.prems" consider "p = takeWhile (\<lambda>c. \<not> P c) s"
    | "dropWhile (\<lambda>c. \<not> P c) s \<noteq> []"
      "p \<in> set (split_runs P (dropWhile P (dropWhile (\<lambda>c. \<not> P c) s)))"
    by (subst (asm) split_runs.simps) (auto simp: Let_def split: if_splits)
  then show ?case
  proof cases
    case 1
    then show ?thesis by (auto simp: list_all_iff dest: set_takeWhileD)
  next
    case 2
    then show ?thesis using "1.IH" by blast
  qed
qed

lemma split_runs_clean: "list_all (\<lambda>c. \<not> P c) s \<Longrightarrow> split_runs P s = [s]"
  by (subst split_runs.simps)
    (simp add: Let_def list_all_iff takeWhile_eq_all_conv)

lemma split_runs_sep:
  "list_all (\<lambda>c. \<not> P c) s \<Longrightarrow> P c \<Longrightarrow>
   split_runs P (s @ c # t) = s # split_runs P (dropWhile P t)"
  by (subst split_runs.simps) (simp add: Let_def list_all_iff takeWhile_append2 dropWhile_append2)

text \<open>\<open>s.split(sep)\<close> for a separator of several code units.\<close>

function split_seq :: "'a list \<Rightarrow> 'a list \<Rightarrow> 'a list list" where
  "split_seq sep [] = [[]]"
| "split_seq sep (c # s) =
     (if sep \<noteq> [] \<and> startsWith (c # s) sep then [] # split_seq sep (drop (length sep) (c # s))
      else (case split_seq sep s of [] \<Rightarrow> [[c]] | y # ys \<Rightarrow> (c # y) # ys))"
  by pat_completeness auto
termination
  by (relation "measure (length \<circ> snd)") (auto simp: neq_Nil_conv)

lemma split_seq_not_Nil [simp]: "split_seq sep s \<noteq> []"
  by (induction sep s rule: split_seq.induct) (auto split: list.splits)

lemma startsWith_hd: "startsWith (c # s) sep \<Longrightarrow> sep \<noteq> [] \<Longrightarrow> hd sep = c"
  by (cases sep) (auto simp: startsWith_def)

lemma split_seq_no_sep: "sep \<noteq> [] \<Longrightarrow> hd sep \<notin> set s \<Longrightarrow> split_seq sep s = [s]"
  by (induction s) (auto dest: startsWith_hd)

lemma split_seq_append_sep:
  "sep \<noteq> [] \<Longrightarrow> hd sep \<notin> set s \<Longrightarrow> split_seq sep (s @ sep @ t) = s # split_seq sep t"
proof (induction s)
  case Nil
  then obtain c sep' where sep: "sep = c # sep'" by (cases sep) auto
  have "startsWith (c # sep' @ t) (c # sep')"
    by (simp add: startsWith_def)
  with sep show ?case by simp
next
  case (Cons x s)
  then have "\<not> startsWith (x # s @ sep @ t) sep" by (auto dest: startsWith_hd)
  with Cons show ?case by simp
qed

lemma split_seq_join:
  "sep \<noteq> [] \<Longrightarrow> xs \<noteq> [] \<Longrightarrow> \<forall>x \<in> set xs. hd sep \<notin> set x \<Longrightarrow> split_seq sep (join sep xs) = xs"
  by (induction sep xs rule: join.induct) (auto simp: split_seq_no_sep split_seq_append_sep)

text \<open>The largest of some numbers, as \<open>Math.max\<close> over a list gives it.\<close>

lemma fold_max_ge: "(x :: int) \<le> fold max xs x" "y \<in> set xs \<Longrightarrow> y \<le> fold max xs x"
  by (induction xs arbitrary: x) (auto, (metis le_max_iff_disj order_refl order_trans)+)

end
