(* ===== verification/Js_Number.thy ===== *)
theory Js_Number
  imports Js_Prelude Complex_Main
begin

text \<open>
  The numbers of the frontend and their conversions: \<open>String(n)\<close>, \<open>Number.parseInt(s, 10)\<close>,
  \<open>Number(s)\<close> and \<open>toFixed(1)\<close>.

  Ids, ports, counts and timestamps are integers far below \<open>2 ^ 53\<close>, where a double is exact, and
  are modelled by \<open>int\<close>; the NaN that \<open>parseInt\<close> gives for a text with no leading digits is a
  constructor of its own. \<open>Number(s)\<close> follows the grammar of a numeric string (signs,
  fractions, exponents, the hexadecimal, octal and binary forms, Infinity, blank text as 0) and
  returns the exact value of the literal as a rational; the rounding to a double, which only
  literals of more than 15 significant digits show, is left out.
\<close>

section \<open>Decimal digits\<close>

definition digit_val :: "nat \<Rightarrow> nat" where
  "digit_val c = c - 48"

definition nat_of_digits :: "jstring \<Rightarrow> nat" where
  "nat_of_digits ds = foldl (\<lambda>n c. 10 * n + digit_val c) 0 ds"

fun str_nat :: "nat \<Rightarrow> jstring" where
  "str_nat n = (if n < 10 then [48 + n] else str_nat (n div 10) @ [48 + n mod 10])"

declare str_nat.simps [simp del]

text \<open>\<open>String(n)\<close> of an integer.\<close>

definition str_int :: "int \<Rightarrow> jstring" where
  "str_int i = (if i < 0 then 45 # str_nat (nat (- i)) else str_nat (nat i))"

lemma nat_of_digits_snoc: "nat_of_digits (ds @ [c]) = 10 * nat_of_digits ds + digit_val c"
  by (simp add: nat_of_digits_def)

lemma str_nat_digits: "list_all is_digit (str_nat n)"
proof (induction n rule: str_nat.induct)
  case (1 n)
  have "n mod 10 \<le> 9" by presburger
  with 1 show ?case
    by (subst str_nat.simps) (simp add: is_digit_def [of "48 + n"] is_digit_def [of "48 + n mod 10"])
qed

lemma str_nat_not_Nil [simp]: "str_nat n \<noteq> []"
  by (subst str_nat.simps) simp

lemma nat_of_digits_str_nat [simp]: "nat_of_digits (str_nat n) = n"
proof (induction n rule: str_nat.induct)
  case (1 n)
  show ?case
  proof (cases "n < 10")
    case True
    then show ?thesis by (subst str_nat.simps) (simp add: nat_of_digits_def digit_val_def)
  next
    case False
    with 1 show ?thesis
      by (subst str_nat.simps) (simp add: nat_of_digits_snoc digit_val_def)
  qed
qed

lemma str_nat_inj [simp]: "str_nat m = str_nat n \<longleftrightarrow> m = n"
  by (metis nat_of_digits_str_nat)

lemma digit_not_ws: "is_digit c \<Longrightarrow> \<not> is_ws c"
  by (auto simp: char_class_defs)

lemma hd_str_nat: "is_digit (hd (str_nat n))"
  using str_nat_digits [of n] by (cases "str_nat n") auto

lemma str_int_not_Nil [simp]: "str_int i \<noteq> []" "[] \<noteq> str_int i"
  by (auto simp: str_int_def dest: sym)

lemma str_int_no_ws: "list_all (\<lambda>c. \<not> is_ws c) (str_int i)"
  using str_nat_digits by (auto simp: str_int_def list_all_iff digit_not_ws) (simp add: is_ws_def)

lemma trim_str_int [simp]: "trim (str_int i) = str_int i"
  by (rule trim_no_ws) (rule str_int_no_ws)

lemma trimStart_no_ws: "list_all (\<lambda>c. \<not> is_ws c) s \<Longrightarrow> trimStart s = s"
  by (cases s) (auto simp: trimStart_def)

lemma str_int_inj [simp]: "str_int i = str_int j \<longleftrightarrow> i = j"
proof
  assume eq: "str_int i = str_int j"
  have no: "str_nat m \<noteq> 45 # t" for m t
    using hd_str_nat [of m] by (auto simp: is_digit_def)
  from eq no show "i = j"
    by (auto simp: str_int_def split: if_splits) (metis no)+
qed simp

section \<open>parseInt\<close>

datatype jsnum = NaN | Num int

primrec is_integer :: "jsnum \<Rightarrow> bool" where
  "is_integer NaN = False"
| "is_integer (Num i) = True"

fun sign_of :: "jstring \<Rightarrow> int \<times> jstring" where
  "sign_of [] = (1, [])"
| "sign_of (c # s) = (if c = 45 then (-1, s) else if c = 43 then (1, s) else (1, c # s))"

definition parseInt :: "jstring \<Rightarrow> jsnum" where
  "parseInt s =
     (case sign_of (trimStart s) of
        (sg, u) \<Rightarrow> (let ds = takeWhile is_digit u
                    in if ds = [] then NaN else Num (sg * int (nat_of_digits ds))))"

lemma takeWhile_digits [simp]: "takeWhile is_digit (str_nat n) = str_nat n"
  using str_nat_digits [of n] by (simp add: list_all_iff takeWhile_eq_all_conv)

lemma sign_of_digit: "is_digit (hd s) \<Longrightarrow> sign_of s = (1, s)"
  by (cases s) (auto simp: is_digit_def)

lemma trimStart_str_int: "trimStart (str_int i) = str_int i"
  by (rule trimStart_no_ws) (rule str_int_no_ws)

lemma parseInt_str_int [simp]: "parseInt (str_int i) = Num i"
proof (cases "i < 0")
  case True
  then show ?thesis
    by (simp add: parseInt_def trimStart_str_int, simp add: str_int_def)
next
  case False
  then show ?thesis
    by (simp add: parseInt_def trimStart_str_int, simp add: str_int_def sign_of_digit hd_str_nat)
qed

lemma trimStart_trim: "\<exists>w. trimStart s = trim s @ w \<and> list_all is_ws w"
  unfolding trim_def by (rule trimEnd_prefix)

lemma takeWhile_ws_tail:
  "list_all is_ws w \<Longrightarrow> takeWhile is_digit (s @ w) = takeWhile is_digit s"
proof (induction s)
  case Nil
  then show ?case by (cases w) (auto dest: digit_not_ws)
qed auto

lemma sign_of_append:
  "s \<noteq> [] \<Longrightarrow> sign_of (s @ w) = (fst (sign_of s), snd (sign_of s) @ w)"
  by (cases s) auto

lemma parseInt_trim [simp]: "parseInt (trim s) = parseInt s"
proof -
  obtain w where w: "trimStart s = trim s @ w" "list_all is_ws w"
    using trimStart_trim by blast
  have t: "trimStart (trim s) = trim s"
    unfolding trimStart_def by (rule dropWhile_idem_gen) (rule trim_no_leading)
  have ws: "\<not> is_ws 45" "\<not> is_ws 43" by (simp_all add: is_ws_def)
  show ?thesis
  proof (cases "trim s")
    case Nil
    then have "takeWhile is_digit (snd (sign_of w)) = []" "fst (sign_of w) = 1"
      using w(2) ws takeWhile_ws_tail [of w "[]"] by (cases w; auto simp: takeWhile_ws_tail)+
    with Nil w t show ?thesis
      by (cases "sign_of w") (simp add: parseInt_def)
  next
    case (Cons c r)
    then have "sign_of (trim s @ w) = (fst (sign_of (trim s)), snd (sign_of (trim s)) @ w)"
      by (intro sign_of_append) simp
    with w t show ?thesis
      by (simp add: parseInt_def Let_def takeWhile_ws_tail case_prod_beta)
  qed
qed

section \<open>Number(s)\<close>

datatype jsreal = RNaN | RInf | RNegInf | RFin rat

definition hex_val :: "nat \<Rightarrow> nat" where
  "hex_val c = (if is_digit c then c - 48 else if is_lower_az c then c - 87 else c - 55)"

text \<open>The digits of a radix: decimal digits and letters of either case.\<close>

definition radix_digit :: "nat \<Rightarrow> nat \<Rightarrow> bool" where
  "radix_digit b c \<longleftrightarrow> (is_digit c \<or> is_lower_az c \<or> is_upper_az c) \<and> hex_val c < b"

definition radix_number :: "nat \<Rightarrow> jstring \<Rightarrow> jsreal" where
  "radix_number b ds =
     (if ds \<noteq> [] \<and> list_all (radix_digit b) ds
      then RFin (of_nat (foldl (\<lambda>n c. b * n + hex_val c) 0 ds)) else RNaN)"

definition scale10 :: "int \<Rightarrow> rat \<Rightarrow> rat" where
  "scale10 e m = (if 0 \<le> e then m * 10 ^ nat e else m / 10 ^ nat (- e))"

text \<open>The exponent part: absent, or \<open>e\<close> with an optional sign and at least one digit.\<close>

definition exponent_of :: "jstring \<Rightarrow> int option" where
  "exponent_of s =
     (case s of [] \<Rightarrow> Some 0
      | c # r \<Rightarrow>
          (if c = 101 \<or> c = 69 then
             (case sign_of r of (sg, ds) \<Rightarrow>
                if ds \<noteq> [] \<and> list_all is_digit ds then Some (sg * int (nat_of_digits ds)) else None)
           else None))"

definition unsigned_decimal :: "jstring \<Rightarrow> jsreal" where
  "unsigned_decimal s =
     (if s = js ''Infinity'' then RInf
      else
        let ip = takeWhile is_digit s; r = dropWhile is_digit s;
            fp = (case r of c # r' \<Rightarrow> if c = 46 then takeWhile is_digit r' else [] | [] \<Rightarrow> []);
            r2 = (case r of c # r' \<Rightarrow> if c = 46 then dropWhile is_digit r' else r | [] \<Rightarrow> [])
        in if ip = [] \<and> fp = [] then RNaN
           else case exponent_of r2 of
                  None \<Rightarrow> RNaN
                | Some e \<Rightarrow>
                    RFin (scale10 (e - int (length fp)) (of_nat (nat_of_digits (ip @ fp)))))"

primrec negate :: "jsreal \<Rightarrow> jsreal" where
  "negate RNaN = RNaN"
| "negate RInf = RNegInf"
| "negate RNegInf = RInf"
| "negate (RFin q) = RFin (- q)"

definition js_Number :: "jstring \<Rightarrow> jsreal" where
  "js_Number s =
     (let t = trim s
      in if t = [] then RFin 0
         else if startsWith t (js ''0x'') \<or> startsWith t (js ''0X'') then radix_number 16 (drop 2 t)
         else if startsWith t (js ''0o'') \<or> startsWith t (js ''0O'') then radix_number 8 (drop 2 t)
         else if startsWith t (js ''0b'') \<or> startsWith t (js ''0B'') then radix_number 2 (drop 2 t)
         else case sign_of t of (sg, u) \<Rightarrow>
                if sg = -1 then negate (unsigned_decimal u) else unsigned_decimal u)"

text \<open>\<open>Number.isInteger\<close> of a converted text, as the integer it is.\<close>

primrec as_integer :: "jsreal \<Rightarrow> int option" where
  "as_integer RNaN = None"
| "as_integer RInf = None"
| "as_integer RNegInf = None"
| "as_integer (RFin q) = (if of_int \<lfloor>q\<rfloor> = q then Some \<lfloor>q\<rfloor> else None)"

lemma digits_no_prefix:
  assumes "list_all is_digit s" and "\<not> is_digit d"
  shows "\<not> startsWith s [c, d]"
  using assms by (cases s; cases "tl s") (auto simp: startsWith_def)

lemma js_0x: "js ''0x'' = [48, 120]" "js ''0X'' = [48, 88]" "js ''0o'' = [48, 111]"
  "js ''0O'' = [48, 79]" "js ''0b'' = [48, 98]" "js ''0B'' = [48, 66]"
  by (simp_all add: js_def)

lemma unsigned_decimal_digits:
  assumes "list_all is_digit s" and "s \<noteq> []"
  shows "unsigned_decimal s = RFin (of_nat (nat_of_digits s))"
proof -
  have "s \<noteq> js ''Infinity''"
    using assms by (auto simp: js_def is_digit_def)
  moreover have tw: "takeWhile is_digit s = s" and dw: "dropWhile is_digit s = []"
    using assms(1) by (auto simp: list_all_iff takeWhile_eq_all_conv)
  ultimately show ?thesis
    using assms(2) by (simp add: unsigned_decimal_def exponent_of_def scale10_def tw dw Let_def)
qed

lemma js_Number_digits:
  assumes "list_all is_digit s" and "s \<noteq> []"
  shows "js_Number s = RFin (of_nat (nat_of_digits s))"
proof -
  have "trim s = s"
    by (rule trim_no_ws) (use assms in \<open>auto simp: list_all_iff digit_not_ws\<close>)
  moreover have "sign_of s = (1, s)"
    by (rule sign_of_digit) (use assms in \<open>cases s; auto\<close>)
  ultimately show ?thesis
    using assms
    by (simp add: js_Number_def js_0x digits_no_prefix is_digit_def unsigned_decimal_digits)
qed

corollary js_Number_str_nat [simp]: "js_Number (str_nat n) = RFin (of_nat n)"
  by (simp add: js_Number_digits str_nat_digits)

lemma as_integer_of_nat [simp]: "as_integer (RFin (of_nat n)) = Some (int n)"
  by simp

section \<open>toFixed(1)\<close>

text \<open>
  \<open>x.toFixed(1)\<close> of a non-negative \<open>n / d\<close>: the tenths nearest to the value, the larger of
  two equally near.
\<close>

definition toFixed1 :: "nat \<Rightarrow> nat \<Rightarrow> jstring" where
  "toFixed1 n d =
     (let t = (20 * n + d) div (2 * d) in str_nat (t div 10) @ [46] @ str_nat (t mod 10))"

end
