(* ===== verification/Js_Value.thy ===== *)
theory Js_Value
  imports Js_Number
begin

text \<open>
  Dynamic JavaScript values, as the code meets them in a response body of type \<open>unknown\<close>:
  primitives, arrays and plain objects. An object is the list of its own properties in
  insertion order; \<open>own_order\<close> is the order in which \<open>Object.entries\<close>, \<open>Object.keys\<close> and
  \<open>Object.values\<close> enumerate them (array indices first, ascending, then the other keys as
  inserted). The numbers of these values are integers.
\<close>

section \<open>Values\<close>

datatype jval =
    Undef
  | Null
  | Bool bool
  | Number int
  | Str jstring
  | Arr "jval list"
  | Obj "(jstring \<times> jval) list"

primrec truthy :: "jval \<Rightarrow> bool" where
  "truthy Undef = False"
| "truthy Null = False"
| "truthy (Bool b) = b"
| "truthy (Number i) = (i \<noteq> 0)"
| "truthy (Str s) = (s \<noteq> [])"
| "truthy (Arr vs) = True"
| "truthy (Obj kvs) = True"

text \<open>\<open>typeof v === "object"\<close> and not null; arrays are objects too.\<close>

primrec is_object :: "jval \<Rightarrow> bool" where
  "is_object Undef = False"
| "is_object Null = False"
| "is_object (Bool b) = False"
| "is_object (Number i) = False"
| "is_object (Str s) = False"
| "is_object (Arr vs) = True"
| "is_object (Obj kvs) = True"

text \<open>The own property \<open>v.k\<close> of a value, undefined where there is none.\<close>

fun get_prop :: "jval \<Rightarrow> jstring \<Rightarrow> jval" where
  "get_prop (Obj kvs) k = (case map_of kvs k of Some v \<Rightarrow> v | None \<Rightarrow> Undef)"
| "get_prop v k = Undef"

text \<open>\<open>k in v\<close>, for own properties.\<close>

fun has_prop :: "jval \<Rightarrow> jstring \<Rightarrow> bool" where
  "has_prop (Obj kvs) k = (map_of kvs k \<noteq> None)"
| "has_prop v k = False"

fun as_string :: "jval \<Rightarrow> jstring option" where
  "as_string (Str s) = Some s"
| "as_string v = None"

section \<open>Plain objects\<close>

type_synonym 'v object = "(jstring \<times> 'v) list"

text \<open>\<open>o[k] = v\<close>: a new key goes to the end, an old one keeps its place.\<close>

fun set_prop :: "jstring \<Rightarrow> 'v \<Rightarrow> 'v object \<Rightarrow> 'v object" where
  "set_prop k v [] = [(k, v)]"
| "set_prop k v ((k', v') # kvs) = (if k = k' then (k, v) # kvs else (k', v') # set_prop k v kvs)"

lemma map_of_set_prop [simp]: "map_of (set_prop k v kvs) = (map_of kvs)(k \<mapsto> v)"
  by (induction kvs) (auto simp: fun_eq_iff)

lemma fst_set_set_prop [simp]: "fst ` set (set_prop k v kvs) = insert k (fst ` set kvs)"
  by (simp flip: dom_map_of_conv_image_fst)

lemma distinct_set_prop [form_invs]:
  "distinct (map fst kvs) \<Longrightarrow> distinct (map fst (set_prop k v kvs))"
  by (induction kvs) auto

lemma set_prop_fresh: "k \<notin> fst ` set kvs \<Longrightarrow> set_prop k v kvs = kvs @ [(k, v)]"
  by (induction kvs) auto

text \<open>A canonical array index: a decimal numeral without leading zeros, below \<open>2 ^ 32 - 1\<close>.\<close>

definition is_index_key :: "jstring \<Rightarrow> bool" where
  "is_index_key k \<longleftrightarrow>
     k \<noteq> [] \<and> list_all is_digit k \<and> (hd k \<noteq> 48 \<or> k = [48]) \<and> nat_of_digits k < 2 ^ 32 - 1"

definition own_order :: "'v object \<Rightarrow> 'v object" where
  "own_order kvs =
     sort_key (\<lambda>kv. nat_of_digits (fst kv)) (filter (\<lambda>kv. is_index_key (fst kv)) kvs) @
     filter (\<lambda>kv. \<not> is_index_key (fst kv)) kvs"

lemma set_own_order [simp]: "set (own_order kvs) = set kvs"
  by (auto simp: own_order_def)

lemma length_own_order [simp]: "length (own_order kvs) = length kvs"
  by (simp add: own_order_def sum_length_filter_compl)

lemma own_order_Nil [simp]: "own_order [] = []"
  by (simp add: own_order_def)

lemma own_order_eq_Nil [simp]: "own_order kvs = [] \<longleftrightarrow> kvs = []"
  by (metis length_0_conv length_own_order)

lemma own_order_plain:
  "list_all (\<lambda>kv. \<not> is_index_key (fst kv)) kvs \<Longrightarrow> own_order kvs = kvs"
  by (simp add: own_order_def list_all_iff filter_empty_conv)

text \<open>
  The names every object inherits from \<open>Object.prototype\<close>: reading one of them from an empty
  object gives a function (or, for \<open>__proto__\<close>, the prototype), which is truthy.
\<close>

definition inherited :: "jstring \<Rightarrow> bool" where
  "inherited k \<longleftrightarrow>
     k \<in> set (map js
       [''constructor'', ''toString'', ''toLocaleString'', ''valueOf'', ''hasOwnProperty'',
        ''isPrototypeOf'', ''propertyIsEnumerable'', ''__proto__'', ''__defineGetter__'',
        ''__defineSetter__'', ''__lookupGetter__'', ''__lookupSetter__''])"

end
