(* ===== verification/Api_Client.thy ===== *)
theory Api_Client
  imports Js_Value
begin

text \<open>
  The HTTP client of the frontend (\<^verbatim>\<open>src/lib/api/client.ts\<close>, \<^verbatim>\<open>src/lib/api/errors.ts\<close>) and
  the normalisation of failures for the forms (\<open>describeError\<close> of
  \<^verbatim>\<open>components/proxy-hosts/lib.ts\<close>).

  The network, the token provider and the registered refresher are fields of an environment:
  each acts on a world of type \<open>'w\<close>, which is passed through. \<open>JSON.parse\<close> is a field too. A
  request carries its body as a value and its query as the list of parameters; the percent
  encoding of the URL by the platform is not modelled.
\<close>

section \<open>Errors\<close>

record apiError =
  ae_status :: int
  ae_message :: jstring
  ae_body :: jval

text \<open>What a \<open>catch\<close> block can see: an \<open>ApiError\<close>, another \<open>Error\<close>, or any other value.\<close>

datatype thrown = ThrownApi apiError | ThrownError jstring | ThrownOther jval

definition detail :: "apiError \<Rightarrow> jstring" where
  "detail e =
     (if truthy (ae_body e) \<and> is_object (ae_body e) \<and> has_prop (ae_body e) (js ''detail'')
      then (case get_prop (ae_body e) (js ''detail'') of
              Str s \<Rightarrow> s
            | _ \<Rightarrow> ae_message e)
      else ae_message e)"

definition isUnauthorized :: "apiError \<Rightarrow> bool" where
  "isUnauthorized e \<longleftrightarrow> ae_status e = 401"

section \<open>Requests and responses\<close>

datatype queryValue = QStr jstring | QNum int | QBool bool | QNull | QUndef

primrec str_query :: "queryValue \<Rightarrow> jstring option" where
  "str_query (QStr s) = Some s"
| "str_query (QNum i) = Some (str_int i)"
| "str_query (QBool b) = Some (if b then js ''true'' else js ''false'')"
| "str_query QNull = None"
| "str_query QUndef = None"

record http_request =
  rq_method :: jstring
  rq_url :: jstring
  rq_query :: "jstring object"
  rq_headers :: "jstring object"
  rq_body :: "jval option"

record http_response =
  rs_status :: int
  rs_contentType :: "jstring option"
  rs_text :: jstring

text \<open>The \<open>token\<close> option: absent (undefined), or given, null included.\<close>

datatype tokenOption = TokenDefault | TokenGiven "jstring option"

record apiRequestOptions =
  op_method :: "jstring option"
  op_query :: "queryValue object"
  op_body :: jval
  op_token :: tokenOption
  op_headers :: "jstring object"

definition default_options :: apiRequestOptions where
  "default_options =
     \<lparr>op_method = None, op_query = [], op_body = Undef, op_token = TokenDefault, op_headers = []\<rparr>"

record 'w api_env =
  env_base :: jstring
  env_fetch :: "http_request \<Rightarrow> 'w \<Rightarrow> (thrown + http_response) \<times> 'w"
  env_authTokenProvider :: "'w \<Rightarrow> thrown + jstring option"
  env_tokenRefresher :: "('w \<Rightarrow> (thrown + jstring option) \<times> 'w) option"
  env_parse :: "jstring \<Rightarrow> jval option"

definition setAuthTokenProvider ::
  "('w \<Rightarrow> thrown + jstring option) \<Rightarrow> 'w api_env \<Rightarrow> 'w api_env" where
  "setAuthTokenProvider provider env = env\<lparr>env_authTokenProvider := provider\<rparr>"

definition setTokenRefresher ::
  "('w \<Rightarrow> (thrown + jstring option) \<times> 'w) option \<Rightarrow> 'w api_env \<Rightarrow> 'w api_env" where
  "setTokenRefresher refresher env = env\<lparr>env_tokenRefresher := refresher\<rparr>"

definition strip_slash :: "jstring \<Rightarrow> jstring" where
  "strip_slash s = (if s \<noteq> [] \<and> last s = 47 then butlast s else s)"

definition buildUrl :: "jstring \<Rightarrow> jstring \<Rightarrow> queryValue object \<Rightarrow> jstring \<times> jstring object" where
  "buildUrl api_base path query =
     (let base = strip_slash api_base;
          url = (if startsWith path (js ''http'') then path
                 else base @ (if startsWith path (js ''/'') then path else 47 # path))
      in (url, fold (\<lambda>(k, v) q. case str_query v of None \<Rightarrow> q | Some s \<Rightarrow> set_prop k s q)
                 (own_order query) []))"

section \<open>apiFetch\<close>

definition response_ok :: "http_response \<Rightarrow> bool" where
  "response_ok r \<longleftrightarrow> 200 \<le> rs_status r \<and> rs_status r \<le> 299"

definition parseBody :: "(jstring \<Rightarrow> jval option) \<Rightarrow> http_response \<Rightarrow> thrown + jval" where
  "parseBody parse r =
     (if rs_status r = 204 then Inr Undef
      else if js_includes (case rs_contentType r of Some t \<Rightarrow> t | None \<Rightarrow> []) (js ''application/json'')
      then (case parse (rs_text r) of
              Some v \<Rightarrow> Inr v
            | None \<Rightarrow> Inl (ThrownError (js ''Unexpected token in JSON'')))
      else Inr (if rs_text r = [] then Undef else Str (rs_text r)))"

definition method_name :: "apiRequestOptions \<Rightarrow> jstring" where
  "method_name opts = (case op_method opts of Some m \<Rightarrow> m | None \<Rightarrow> js ''GET'')"

definition mk_request :: "'w api_env \<Rightarrow> jstring \<Rightarrow> apiRequestOptions \<Rightarrow> jstring option \<Rightarrow> http_request" where
  "mk_request env path opts bearer =
     (let (url, q) = buildUrl (env_base env) path (op_query opts);
          h1 = set_prop (js ''accept'') (js ''application/json'') (op_headers opts);
          h2 = (if op_body opts \<noteq> Undef
                then set_prop (js ''content-type'') (js ''application/json'') h1 else h1);
          h3 = (case bearer of
                  Some t \<Rightarrow> if t = [] then h2
                            else set_prop (js ''authorization'') (js ''Bearer '' @ t) h2
                | None \<Rightarrow> h2)
      in \<lparr>rq_method = method_name opts, rq_url = url, rq_query = q, rq_headers = h3,
          rq_body = (if op_body opts \<noteq> Undef then Some (op_body opts) else None)\<rparr>)"

definition send ::
  "'w api_env \<Rightarrow> jstring \<Rightarrow> apiRequestOptions \<Rightarrow> jstring option \<Rightarrow> 'w \<Rightarrow>
   (thrown + http_response) \<times> 'w" where
  "send env path opts bearer w = env_fetch env (mk_request env path opts bearer) w"

text \<open>The end of \<open>apiFetch\<close>: parse the body, then throw on a status outside 200..299.\<close>

definition finish_fetch ::
  "'w api_env \<Rightarrow> jstring \<Rightarrow> apiRequestOptions \<Rightarrow> http_response \<Rightarrow> thrown + jval" where
  "finish_fetch env path opts r =
     (case parseBody (env_parse env) r of
        Inl e \<Rightarrow> Inl e
      | Inr payload \<Rightarrow>
          if response_ok r then Inr payload
          else Inl (ThrownApi \<lparr>ae_status = rs_status r,
                 ae_message = method_name opts @ js '' '' @ path @ js '' failed with '' @
                              str_int (rs_status r),
                 ae_body = payload\<rparr>))"

text \<open>
  What follows the first response: a 401 on a request that took its token from the provider is
  answered by one refresh and one more request; anything else is final.
\<close>

definition after_first ::
  "'w api_env \<Rightarrow> jstring \<Rightarrow> apiRequestOptions \<Rightarrow> http_response \<Rightarrow> 'w \<Rightarrow> (thrown + jval) \<times> 'w" where
  "after_first env path opts r w1 =
     (case (if rs_status r = 401 \<and> op_token opts = TokenDefault
            then env_tokenRefresher env else None) of
        None \<Rightarrow> (finish_fetch env path opts r, w1)
      | Some refresher \<Rightarrow>
          (case refresher w1 of
             (Inl e, w2) \<Rightarrow> (Inl e, w2)
           | (Inr None, w2) \<Rightarrow> (finish_fetch env path opts r, w2)
           | (Inr (Some t), w2) \<Rightarrow>
               if t = [] then (finish_fetch env path opts r, w2)
               else (case send env path opts (Some t) w2 of
                       (Inl e, w3) \<Rightarrow> (Inl e, w3)
                     | (Inr r', w3) \<Rightarrow> (finish_fetch env path opts r', w3))))"

definition first_token :: "'w api_env \<Rightarrow> apiRequestOptions \<Rightarrow> 'w \<Rightarrow> thrown + jstring option" where
  "first_token env opts w =
     (case op_token opts of
        TokenDefault \<Rightarrow> env_authTokenProvider env w
      | TokenGiven t \<Rightarrow> Inr t)"

definition apiFetch ::
  "'w api_env \<Rightarrow> jstring \<Rightarrow> apiRequestOptions \<Rightarrow> 'w \<Rightarrow> (thrown + jval) \<times> 'w" where
  "apiFetch env path opts w =
     (case first_token env opts w of
        Inl e \<Rightarrow> (Inl e, w)
      | Inr tok \<Rightarrow>
          (case send env path opts tok w of
             (Inl e, w1) \<Rightarrow> (Inl e, w1)
           | (Inr r, w1) \<Rightarrow> after_first env path opts r w1))"

text \<open>The verb helpers of \<open>api\<close>.\<close>

definition api_get :: "'w api_env \<Rightarrow> jstring \<Rightarrow> apiRequestOptions \<Rightarrow> 'w \<Rightarrow> (thrown + jval) \<times> 'w" where
  "api_get env path opts = apiFetch env path (opts\<lparr>op_method := Some (js ''GET'')\<rparr>)"

definition api_post ::
  "'w api_env \<Rightarrow> jstring \<Rightarrow> jval \<Rightarrow> apiRequestOptions \<Rightarrow> 'w \<Rightarrow> (thrown + jval) \<times> 'w" where
  "api_post env path body opts =
     apiFetch env path (opts\<lparr>op_method := Some (js ''POST''), op_body := body\<rparr>)"

definition api_put ::
  "'w api_env \<Rightarrow> jstring \<Rightarrow> jval \<Rightarrow> apiRequestOptions \<Rightarrow> 'w \<Rightarrow> (thrown + jval) \<times> 'w" where
  "api_put env path body opts =
     apiFetch env path (opts\<lparr>op_method := Some (js ''PUT''), op_body := body\<rparr>)"

definition api_patch ::
  "'w api_env \<Rightarrow> jstring \<Rightarrow> jval \<Rightarrow> apiRequestOptions \<Rightarrow> 'w \<Rightarrow> (thrown + jval) \<times> 'w" where
  "api_patch env path body opts =
     apiFetch env path (opts\<lparr>op_method := Some (js ''PATCH''), op_body := body\<rparr>)"

definition api_delete :: "'w api_env \<Rightarrow> jstring \<Rightarrow> apiRequestOptions \<Rightarrow> 'w \<Rightarrow> (thrown + jval) \<times> 'w" where
  "api_delete env path opts = apiFetch env path (opts\<lparr>op_method := Some (js ''DELETE'')\<rparr>)"

section \<open>describeError\<close>

record describedError =
  de_message :: jstring
  de_fieldErrors :: "jstring object"

text \<open>
  \<open>isValidationList\<close>: an array each of whose items is a truthy object with a \<open>msg\<close>.
  An array item has no \<open>msg\<close>.
\<close>

fun isValidationList :: "jval \<Rightarrow> bool" where
  "isValidationList (Arr items) =
     list_all (\<lambda>d. truthy d \<and> is_object d \<and> has_prop d (js ''msg'')) items"
| "isValidationList v = False"

text \<open>The first part of \<open>loc\<close> that is a string other than \<open>body\<close>.\<close>

fun loc_field :: "jval \<Rightarrow> jstring option" where
  "loc_field (Arr parts) =
     (case filter (\<lambda>p. case p of Str s \<Rightarrow> s \<noteq> js ''body'' | _ \<Rightarrow> False) parts of
        Str s # _ \<Rightarrow> Some s
      | _ \<Rightarrow> None)"
| "loc_field v = None"

text \<open>\<open>fieldErrors[field]\<close> is truthy: an own non-empty message, or an inherited name.\<close>

definition field_taken :: "jstring object \<Rightarrow> jstring \<Rightarrow> bool" where
  "field_taken errs f = (case map_of errs f of Some m \<Rightarrow> m \<noteq> [] | None \<Rightarrow> inherited f)"

definition add_item :: "jval \<Rightarrow> jstring object \<Rightarrow> jstring object" where
  "add_item item errs =
     (case loc_field (get_prop item (js ''loc'')) of
        None \<Rightarrow> errs
      | Some f \<Rightarrow>
          (case get_prop item (js ''msg'') of
             Str m \<Rightarrow> if m \<noteq> [] \<and> \<not> field_taken errs f then set_prop f m errs else errs
           | _ \<Rightarrow> errs))"

definition collect_items :: "jval list \<Rightarrow> jstring object" where
  "collect_items items = fold add_item items []"

definition describeError :: "thrown \<Rightarrow> describedError" where
  "describeError err =
     (case err of
        ThrownApi e \<Rightarrow>
          (let d = get_prop (ae_body e) (js ''detail'')
           in if isValidationList d
              then (let errs = collect_items (case d of Arr items \<Rightarrow> items | _ \<Rightarrow> [])
                    in \<lparr>de_message = (case own_order errs of
                           (_, m) # _ \<Rightarrow> m
                         | [] \<Rightarrow> js ''Please fix the highlighted fields.''),
                        de_fieldErrors = errs\<rparr>)
              else \<lparr>de_message = detail e, de_fieldErrors = []\<rparr>)
      | ThrownError m \<Rightarrow> \<lparr>de_message = m, de_fieldErrors = []\<rparr>
      | ThrownOther v \<Rightarrow>
          \<lparr>de_message = js ''Something went wrong. Please try again.'', de_fieldErrors = []\<rparr>)"

section \<open>Properties\<close>

lemma apiFetch_given [form_simps]:
  assumes "op_token opts = TokenGiven t"
  shows "apiFetch env path opts w =
    (case send env path opts t w of
       (Inl e, w1) \<Rightarrow> (Inl e, w1)
     | (Inr r, w1) \<Rightarrow> (finish_fetch env path opts r, w1))"
  using assms
  by (auto simp: apiFetch_def first_token_def after_first_def split: prod.splits sum.splits)

lemma finish_fetch_Inr:
  "finish_fetch env path opts r = Inr v \<longleftrightarrow> response_ok r \<and> parseBody (env_parse env) r = Inr v"
  by (auto simp: finish_fetch_def split: sum.splits)

lemma finish_fetch_error:
  "\<not> response_ok r \<Longrightarrow> parseBody (env_parse env) r = Inr v \<Longrightarrow>
   \<exists>e. finish_fetch env path opts r = Inl (ThrownApi e) \<and> ae_status e = rs_status r \<and> ae_body e = v"
  by (simp add: finish_fetch_def)

text \<open>
  The request log of a call: the same environment over a world that also records, in order,
  every request handed to the network.
\<close>

definition traced :: "'w api_env \<Rightarrow> ('w \<times> http_request list) api_env" where
  "traced env =
     \<lparr>env_base = env_base env,
      env_fetch = (\<lambda>rq (w, tr). case env_fetch env rq w of (r, w') \<Rightarrow> (r, (w', tr @ [rq]))),
      env_authTokenProvider = (\<lambda>(w, tr). env_authTokenProvider env w),
      env_tokenRefresher = map_option (\<lambda>f (w, tr). case f w of (r, w') \<Rightarrow> (r, (w', tr)))
        (env_tokenRefresher env),
      env_parse = env_parse env\<rparr>"

lemma mk_request_traced [simp]: "mk_request (traced env) path opts b = mk_request env path opts b"
  by (simp add: mk_request_def traced_def)

lemma finish_fetch_traced [simp]: "finish_fetch (traced env) path opts r = finish_fetch env path opts r"
  by (simp add: finish_fetch_def traced_def)

lemma send_traced:
  "send (traced env) path opts b (w, tr) =
     (case send env path opts b w of
        (r, w') \<Rightarrow> (r, (w', tr @ [mk_request env path opts b])))"
  by (simp add: send_def mk_request_def traced_def)

text \<open>
  C1. A call through the client sends at most two requests. The second one is sent only when the
  call took its token from the provider, the first response was a 401, a refresher is registered
  and the refresher returned a new, non-empty token; it is the first request again with that
  token as its bearer. A call with an explicit token never refreshes.
\<close>

theorem apiFetch_requests:
  "\<exists>log. snd (snd (apiFetch (traced env) path opts (w, []))) = log \<and>
     (log = [] \<and> (\<exists>e. first_token env opts w = Inl e) \<or>
      (\<exists>tok. first_token env opts w = Inr tok \<and> log = [mk_request env path opts tok]) \<or>
      (\<exists>tok r w1 f t w2. op_token opts = TokenDefault \<and> first_token env opts w = Inr tok \<and>
         send env path opts tok w = (Inr r, w1) \<and> rs_status r = 401 \<and>
         env_tokenRefresher env = Some f \<and> f w1 = (Inr (Some t), w2) \<and> t \<noteq> [] \<and>
         log = [mk_request env path opts tok, mk_request env path opts (Some t)]))"
proof -
  have ft: "first_token (traced env) opts (w, []) = first_token env opts w"
    by (simp add: first_token_def traced_def split: tokenOption.splits)
  have rf: "env_tokenRefresher (traced env) =
      map_option (\<lambda>f (w, tr). case f w of (r, w') \<Rightarrow> (r, (w', tr))) (env_tokenRefresher env)"
    by (simp add: traced_def)
  show ?thesis
  proof (cases "first_token env opts w")
    case (Inl e)
    with ft show ?thesis by (simp add: apiFetch_def)
  next
    case (Inr tok)
    obtain x w1 where s1: "send env path opts tok w = (x, w1)" by force
    show ?thesis
    proof (cases x)
      case (Inl e)
      with Inr s1 ft show ?thesis by (simp add: apiFetch_def send_traced)
    next
      case r: (Inr r)
      with Inr s1 ft show ?thesis
        by (cases "env_tokenRefresher env")
          (auto simp: apiFetch_def send_traced after_first_def rf split: prod.splits sum.splits option.splits)
    qed
  qed
qed

text \<open>What the field errors should be: the first non-empty message given for the field.\<close>

definition item_msg :: "jstring \<Rightarrow> jval \<Rightarrow> jstring option" where
  "item_msg f item =
     (if loc_field (get_prop item (js ''loc'')) = Some f
      then (case get_prop item (js ''msg'') of
              Str m \<Rightarrow> if m = [] then None else Some m
            | _ \<Rightarrow> None)
      else None)"

fun first_msg :: "jstring \<Rightarrow> jval list \<Rightarrow> jstring option" where
  "first_msg f [] = None"
| "first_msg f (i # rest) = (case item_msg f i of Some m \<Rightarrow> Some m | None \<Rightarrow> first_msg f rest)"

definition no_blank :: "jstring object \<Rightarrow> bool" where
  "no_blank errs \<longleftrightarrow> (\<forall>f. map_of errs f \<noteq> Some [])"

lemma no_blank_add_item [form_invs]: "no_blank errs \<Longrightarrow> no_blank (add_item item errs)"
  by (auto simp: add_item_def no_blank_def split: option.splits jval.splits)

lemma map_of_add_item:
  assumes "no_blank errs"
  shows "map_of (add_item item errs) f =
    (case map_of errs f of
       Some m \<Rightarrow> Some m
     | None \<Rightarrow> if inherited f then None else item_msg f item)"
proof (cases "map_of errs f")
  case None
  then show ?thesis
    by (auto simp: add_item_def item_msg_def field_taken_def split: option.splits jval.splits)
next
  case (Some m)
  with assms have "m \<noteq> []" by (auto simp: no_blank_def)
  with Some show ?thesis
    by (auto simp: add_item_def field_taken_def split: option.splits jval.splits)
qed

lemma fold_add_item:
  "no_blank errs \<Longrightarrow>
   map_of (fold add_item items errs) f =
     (case map_of errs f of
        Some m \<Rightarrow> Some m
      | None \<Rightarrow> if inherited f then None else first_msg f items)"
proof (induction items arbitrary: errs)
  case (Cons i rest)
  then show ?case
    by (simp add: no_blank_add_item map_of_add_item split: option.splits)
qed (auto split: option.splits)

lemma collect_items_first:
  "map_of (collect_items items) f = (if inherited f then None else first_msg f items)"
  unfolding collect_items_def by (subst fold_add_item) (auto simp: no_blank_def)

lemma distinct_collect_items: "distinct (map fst (collect_items items))"
proof -
  have "distinct (map fst errs) \<Longrightarrow> distinct (map fst (fold add_item items errs))" for errs
    by (induction items arbitrary: errs)
      (auto simp: add_item_def distinct_set_prop split: option.splits jval.splits)
  then show ?thesis by (simp add: collect_items_def)
qed

lemma collect_items_no_blank: "(f, m) \<in> set (collect_items items) \<Longrightarrow> m \<noteq> []"
proof -
  have "no_blank errs \<Longrightarrow> no_blank (fold add_item items errs)" for errs
    by (induction items arbitrary: errs) (auto simp: no_blank_add_item)
  then have "no_blank (collect_items items)"
    by (simp add: collect_items_def no_blank_def)
  then show "(f, m) \<in> set (collect_items items) \<Longrightarrow> m \<noteq> []"
    using distinct_collect_items by (auto simp: no_blank_def)
qed

end
