(* ===== verification/Js_Uri.thy ===== *)
theory Js_Uri
  imports Js_Number
begin

text \<open>
  UTF-16, UTF-8 and the percent encoding of \<open>encodeURIComponent\<close> and \<open>decodeURIComponent\<close>, with
  the round trip that the session cookies rely on, and the UTF-8 length that \<open>TextEncoder\<close>
  gives. A lone surrogate makes \<open>encodeURIComponent\<close> throw (\<open>None\<close>); \<open>TextEncoder\<close> replaces it
  by U+FFFD.
\<close>

section \<open>Surrogates and UTF-8\<close>

definition is_high :: "nat \<Rightarrow> bool" where
  "is_high u \<longleftrightarrow> 0xD800 \<le> u \<and> u \<le> 0xDBFF"

definition is_low :: "nat \<Rightarrow> bool" where
  "is_low u \<longleftrightarrow> 0xDC00 \<le> u \<and> u \<le> 0xDFFF"

definition pair_point :: "nat \<Rightarrow> nat \<Rightarrow> nat" where
  "pair_point h l = 0x10000 + (h - 0xD800) * 0x400 + (l - 0xDC00)"

definition utf16 :: "nat \<Rightarrow> jstring" where
  "utf16 p = (if p < 0x10000 then [p]
              else [0xD800 + (p - 0x10000) div 0x400, 0xDC00 + (p - 0x10000) mod 0x400])"

definition utf8 :: "nat \<Rightarrow> nat list" where
  "utf8 p =
     (if p < 0x80 then [p]
      else if p < 0x800 then [0xC0 + p div 64, 0x80 + p mod 64]
      else if p < 0x10000 then [0xE0 + p div 4096, 0x80 + p div 64 mod 64, 0x80 + p mod 64]
      else [0xF0 + p div 262144, 0x80 + p div 4096 mod 64, 0x80 + p div 64 mod 64, 0x80 + p mod 64])"

text \<open>\<open>new TextEncoder().encode(s).length\<close>\<close>

fun utf8_length :: "jstring \<Rightarrow> nat" where
  "utf8_length [] = 0"
| "utf8_length [u] = (if is_high u \<or> is_low u then 3 else length (utf8 u))"
| "utf8_length (u # v # s) =
     (if is_high u \<and> is_low v then length (utf8 (pair_point u v)) + utf8_length s
      else (if is_high u \<or> is_low u then 3 else length (utf8 u)) + utf8_length (v # s))"

text \<open>A well-formed string: code units, with every surrogate part of a pair.\<close>

fun well_formed :: "jstring \<Rightarrow> bool" where
  "well_formed [] = True"
| "well_formed [u] = (u < 65536 \<and> \<not> is_high u \<and> \<not> is_low u)"
| "well_formed (u # v # s) =
     (u < 65536 \<and>
      (if is_high u then is_low v \<and> well_formed s else \<not> is_low u \<and> well_formed (v # s)))"

section \<open>Percent encoding\<close>

definition hex_digit :: "nat \<Rightarrow> nat" where
  "hex_digit n = (if n < 10 then 48 + n else 55 + n)"

definition is_hex :: "nat \<Rightarrow> bool" where
  "is_hex c \<longleftrightarrow> is_digit c \<or> 65 \<le> c \<and> c \<le> 70 \<or> 97 \<le> c \<and> c \<le> 102"

definition pct :: "nat \<Rightarrow> jstring" where
  "pct b = [37, hex_digit (b div 16), hex_digit (b mod 16)]"

definition unreserved :: "nat \<Rightarrow> bool" where
  "unreserved c \<longleftrightarrow>
     is_digit c \<or> is_lower_az c \<or> is_upper_az c \<or> c \<in> {45, 95, 46, 33, 126, 42, 39, 40, 41}"

definition pct_point :: "nat \<Rightarrow> jstring" where
  "pct_point p = concat (map pct (utf8 p))"

fun encodeURIComponent :: "jstring \<Rightarrow> jstring option" where
  "encodeURIComponent [] = Some []"
| "encodeURIComponent [u] =
     (if unreserved u then Some [u]
      else if is_high u \<or> is_low u \<or> 65536 \<le> u then None else Some (pct_point u))"
| "encodeURIComponent (u # v # s) =
     (if unreserved u then map_option (Cons u) (encodeURIComponent (v # s))
      else if is_low u \<or> 65536 \<le> u then None
      else if is_high u
      then (if is_low v
            then map_option (append (pct_point (pair_point u v))) (encodeURIComponent s) else None)
      else map_option (append (pct_point u)) (encodeURIComponent (v # s)))"

text \<open>One escaped byte at the front of the text.\<close>

fun read_pct :: "jstring \<Rightarrow> (nat \<times> jstring) option" where
  "read_pct (c # a # b # s) =
     (if c = 37 \<and> is_hex a \<and> is_hex b then Some (16 * hex_val a + hex_val b, s) else None)"
| "read_pct s = None"

text \<open>\<open>n\<close> continuation bytes, accumulated below \<open>acc\<close>.\<close>

fun read_cont :: "nat \<Rightarrow> nat \<Rightarrow> jstring \<Rightarrow> (nat \<times> jstring) option" where
  "read_cont 0 acc s = Some (acc, s)"
| "read_cont (Suc n) acc s =
     (case read_pct s of
        None \<Rightarrow> None
      | Some (b, s') \<Rightarrow>
          if 0x80 \<le> b \<and> b < 0xC0 then read_cont n (64 * acc + (b - 0x80)) s' else None)"

text \<open>The least code point of each encoded length, and the whole escaped point.\<close>

definition read_point :: "jstring \<Rightarrow> (nat \<times> jstring) option" where
  "read_point s =
     (case read_pct s of
        None \<Rightarrow> None
      | Some (b, s') \<Rightarrow>
          if b < 0x80 then Some (b, s')
          else if 0xC0 \<le> b \<and> b < 0xE0
          then (case read_cont 1 (b - 0xC0) s' of
                  Some (p, r) \<Rightarrow> if 0x80 \<le> p then Some (p, r) else None | None \<Rightarrow> None)
          else if 0xE0 \<le> b \<and> b < 0xF0
          then (case read_cont 2 (b - 0xE0) s' of
                  Some (p, r) \<Rightarrow>
                    if 0x800 \<le> p \<and> \<not> is_high p \<and> \<not> is_low p then Some (p, r) else None
                | None \<Rightarrow> None)
          else if 0xF0 \<le> b \<and> b < 0xF8
          then (case read_cont 3 (b - 0xF0) s' of
                  Some (p, r) \<Rightarrow> if 0x10000 \<le> p \<and> p \<le> 0x10FFFF then Some (p, r) else None
                | None \<Rightarrow> None)
          else None)"

lemma read_pct_length: "read_pct s = Some (b, s') \<Longrightarrow> length s' < length s"
  by (induction s rule: read_pct.induct) (auto split: if_splits)

lemma read_cont_length: "read_cont n acc s = Some (p, s') \<Longrightarrow> length s' \<le> length s"
proof (induction n arbitrary: acc s)
  case (Suc n)
  then obtain b r where b: "read_pct s = Some (b, r)" and "0x80 \<le> b" "b < 0xC0"
    and r: "read_cont n (64 * acc + (b - 0x80)) r = Some (p, s')"
    by (auto split: option.splits if_splits)
  from r have "length s' \<le> length r" by (rule Suc.IH)
  also have "\<dots> < length s" using b by (rule read_pct_length)
  finally show ?case by simp
qed simp

lemma read_point_length: "read_point s = Some (p, s') \<Longrightarrow> length s' < length s"
  unfolding read_point_def
  by (auto split: option.splits if_splits dest!: read_pct_length read_cont_length)

function decodeURIComponent :: "jstring \<Rightarrow> jstring option" where
  "decodeURIComponent [] = Some []"
| "decodeURIComponent (c # s) =
     (if c = 37
      then (case read_point (c # s) of
              None \<Rightarrow> None
            | Some (p, s') \<Rightarrow> map_option (append (utf16 p)) (decodeURIComponent s'))
      else map_option (Cons c) (decodeURIComponent s))"
  by pat_completeness auto
termination
  by (relation "measure length") (auto dest: read_point_length)

section \<open>The round trip\<close>

lemma hex_digit_props: "n < 16 \<Longrightarrow> is_hex (hex_digit n) \<and> hex_val (hex_digit n) = n"
  by (auto simp: hex_digit_def is_hex_def hex_val_def char_class_defs)

lemma read_pct_pct [simp]: "b < 256 \<Longrightarrow> read_pct (pct b @ s) = Some (b, s)"
  using hex_digit_props [of "b div 16"] hex_digit_props [of "b mod 16"]
  by (simp add: pct_def)

lemma read_cont_pct:
  "d < 64 \<Longrightarrow> read_cont (Suc n) acc (pct (0x80 + d) @ s) = read_cont n (64 * acc + d) s"
  by simp

lemma div_mod_64: "64 * (p div (64 * k)) + p div k mod 64 = p div (k :: nat)"
proof -
  have "p div (64 * k) = p div k div 64" by (simp add: div_mult2_eq mult.commute)
  then show ?thesis by simp
qed

lemma div_mod_64_numerals:
  "64 * (p div 64) + p mod 64 = (p :: nat)"
  "64 * (p div 4096) + p div 64 mod 64 = (p :: nat) div 64"
  "64 * (p div 262144) + p div 4096 mod 64 = (p :: nat) div 4096"
  using div_mod_64 [of p 1] div_mod_64 [of p 64] div_mod_64 [of p 4096] by simp_all

lemma read_point_pct_point:
  assumes "p \<le> 0x10FFFF" and "\<not> is_high p" and "\<not> is_low p"
  shows "read_point (pct_point p @ s) = Some (p, s)"
proof -
  have d: "p mod 64 < 64" "p div 64 mod 64 < 64" "p div 4096 mod 64 < 64" by simp_all
  consider "p < 0x80" | "0x80 \<le> p" "p < 0x800" | "0x800 \<le> p" "p < 0x10000" | "0x10000 \<le> p"
    by linarith
  then show ?thesis
  proof cases
    case 1
    then show ?thesis by (simp add: pct_point_def utf8_def read_point_def)
  next
    case 2
    then have "p div 64 < 32" by (simp add: less_mult_imp_div_less)
    with 2 show ?thesis
      using read_cont_pct [OF d(1), of 0 "p div 64" s] div_mod_64_numerals(1) [of p]
      by (simp add: pct_point_def utf8_def read_point_def del: read_cont.simps(2))
  next
    case 3
    then have "p div 4096 < 16" by (simp add: less_mult_imp_div_less)
    with 3 show ?thesis
      using read_cont_pct [OF d(2), of "Suc 0" "p div 4096" "pct (0x80 + p mod 64) @ s"]
        read_cont_pct [OF d(1), of 0 "p div 64" s] div_mod_64_numerals [of p] assms
      by (simp add: pct_point_def utf8_def read_point_def numeral_2_eq_2 del: read_cont.simps(2))
  next
    case 4
    then have "p div 262144 < 8" using assms(1) by (simp add: less_mult_imp_div_less)
    with 4 show ?thesis
      using read_cont_pct [OF d(3), of "Suc (Suc 0)" "p div 262144"
          "pct (0x80 + p div 64 mod 64) @ pct (0x80 + p mod 64) @ s"]
        read_cont_pct [OF d(2), of "Suc 0" "p div 4096" "pct (0x80 + p mod 64) @ s"]
        read_cont_pct [OF d(1), of 0 "p div 64" s] div_mod_64_numerals [of p] assms
      by (simp add: pct_point_def utf8_def read_point_def numeral_3_eq_3 del: read_cont.simps(2))
  qed
qed

lemma pct_point_Cons: "\<exists>r. pct_point p = 37 # r"
  by (auto simp: pct_point_def utf8_def pct_def)

lemma decode_pct_point:
  assumes "p \<le> 0x10FFFF" and "\<not> is_high p" and "\<not> is_low p"
  shows "decodeURIComponent (pct_point p @ s) = map_option (append (utf16 p)) (decodeURIComponent s)"
proof -
  obtain r where r: "pct_point p = 37 # r" using pct_point_Cons by blast
  with read_point_pct_point [OF assms, of s] show ?thesis by simp
qed

lemma unreserved_37 [simp]: "\<not> unreserved 37"
  by (simp add: unreserved_def char_class_defs)

lemma unreserved_not_surrogate: "unreserved u \<Longrightarrow> \<not> is_high u \<and> \<not> is_low u"
  by (auto simp: unreserved_def char_class_defs is_high_def is_low_def)

lemma high_not_low: "is_high u \<Longrightarrow> \<not> is_low u"
  by (auto simp: is_high_def is_low_def)

lemma pair_point_props:
  assumes "is_high h" and "is_low l"
  shows "0x10000 \<le> pair_point h l" "pair_point h l \<le> 0x10FFFF" "utf16 (pair_point h l) = [h, l]"
    "\<not> is_high (pair_point h l)" "\<not> is_low (pair_point h l)"
proof -
  have l: "l - 0xDC00 < 0x400" using assms(2) by (auto simp: is_low_def)
  show "0x10000 \<le> pair_point h l" "pair_point h l \<le> 0x10FFFF"
    "\<not> is_high (pair_point h l)" "\<not> is_low (pair_point h l)"
    using assms by (auto simp: pair_point_def is_high_def is_low_def)
  have "(pair_point h l - 0x10000) div 0x400 = h - 0xD800"
    "(pair_point h l - 0x10000) mod 0x400 = l - 0xDC00"
    using l by (simp_all add: pair_point_def)
  with \<open>0x10000 \<le> pair_point h l\<close> assms show "utf16 (pair_point h l) = [h, l]"
    by (simp add: utf16_def is_high_def is_low_def)
qed

lemma encode_total: "well_formed s \<Longrightarrow> \<exists>t. encodeURIComponent s = Some t"
  by (induction s rule: encodeURIComponent.induct)
    (auto dest: unreserved_not_surrogate high_not_low split: if_splits)

lemma unit_bounds: "unreserved u \<Longrightarrow> u < 65536" "is_high u \<Longrightarrow> u < 65536"
  by (auto simp: unreserved_def char_class_defs is_high_def)

lemma encode_well_formed: "encodeURIComponent s = Some t \<Longrightarrow> well_formed s"
  by (induction s arbitrary: t rule: encodeURIComponent.induct)
    (auto dest: unreserved_not_surrogate high_not_low unit_bounds split: if_splits)

lemma decode_unit:
  assumes "u < 65536" and "\<not> is_high u" and "\<not> is_low u"
  shows "decodeURIComponent (pct_point u @ s) = map_option (Cons u) (decodeURIComponent s)"
  using assms by (cases "decodeURIComponent s") (auto simp: decode_pct_point utf16_def)

lemma decode_pair:
  assumes "is_high h" and "is_low l"
  shows "decodeURIComponent (pct_point (pair_point h l) @ s) =
    map_option (\<lambda>t. h # l # t) (decodeURIComponent s)"
  using assms by (cases "decodeURIComponent s") (auto simp: decode_pct_point pair_point_props)

lemma decode_encode:
  "well_formed s \<Longrightarrow> encodeURIComponent s = Some t \<Longrightarrow> decodeURIComponent t = Some s"
proof (induction s arbitrary: t rule: encodeURIComponent.induct)
  case (2 u)
  then show ?case
    using decode_unit [of u "[]"] by (cases "u = 37") (auto split: if_splits)
next
  case (3 u v s)
  show ?case
  proof (cases "unreserved u")
    case True
    then have "u \<noteq> 37" "\<not> is_high u" "\<not> is_low u"
      by (auto dest: unreserved_not_surrogate)
    with True 3 show ?thesis by auto
  next
    case False
    then show ?thesis
      using 3 by (auto simp: decode_unit decode_pair split: if_splits)
  qed
qed simp

text \<open>An encoded text holds only unreserved code units and percent escapes.\<close>

definition uri_safe :: "nat \<Rightarrow> bool" where
  "uri_safe c \<longleftrightarrow> unreserved c \<or> c = 37"

lemma pct_safe: "b < 256 \<Longrightarrow> list_all uri_safe (pct b)"
proof -
  assume "b < 256"
  then have "b div 16 < 16" "b mod 16 < 16" by simp_all
  then show ?thesis
    by (auto simp: pct_def uri_safe_def unreserved_def hex_digit_def char_class_defs)
qed

lemma utf8_bytes: "p \<le> 0x10FFFF \<Longrightarrow> b \<in> set (utf8 p) \<Longrightarrow> b < 256"
proof -
  assume p: "p \<le> 0x10FFFF" and b: "b \<in> set (utf8 p)"
  have m: "p mod 64 < 64" "p div 64 mod 64 < 64" "p div 4096 mod 64 < 64" by simp_all
  have "p < 0x800 \<Longrightarrow> p div 64 < 32" "p < 0x10000 \<Longrightarrow> p div 4096 < 16" "p div 262144 < 8"
    using p by (simp_all add: less_mult_imp_div_less)
  with b m show ?thesis by (auto simp: utf8_def split: if_splits)
qed

lemma pct_point_safe: "p \<le> 0x10FFFF \<Longrightarrow> list_all uri_safe (pct_point p)"
  using utf8_bytes pct_safe by (fastforce simp: pct_point_def list_all_iff)

lemma unreserved_safe: "unreserved u \<Longrightarrow> uri_safe u"
  by (simp add: uri_safe_def)

lemma encode_safe:
  "well_formed s \<Longrightarrow> encodeURIComponent s = Some t \<Longrightarrow> list_all uri_safe t"
proof (induction s arbitrary: t rule: encodeURIComponent.induct)
  case (2 u)
  then show ?case
    by (auto simp: unreserved_safe pct_point_safe split: if_splits)
next
  case (3 u v s)
  show ?case
  proof (cases "unreserved u")
    case True
    then have "\<not> is_high u" "\<not> is_low u" by (auto dest: unreserved_not_surrogate)
    with True 3 show ?thesis by (auto simp: unreserved_safe)
  next
    case False
    then show ?thesis
      using 3 by (auto simp: pct_point_safe pair_point_props split: if_splits)
  qed
qed simp

end
