(* ===== verification/Auth_Session.thy ===== *)
theory Auth_Session
  imports Api_Client Js_Uri
begin

text \<open>
  The session of the browser: the cookie store of \<^verbatim>\<open>lib/auth/session.ts\<close>, the route guard of
  \<^verbatim>\<open>proxy.ts\<close>, the client-side guard of \<^verbatim>\<open>components/auth-guard.tsx\<close>, the redirect after
  login (\<open>safeRedirect\<close> of \<^verbatim>\<open>components/login-form.tsx\<close>) and the role filter of the navigation
  (\<^verbatim>\<open>config/nav.ts\<close>, \<^verbatim>\<open>lib/auth/can-write.ts\<close>).

  \<open>document.cookie\<close> is a jar of named values, read back as the text the browser gives; writing
  a cookie whose Max-Age is not positive removes it. \<open>None\<close> for the document is the server,
  where the helpers do nothing.
\<close>

section \<open>Constants\<close>

definition SESSION_COOKIE :: jstring where "SESSION_COOKIE = js ''megoopm_session''"

definition REFRESH_COOKIE :: jstring where "REFRESH_COOKIE = js ''megoopm_refresh''"

definition LOGIN_ROUTE :: jstring where "LOGIN_ROUTE = js ''/login''"

definition REDIRECT_PARAM :: jstring where "REDIRECT_PARAM = js ''next''"

definition DEFAULT_AUTHED_ROUTE :: jstring where "DEFAULT_AUTHED_ROUTE = js ''/''"

definition COOKIE_MAX_AGE :: int where "COOKIE_MAX_AGE = 60 * 60 * 24 * 7"

definition FORGOT_PASSWORD_ROUTE :: jstring where "FORGOT_PASSWORD_ROUTE = js ''/forgot-password''"

definition RESET_PASSWORD_ROUTE :: jstring where "RESET_PASSWORD_ROUTE = js ''/reset-password''"

definition ACCEPT_INVITE_ROUTE :: jstring where "ACCEPT_INVITE_ROUTE = js ''/accept-invite''"

definition PUBLIC_ROUTES :: "jstring list" where
  "PUBLIC_ROUTES = [LOGIN_ROUTE, FORGOT_PASSWORD_ROUTE, RESET_PASSWORD_ROUTE, ACCEPT_INVITE_ROUTE]"

text \<open>The argument is \<open>process.env.NEXT_PUBLIC_AUTH_ENABLED\<close>.\<close>

definition isAuthEnabled :: "jstring option \<Rightarrow> bool" where
  "isAuthEnabled v \<longleftrightarrow> v \<noteq> Some (js ''false'')"

definition isPublicRoute :: "jstring \<Rightarrow> bool" where
  "isPublicRoute pathname \<longleftrightarrow>
     list_ex (\<lambda>route. pathname = route \<or> startsWith pathname (route @ js ''/'')) PUBLIC_ROUTES"

section \<open>The cookie store\<close>

type_synonym jar = "jstring object"

text \<open>One assignment to \<open>document.cookie\<close>: the pair and the attributes of the cookie string.\<close>

record cookie =
  ck_name :: jstring
  ck_val :: jstring
  ck_path :: jstring
  ck_maxAge :: int
  ck_sameSite :: jstring
  ck_secure :: bool

definition assign_cookie :: "cookie \<Rightarrow> jar \<Rightarrow> jar" where
  "assign_cookie c j =
     (if ck_maxAge c \<le> 0 then filter (\<lambda>kv. fst kv \<noteq> ck_name c) j
      else set_prop (ck_name c) (ck_val c) j)"

definition document_cookie :: "jar \<Rightarrow> jstring" where
  "document_cookie j = join (js ''; '') (map (\<lambda>(k, v). k @ [61] @ v) j)"

text \<open>The loop of \<open>readCookie\<close>: the first part that starts with \<open>name=\<close>, decoded.\<close>

fun find_part :: "jstring \<Rightarrow> jstring list \<Rightarrow> thrown + jstring option" where
  "find_part pre [] = Inr None"
| "find_part pre (part # parts) =
     (if startsWith part pre
      then (case decodeURIComponent (drop (length pre) part) of
              Some v \<Rightarrow> Inr (Some v)
            | None \<Rightarrow> Inl (ThrownError (js ''URI malformed'')))
      else find_part pre parts)"

definition readCookie :: "jstring \<Rightarrow> jar option \<Rightarrow> thrown + jstring option" where
  "readCookie name doc =
     (case doc of
        None \<Rightarrow> Inr None
      | Some j \<Rightarrow> find_part (name @ [61]) (split_seq (js ''; '') (document_cookie j)))"

definition writeCookie :: "bool \<Rightarrow> jstring \<Rightarrow> jstring \<Rightarrow> jar option \<Rightarrow> thrown + jar option" where
  "writeCookie https name v doc =
     (case doc of
        None \<Rightarrow> Inr None
      | Some j \<Rightarrow>
          (case encodeURIComponent v of
             None \<Rightarrow> Inl (ThrownError (js ''URI malformed''))
           | Some e \<Rightarrow>
               Inr (Some (assign_cookie
                 \<lparr>ck_name = name, ck_val = e, ck_path = js ''/'', ck_maxAge = COOKIE_MAX_AGE,
                  ck_sameSite = js ''Lax'', ck_secure = https\<rparr> j))))"

definition deleteCookie :: "jstring \<Rightarrow> jar option \<Rightarrow> jar option" where
  "deleteCookie name doc =
     map_option (assign_cookie
       \<lparr>ck_name = name, ck_val = [], ck_path = js ''/'', ck_maxAge = 0,
        ck_sameSite = js ''Lax'', ck_secure = False\<rparr>) doc"

definition getAccessToken :: "jar option \<Rightarrow> thrown + jstring option" where
  "getAccessToken doc = readCookie SESSION_COOKIE doc"

definition getRefreshToken :: "jar option \<Rightarrow> thrown + jstring option" where
  "getRefreshToken doc = readCookie REFRESH_COOKIE doc"

record tokenPair =
  access_token :: jstring
  refresh_token :: jstring

definition persistSession :: "bool \<Rightarrow> tokenPair \<Rightarrow> jar option \<Rightarrow> (thrown + unit) \<times> jar option" where
  "persistSession https tokens doc =
     (case writeCookie https SESSION_COOKIE (access_token tokens) doc of
        Inl e \<Rightarrow> (Inl e, doc)
      | Inr doc1 \<Rightarrow>
          (case writeCookie https REFRESH_COOKIE (refresh_token tokens) doc1 of
             Inl e \<Rightarrow> (Inl e, doc1)
           | Inr doc2 \<Rightarrow> (Inr (), doc2)))"

definition clearSession :: "jar option \<Rightarrow> jar option" where
  "clearSession doc = deleteCookie REFRESH_COOKIE (deleteCookie SESSION_COOKIE doc)"

definition hasSession :: "jar option \<Rightarrow> thrown + bool" where
  "hasSession doc =
     (case getAccessToken doc of
        Inl e \<Rightarrow> Inl e
      | Inr (Some _) \<Rightarrow> Inr True
      | Inr None \<Rightarrow>
          (case getRefreshToken doc of
             Inl e \<Rightarrow> Inl e
           | Inr r \<Rightarrow> Inr (r \<noteq> None)))"

section \<open>Guards and redirects\<close>

record nextUrl =
  nu_pathname :: jstring
  nu_search :: jstring
  nu_params :: "jstring object"

datatype guardResult = PassThrough | RedirectTo nextUrl

text \<open>
  \<open>cookies.get(SESSION_COOKIE)?.value\<close> is the second argument; the first is the build's
  \<open>NEXT_PUBLIC_AUTH_ENABLED\<close>.
\<close>

definition proxy :: "jstring option \<Rightarrow> jstring option \<Rightarrow> nextUrl \<Rightarrow> guardResult" where
  "proxy auth_env session_cookie url =
     (if \<not> isAuthEnabled auth_env then PassThrough
      else if isPublicRoute (nu_pathname url) then PassThrough
      else if (case session_cookie of Some v \<Rightarrow> v \<noteq> [] | None \<Rightarrow> False) then PassThrough
      else RedirectTo (url\<lparr>nu_pathname := LOGIN_ROUTE, nu_search := [],
             nu_params := set_prop REDIRECT_PARAM (nu_pathname url @ nu_search url) []\<rparr>))"

datatype authStatus = Loading | Authenticated | Unauthenticated

text \<open>The effect of \<open>AuthGuard\<close> (where it sends the browser) and whether the shell is shown.\<close>

definition authGuard :: "authStatus \<Rightarrow> jstring \<Rightarrow> (jstring \<times> jstring object) option \<times> bool" where
  "authGuard status pathname =
     ((if status = Unauthenticated then Some (LOGIN_ROUTE, [(REDIRECT_PARAM, pathname)]) else None),
      status = Authenticated)"

definition safeRedirect :: "jstring option \<Rightarrow> jstring" where
  "safeRedirect n =
     (case n of
        Some p \<Rightarrow>
          if p \<noteq> [] \<and> startsWith p (js ''/'') \<and> \<not> startsWith p (js ''//'') then p
          else DEFAULT_AUTHED_ROUTE
      | None \<Rightarrow> DEFAULT_AUTHED_ROUTE)"

section \<open>Navigation\<close>

datatype userRole = Admin | Member

record navItem =
  nav_title :: jstring
  nav_href :: jstring
  nav_description :: jstring
  nav_adminOnly :: bool

definition nav_item :: "string \<Rightarrow> string \<Rightarrow> string \<Rightarrow> bool \<Rightarrow> navItem" where
  "nav_item t h d a = \<lparr>nav_title = js t, nav_href = js h, nav_description = js d, nav_adminOnly = a\<rparr>"

definition primaryNav :: "navItem list" where
  "primaryNav =
     [nav_item ''Dashboard'' ''/''
        ''Instance health, traffic and attack origins at a glance.'' False,
      nav_item ''Proxy Hosts'' ''/proxy-hosts''
        ''Reverse-proxy hosts forwarding traffic to upstream services.'' True,
      nav_item ''Upstream Pools'' ''/upstreams''
        ''Backend server pools that proxy hosts and streams forward to.'' True,
      nav_item ''Certificates'' ''/certificates''
        (''TLS certificates and Let'' @ [CHR 0x27] @ ''s Encrypt automation.'') True,
      nav_item ''Access Lists'' ''/access-lists''
        ''Authorization rules controlling who can reach a host.'' True,
      nav_item ''Streams'' ''/streams'' ''Raw TCP/UDP stream forwarding.'' True,
      nav_item ''Redirection Hosts'' ''/redirection-hosts''
        ''Redirect domains to another domain with a chosen status code.'' True,
      nav_item ''404 Hosts'' ''/dead-hosts'' ''Park domains and return a 404 for every request.'' True,
      nav_item ''Custom Pages'' ''/custom-pages''
        ''HTML pages you author here and reference elsewhere.'' True,
      nav_item ''Security'' ''/security'' ''CrowdSec integration, bouncers and blocklists.'' True,
      nav_item ''Live logs'' ''/live-logs''
        ''Requests, errors and security events as they happen. Nothing is stored.'' True,
      nav_item ''Users'' ''/users'' ''Accounts and roles for people who sign in to MegooPM.'' True,
      nav_item ''Audit Log'' ''/audit-log'' ''Every change made through MegooPM, and who made it.'' True,
      nav_item ''Backups'' ''/backups''
        ''Encrypted copies of this instance, and restoring from one.'' True,
      nav_item ''Settings'' ''/settings'' ''Instance configuration.'' True]"

definition navForRole :: "userRole option \<Rightarrow> navItem list" where
  "navForRole role = filter (\<lambda>item. \<not> nav_adminOnly item \<or> role = Some Admin) primaryNav"

text \<open>The role of the signed-in user, when there is one.\<close>

definition useCanWrite :: "userRole option \<Rightarrow> bool" where
  "useCanWrite user_role \<longleftrightarrow> user_role = Some Admin"

section \<open>The jar and its reader\<close>

text \<open>
  What the browser keeps of its cookies: distinct names, no separator inside a name or a
  value and no equals sign inside a name.
\<close>

definition jar_ok :: "jar \<Rightarrow> bool" where
  "jar_ok j \<longleftrightarrow>
     distinct (map fst j) \<and> list_all (\<lambda>(k, v). 59 \<notin> set k \<and> 61 \<notin> set k \<and> 59 \<notin> set v) j"

lemma js_sep [simp]: "js ''; '' = [59, 32]"
  by (simp add: js_def)

lemma split_document_cookie:
  assumes "jar_ok j"
  shows "split_seq (js ''; '') (document_cookie j) =
    (if j = [] then [[]] else map (\<lambda>(k, v). k @ [61] @ v) j)"
proof (cases "j = []")
  case False
  have "\<forall>x \<in> set (map (\<lambda>(k, v). k @ [61] @ v) j). hd (js ''; '') \<notin> set x"
    using assms by (auto simp: jar_ok_def list_all_iff)
  with False show ?thesis
    unfolding document_cookie_def by (subst split_seq_join) (auto simp: js_def)
qed (simp add: document_cookie_def)

lemma startsWith_pair:
  assumes "61 \<notin> set k" and "61 \<notin> set n"
  shows "startsWith (k @ [61] @ v) (n @ [61]) \<longleftrightarrow> k = n"
proof
  assume "startsWith (k @ [61] @ v) (n @ [61])"
  then obtain r where "k @ 61 # v = n @ 61 # r"
    by (auto simp: startsWith_prefix prefix_def)
  with assms show "k = n" by (metis takeWhile_until)
qed (simp add: startsWith_def)

definition decoded :: "jstring option \<Rightarrow> thrown + jstring option" where
  "decoded e =
     (case e of
        None \<Rightarrow> Inr None
      | Some v \<Rightarrow> (case decodeURIComponent v of
                     Some d \<Rightarrow> Inr (Some d)
                   | None \<Rightarrow> Inl (ThrownError (js ''URI malformed''))))"

lemma find_part_jar:
  "list_all (\<lambda>(k, v). 61 \<notin> set k) j \<Longrightarrow> 61 \<notin> set n \<Longrightarrow>
   find_part (n @ [61]) (map (\<lambda>(k, v). k @ [61] @ v) j) = decoded (map_of j n)"
proof (induction j)
  case (Cons kv j)
  obtain k v where kv: "kv = (k, v)" by force
  with Cons.prems have "startsWith (k @ [61] @ v) (n @ [61]) \<longleftrightarrow> k = n"
    by (intro startsWith_pair) auto
  with Cons kv show ?case by (auto simp: decoded_def split: option.splits)
qed (simp add: decoded_def)

lemma readCookie_jar [form_simps]:
  assumes "jar_ok j" and "61 \<notin> set n"
  shows "readCookie n (Some j) = decoded (map_of j n)"
proof -
  have *: "list_all (\<lambda>(k, v). 61 \<notin> set k) j"
    using assms(1) by (auto simp: jar_ok_def list_all_iff)
  have "\<not> startsWith [] (n @ [61])" by (simp add: startsWith_def)
  then show ?thesis
    using split_document_cookie [OF assms(1)] find_part_jar [OF * assms(2)]
    by (cases "j = []") (simp_all add: readCookie_def decoded_def)
qed

lemma cookie_names [simp]:
  "61 \<notin> set SESSION_COOKIE" "61 \<notin> set REFRESH_COOKIE" "59 \<notin> set SESSION_COOKIE"
  "59 \<notin> set REFRESH_COOKIE" "SESSION_COOKIE \<noteq> REFRESH_COOKIE" "REFRESH_COOKIE \<noteq> SESSION_COOKIE"
  by (simp_all add: SESSION_COOKIE_def REFRESH_COOKIE_def) (simp_all add: js_def)

lemma uri_safe_no_semicolon: "list_all uri_safe t \<Longrightarrow> 59 \<notin> set t"
  by (auto simp: list_all_iff uri_safe_def unreserved_def char_class_defs)

lemma jar_ok_set_prop [form_invs]:
  assumes "jar_ok j" and "59 \<notin> set n" and "61 \<notin> set n" and "59 \<notin> set v"
  shows "jar_ok (set_prop n v j)"
proof -
  have "list_all (\<lambda>(k, v). 59 \<notin> set k \<and> 61 \<notin> set k \<and> 59 \<notin> set v) j \<Longrightarrow>
    list_all (\<lambda>(k, v). 59 \<notin> set k \<and> 61 \<notin> set k \<and> 59 \<notin> set v) (set_prop n v j)"
    using assms(2-4) by (induction j) auto
  with assms(1) show ?thesis by (auto simp: jar_ok_def distinct_set_prop)
qed

lemma jar_ok_filter [form_invs]: "jar_ok j \<Longrightarrow> jar_ok (filter P j)"
  by (auto simp: jar_ok_def list_all_iff distinct_map_filter)

lemma map_of_filter_key: "map_of (filter (\<lambda>kv. fst kv \<noteq> n) j) m = (if m = n then None else map_of j m)"
  by (induction j) auto

lemma writeCookie_ok:
  assumes "jar_ok j" and "well_formed v" and "59 \<notin> set n" and "61 \<notin> set n"
  obtains e j' where "writeCookie https n v (Some j) = Inr (Some j')" "jar_ok j'"
    "encodeURIComponent v = Some e" "j' = set_prop n e j" "decodeURIComponent e = Some v"
proof -
  obtain e where e: "encodeURIComponent v = Some e" using encode_total [OF assms(2)] by blast
  have "59 \<notin> set e" using encode_safe [OF assms(2) e] by (rule uri_safe_no_semicolon)
  then have "jar_ok (set_prop n e j)" using assms by (intro jar_ok_set_prop)
  moreover have "writeCookie https n v (Some j) = Inr (Some (set_prop n e j))"
    by (simp add: writeCookie_def e assign_cookie_def COOKIE_MAX_AGE_def)
  ultimately show ?thesis using that e decode_encode [OF assms(2) e] by blast
qed

lemma persisted_tokens:
  assumes "jar_ok j" and "well_formed (access_token t)" and "well_formed (refresh_token t)"
  shows "\<exists>j'. persistSession https t (Some j) = (Inr (), Some j') \<and> jar_ok j' \<and>
    getAccessToken (Some j') = Inr (Some (access_token t)) \<and>
    getRefreshToken (Some j') = Inr (Some (refresh_token t)) \<and>
    (\<forall>n. n \<notin> {SESSION_COOKIE, REFRESH_COOKIE} \<longrightarrow> map_of j' n = map_of j n)"
proof -
  obtain e1 j1 where 1: "writeCookie https SESSION_COOKIE (access_token t) (Some j) = Inr (Some j1)"
      "jar_ok j1" "j1 = set_prop SESSION_COOKIE e1 j" "decodeURIComponent e1 = Some (access_token t)"
    using assms by (elim writeCookie_ok [of j "access_token t" SESSION_COOKIE https]) simp_all
  obtain e2 j2 where 2: "writeCookie https REFRESH_COOKIE (refresh_token t) (Some j1) = Inr (Some j2)"
      "jar_ok j2" "j2 = set_prop REFRESH_COOKIE e2 j1" "decodeURIComponent e2 = Some (refresh_token t)"
    using assms 1(2) by (elim writeCookie_ok [of j1 "refresh_token t" REFRESH_COOKIE https]) simp_all
  have "persistSession https t (Some j) = (Inr (), Some j2)"
    by (simp add: persistSession_def 1(1) 2(1))
  moreover have "getAccessToken (Some j2) = Inr (Some (access_token t))"
    "getRefreshToken (Some j2) = Inr (Some (refresh_token t))"
    using 1 2 by (simp_all add: getAccessToken_def getRefreshToken_def readCookie_jar decoded_def)
  ultimately show ?thesis using 1(3) 2(2,3) by auto
qed

section \<open>Properties\<close>

text \<open>
  C2. After a token pair is persisted, the access and the refresh token read back are the tokens
  of the pair, whatever characters they hold, and every other cookie of the jar reads as
  before. The tokens must be well-formed strings (no lone surrogate), and the jar one that a
  browser keeps.
\<close>

theorem persistSession_roundtrip:
  assumes "jar_ok j" and "well_formed (access_token t)" and "well_formed (refresh_token t)"
  shows "\<exists>j'. persistSession https t (Some j) = (Inr (), Some j') \<and> jar_ok j' \<and>
    getAccessToken (Some j') = Inr (Some (access_token t)) \<and>
    getRefreshToken (Some j') = Inr (Some (refresh_token t)) \<and>
    (\<forall>n. n \<notin> {SESSION_COOKIE, REFRESH_COOKIE} \<longrightarrow> map_of j' n = map_of j n)"
  using persisted_tokens [OF assms] .

text \<open>Dropping the session leaves no session behind, and no other cookie is touched.\<close>

lemma clearSession_jar:
  "clearSession (Some j) =
     Some (filter (\<lambda>kv. fst kv \<noteq> REFRESH_COOKIE) (filter (\<lambda>kv. fst kv \<noteq> SESSION_COOKIE) j))"
  by (simp add: clearSession_def deleteCookie_def assign_cookie_def)

lemma hasSession_clear:
  assumes "jar_ok j" shows "hasSession (clearSession (Some j)) = Inr False"
  using assms
  by (simp add: clearSession_jar hasSession_def getAccessToken_def getRefreshToken_def
      readCookie_jar jar_ok_filter map_of_filter_key decoded_def del: filter_filter)

theorem persistSession_roundtrip_witness:
  "\<exists>j'. persistSession True \<lparr>access_token = js ''a.b=;c'', refresh_token = [0xD83D, 0xDE00]\<rparr>
        (Some [(js ''theme'', js ''dark'')]) = (Inr (), Some j') \<and>
     getAccessToken (Some j') = Inr (Some (js ''a.b=;c''))"
proof -
  have "jar_ok [(js ''theme'', js ''dark'')]" by (simp add: jar_ok_def js_def)
  moreover have "well_formed (js ''a.b=;c'')" by (simp add: js_def is_high_def is_low_def)
  moreover have "well_formed [0xD83D, 0xDE00]" by (simp add: is_high_def is_low_def)
  ultimately show ?thesis
    using persistSession_roundtrip [of "[(js ''theme'', js ''dark'')]"
        "\<lparr>access_token = js ''a.b=;c'', refresh_token = [0xD83D, 0xDE00]\<rparr>" True]
    by auto
qed

text \<open>
  C3. Where the guard redirects, it redirects to the login page, which the guard lets through (no
  redirect loop), and the destination it passes along is the requested path and query; when
  that is a path of this site, the login form goes back to exactly it.
\<close>

theorem proxy_redirect:
  assumes "proxy auth_env c url = RedirectTo u"
    and "startsWith (nu_pathname url) (js ''/'')" and "\<not> startsWith (nu_pathname url) (js ''//'')"
    and "nu_search url = [] \<or> hd (nu_search url) = 63"
  shows "isAuthEnabled auth_env \<and> \<not> isPublicRoute (nu_pathname url) \<and> (c = None \<or> c = Some []) \<and>
    nu_pathname u = LOGIN_ROUTE \<and> proxy auth_env c u = PassThrough \<and>
    safeRedirect (map_of (nu_params u) REDIRECT_PARAM) = nu_pathname url @ nu_search url"
proof -
  from assms(1) have r: "isAuthEnabled auth_env" "\<not> isPublicRoute (nu_pathname url)"
      "c = None \<or> c = Some []"
      "u = url\<lparr>nu_pathname := LOGIN_ROUTE, nu_search := [],
             nu_params := set_prop REDIRECT_PARAM (nu_pathname url @ nu_search url) []\<rparr>"
    by (auto simp: proxy_def split: if_splits option.splits)
  have "isPublicRoute LOGIN_ROUTE" by (simp add: isPublicRoute_def PUBLIC_ROUTES_def)
  with r have "proxy auth_env c u = PassThrough" by (simp add: proxy_def)
  moreover have "startsWith (nu_pathname url @ nu_search url) (js ''/'')"
    "\<not> startsWith (nu_pathname url @ nu_search url) (js ''//'')" "nu_pathname url \<noteq> []"
    using assms(2-4)
    by (cases "nu_pathname url"; cases "tl (nu_pathname url)"; cases "nu_search url";
        auto simp: startsWith_def js_def)+
  ultimately show ?thesis using r by (auto simp: safeRedirect_def)
qed

theorem proxy_redirect_witness:
  "safeRedirect (map_of (nu_params
      (case proxy None None \<lparr>nu_pathname = js ''/users'', nu_search = js ''?q=1'', nu_params = []\<rparr> of
         RedirectTo u \<Rightarrow> u)) REDIRECT_PARAM) = js ''/users?q=1''"
proof -
  let ?url = "\<lparr>nu_pathname = js ''/users'', nu_search = js ''?q=1'', nu_params = []\<rparr>"
  obtain u where u: "proxy None None ?url = RedirectTo u"
    by (simp add: proxy_def isAuthEnabled_def isPublicRoute_def PUBLIC_ROUTES_def LOGIN_ROUTE_def
        FORGOT_PASSWORD_ROUTE_def RESET_PASSWORD_ROUTE_def ACCEPT_INVITE_ROUTE_def startsWith_def js_def)
  from proxy_redirect [OF u] have "safeRedirect (map_of (nu_params u) REDIRECT_PARAM) = js ''/users?q=1''"
    by (simp add: startsWith_def) (simp add: js_def)
  with u show ?thesis by simp
qed

text \<open>
  A reference of two leading slashes names another host; for an http page a backslash counts
  as a slash there.
\<close>

definition network_path :: "jstring \<Rightarrow> bool" where
  "network_path s = (case s of a # b # _ \<Rightarrow> a \<in> {47, 92} \<and> b \<in> {47, 92} | _ \<Rightarrow> False)"


text \<open>
  The sidebar shows an administrator every page and anybody else, signed out included, the
  dashboard alone; the pages have distinct addresses.
\<close>

theorem navForRole_pages:
  "map nav_href (navForRole role) =
     (if useCanWrite role then map nav_href primaryNav else [js ''/'']) \<and>
   distinct (map nav_href primaryNav)"
  by (simp add: navForRole_def primaryNav_def nav_item_def useCanWrite_def)

end
