(* ===== verification/Machines.thy ===== *)
theory Machines
  imports Js_Prelude
begin

text \<open>
  Interfaces shared by the stateful components: a machine that consumes events and keeps an
  invariant, a retry delay that grows and is capped, and the promise of a store that reads back
  what was written. The components provide the operations and interpret the locales on them.
\<close>

section \<open>Machines with an invariant\<close>

locale machine =
  fixes step :: "'s \<Rightarrow> 'e \<Rightarrow> 's" and inv :: "'s \<Rightarrow> bool"
  assumes step_inv: "inv s \<Longrightarrow> inv (step s e)"
begin

lemma run_inv: "inv s \<Longrightarrow> inv (foldl step s es)"
  by (induction es arbitrary: s) (auto simp: step_inv)

lemma run_inv_prefix: "inv s \<Longrightarrow> prefix es' es \<Longrightarrow> inv (foldl step s es')"
  by (rule run_inv)

end

text \<open>A machine with a state that no event leaves.\<close>

locale absorbing = machine +
  fixes final :: "'s \<Rightarrow> bool"
  assumes step_final: "inv s \<Longrightarrow> final s \<Longrightarrow> final (step s e)"
begin

lemma run_final: "inv s \<Longrightarrow> final s \<Longrightarrow> final (foldl step s es)"
  by (induction es arbitrary: s) (auto simp: step_inv step_final)

end

section \<open>Capped exponential backoff\<close>

locale backoff_delay =
  fixes delay :: "nat \<Rightarrow> nat" and first_ms :: nat and max_ms :: nat
  assumes delay_def: "delay n = min (first_ms * 2 ^ n) max_ms"
    and first_pos: "0 < first_ms" and first_le_max: "first_ms \<le> max_ms"
begin

lemma delay_bounds: "first_ms \<le> delay n \<and> delay n \<le> max_ms"
  using first_le_max by (simp add: delay_def)

lemma delay_mono: "m \<le> n \<Longrightarrow> delay m \<le> delay n"
  unfolding delay_def
  by (intro min.mono mult_le_mono power_increasing) simp_all

lemma delay_doubles: "2 * delay n \<le> max_ms \<Longrightarrow> delay (Suc n) = 2 * delay n"
  using first_pos by (auto simp: delay_def min_def split: if_splits)

lemma delay_caps: "max_ms \<le> first_ms * 2 ^ n \<Longrightarrow> n \<le> m \<Longrightarrow> delay m = max_ms"
proof -
  assume "max_ms \<le> first_ms * 2 ^ n" and "n \<le> m"
  then have "max_ms \<le> first_ms * 2 ^ m"
    by (meson le_trans mult_le_mono2 one_le_numeral power_increasing)
  then show "delay m = max_ms" by (simp add: delay_def)
qed

end

section \<open>A keyed list kept in a store\<close>

text \<open>
  A store of a list of entries with a key: \<open>put\<close> and \<open>get\<close> agree wherever the store works, for
  lists of entries that the store can hold.
\<close>

locale keyed_store =
  fixes get :: "'s \<Rightarrow> 'a list" and put :: "'a list \<Rightarrow> 's \<Rightarrow> 's"
    and works :: "'s \<Rightarrow> bool" and storable :: "'a \<Rightarrow> bool" and key :: "'a \<Rightarrow> 'k" and cap :: nat
  assumes get_put: "works s \<Longrightarrow> list_all storable xs \<Longrightarrow> get (put xs s) = xs"
    and works_put: "works s \<Longrightarrow> works (put xs s)"
    and get_storable: "works s \<Longrightarrow> list_all storable (get s)"
begin

definition store_ok :: "'s \<Rightarrow> bool" where
  "store_ok s \<longleftrightarrow> works s \<and> distinct (map key (get s)) \<and> length (get s) \<le> cap"

definition push :: "'a \<Rightarrow> 's \<Rightarrow> 's" where
  "push x s = put (take cap (x # filter (\<lambda>y. key y \<noteq> key x) (get s))) s"

definition drop_key :: "'k \<Rightarrow> 's \<Rightarrow> 's" where
  "drop_key k s = put (filter (\<lambda>y. key y \<noteq> k) (get s)) s"

lemma list_all_take: "list_all P xs \<Longrightarrow> list_all P (take n xs)"
  by (auto simp: list_all_iff dest: in_set_takeD)

lemma list_all_filter: "list_all P xs \<Longrightarrow> list_all P (filter Q xs)"
  by (auto simp: list_all_iff)

lemma get_push:
  "works s \<Longrightarrow> storable x \<Longrightarrow>
   get (push x s) = take cap (x # filter (\<lambda>y. key y \<noteq> key x) (get s))"
  unfolding push_def
  by (intro get_put list_all_take) (auto simp: list_all_filter get_storable)

lemma get_drop_key: "works s \<Longrightarrow> get (drop_key k s) = filter (\<lambda>y. key y \<noteq> k) (get s)"
  unfolding drop_key_def by (intro get_put list_all_filter get_storable)

lemma store_ok_push:
  assumes "store_ok s" and "storable x"
  shows "store_ok (push x s)"
proof -
  have "distinct (map key (x # filter (\<lambda>y. key y \<noteq> key x) (get s)))"
    using assms(1) by (auto simp: store_ok_def distinct_map_filter)
  then have "distinct (map key (take cap (x # filter (\<lambda>y. key y \<noteq> key x) (get s))))"
    by (simp only: take_map [symmetric] distinct_take)
  with assms show ?thesis
    by (simp add: store_ok_def get_push) (simp add: push_def works_put)
qed

lemma store_ok_drop_key: "store_ok s \<Longrightarrow> store_ok (drop_key k s)"
  by (auto simp: store_ok_def get_drop_key distinct_map_filter le_trans [OF length_filter_le])
    (simp add: drop_key_def works_put)

lemma drop_key_gone: "works s \<Longrightarrow> k \<notin> key ` set (get (drop_key k s))"
  by (auto simp: get_drop_key)

lemma push_front: "works s \<Longrightarrow> storable x \<Longrightarrow> 0 < cap \<Longrightarrow> \<exists>rest. get (push x s) = x # rest"
  by (simp add: get_push take_Cons')

end

end
