(* ===== verification/Recent_Accounts.thy ===== *)
theory Recent_Accounts
  imports Js_Value Machines "HOL-Library.Countable"
begin

text \<open>
  The accounts remembered on this browser (\<^verbatim>\<open>lib/auth/recent-accounts.ts\<close>). The local storage
  may refuse every access (a private window) or refuse writes (quota); both are flags of its
  model, and the functions swallow the exception as the code does. \<open>JSON.parse\<close> and
  \<open>JSON.stringify\<close> are arguments; \<open>codec_ok\<close> is what is relied on: parsing the text written for
  a list of accounts gives that list back.
\<close>

section \<open>Storage\<close>

record local_storage =
  ls_blocked :: bool
  ls_full :: bool
  ls_items :: "jstring \<rightharpoonup> jstring"

definition RECENT_ACCOUNTS_KEY :: jstring where
  "RECENT_ACCOUNTS_KEY = js ''megoopm.recentAccounts''"

definition MAX_RECENT_ACCOUNTS :: nat where
  "MAX_RECENT_ACCOUNTS = 5"

record recentAccount =
  ra_email :: jstring
  ra_full_name :: jstring
  ra_lastUsedAt :: jstring

section \<open>Operations\<close>

definition isAccount :: "jval \<Rightarrow> bool" where
  "isAccount v \<longleftrightarrow>
     is_object v \<and> (case get_prop v (js ''email'') of Str s \<Rightarrow> s \<noteq> [] | _ \<Rightarrow> False)"

definition string_or_empty :: "jval \<Rightarrow> jstring" where
  "string_or_empty v = (case v of Str s \<Rightarrow> s | _ \<Rightarrow> [])"

definition account_of :: "jval \<Rightarrow> recentAccount" where
  "account_of row =
     \<lparr>ra_email = string_or_empty (get_prop row (js ''email'')),
      ra_full_name = string_or_empty (get_prop row (js ''full_name'')),
      ra_lastUsedAt = string_or_empty (get_prop row (js ''lastUsedAt''))\<rparr>"

definition readAccounts :: "(jstring \<Rightarrow> jval option) \<Rightarrow> local_storage \<Rightarrow> recentAccount list" where
  "readAccounts parse st =
     (if ls_blocked st then []
      else case ls_items st RECENT_ACCOUNTS_KEY of
             None \<Rightarrow> []
           | Some raw \<Rightarrow>
               if raw = [] then []
               else (case parse raw of
                       Some (Arr rows) \<Rightarrow> map account_of (filter isAccount rows)
                     | _ \<Rightarrow> []))"

definition account_json :: "recentAccount \<Rightarrow> jval" where
  "account_json a =
     Obj [(js ''email'', Str (ra_email a)), (js ''full_name'', Str (ra_full_name a)),
          (js ''lastUsedAt'', Str (ra_lastUsedAt a))]"

definition write_accounts ::
  "(jval \<Rightarrow> jstring) \<Rightarrow> recentAccount list \<Rightarrow> local_storage \<Rightarrow> local_storage" where
  "write_accounts stringify accounts st =
     (if ls_blocked st \<or> ls_full st then st
      else st\<lparr>ls_items := (ls_items st)(RECENT_ACCOUNTS_KEY \<mapsto> stringify (Arr (map account_json accounts)))\<rparr>)"

definition account_key :: "jstring \<Rightarrow> jstring" where
  "account_key email = toLowerCase (trim email)"

definition rememberAccount ::
  "(jstring \<Rightarrow> jval option) \<Rightarrow> (jval \<Rightarrow> jstring) \<Rightarrow> jstring \<Rightarrow> jstring \<Rightarrow> jstring \<Rightarrow>
   local_storage \<Rightarrow> local_storage" where
  "rememberAccount parse stringify now email full_name st =
     (let k = account_key email;
          rest = filter (\<lambda>a. account_key (ra_email a) \<noteq> k) (readAccounts parse st);
          nxt = \<lparr>ra_email = email, ra_full_name = full_name, ra_lastUsedAt = now\<rparr> # rest
      in write_accounts stringify (take MAX_RECENT_ACCOUNTS nxt) st)"

definition forgetAccount ::
  "(jstring \<Rightarrow> jval option) \<Rightarrow> (jval \<Rightarrow> jstring) \<Rightarrow> jstring \<Rightarrow> local_storage \<Rightarrow> local_storage" where
  "forgetAccount parse stringify email st =
     (let k = account_key email
      in write_accounts stringify
           (filter (\<lambda>a. account_key (ra_email a) \<noteq> k) (readAccounts parse st)) st)"

section \<open>The store interface\<close>

definition codec_ok :: "(jstring \<Rightarrow> jval option) \<Rightarrow> (jval \<Rightarrow> jstring) \<Rightarrow> bool" where
  "codec_ok parse stringify \<longleftrightarrow>
     (\<forall>as. let v = Arr (map account_json as) in stringify v \<noteq> [] \<and> parse (stringify v) = Some v)"

definition storage_works ::
  "(jstring \<Rightarrow> jval option) \<Rightarrow> (jval \<Rightarrow> jstring) \<Rightarrow> local_storage \<Rightarrow> bool" where
  "storage_works parse stringify st \<longleftrightarrow>
     codec_ok parse stringify \<and> \<not> ls_blocked st \<and> \<not> ls_full st"

definition account_storable :: "recentAccount \<Rightarrow> bool" where
  "account_storable a \<longleftrightarrow> ra_email a \<noteq> []"

lemma account_json_keys [simp]:
  "get_prop (account_json a) (js ''email'') = Str (ra_email a)"
  "get_prop (account_json a) (js ''full_name'') = Str (ra_full_name a)"
  "get_prop (account_json a) (js ''lastUsedAt'') = Str (ra_lastUsedAt a)"
  by (simp_all add: account_json_def)

lemma account_of_json [simp]: "account_of (account_json a) = a"
  by (simp add: account_of_def string_or_empty_def)

lemma isAccount_json [simp]: "isAccount (account_json a) \<longleftrightarrow> account_storable a"
  by (simp add: isAccount_def account_storable_def) (simp add: account_json_def)

lemma account_of_storable: "isAccount v \<Longrightarrow> account_storable (account_of v)"
  by (auto simp: isAccount_def account_of_def account_storable_def string_or_empty_def
      split: jval.splits)

lemma filter_isAccount_json:
  "list_all account_storable as \<Longrightarrow>
   map account_of (filter isAccount (map account_json as)) = as"
  by (induction as) auto

lemma readAccounts_storable: "list_all account_storable (readAccounts parse st)"
  by (auto simp: readAccounts_def list_all_iff account_of_storable split: option.splits jval.splits)

interpretation accounts: keyed_store
  "readAccounts parse" "write_accounts stringify" "storage_works parse stringify"
  account_storable "\<lambda>a. account_key (ra_email a)" MAX_RECENT_ACCOUNTS
  for parse stringify
proof (unfold_locales, goal_cases)
  case (1 s xs)
  then have "parse (stringify (Arr (map account_json xs))) = Some (Arr (map account_json xs))"
    "stringify (Arr (map account_json xs)) \<noteq> []"
    by (auto simp: storage_works_def codec_ok_def Let_def)
  with 1 show ?case
    using filter_isAccount_json [of xs]
    by (simp add: readAccounts_def write_accounts_def storage_works_def)
next
  case (2 s xs)
  then show ?case by (simp add: storage_works_def write_accounts_def)
next
  case (3 s)
  show ?case by (rule readAccounts_storable)
qed

lemma rememberAccount_push:
  "rememberAccount parse stringify now email name st =
     accounts.push parse stringify \<lparr>ra_email = email, ra_full_name = name, ra_lastUsedAt = now\<rparr> st"
  by (simp add: rememberAccount_def accounts.push_def Let_def)

lemma forgetAccount_drop:
  "forgetAccount parse stringify email st = accounts.drop_key parse stringify (account_key email) st"
  by (simp add: forgetAccount_def accounts.drop_key_def Let_def)

section \<open>Properties\<close>

text \<open>
  C6. Where the storage works, a sign-in puts the account at the front of the remembered list,
  drops every older entry of the same address (white space and case ignored), keeps the others
  in order and never keeps more than five; no address is listed twice afterwards if none was
  before. Forgetting an address removes it and nothing else.
\<close>

theorem recent_accounts_correct:
  assumes "storage_works parse stringify st" and "email \<noteq> []"
    and "distinct (map (\<lambda>a. account_key (ra_email a)) (readAccounts parse st))"
  shows "let st' = rememberAccount parse stringify now email name st;
             others = filter (\<lambda>a. account_key (ra_email a) \<noteq> account_key email) (readAccounts parse st)
         in readAccounts parse st' =
              \<lparr>ra_email = email, ra_full_name = name, ra_lastUsedAt = now\<rparr> # take 4 others \<and>
            length (readAccounts parse st') \<le> MAX_RECENT_ACCOUNTS \<and>
            distinct (map (\<lambda>a. account_key (ra_email a)) (readAccounts parse st')) \<and>
            readAccounts parse (forgetAccount parse stringify email st) = others"
proof -
  let ?a = "\<lparr>ra_email = email, ra_full_name = name, ra_lastUsedAt = now\<rparr>"
  let ?others = "filter (\<lambda>a. account_key (ra_email a) \<noteq> account_key email) (readAccounts parse st)"
  have a: "account_storable ?a" using assms(2) by (simp add: account_storable_def)
  have r: "readAccounts parse (rememberAccount parse stringify now email name st) =
      take MAX_RECENT_ACCOUNTS (?a # ?others)"
    using accounts.get_push [OF assms(1) a] by (simp add: rememberAccount_push)
  have "distinct (map (\<lambda>a. account_key (ra_email a)) (?a # ?others))"
    using assms(3) by (auto simp: distinct_map_filter)
  then have "distinct (map (\<lambda>a. account_key (ra_email a)) (take MAX_RECENT_ACCOUNTS (?a # ?others)))"
    by (simp only: take_map [symmetric] distinct_take)
  moreover have "readAccounts parse (forgetAccount parse stringify email st) = ?others"
    using accounts.get_drop_key [OF assms(1)] by (simp add: forgetAccount_drop)
  ultimately show ?thesis using r by (simp add: MAX_RECENT_ACCOUNTS_def)
qed

instance jval :: countable
  by countable_datatype

text \<open>A codec that satisfies the hypothesis, so that the property is not empty.\<close>

definition demo_stringify :: "jval \<Rightarrow> jstring" where
  "demo_stringify v = [to_nat v]"

definition demo_parse :: "jstring \<Rightarrow> jval option" where
  "demo_parse s = (case s of [n] \<Rightarrow> Some (from_nat n) | _ \<Rightarrow> None)"

theorem recent_accounts_correct_witness:
  "readAccounts demo_parse
     (rememberAccount demo_parse demo_stringify (js ''t'') (js ''a@b.c'') (js ''A'')
        \<lparr>ls_blocked = False, ls_full = False, ls_items = Map.empty\<rparr>) =
   [\<lparr>ra_email = js ''a@b.c'', ra_full_name = js ''A'', ra_lastUsedAt = js ''t''\<rparr>]"
proof -
  let ?st = "\<lparr>ls_blocked = False, ls_full = False, ls_items = Map.empty\<rparr>"
  have empty: "readAccounts demo_parse ?st = []"
    by (simp add: readAccounts_def)
  have "storage_works demo_parse demo_stringify ?st"
    by (simp add: storage_works_def codec_ok_def demo_parse_def demo_stringify_def)
  with empty show ?thesis
    using recent_accounts_correct [of demo_parse demo_stringify ?st "js ''a@b.c''" "js ''t''" "js ''A''"]
    by (simp add: Let_def)
qed

end
