(* ===== verification/Effects.thy ===== *)
theory Effects
  imports Api_Client
begin

text \<open>
  Asynchronous code as state passing: an action takes the world it runs in and gives what it
  throws or returns, and the world it leaves. An awaited call is one step, and no other event of
  the page is interleaved inside a handler. Also here: reading a property of a value that may
  turn out not to be an object, and the string conversion of dynamic values.
\<close>

section \<open>Actions\<close>

type_synonym ('w, 'a) io = "'w \<Rightarrow> (thrown + 'a) \<times> 'w"

definition ret_io :: "'a \<Rightarrow> ('w, 'a) io" where
  "ret_io x w = (Inr x, w)"

definition lift_io :: "thrown + 'a \<Rightarrow> ('w, 'a) io" where
  "lift_io r w = (r, w)"

definition bind_io :: "('w, 'a) io \<Rightarrow> ('a \<Rightarrow> ('w, 'b) io) \<Rightarrow> ('w, 'b) io" where
  "bind_io m f w = (case m w of (Inl e, w') \<Rightarrow> (Inl e, w') | (Inr x, w') \<Rightarrow> f x w')"

definition catch_io :: "('w, 'a) io \<Rightarrow> (thrown \<Rightarrow> ('w, 'a) io) \<Rightarrow> ('w, 'a) io" where
  "catch_io m h w = (case m w of (Inl e, w') \<Rightarrow> h e w' | (Inr x, w') \<Rightarrow> (Inr x, w'))"

definition modify_io :: "('w \<Rightarrow> 'w) \<Rightarrow> ('w, unit) io" where
  "modify_io f w = (Inr (), f w)"

lemmas io_defs = ret_io_def lift_io_def bind_io_def catch_io_def modify_io_def

lemma bind_io_assoc: "bind_io (bind_io m f) g = bind_io m (\<lambda>x. bind_io (f x) g)"
  by (auto simp: fun_eq_iff bind_io_def split: prod.splits sum.splits)

lemma bind_ret [simp]: "bind_io (ret_io x) f = f x" "bind_io m ret_io = m"
  by (auto simp: fun_eq_iff bind_io_def ret_io_def split: prod.splits sum.splits)

lemma bind_io_eq_Inr:
  "bind_io m f w = (Inr y, w'') \<longleftrightarrow> (\<exists>x w'. m w = (Inr x, w') \<and> f x w' = (Inr y, w''))"
  by (auto simp: bind_io_def split: prod.splits sum.splits)

text \<open>An action that keeps a component of the world, whatever happens.\<close>

definition keeps :: "('w \<Rightarrow> 'b) \<Rightarrow> ('w, 'a) io \<Rightarrow> bool" where
  "keeps view m \<longleftrightarrow> (\<forall>w. view (snd (m w)) = view w)"

named_theorems keeps_intros \<open>which actions keep a component of the world\<close>

lemma keeps_ret [keeps_intros]: "keeps view (ret_io x)"
  by (simp add: keeps_def ret_io_def)

lemma keeps_lift [keeps_intros]: "keeps view (lift_io r)"
  by (simp add: keeps_def lift_io_def)

lemma keeps_bind [keeps_intros]:
  "keeps view m \<Longrightarrow> (\<And>x. keeps view (f x)) \<Longrightarrow> keeps view (bind_io m f)"
  by (auto simp: keeps_def bind_io_def split: prod.splits sum.splits) (metis snd_conv)+

lemma keeps_catch [keeps_intros]:
  "keeps view m \<Longrightarrow> (\<And>e. keeps view (h e)) \<Longrightarrow> keeps view (catch_io m h)"
  by (auto simp: keeps_def catch_io_def split: prod.splits sum.splits) (metis snd_conv)+

lemma keepsD: "keeps view m \<Longrightarrow> m w = (r, w') \<Longrightarrow> view w' = view w"
  unfolding keeps_def by (metis snd_conv)

text \<open>An action that preserves a predicate of the world, whatever happens.\<close>

definition preserves :: "('w \<Rightarrow> bool) \<Rightarrow> ('w, 'a) io \<Rightarrow> bool" where
  "preserves P m \<longleftrightarrow> (\<forall>w. P w \<longrightarrow> P (snd (m w)))"

lemma preservesD: "preserves P m \<Longrightarrow> m w = (r, w') \<Longrightarrow> P w \<Longrightarrow> P w'"
  unfolding preserves_def by (metis snd_conv)

lemma keeps_preserves: "keeps view m \<longleftrightarrow> (\<forall>c. preserves (\<lambda>w. view w = c) m)"
  by (auto simp: keeps_def preserves_def)

lemma preserves_ret [keeps_intros]: "preserves P (ret_io x)" "preserves P (lift_io r)"
  by (simp_all add: preserves_def ret_io_def lift_io_def)

lemma preserves_modify [keeps_intros]: "(\<And>w. P w \<Longrightarrow> P (f w)) \<Longrightarrow> preserves P (modify_io f)"
  by (simp add: preserves_def modify_io_def)

lemma preserves_bind [keeps_intros]:
  "preserves P m \<Longrightarrow> (\<And>x. preserves P (f x)) \<Longrightarrow> preserves P (bind_io m f)"
  by (auto simp: preserves_def bind_io_def split: prod.splits sum.splits)

lemma preserves_catch [keeps_intros]:
  "preserves P m \<Longrightarrow> (\<And>e. preserves P (h e)) \<Longrightarrow> preserves P (catch_io m h)"
  by (auto simp: preserves_def catch_io_def split: prod.splits sum.splits)

lemma preserves_if [keeps_intros]:
  "preserves P a \<Longrightarrow> preserves P b \<Longrightarrow> preserves P (if c then a else b)"
  by simp

section \<open>The client keeps what the network and the refresher keep\<close>

lemma preserves_apiFetch:
  assumes "\<And>rq. preserves P (env_fetch env rq)"
    and "\<And>f. env_tokenRefresher env = Some f \<Longrightarrow> preserves P f"
  shows "preserves P (apiFetch env path opts)"
proof -
  have "preserves P (send env path opts b)" for b
    using assms(1) by (simp add: preserves_def send_def)
  note s = preservesD [OF this]
  have r: "P w1 \<Longrightarrow> P w2" if "env_tokenRefresher env = Some f" "f w1 = (x, w2)" for f w1 x w2
    using preservesD [OF assms(2)] that by blast
  have "P w1 \<Longrightarrow> P (snd (after_first env path opts r w1))" for r w1
    unfolding after_first_def
    by (auto split: option.splits prod.splits sum.splits dest: r s)
  then show ?thesis
    by (auto simp: preserves_def apiFetch_def split: sum.splits prod.splits dest: s)
qed

lemma keeps_apiFetch:
  assumes "\<And>rq. keeps view (env_fetch env rq)"
    and "\<And>f. env_tokenRefresher env = Some f \<Longrightarrow> keeps view f"
  shows "keeps view (apiFetch env path opts)"
  using assms by (auto simp: keeps_preserves intro!: preserves_apiFetch)

section \<open>Dynamic values\<close>

text \<open>\<open>v.k\<close>: a property of undefined or null is a TypeError.\<close>

definition member :: "jval \<Rightarrow> jstring \<Rightarrow> thrown + jval" where
  "member v k =
     (if v = Undef \<or> v = Null then Inl (ThrownError (js ''Cannot read properties'')) else Inr (get_prop v k))"

text \<open>\<open>k in v\<close>: a TypeError where \<open>v\<close> is not an object.\<close>

definition member_in :: "jstring \<Rightarrow> jval \<Rightarrow> thrown + bool" where
  "member_in k v =
     (if is_object v then Inr (has_prop v k)
      else Inl (ThrownError (js ''Cannot use in operator'')))"

text \<open>\<open>String(v)\<close>: null and undefined are empty inside an array.\<close>

fun js_String :: "jval \<Rightarrow> jstring" where
  "js_String Undef = js ''undefined''"
| "js_String Null = js ''null''"
| "js_String (Bool b) = (if b then js ''true'' else js ''false'')"
| "js_String (Number i) = str_int i"
| "js_String (Str s) = s"
| "js_String (Arr vs) = join (js '','') (map (\<lambda>v. if v = Undef \<or> v = Null then [] else js_String v) vs)"
| "js_String (Obj kvs) = js ''[object Object]''"

end
