(* ===== verification/Auth_Context.thy ===== *)
theory Auth_Context
  imports Auth_Session Recent_Accounts Effects
begin

text \<open>
  The client-side session: the auth endpoint bindings (\<^verbatim>\<open>lib/auth/api.ts\<close>) and the provider that
  owns login, logout and the refresh seam (\<^verbatim>\<open>lib/auth/context.tsx\<close>).

  The world of these actions is the page: its cookies, its local storage, the provider's user
  and status, the route, and the backend as an opaque state. The network, \<open>JSON\<close>, the clock and
  the browser's passkey prompt are fields of a platform record.
\<close>

section \<open>The page\<close>

record 'sv auth_world =
  aw_doc :: "jar option"
  aw_storage :: local_storage
  aw_user :: "jval option"
  aw_status :: authStatus
  aw_route :: "jstring option"
  aw_server :: 'sv

record 'sv platform =
  pf_base :: jstring
  pf_https :: bool
  pf_fetch :: "http_request \<Rightarrow> 'sv \<Rightarrow> (thrown + http_response) \<times> 'sv"
  pf_parse :: "jstring \<Rightarrow> jval option"
  pf_stringify :: "jval \<Rightarrow> jstring"
  pf_now :: jstring
  pf_startAuthentication :: "jval \<Rightarrow> 'sv \<Rightarrow> (thrown + jval) \<times> 'sv"

text \<open>The client with the cookie store as its token provider, and no refresher yet.\<close>

definition base_env :: "'sv platform \<Rightarrow> 'sv auth_world api_env" where
  "base_env pf =
     setAuthTokenProvider (\<lambda>w. getAccessToken (aw_doc w))
       \<lparr>env_base = pf_base pf,
        env_fetch = (\<lambda>rq w. case pf_fetch pf rq (aw_server w) of (r, sv) \<Rightarrow> (r, w\<lparr>aw_server := sv\<rparr>)),
        env_authTokenProvider = (\<lambda>w. Inr None),
        env_tokenRefresher = None,
        env_parse = pf_parse pf\<rparr>"

section \<open>Endpoint bindings\<close>

definition post_untokened :: "'w api_env \<Rightarrow> string \<Rightarrow> (string \<times> jval) list \<Rightarrow> ('w, jval) io" where
  "post_untokened env path body =
     apiFetch env (js path)
       (default_options\<lparr>op_method := Some (js ''POST''),
                        op_body := Obj (map (\<lambda>(k, v). (js k, v)) body),
                        op_token := TokenGiven None\<rparr>)"

definition login_request :: "'w api_env \<Rightarrow> jstring \<Rightarrow> jstring \<Rightarrow> ('w, jval) io" where
  "login_request env email password =
     post_untokened env ''/api/v1/auth/login'' [(''email'', Str email), (''password'', Str password)]"

definition passkeyOptions :: "'w api_env \<Rightarrow> jval \<Rightarrow> ('w, jval) io" where
  "passkeyOptions env mfaToken =
     post_untokened env ''/api/v1/auth/mfa/passkey/options'' [(''mfa_token'', mfaToken)]"

definition passkeyVerify :: "'w api_env \<Rightarrow> jval \<Rightarrow> jval \<Rightarrow> jval \<Rightarrow> ('w, jval) io" where
  "passkeyVerify env mfaToken nonce credential =
     post_untokened env ''/api/v1/auth/mfa/passkey/verify''
       [(''mfa_token'', mfaToken), (''nonce'', nonce), (''credential'', credential)]"

definition isMfaRequired :: "jval \<Rightarrow> thrown + bool" where
  "isMfaRequired result =
     (case member_in (js ''mfa_required'') result of
        Inl e \<Rightarrow> Inl e
      | Inr b \<Rightarrow> Inr (b \<and> get_prop result (js ''mfa_required'') = Bool True))"

definition verifyMfa_request :: "'w api_env \<Rightarrow> jval \<Rightarrow> jstring \<Rightarrow> ('w, jval) io" where
  "verifyMfa_request env mfaToken code =
     post_untokened env ''/api/v1/auth/mfa/verify'' [(''mfa_token'', mfaToken), (''code'', Str code)]"

definition refresh_request :: "'w api_env \<Rightarrow> jstring \<Rightarrow> ('w, jval) io" where
  "refresh_request env refreshToken =
     post_untokened env ''/api/v1/auth/refresh'' [(''refresh_token'', Str refreshToken)]"

definition fetchCurrentUser :: "'w api_env \<Rightarrow> ('w, jval) io" where
  "fetchCurrentUser env =
     apiFetch env (js ''/api/v1/users/me'') (default_options\<lparr>op_method := Some (js ''GET'')\<rparr>)"

definition fetchCapabilities :: "'w api_env \<Rightarrow> ('w, jval) io" where
  "fetchCapabilities env =
     apiFetch env (js ''/api/v1/auth/capabilities'')
       (default_options\<lparr>op_method := Some (js ''GET''), op_token := TokenGiven None\<rparr>)"

definition requestPasswordReset :: "'w api_env \<Rightarrow> jstring \<Rightarrow> ('w, jval) io" where
  "requestPasswordReset env email =
     post_untokened env ''/api/v1/auth/forgot-password'' [(''email'', Str email)]"

definition resetPassword :: "'w api_env \<Rightarrow> jstring \<Rightarrow> jstring \<Rightarrow> ('w, jval) io" where
  "resetPassword env token newPassword =
     post_untokened env ''/api/v1/auth/reset-password''
       [(''token'', Str token), (''new_password'', Str newPassword)]"

definition acceptInvite :: "'w api_env \<Rightarrow> jstring \<Rightarrow> jstring \<Rightarrow> jstring \<Rightarrow> ('w, jval) io" where
  "acceptInvite env token fullName password =
     post_untokened env ''/api/v1/auth/accept-invite''
       [(''token'', Str token), (''full_name'', Str fullName), (''password'', Str password)]"

section \<open>The provider\<close>

definition endSession :: "'sv auth_world \<Rightarrow> 'sv auth_world" where
  "endSession w =
     w\<lparr>aw_doc := clearSession (aw_doc w), aw_user := None, aw_status := Unauthenticated\<rparr>"

text \<open>\<open>persistSession\<close> on a response: a missing token is written as its string conversion.\<close>

definition persist_io :: "'sv platform \<Rightarrow> jval \<Rightarrow> ('sv auth_world, unit) io" where
  "persist_io pf tokens w =
     (case (member tokens (js ''access_token''), member tokens (js ''refresh_token'')) of
        (Inr a, Inr r) \<Rightarrow>
          (case persistSession (pf_https pf)
                  \<lparr>access_token = js_String a, refresh_token = js_String r\<rparr> (aw_doc w) of
             (res, doc) \<Rightarrow> (res, w\<lparr>aw_doc := doc\<rparr>))
      | (Inl e, _) \<Rightarrow> (Inl e, w)
      | (_, Inl e) \<Rightarrow> (Inl e, w))"

text \<open>The guarded part of the refresher: the exchange, the new cookies, the new access token.\<close>

definition refresh_attempt :: "'sv platform \<Rightarrow> jstring \<Rightarrow> ('sv auth_world, jstring option) io" where
  "refresh_attempt pf refreshToken =
     bind_io (refresh_request (base_env pf) refreshToken) (\<lambda>tokens.
     bind_io (persist_io pf tokens) (\<lambda>_.
     ret_io (let a = get_prop tokens (js ''access_token'')
             in if truthy a then Some (js_String a) else None)))"

definition tokenRefresher :: "'sv platform \<Rightarrow> ('sv auth_world, jstring option) io" where
  "tokenRefresher pf w =
     (case getRefreshToken (aw_doc w) of
        Inl e \<Rightarrow> (Inl e, w)
      | Inr None \<Rightarrow> (Inr None, endSession w)
      | Inr (Some refreshToken) \<Rightarrow>
          if refreshToken = [] then (Inr None, endSession w)
          else catch_io (refresh_attempt pf refreshToken) (\<lambda>_ w'. (Inr None, endSession w')) w)"

definition client_env :: "'sv platform \<Rightarrow> 'sv auth_world api_env" where
  "client_env pf = setTokenRefresher (Some (tokenRefresher pf)) (base_env pf)"

text \<open>The hydrating effect; \<open>active\<close> is false once the provider has been unmounted.\<close>

definition hydrate :: "'sv platform \<Rightarrow> bool \<Rightarrow> 'sv auth_world \<Rightarrow> 'sv auth_world" where
  "hydrate pf active w =
     (case hasSession (aw_doc w) of
        Inl e \<Rightarrow> w
      | Inr False \<Rightarrow> if active then w\<lparr>aw_status := Unauthenticated\<rparr> else w
      | Inr True \<Rightarrow>
          (case fetchCurrentUser (client_env pf) w of
             (Inr me, w') \<Rightarrow>
               if active then w'\<lparr>aw_user := Some me, aw_status := Authenticated\<rparr> else w'
           | (Inl e, w') \<Rightarrow> if active then endSession w' else w'))"

text \<open>\<open>rememberAccount(me)\<close>: the address must be a string to be trimmed.\<close>

definition remember_io :: "'sv platform \<Rightarrow> jval \<Rightarrow> ('sv auth_world, unit) io" where
  "remember_io pf me w =
     (case get_prop me (js ''email'') of
        Str email \<Rightarrow>
          (Inr (), w\<lparr>aw_storage :=
             rememberAccount (pf_parse pf) (pf_stringify pf) (pf_now pf) email
               (string_or_empty (get_prop me (js ''full_name''))) (aw_storage w)\<rparr>)
      | _ \<Rightarrow> (Inl (ThrownError (js ''trim is not a function'')), w))"

definition finishLogin :: "'sv platform \<Rightarrow> jval \<Rightarrow> ('sv auth_world, unit) io" where
  "finishLogin pf tokens =
     bind_io (persist_io pf tokens) (\<lambda>_.
     bind_io (fetchCurrentUser (client_env pf)) (\<lambda>me.
     bind_io (modify_io (\<lambda>w. w\<lparr>aw_user := Some me, aw_status := Authenticated\<rparr>)) (\<lambda>_.
     remember_io pf me)))"

record mfaChallenge =
  mc_mfaToken :: jval
  mc_methods :: jval

definition login :: "'sv platform \<Rightarrow> jstring \<Rightarrow> jstring \<Rightarrow> ('sv auth_world, mfaChallenge option) io" where
  "login pf email password =
     bind_io (login_request (client_env pf) email password) (\<lambda>result.
     bind_io (lift_io (isMfaRequired result)) (\<lambda>challenge.
     if challenge
     then ret_io (Some
            \<lparr>mc_mfaToken = get_prop result (js ''mfa_token''),
             mc_methods = (let m = get_prop result (js ''methods'')
                           in if m = Undef \<or> m = Null then Arr [Str (js ''totp'')] else m)\<rparr>)
     else bind_io (finishLogin pf result) (\<lambda>_. ret_io None)))"

definition verifyMfa :: "'sv platform \<Rightarrow> jval \<Rightarrow> jstring \<Rightarrow> ('sv auth_world, jval) io" where
  "verifyMfa pf mfaToken code =
     bind_io (verifyMfa_request (client_env pf) mfaToken code) (\<lambda>result.
     bind_io (finishLogin pf result) (\<lambda>_.
     ret_io (let n = get_prop result (js ''recovery_codes_remaining'')
             in if n = Undef then Null else n)))"

definition startAuthentication :: "'sv platform \<Rightarrow> jval \<Rightarrow> ('sv auth_world, jval) io" where
  "startAuthentication pf options w =
     (case pf_startAuthentication pf options (aw_server w) of (r, sv) \<Rightarrow> (r, w\<lparr>aw_server := sv\<rparr>))"

definition verifyPasskey :: "'sv platform \<Rightarrow> jval \<Rightarrow> ('sv auth_world, unit) io" where
  "verifyPasskey pf mfaToken =
     bind_io (passkeyOptions (client_env pf) mfaToken) (\<lambda>reply.
     bind_io (lift_io (member reply (js ''nonce''))) (\<lambda>nonce.
     bind_io (startAuthentication pf (get_prop reply (js ''options''))) (\<lambda>credential.
     bind_io (passkeyVerify (client_env pf) mfaToken nonce credential) (\<lambda>tokens.
     finishLogin pf tokens))))"

definition logout :: "'sv auth_world \<Rightarrow> 'sv auth_world" where
  "logout w = (endSession w)\<lparr>aw_route := Some LOGIN_ROUTE\<rparr>"

definition refreshUser :: "'sv platform \<Rightarrow> ('sv auth_world, unit) io" where
  "refreshUser pf =
     bind_io (fetchCurrentUser (client_env pf)) (\<lambda>me. modify_io (\<lambda>w. w\<lparr>aw_user := Some me\<rparr>))"

section \<open>What the actions keep\<close>

lemma keeps_client_env:
  assumes "\<And>w sv. view (w\<lparr>aw_server := sv\<rparr>) = view w"
    and "\<And>f. env_tokenRefresher env = Some f \<Longrightarrow> keeps view f"
    and "env_fetch env = env_fetch (base_env pf)"
  shows "keeps view (apiFetch env path opts)"
proof (rule keeps_apiFetch)
  show "keeps view (env_fetch env rq)" for rq
    using assms(1) by (simp add: assms(3) keeps_def base_env_def setAuthTokenProvider_def split: prod.splits)
qed (rule assms(2))

lemma env_facts [simp]:
  "env_tokenRefresher (base_env pf) = None"
  "env_tokenRefresher (client_env pf) = Some (tokenRefresher pf)"
  "env_fetch (client_env pf) = env_fetch (base_env pf)"
  by (simp_all add: base_env_def client_env_def setAuthTokenProvider_def setTokenRefresher_def)

lemma client_base [simp]:
  "send (client_env pf) = send (base_env pf)"
  "finish_fetch (client_env pf) = finish_fetch (base_env pf)"
  by (simp_all add: fun_eq_iff send_def mk_request_def finish_fetch_def client_env_def
      setTokenRefresher_def base_env_def setAuthTokenProvider_def)

lemma untokened_refresher:
  "post_untokened (client_env pf) path body = post_untokened (base_env pf) path body"
  by (auto simp: post_untokened_def fun_eq_iff apiFetch_given split: prod.splits sum.splits)

text \<open>A call without a session token changes nothing but the backend.\<close>

lemma keeps_untokened [keeps_intros]:
  assumes "\<And>w sv. view (w\<lparr>aw_server := sv\<rparr>) = view w"
  shows "keeps view (post_untokened (client_env pf) path body)"
  unfolding untokened_refresher unfolding post_untokened_def
  by (rule keeps_client_env [where pf = pf]) (use assms in auto)

lemma aw_storage_endSession [simp]: "aw_storage (endSession w) = aw_storage w"
  by (simp add: endSession_def)

lemma keeps_storage_persist [keeps_intros]: "keeps aw_storage (persist_io pf tokens)"
  by (simp add: keeps_def persist_io_def split: sum.splits prod.splits)

lemma keeps_storage_refresher: "keeps aw_storage (tokenRefresher pf)"
proof -
  have "keeps aw_storage (refresh_request (base_env pf) t)" for t
    by (simp add: refresh_request_def keeps_untokened flip: untokened_refresher)
  then have "keeps aw_storage (catch_io (refresh_attempt pf t) (\<lambda>_ w'. (Inr None, endSession w')))" for t
    unfolding refresh_attempt_def by (intro keeps_intros) (simp_all add: keeps_def)
  then show ?thesis
    by (auto simp: keeps_def tokenRefresher_def split: sum.splits option.splits)
qed

lemma keeps_storage_user [keeps_intros]: "keeps aw_storage (fetchCurrentUser (client_env pf))"
  unfolding fetchCurrentUser_def
  by (rule keeps_client_env [where pf = pf]) (auto simp: keeps_storage_refresher)

section \<open>The refresher\<close>

text \<open>Nobody is signed in and no session cookie is left.\<close>

definition signed_out :: "'sv auth_world \<Rightarrow> bool" where
  "signed_out w \<longleftrightarrow>
     aw_user w = None \<and> aw_status w = Unauthenticated \<and> hasSession (aw_doc w) = Inr False"

lemma signed_out_endSession:
  assumes "aw_doc w = Some j" and "jar_ok j"
  shows "signed_out (endSession w)"
  using assms by (simp add: signed_out_def endSession_def hasSession_clear)

lemma writeCookie_jar_ok:
  assumes "writeCookie https n v (Some j) = Inr d" and "jar_ok j" and "59 \<notin> set n" and "61 \<notin> set n"
  shows "\<exists>j'. d = Some j' \<and> jar_ok j'"
proof -
  from assms(1) have "well_formed v"
    by (auto simp: writeCookie_def encode_well_formed split: option.splits)
  with assms show ?thesis by (elim writeCookie_ok [of j v n https]) auto
qed

text \<open>What persisting leaves: a jar the browser keeps, and after success the two tokens in it.\<close>

lemma persist_io_outcome:
  assumes "aw_doc w = Some j" and "jar_ok j" and "persist_io pf tokens w = (r, w')"
  obtains j' where "aw_doc w' = Some j'" "jar_ok j'" "aw_user w' = aw_user w" "aw_status w' = aw_status w"
    "aw_storage w' = aw_storage w"
    "r = Inr () \<Longrightarrow> getAccessToken (Some j') = Inr (Some (js_String (get_prop tokens (js ''access_token'')))) \<and>
       getRefreshToken (Some j') = Inr (Some (js_String (get_prop tokens (js ''refresh_token''))))"
proof (cases "tokens = Undef \<or> tokens = Null")
  case True
  with assms show ?thesis by (intro that [of j]) (auto simp: persist_io_def member_def)
next
  case False
  let ?t = "\<lparr>access_token = js_String (get_prop tokens (js ''access_token'')),
             refresh_token = js_String (get_prop tokens (js ''refresh_token''))\<rparr>"
  obtain res doc where p: "persistSession (pf_https pf) ?t (Some j) = (res, doc)" by force
  with False assms have r: "r = res" "w' = w\<lparr>aw_doc := doc\<rparr>"
    by (auto simp: persist_io_def member_def)
  have "\<exists>j'. doc = Some j' \<and> jar_ok j'"
    using p assms(2)
    by (auto simp: persistSession_def split: sum.splits dest!: writeCookie_jar_ok)
  then obtain j' where j': "doc = Some j'" "jar_ok j'" by blast
  show ?thesis
  proof (rule that [of j'])
    assume "r = Inr ()"
    with p r have wf: "well_formed (access_token ?t)" "well_formed (refresh_token ?t)"
      by (auto simp: persistSession_def writeCookie_def split: sum.splits option.splits
          dest: encode_well_formed)
    show "getAccessToken (Some j') = Inr (Some (js_String (get_prop tokens (js ''access_token'')))) \<and>
       getRefreshToken (Some j') = Inr (Some (js_String (get_prop tokens (js ''refresh_token''))))"
      using persisted_tokens [OF assms(2) wf, of "pf_https pf"] p j' by simp
  qed (use r j' in simp_all)
qed

lemma untokened_server_only:
  assumes "post_untokened (client_env pf) path body w = (r, w')"
  shows "w' = w\<lparr>aw_server := aw_server w'\<rparr>"
proof -
  have "keeps (\<lambda>w. w\<lparr>aw_server := aw_server w0\<rparr>) (post_untokened (client_env pf) path body)"
    for w0 :: "'a auth_world"
    by (rule keeps_untokened) simp
  from keepsD [OF this assms, of w'] show ?thesis by simp
qed

lemma server_only_storage: "w' = w\<lparr>aw_server := sv\<rparr> \<Longrightarrow> aw_storage w' = aw_storage w"
  by simp

lemma refresh_server_only:
  "refresh_request (base_env pf) t w = (r, w') \<Longrightarrow> w' = w\<lparr>aw_server := aw_server w'\<rparr>"
  using untokened_server_only by (simp add: refresh_request_def flip: untokened_refresher)

lemma refresh_attempt_outcome:
  assumes "aw_doc w = Some j" and "jar_ok j" and "refresh_attempt pf rt w = (r, w')"
  obtains (failed) e j' where "r = Inl e" "aw_doc w' = Some j'" "jar_ok j'"
  | (renewed) tokens w1 where "refresh_request (base_env pf) rt w = (Inr tokens, w1)"
      "r = Inr (let a = get_prop tokens (js ''access_token'') in if truthy a then Some (js_String a) else None)"
      "getAccessToken (aw_doc w') = Inr (Some (js_String (get_prop tokens (js ''access_token''))))"
      "getRefreshToken (aw_doc w') = Inr (Some (js_String (get_prop tokens (js ''refresh_token''))))"
      "aw_user w' = aw_user w" "aw_status w' = aw_status w"
proof -
  obtain r1 w1 where 1: "refresh_request (base_env pf) rt w = (r1, w1)" by force
  from refresh_server_only [OF 1] have "aw_doc w1 = aw_doc w" "aw_user w1 = aw_user w" "aw_status w1 = aw_status w"
    by (metis auth_world.select_convs(1,3,4) auth_world.surjective auth_world.update_convs(6))+
  note w1 = this
  show ?thesis
  proof (cases r1)
    case (Inl e)
    with assms 1 w1 show ?thesis by (intro failed [of e j]) (auto simp: refresh_attempt_def bind_io_def)
  next
    case (Inr tokens)
    obtain r2 w2 where 2: "persist_io pf tokens w1 = (r2, w2)" by force
    from w1(1) assms(1) have "aw_doc w1 = Some j" by simp
    from persist_io_outcome [OF this assms(2) 2] obtain j' where
      j': "aw_doc w2 = Some j'" "jar_ok j'" "aw_user w2 = aw_user w1" "aw_status w2 = aw_status w1"
        "r2 = Inr () \<Longrightarrow> getAccessToken (Some j') = Inr (Some (js_String (get_prop tokens (js ''access_token'')))) \<and>
         getRefreshToken (Some j') = Inr (Some (js_String (get_prop tokens (js ''refresh_token''))))"
      by metis
    show ?thesis
    proof (cases r2)
      case e: (Inl e)
      with assms(3) 1 2 Inr have "r = Inl e" "w' = w2" by (auto simp: refresh_attempt_def bind_io_def)
      with j' show ?thesis by (intro failed) auto
    next
      case u: (Inr u)
      with assms(3) 1 2 Inr have "w' = w2"
        "r = Inr (let a = get_prop tokens (js ''access_token'') in if truthy a then Some (js_String a) else None)"
        by (auto simp: refresh_attempt_def bind_io_def ret_io_def)
      with j' u w1 1 Inr show ?thesis by (intro renewed [of tokens w1]) auto
    qed
  qed
qed

section \<open>Properties\<close>

text \<open>
  C7. The refresher ends in one of three ways. It throws only when the stored refresh cookie
  does not decode, and then the page is as it was. It returns the access token of the backend's
  answer (or null when that answer has none), and then both cookies read back as the tokens of
  the answer and the user stays signed in. Otherwise it returns null with the session torn
  down: no cookie, no user, status unauthenticated.
\<close>

theorem tokenRefresher_outcome:
  assumes "aw_doc w = Some j" and "jar_ok j"
  shows "let (r, w') = tokenRefresher pf w in
      (\<exists>e. r = Inl e \<and> w' = w \<and> getRefreshToken (aw_doc w) = Inl e) \<or>
      (\<exists>rt tokens w1. getRefreshToken (aw_doc w) = Inr (Some rt) \<and>
         refresh_request (base_env pf) rt w = (Inr tokens, w1) \<and>
         getAccessToken (aw_doc w') = Inr (Some (js_String (get_prop tokens (js ''access_token'')))) \<and>
         getRefreshToken (aw_doc w') = Inr (Some (js_String (get_prop tokens (js ''refresh_token'')))) \<and>
         aw_user w' = aw_user w \<and> aw_status w' = aw_status w \<and>
         r = Inr (if truthy (get_prop tokens (js ''access_token''))
                  then Some (js_String (get_prop tokens (js ''access_token''))) else None)) \<or>
      r = Inr None \<and> signed_out w'"
proof (cases "getRefreshToken (aw_doc w)")
  case (Inl e)
  then show ?thesis by (simp add: tokenRefresher_def)
next
  case (Inr t)
  show ?thesis
  proof (cases "t = None \<or> t = Some []")
    case True
    with Inr signed_out_endSession [OF assms] show ?thesis by (auto simp: tokenRefresher_def)
  next
    case False
    then obtain rt where rt: "t = Some rt" "rt \<noteq> []" by auto
    obtain r w' where a: "refresh_attempt pf rt w = (r, w')" by force
    from assms a show ?thesis
    proof (cases rule: refresh_attempt_outcome)
      case (failed e j')
      with a rt Inr have "tokenRefresher pf w = (Inr None, endSession w')"
        by (simp add: tokenRefresher_def catch_io_def)
      with signed_out_endSession [OF failed(2,3)] show ?thesis by simp
    next
      case (renewed tokens w1)
      with a rt Inr have "tokenRefresher pf w = (r, w')"
        by (simp add: tokenRefresher_def catch_io_def)
      with renewed rt Inr show ?thesis by (simp add: Let_def)
    qed
  qed
qed

text \<open>A backend that refuses every refresh, and a page that holds a session.\<close>

definition demo_platform :: "unit platform" where
  "demo_platform =
     \<lparr>pf_base = js ''http://localhost:8000'', pf_https = True,
      pf_fetch = (\<lambda>rq sv. (Inr \<lparr>rs_status = 401, rs_contentType = None, rs_text = []\<rparr>, sv)),
      pf_parse = demo_parse, pf_stringify = demo_stringify, pf_now = js ''t'',
      pf_startAuthentication = (\<lambda>opts sv. (Inr Undef, sv))\<rparr>"

definition demo_jar :: jar where
  "demo_jar = [(SESSION_COOKIE, js ''a''), (REFRESH_COOKIE, js ''r'')]"

definition demo_world :: "unit auth_world" where
  "demo_world =
     \<lparr>aw_doc = Some demo_jar,
      aw_storage = \<lparr>ls_blocked = False, ls_full = False, ls_items = Map.empty\<rparr>,
      aw_user = Some (Obj []), aw_status = Authenticated, aw_route = None, aw_server = ()\<rparr>"

lemma demo_jar_ok: "jar_ok demo_jar"
  by (simp add: jar_ok_def demo_jar_def SESSION_COOKIE_def REFRESH_COOKIE_def) (simp add: js_def)

lemma demo_refresh_token: "getRefreshToken (aw_doc demo_world) = Inr (Some (js ''r''))"
  using readCookie_jar [OF demo_jar_ok, of REFRESH_COOKIE]
  by (simp add: getRefreshToken_def demo_world_def)
    (simp add: demo_jar_def decoded_def js_def unreserved_def char_class_defs)

lemma demo_refused: "\<exists>e. refresh_request (base_env demo_platform) rt w = (Inl e, w)"
  by (simp add: refresh_request_def post_untokened_def apiFetch_given send_def base_env_def
      setAuthTokenProvider_def demo_platform_def finish_fetch_def parseBody_def response_ok_def)

theorem tokenRefresher_outcome_witness:
  "\<exists>w'. tokenRefresher demo_platform demo_world = (Inr None, w') \<and> signed_out w'"
proof -
  have "aw_doc demo_world = Some demo_jar" by (simp add: demo_world_def)
  note out = tokenRefresher_outcome [OF this demo_jar_ok, of demo_platform]
  obtain r w' where r: "tokenRefresher demo_platform demo_world = (r, w')" by force
  obtain e where "refresh_request (base_env demo_platform) (js ''r'') demo_world = (Inl e, demo_world)"
    using demo_refused by blast
  with out r demo_refresh_token show ?thesis by (simp add: Let_def)
qed

text \<open>Signing in: what \<open>finishLogin\<close> leaves when it returns, and that a failure remembers nothing.\<close>

definition remembered :: "'sv platform \<Rightarrow> 'sv auth_world \<Rightarrow> 'sv auth_world \<Rightarrow> bool" where
  "remembered pf w w' \<longleftrightarrow>
     aw_status w' = Authenticated \<and>
     (\<exists>me email. aw_user w' = Some me \<and> get_prop me (js ''email'') = Str email \<and>
        aw_storage w' = rememberAccount (pf_parse pf) (pf_stringify pf) (pf_now pf) email
          (string_or_empty (get_prop me (js ''full_name''))) (aw_storage w))"

lemma remember_io_outcome:
  "remember_io pf me (w\<lparr>aw_user := Some me, aw_status := Authenticated\<rparr>) = (Inr u, w') \<Longrightarrow>
   aw_storage w = aw_storage w0 \<Longrightarrow> remembered pf w0 w'"
  "remember_io pf me (w\<lparr>aw_user := Some me, aw_status := Authenticated\<rparr>) = (Inl e, w') \<Longrightarrow>
   aw_storage w' = aw_storage w"
  by (auto simp: remember_io_def remembered_def split: jval.splits)

lemma remembered_cong: "aw_storage w0 = aw_storage w \<Longrightarrow> remembered pf w0 w' = remembered pf w w'"
  by (simp add: remembered_def)

definition signs_in :: "'sv platform \<Rightarrow> ('sv auth_world, 'a) io \<Rightarrow> bool" where
  "signs_in pf m \<longleftrightarrow>
     (\<forall>w. case m w of
            (Inl e, w') \<Rightarrow> aw_storage w' = aw_storage w
          | (Inr _, w') \<Rightarrow> remembered pf w w')"

lemma signs_inD:
  "signs_in pf m \<Longrightarrow> m w = (Inl e, w') \<Longrightarrow> aw_storage w = aw_storage w0 \<Longrightarrow> aw_storage w' = aw_storage w0"
  "signs_in pf m \<Longrightarrow> m w = (Inr x, w') \<Longrightarrow> aw_storage w = aw_storage w0 \<Longrightarrow> remembered pf w0 w'"
  using remembered_cong [of w w0]
  by (force simp: signs_in_def split: prod.splits sum.splits)+

lemma signs_in_finishLogin: "signs_in pf (finishLogin pf tokens)"
proof -
  have "keeps aw_storage (bind_io (persist_io pf tokens) (\<lambda>_. fetchCurrentUser (client_env pf)))"
    by (intro keeps_intros)
  note s = keepsD [OF this]
  have "finishLogin pf tokens =
    bind_io (bind_io (persist_io pf tokens) (\<lambda>_. fetchCurrentUser (client_env pf))) (\<lambda>me.
    bind_io (modify_io (\<lambda>w. w\<lparr>aw_user := Some me, aw_status := Authenticated\<rparr>)) (\<lambda>_. remember_io pf me))"
    by (simp add: finishLogin_def bind_io_assoc)
  then show ?thesis
    unfolding signs_in_def bind_io_def [of "bind_io a b" for a b]
    by (auto simp: bind_io_def [of "modify_io f" for f] modify_io_def
        split: sum.splits prod.splits dest!: s elim: remember_io_outcome)
      (auto dest: remember_io_outcome(2))
qed

lemma signs_in_after:
  assumes "keeps aw_storage m" and "\<And>x. signs_in pf (f x)"
  shows "signs_in pf (bind_io m f)"
  unfolding signs_in_def
proof
  fix w
  obtain r w' where m: "m w = (r, w')" by force
  note s = keepsD [OF assms(1) m]
  show "case bind_io m f w of
      (Inl e, w') \<Rightarrow> aw_storage w' = aw_storage w | (Inr _, w') \<Rightarrow> remembered pf w w'"
  proof (cases r)
    case (Inr x)
    obtain r2 w2 where f: "f x w' = (r2, w2)" by force
    from signs_inD [OF assms(2), of x w' _ w2 w] s f
    have "case r2 of Inl e \<Rightarrow> aw_storage w2 = aw_storage w | Inr _ \<Rightarrow> remembered pf w w2"
      by (auto split: sum.splits)
    with m Inr f show ?thesis by (simp add: bind_io_def split: sum.splits)
  qed (use m s in \<open>simp add: bind_io_def\<close>)
qed

lemma signs_in_ret: "signs_in pf m \<Longrightarrow> signs_in pf (bind_io m (\<lambda>x. ret_io (g x)))"
  by (auto simp: signs_in_def bind_io_def ret_io_def split: prod.splits sum.splits) force+

lemma keeps_startAuthentication [keeps_intros]: "keeps aw_storage (startAuthentication pf options)"
  by (simp add: keeps_def startAuthentication_def split: prod.splits)

lemma login_outcome:
  "case login pf email password w of
      (Inl e, w') \<Rightarrow> aw_storage w' = aw_storage w
    | (Inr (Some c), w') \<Rightarrow> w' = w\<lparr>aw_server := aw_server w'\<rparr>
    | (Inr None, w') \<Rightarrow> remembered pf w w'"
proof -
  obtain r1 w1 where 1: "login_request (client_env pf) email password w = (r1, w1)" by force
  have w1: "w1 = w\<lparr>aw_server := aw_server w1\<rparr>"
    using 1 unfolding login_request_def by (rule untokened_server_only)
  then have s1: "aw_storage w1 = aw_storage w"
    by (rule server_only_storage)
  show ?thesis
    using 1 s1 w1 signs_inD [OF signs_in_finishLogin [of pf], of _ w1 _ _ w]
    by (auto simp: login_def bind_io_def lift_io_def ret_io_def
        split: sum.splits prod.splits option.splits)
qed

lemma second_factor_outcome: "signs_in pf (verifyMfa pf t code)" "signs_in pf (verifyPasskey pf t)"
proof -
  show "signs_in pf (verifyMfa pf t code)"
    unfolding verifyMfa_def verifyMfa_request_def
    by (intro signs_in_after signs_in_ret signs_in_finishLogin keeps_intros) simp
  show "signs_in pf (verifyPasskey pf t)"
    unfolding verifyPasskey_def passkeyOptions_def passkeyVerify_def
    by (intro signs_in_after signs_in_finishLogin keeps_intros) simp_all
qed

text \<open>
  C8. What a sign-in attempt leaves on the browser. An attempt that throws leaves the remembered
  accounts as they were; a challenge for a second factor changes nothing on the page at all;
  and an attempt that returns has the user signed in and the account the backend named
  remembered. The second-factor and passkey paths end the same way.
\<close>

theorem login_trace:
  "(case login pf email password w of
      (Inl e, w') \<Rightarrow> aw_storage w' = aw_storage w
    | (Inr (Some c), w') \<Rightarrow> w' = w\<lparr>aw_server := aw_server w'\<rparr>
    | (Inr None, w') \<Rightarrow> remembered pf w w') \<and>
   (case verifyMfa pf t code w of
      (Inl e, w') \<Rightarrow> aw_storage w' = aw_storage w
    | (Inr n, w') \<Rightarrow> remembered pf w w') \<and>
   (case verifyPasskey pf t w of
      (Inl e, w') \<Rightarrow> aw_storage w' = aw_storage w
    | (Inr n, w') \<Rightarrow> remembered pf w w')"
  using login_outcome [where pf = pf and email = email and password = password and w = w] second_factor_outcome [of pf]
  by (simp add: signs_in_def)

section \<open>The provider as a machine\<close>

text \<open>
  What happens to the page: the mount effect, the provider's operations, and any call through
  the client by the pages, which may refresh the session or end it.
\<close>

datatype authEvent =
    Hydrate bool
  | Login jstring jstring
  | VerifyMfa jval jstring
  | VerifyPasskey jval
  | Logout
  | RefreshUser
  | ApiCall jstring apiRequestOptions

primrec auth_step :: "'sv platform \<Rightarrow> 'sv auth_world \<Rightarrow> authEvent \<Rightarrow> 'sv auth_world" where
  "auth_step pf w (Hydrate active) = hydrate pf active w"
| "auth_step pf w (Login email password) = snd (login pf email password w)"
| "auth_step pf w (VerifyMfa t code) = snd (verifyMfa pf t code w)"
| "auth_step pf w (VerifyPasskey t) = snd (verifyPasskey pf t w)"
| "auth_step pf w Logout = logout w"
| "auth_step pf w RefreshUser = snd (refreshUser pf w)"
| "auth_step pf w (ApiCall path opts) = snd (apiFetch (client_env pf) path opts w)"

text \<open>A browser page whose shell is shown only with a user.\<close>

definition auth_inv :: "'sv auth_world \<Rightarrow> bool" where
  "auth_inv w \<longleftrightarrow>
     (\<exists>j. aw_doc w = Some j \<and> jar_ok j) \<and> (aw_status w = Authenticated \<longrightarrow> aw_user w \<noteq> None)"

lemma auth_inv_endSession [form_invs]: "auth_inv w \<Longrightarrow> auth_inv (endSession w)"
  by (auto simp: auth_inv_def endSession_def clearSession_jar jar_ok_filter)

lemma preserves_persist [keeps_intros]: "preserves auth_inv (persist_io pf tokens)"
  unfolding preserves_def
proof (intro allI impI)
  fix w :: "'a auth_world"
  assume inv: "auth_inv w"
  then obtain j where j: "aw_doc w = Some j" "jar_ok j" by (auto simp: auth_inv_def)
  obtain r w' where p: "persist_io pf tokens w = (r, w')" by force
  from persist_io_outcome [OF j p] obtain j' where "aw_doc w' = Some j'" "jar_ok j'"
    "aw_user w' = aw_user w" "aw_status w' = aw_status w" by metis
  with inv show "auth_inv (snd (persist_io pf tokens w))" by (simp add: auth_inv_def p)
qed

lemma preserves_client:
  assumes "env = base_env pf \<or> env = client_env pf \<and> preserves auth_inv (tokenRefresher pf)"
  shows "preserves auth_inv (apiFetch env path opts)"
proof (rule preserves_apiFetch)
  show "preserves auth_inv (env_fetch env rq)" for rq
    using assms
    by (auto simp: preserves_def base_env_def setAuthTokenProvider_def auth_inv_def split: prod.splits)
  show "preserves auth_inv f" if "env_tokenRefresher env = Some f" for f
    using assms that by auto
qed

lemma preserves_refresher [keeps_intros]: "preserves auth_inv (tokenRefresher pf)"
proof -
  have "preserves auth_inv (catch_io (refresh_attempt pf t) (\<lambda>_ w'. (Inr None, endSession w')))" for t
    unfolding refresh_attempt_def refresh_request_def post_untokened_def
    by (intro keeps_intros preserves_client [where pf = pf]) (simp_all add: preserves_def auth_inv_endSession)
  then show ?thesis
    by (auto simp: preserves_def tokenRefresher_def auth_inv_endSession split: sum.splits option.splits)
qed

lemmas preserves_apiFetch_client [keeps_intros] =
  preserves_client [OF disjI2, OF conjI, OF refl preserves_refresher]

lemma preserves_remember [keeps_intros]:
  "preserves auth_inv (remember_io pf me)" "preserves auth_inv (startAuthentication pf options)"
  by (auto simp: preserves_def remember_io_def startAuthentication_def auth_inv_def
      split: jval.splits prod.splits)

lemma preserves_finishLogin [keeps_intros]: "preserves auth_inv (finishLogin pf tokens)"
  unfolding finishLogin_def fetchCurrentUser_def
  by (intro keeps_intros) (simp add: auth_inv_def)

lemma auth_inv_server [simp]: "auth_inv (w\<lparr>aw_route := r\<rparr>) = auth_inv w"
  by (simp add: auth_inv_def)

lemma auth_inv_hydrate [form_invs]: "auth_inv w \<Longrightarrow> auth_inv (hydrate pf active w)"
  unfolding hydrate_def fetchCurrentUser_def
  by (auto split: sum.splits bool.splits prod.splits
      dest!: preservesD [OF preserves_apiFetch_client] intro: auth_inv_endSession)
    (auto simp: auth_inv_def)

lemma auth_step_inv [form_invs]: "auth_inv w \<Longrightarrow> auth_inv (auth_step pf w e)"
proof (cases e)
  case (Login email password)
  have "preserves auth_inv (login pf email password)"
    unfolding login_def login_request_def post_untokened_def
    by (intro keeps_intros)
  with Login show "auth_inv w \<Longrightarrow> ?thesis" by (simp add: preserves_def)
next
  case (VerifyMfa t code)
  have "preserves auth_inv (verifyMfa pf t code)"
    unfolding verifyMfa_def verifyMfa_request_def post_untokened_def by (intro keeps_intros)
  with VerifyMfa show "auth_inv w \<Longrightarrow> ?thesis" by (simp add: preserves_def)
next
  case (VerifyPasskey t)
  have "preserves auth_inv (verifyPasskey pf t)"
    unfolding verifyPasskey_def passkeyOptions_def passkeyVerify_def post_untokened_def
    by (intro keeps_intros)
  with VerifyPasskey show "auth_inv w \<Longrightarrow> ?thesis" by (simp add: preserves_def)
next
  case RefreshUser
  have "preserves auth_inv (refreshUser pf)"
    unfolding refreshUser_def fetchCurrentUser_def by (intro keeps_intros) (simp add: auth_inv_def)
  with RefreshUser show "auth_inv w \<Longrightarrow> ?thesis" by (simp add: preserves_def)
next
  case (ApiCall path opts)
  with preserves_apiFetch_client [of pf path opts] show "auth_inv w \<Longrightarrow> ?thesis"
    by (simp add: preserves_def)
qed (simp_all add: auth_inv_hydrate logout_def auth_inv_endSession)

interpretation provider: machine "auth_step pf" auth_inv for pf
  by unfold_locales (rule auth_step_inv)



end
