(* ===== verification/Login_Form.thy ===== *)
theory Login_Form
  imports Auth_Context
begin

text \<open>
  The sign-in form (\<^verbatim>\<open>components/login-form.tsx\<close>) and the classification of passkey failures
  (\<^verbatim>\<open>lib/auth/webauthn.ts\<close>). The form's state is a record, its handlers act on the form and on
  the page of \<open>Auth_Context\<close>; focus calls and timers are left out.
\<close>

section \<open>Passkey failures\<close>

datatype webAuthnFailure = Cancelled | Origin | Unsupported | OtherFailure

definition ORIGIN_MISMATCH_MESSAGE :: jstring where
  "ORIGIN_MISMATCH_MESSAGE =
     js ''This page'' @ [39] @
     js ''s address does not match the app URL in Settings, so passkeys cannot be used here.''"

definition nameOf :: "jval \<Rightarrow> jstring option" where
  "nameOf err =
     (if \<not> truthy err \<or> \<not> is_object err then None
      else let cause = get_prop err (js ''cause'')
           in if truthy cause \<and> is_object cause \<and> has_prop cause (js ''name'')
              then Some (js_String (get_prop cause (js ''name'')))
              else if has_prop err (js ''name'')
              then Some (js_String (get_prop err (js ''name''))) else None)"

definition classifyWebAuthnError :: "jval \<Rightarrow> webAuthnFailure" where
  "classifyWebAuthnError err =
     (let code = (if truthy err \<and> is_object err then get_prop err (js ''code'') else Undef);
          name = nameOf err
      in if code = Str (js ''ERROR_CEREMONY_ABORTED'') \<or> name = Some (js ''NotAllowedError'') \<or>
            name = Some (js ''AbortError'') then Cancelled
         else if code = Str (js ''ERROR_INVALID_DOMAIN'') \<or> code = Str (js ''ERROR_INVALID_RP_ID'') \<or>
            name = Some (js ''SecurityError'') then Origin
         else if name = Some (js ''NotSupportedError'') then Unsupported
         else OtherFailure)"

text \<open>A caught value that is not an \<open>ApiError\<close>, as the classifier sees it.\<close>

fun thrown_value :: "thrown \<Rightarrow> jval" where
  "thrown_value (ThrownOther v) = v"
| "thrown_value (ThrownError m) = Obj [(js ''name'', Str (js ''Error'')), (js ''message'', Str m)]"
| "thrown_value (ThrownApi e) = Obj [(js ''name'', Str (js ''ApiError''))]"

section \<open>The form\<close>

record login_form =
  lf_email :: jstring
  lf_password :: jstring
  lf_error :: "jstring option"
  lf_submitting :: bool
  lf_mfaToken :: jval
  lf_mfaMethods :: jval
  lf_code :: jstring
  lf_useRecovery :: bool
  lf_accounts :: "recentAccount list"
  lf_canReset :: bool
  lf_toasts :: "jstring list"

definition initial_form :: login_form where
  "initial_form =
     \<lparr>lf_email = [], lf_password = [], lf_error = None, lf_submitting = False, lf_mfaToken = Null,
      lf_mfaMethods = Arr [], lf_code = [], lf_useRecovery = False, lf_accounts = [],
      lf_canReset = False, lf_toasts = []\<rparr>"

text \<open>The post-mount pass over the remembered accounts, and the answer about password resets.\<close>

definition mount :: "'sv platform \<Rightarrow> 'sv auth_world \<Rightarrow> login_form \<Rightarrow> login_form" where
  "mount pf w f =
     (case readAccounts (pf_parse pf) (aw_storage w) of
        [] \<Rightarrow> f
      | a # rest \<Rightarrow> f\<lparr>lf_accounts := a # rest, lf_email := ra_email a\<rparr>)"

definition loadCapabilities ::
  "'sv platform \<Rightarrow> bool \<Rightarrow> login_form \<Rightarrow> 'sv auth_world \<Rightarrow> login_form \<times> 'sv auth_world" where
  "loadCapabilities pf active f w =
     (case fetchCapabilities (client_env pf) w of
        (Inr caps, w') \<Rightarrow>
          (if active \<and> caps \<noteq> Undef \<and> caps \<noteq> Null
           then f\<lparr>lf_canReset := truthy (get_prop caps (js ''password_reset''))\<rparr> else f, w')
      | (Inl e, w') \<Rightarrow> (f, w'))"

definition selectAccount :: "recentAccount \<Rightarrow> login_form \<Rightarrow> login_form" where
  "selectAccount account f = f\<lparr>lf_email := ra_email account, lf_error := None\<rparr>"

definition useAnotherAccount :: "login_form \<Rightarrow> login_form" where
  "useAnotherAccount f = f\<lparr>lf_email := [], lf_error := None\<rparr>"

definition removeAccount ::
  "'sv platform \<Rightarrow> jstring \<Rightarrow> login_form \<Rightarrow> 'sv auth_world \<Rightarrow> login_form \<times> 'sv auth_world" where
  "removeAccount pf target f w =
     (let st = forgetAccount (pf_parse pf) (pf_stringify pf) target (aw_storage w);
          f1 = f\<lparr>lf_accounts := readAccounts (pf_parse pf) st\<rparr>
      in (if lf_email f = target then f1\<lparr>lf_email := []\<rparr> else f1, w\<lparr>aw_storage := st\<rparr>))"

definition GENERIC_MESSAGE :: jstring where
  "GENERIC_MESSAGE = js ''Something went wrong. Please try again.''"

text \<open>The message of a refusal: one status has a text of its own, another is the backend's detail.\<close>

definition refusal_text :: "int \<Rightarrow> jstring \<Rightarrow> thrown \<Rightarrow> jstring" where
  "refusal_text status text err =
     (case err of
        ThrownApi e \<Rightarrow> if ae_status e = status then text else detail e
      | _ \<Rightarrow> GENERIC_MESSAGE)"

definition onSubmit ::
  "'sv platform \<Rightarrow> jstring option \<Rightarrow> login_form \<Rightarrow> 'sv auth_world \<Rightarrow> login_form \<times> 'sv auth_world" where
  "onSubmit pf next_param f w =
     (let f1 = f\<lparr>lf_error := None, lf_submitting := True\<rparr>
      in case login pf (lf_email f) (lf_password f) w of
           (Inr (Some challenge), w') \<Rightarrow>
             (f1\<lparr>lf_mfaToken := mc_mfaToken challenge, lf_mfaMethods := mc_methods challenge,
                 lf_submitting := False\<rparr>, w')
         | (Inr None, w') \<Rightarrow> (f1, w'\<lparr>aw_route := Some (safeRedirect next_param)\<rparr>)
         | (Inl err, w') \<Rightarrow>
             (f1\<lparr>lf_error := Some (refusal_text 401 (js ''Incorrect email or password.'') err),
                 lf_submitting := False\<rparr>, w'))"

definition recovery_warning :: "jval \<Rightarrow> jstring list" where
  "recovery_warning n =
     (case n of
        Number k \<Rightarrow>
          if k \<le> 2
          then [str_int k @ js '' recovery code'' @ (if k = 1 then [] else js ''s'') @
                js '' left. Generate new ones from your profile.'']
          else []
      | _ \<Rightarrow> [])"

definition TOO_MANY_MESSAGE :: jstring where
  "TOO_MANY_MESSAGE = js ''Too many attempts. Please wait a while and try again.''"

definition onVerify ::
  "'sv platform \<Rightarrow> jstring option \<Rightarrow> login_form \<Rightarrow> 'sv auth_world \<Rightarrow> login_form \<times> 'sv auth_world" where
  "onVerify pf next_param f w =
     (if \<not> truthy (lf_mfaToken f) then (f, w)
      else let f1 = f\<lparr>lf_error := None, lf_submitting := True\<rparr>
           in case verifyMfa pf (lf_mfaToken f) (lf_code f) w of
                (Inr n, w') \<Rightarrow>
                  (f1\<lparr>lf_toasts := lf_toasts f @ recovery_warning n\<rparr>,
                   w'\<lparr>aw_route := Some (safeRedirect next_param)\<rparr>)
              | (Inl err, w') \<Rightarrow>
                  (f1\<lparr>lf_error := Some (refusal_text 429 TOO_MANY_MESSAGE err), lf_submitting := False\<rparr>, w'))"

definition cancelMfa :: "login_form \<Rightarrow> login_form" where
  "cancelMfa f =
     f\<lparr>lf_mfaToken := Null, lf_mfaMethods := Arr [], lf_code := [], lf_useRecovery := False,
       lf_error := None, lf_password := []\<rparr>"

definition passkey_error :: "thrown \<Rightarrow> jstring option" where
  "passkey_error err =
     (case err of
        ThrownApi e \<Rightarrow> Some (if ae_status e = 429 then TOO_MANY_MESSAGE else detail e)
      | _ \<Rightarrow>
          (case classifyWebAuthnError (thrown_value err) of
             Cancelled \<Rightarrow> None
           | Origin \<Rightarrow> Some ORIGIN_MISMATCH_MESSAGE
           | Unsupported \<Rightarrow> Some (js ''This browser does not support passkeys.'')
           | OtherFailure \<Rightarrow> Some (js ''The passkey could not be used. Try a code instead.'')))"

definition onPasskey ::
  "'sv platform \<Rightarrow> jstring option \<Rightarrow> login_form \<Rightarrow> 'sv auth_world \<Rightarrow> login_form \<times> 'sv auth_world" where
  "onPasskey pf next_param f w =
     (if \<not> truthy (lf_mfaToken f) then (f, w)
      else let f1 = f\<lparr>lf_error := None, lf_submitting := True\<rparr>
           in case verifyPasskey pf (lf_mfaToken f) w of
                (Inr _, w') \<Rightarrow> (f1, w'\<lparr>aw_route := Some (safeRedirect next_param)\<rparr>)
              | (Inl err, w') \<Rightarrow> (f1\<lparr>lf_error := passkey_error err, lf_submitting := False\<rparr>, w'))"

definition toggleRecovery :: "login_form \<Rightarrow> login_form" where
  "toggleRecovery f = f\<lparr>lf_useRecovery := \<not> lf_useRecovery f, lf_code := []\<rparr>"

section \<open>Properties\<close>

text \<open>The form goes on only with a signed-in user; otherwise it can be used again.\<close>

definition settled :: "jstring option \<Rightarrow> login_form \<times> 'sv auth_world \<Rightarrow> login_form \<times> 'sv auth_world \<Rightarrow> bool" where
  "settled next_param before after \<longleftrightarrow>
     (let (f', w') = after
      in if after = before then True
         else if lf_submitting f'
         then aw_status w' = Authenticated \<and> aw_user w' \<noteq> None \<and> lf_error f' = None \<and>
              aw_route w' = Some (safeRedirect next_param)
         else aw_storage w' = aw_storage (snd before))"

lemma remembered_status:
  "remembered pf w w' \<Longrightarrow> aw_status w' = Authenticated \<and> aw_user w' \<noteq> None"
  by (auto simp: remembered_def)

text \<open>
  C10. A submit of the sign-in form, of a code or of a passkey ends in one of two ways. Either a
  user is signed in, no error is shown and the browser is sent to the requested page; or the
  form can be used again and no account was remembered. A refused sign-in always shows an
  error; a dismissed passkey prompt shows none. Going back from the second factor drops the
  challenge, the code and the password.
\<close>

theorem login_form_outcome:
  "settled nxt (f, w) (onSubmit pf nxt f w) \<and>
   settled nxt (f, w) (onVerify pf nxt f w) \<and>
   settled nxt (f, w) (onPasskey pf nxt f w) \<and>
   lf_error (fst (onSubmit pf nxt f w)) =
     (case login pf (lf_email f) (lf_password f) w of
        (Inl e, _) \<Rightarrow> Some (refusal_text 401 (js ''Incorrect email or password.'') e)
      | _ \<Rightarrow> None) \<and>
   (passkey_error err = None \<longleftrightarrow>
      (\<forall>e. err \<noteq> ThrownApi e) \<and> classifyWebAuthnError (thrown_value err) = Cancelled) \<and>
   lf_password (cancelMfa f) = [] \<and> lf_code (cancelMfa f) = [] \<and> lf_mfaToken (cancelMfa f) = Null"
proof (intro conjI)
  show "settled nxt (f, w) (onSubmit pf nxt f w)"
  proof (cases "login pf (lf_email f) (lf_password f) w")
    case (Pair r w')
    with login_outcome [where pf = pf and email = "lf_email f" and password = "lf_password f" and w = w] show ?thesis
      by (auto simp: onSubmit_def settled_def Let_def split: sum.splits option.splits
          dest: remembered_status server_only_storage)
  qed
  show "settled nxt (f, w) (onVerify pf nxt f w)"
    by (auto simp: onVerify_def settled_def Let_def split: prod.splits sum.splits
        dest!: signs_inD [OF second_factor_outcome(1), OF _ refl] dest: remembered_status)
  show "settled nxt (f, w) (onPasskey pf nxt f w)"
    by (auto simp: onPasskey_def settled_def Let_def split: prod.splits sum.splits
        dest!: signs_inD [OF second_factor_outcome(2), OF _ refl] dest: remembered_status)
qed (auto simp: onSubmit_def passkey_error_def cancelMfa_def Let_def
      split: thrown.splits webAuthnFailure.splits prod.splits sum.splits option.splits)

end
