(* ===== verification/Resources.thy ===== *)
theory Resources
  imports Effects Js_Uri
begin

text \<open>
  The typed clients of the backend (\<^verbatim>\<open>lib/api/resources/*.ts\<close>): each operation of a client
  object is a constructor, and the client maps it to the endpoint it calls (verb, path, query,
  body). A path is kept as its segments, which \<open>path_text\<close> writes out; a caller's value in a
  path is an \<open>Id\<close> where the code interpolates a number. Running an endpoint goes through the
  verb helpers of \<open>Api_Client\<close>.
\<close>

section \<open>Endpoints\<close>

datatype verb = GET | POST | PUT | PATCH | DELETE

datatype seg = Lit string | Id int | Raw jstring

record endpoint =
  ep_verb :: verb
  ep_path :: "seg list"
  ep_query :: "queryValue object"
  ep_body :: jval

primrec seg_text :: "seg \<Rightarrow> jstring" where
  "seg_text (Lit s) = js s"
| "seg_text (Id i) = str_int i"
| "seg_text (Raw s) = s"

definition path_text :: "seg list \<Rightarrow> jstring" where
  "path_text segs = concat (map (\<lambda>s. 47 # seg_text s) segs)"

definition ep :: "verb \<Rightarrow> seg list \<Rightarrow> jval \<Rightarrow> endpoint" where
  "ep v segs body = \<lparr>ep_verb = v, ep_path = segs, ep_query = [], ep_body = body\<rparr>"

definition v1 :: "string \<Rightarrow> seg list" where
  "v1 name = [Lit ''api'', Lit ''v1'', Lit name]"

definition run_endpoint :: "'w api_env \<Rightarrow> endpoint \<Rightarrow> ('w, jval) io" where
  "run_endpoint env e =
     (let path = path_text (ep_path e); opts = default_options\<lparr>op_query := ep_query e\<rparr>
      in case ep_verb e of
           GET \<Rightarrow> api_get env path opts
         | POST \<Rightarrow> api_post env path (ep_body e) opts
         | PUT \<Rightarrow> api_put env path (ep_body e) opts
         | PATCH \<Rightarrow> api_patch env path (ep_body e) opts
         | DELETE \<Rightarrow> api_delete env path opts)"

definition body1 :: "string \<Rightarrow> jval \<Rightarrow> jval" where
  "body1 k v = Obj [(js k, v)]"

section \<open>Plain collections\<close>

datatype crud = List | Get int | Create jval | Update int jval | Remove int

primrec crud_endpoint :: "seg list \<Rightarrow> crud \<Rightarrow> endpoint" where
  "crud_endpoint base List = ep GET base Undef"
| "crud_endpoint base (Get i) = ep GET (base @ [Id i]) Undef"
| "crud_endpoint base (Create body) = ep POST base body"
| "crud_endpoint base (Update i body) = ep PATCH (base @ [Id i]) body"
| "crud_endpoint base (Remove i) = ep DELETE (base @ [Id i]) Undef"

definition proxyHosts :: "crud \<Rightarrow> endpoint" where
  "proxyHosts = crud_endpoint (v1 ''proxy-hosts'')"

definition deadHosts :: "crud \<Rightarrow> endpoint" where
  "deadHosts = crud_endpoint (v1 ''dead-hosts'')"

definition redirectionHosts :: "crud \<Rightarrow> endpoint" where
  "redirectionHosts = crud_endpoint (v1 ''redirection-hosts'')"

definition streams :: "crud \<Rightarrow> endpoint" where
  "streams = crud_endpoint (v1 ''streams'')"

section \<open>Collections with more operations\<close>

datatype upstreamsOp =
    UpCrud crud
  | AddBackend int jval
  | UpdateBackend int int jval
  | RemoveBackend int int

primrec upstreams :: "upstreamsOp \<Rightarrow> endpoint" where
  "upstreams (UpCrud c) = crud_endpoint (v1 ''upstreams'') c"
| "upstreams (AddBackend u body) = ep POST (v1 ''upstreams'' @ [Id u, Lit ''backends'']) body"
| "upstreams (UpdateBackend u b body) =
     ep PATCH (v1 ''upstreams'' @ [Id u, Lit ''backends'', Id b]) body"
| "upstreams (RemoveBackend u b) = ep DELETE (v1 ''upstreams'' @ [Id u, Lit ''backends'', Id b]) Undef"

datatype accessListsOp =
    AlCrud crud
  | AuthAdd int jval
  | AuthResetPassword int int jval
  | AuthRemove int int
  | ClientAdd int jval
  | ClientUpdate int int jval
  | ClientRemove int int

primrec accessLists :: "accessListsOp \<Rightarrow> endpoint" where
  "accessLists (AlCrud c) = crud_endpoint (v1 ''access-lists'') c"
| "accessLists (AuthAdd l body) = ep POST (v1 ''access-lists'' @ [Id l, Lit ''auth-users'']) body"
| "accessLists (AuthResetPassword l u body) =
     ep PATCH (v1 ''access-lists'' @ [Id l, Lit ''auth-users'', Id u]) body"
| "accessLists (AuthRemove l u) = ep DELETE (v1 ''access-lists'' @ [Id l, Lit ''auth-users'', Id u]) Undef"
| "accessLists (ClientAdd l body) = ep POST (v1 ''access-lists'' @ [Id l, Lit ''clients'']) body"
| "accessLists (ClientUpdate l r body) =
     ep PATCH (v1 ''access-lists'' @ [Id l, Lit ''clients'', Id r]) body"
| "accessLists (ClientRemove l r) = ep DELETE (v1 ''access-lists'' @ [Id l, Lit ''clients'', Id r]) Undef"

datatype certificatesOp =
    CertList
  | CertGet int
  | UploadCustom jval
  | RequestLetsEncrypt jval
  | Renew int
  | CertRemove int

primrec certificates :: "certificatesOp \<Rightarrow> endpoint" where
  "certificates CertList = ep GET (v1 ''certificates'') Undef"
| "certificates (CertGet i) = ep GET (v1 ''certificates'' @ [Id i]) Undef"
| "certificates (UploadCustom body) = ep POST (v1 ''certificates'' @ [Lit ''custom'']) body"
| "certificates (RequestLetsEncrypt body) = ep POST (v1 ''certificates'' @ [Lit ''letsencrypt'']) body"
| "certificates (Renew i) = ep POST (v1 ''certificates'' @ [Id i, Lit ''renew'']) Undef"
| "certificates (CertRemove i) = ep DELETE (v1 ''certificates'' @ [Id i]) Undef"

datatype customPagesOp = PageCrud crud | Assist jval

primrec customPages :: "customPagesOp \<Rightarrow> endpoint" where
  "customPages (PageCrud c) = crud_endpoint (v1 ''custom-pages'') c"
| "customPages (Assist body) = ep POST (v1 ''custom-pages'' @ [Lit ''assist'']) body"

definition MAX_PAGE_BYTES :: nat where
  "MAX_PAGE_BYTES = 2 * 1024 * 1024"

definition dnsProviders_catalog :: endpoint where
  "dnsProviders_catalog = ep GET (v1 ''dns-providers'') Undef"

datatype dnsCredentialsOp =
    DnsList
  | DnsCreate jval
  | DnsUpdate int jval
  | DnsVerify int jval
  | DnsRemove int

primrec dnsCredentials :: "dnsCredentialsOp \<Rightarrow> endpoint" where
  "dnsCredentials DnsList = ep GET (v1 ''dns-credentials'') Undef"
| "dnsCredentials (DnsCreate body) = ep POST (v1 ''dns-credentials'') body"
| "dnsCredentials (DnsUpdate i body) = ep PATCH (v1 ''dns-credentials'' @ [Id i]) body"
| "dnsCredentials (DnsVerify i body) = ep POST (v1 ''dns-credentials'' @ [Id i, Lit ''verify'']) body"
| "dnsCredentials (DnsRemove i) = ep DELETE (v1 ''dns-credentials'' @ [Id i]) Undef"

section \<open>Users\<close>

datatype usersOp =
    UserList
  | UserCreate jval
  | UserUpdate int jval
  | ResetPassword int jval
  | UserRemove int
  | Invite jval
  | ResendInvite int
  | UpdateMe jval
  | ChangeMyPassword jval
  | TotpSetup
  | TotpEnable jstring
  | TotpDisable jstring
  | TotpRegenerate jstring
  | AdminTotpDisable int
  | Passkeys
  | PasskeyOptions jstring
  | RegisterPasskey jval
  | RemovePasskey int jstring
  | ApiKeys
  | CreateApiKey jval
  | SetApiKeyEnabled int bool
  | DeleteApiKey int

primrec users :: "usersOp \<Rightarrow> endpoint" where
  "users UserList = ep GET (v1 ''users'') Undef"
| "users (UserCreate body) = ep POST (v1 ''users'') body"
| "users (UserUpdate i body) = ep PATCH (v1 ''users'' @ [Id i]) body"
| "users (ResetPassword i body) = ep PUT (v1 ''users'' @ [Id i, Lit ''password'']) body"
| "users (UserRemove i) = ep DELETE (v1 ''users'' @ [Id i]) Undef"
| "users (Invite body) = ep POST (v1 ''users'' @ [Lit ''invite'']) body"
| "users (ResendInvite i) = ep POST (v1 ''users'' @ [Id i, Lit ''invite'']) (Obj [])"
| "users (UpdateMe body) = ep PATCH (v1 ''users'' @ [Lit ''me'']) body"
| "users (ChangeMyPassword body) = ep PUT (v1 ''users'' @ [Lit ''me'', Lit ''password'']) body"
| "users TotpSetup = ep POST (v1 ''users'' @ [Lit ''me'', Lit ''totp'', Lit ''setup'']) (Obj [])"
| "users (TotpEnable code) =
     ep POST (v1 ''users'' @ [Lit ''me'', Lit ''totp'', Lit ''enable'']) (body1 ''code'' (Str code))"
| "users (TotpDisable code) =
     ep POST (v1 ''users'' @ [Lit ''me'', Lit ''totp'', Lit ''disable'']) (body1 ''code'' (Str code))"
| "users (TotpRegenerate code) =
     ep POST (v1 ''users'' @ [Lit ''me'', Lit ''totp'', Lit ''recovery-codes''])
       (body1 ''code'' (Str code))"
| "users (AdminTotpDisable i) = ep POST (v1 ''users'' @ [Id i, Lit ''totp'', Lit ''disable'']) (Obj [])"
| "users Passkeys = ep GET (v1 ''users'' @ [Lit ''me'', Lit ''passkeys'']) Undef"
| "users (PasskeyOptions code) =
     ep POST (v1 ''users'' @ [Lit ''me'', Lit ''passkeys'', Lit ''options'']) (body1 ''code'' (Str code))"
| "users (RegisterPasskey body) = ep POST (v1 ''users'' @ [Lit ''me'', Lit ''passkeys'']) body"
| "users (RemovePasskey i code) =
     ep POST (v1 ''users'' @ [Lit ''me'', Lit ''passkeys'', Id i, Lit ''remove'']) (body1 ''code'' (Str code))"
| "users ApiKeys = ep GET (v1 ''users'' @ [Lit ''me'', Lit ''api-keys'']) Undef"
| "users (CreateApiKey body) = ep POST (v1 ''users'' @ [Lit ''me'', Lit ''api-keys'']) body"
| "users (SetApiKeyEnabled i enabled) =
     ep PATCH (v1 ''users'' @ [Lit ''me'', Lit ''api-keys'', Id i]) (body1 ''enabled'' (Bool enabled))"
| "users (DeleteApiKey i) = ep DELETE (v1 ''users'' @ [Lit ''me'', Lit ''api-keys'', Id i]) Undef"

section \<open>Settings\<close>

datatype settingsOp =
    GetSettings
  | UpdateDefaultSite jval
  | UpdateBanPage jval
  | UpdateMaintenance jval
  | UpdateLlm jval
  | TestLlm jval
  | UpdateSmtp jval
  | TestSmtp jval
  | UpdateBackups jval
  | UpdateCrowdSecHub jval
  | UpdateCrowdSecCapi jval
  | UpdateCrowdSecWaf jval
  | ListErrorPages
  | UpdateErrorPages jval

primrec instanceSettings :: "settingsOp \<Rightarrow> endpoint" where
  "instanceSettings GetSettings = ep GET (v1 ''settings'') Undef"
| "instanceSettings (UpdateDefaultSite body) = ep PATCH (v1 ''settings'' @ [Lit ''default-site'']) body"
| "instanceSettings (UpdateBanPage body) = ep PATCH (v1 ''settings'' @ [Lit ''ban-page'']) body"
| "instanceSettings (UpdateMaintenance body) = ep PATCH (v1 ''settings'' @ [Lit ''maintenance'']) body"
| "instanceSettings (UpdateLlm body) = ep PATCH (v1 ''settings'' @ [Lit ''llm'']) body"
| "instanceSettings (TestLlm body) = ep POST (v1 ''settings'' @ [Lit ''llm'', Lit ''test'']) body"
| "instanceSettings (UpdateSmtp body) = ep PATCH (v1 ''settings'' @ [Lit ''smtp'']) body"
| "instanceSettings (TestSmtp body) = ep POST (v1 ''settings'' @ [Lit ''smtp'', Lit ''test'']) body"
| "instanceSettings (UpdateBackups body) = ep PATCH (v1 ''settings'' @ [Lit ''backups'']) body"
| "instanceSettings (UpdateCrowdSecHub body) = ep PATCH (v1 ''settings'' @ [Lit ''crowdsec-hub'']) body"
| "instanceSettings (UpdateCrowdSecCapi body) = ep PATCH (v1 ''settings'' @ [Lit ''crowdsec-capi'']) body"
| "instanceSettings (UpdateCrowdSecWaf body) = ep PATCH (v1 ''settings'' @ [Lit ''crowdsec-waf'']) body"
| "instanceSettings ListErrorPages = ep GET (v1 ''settings'' @ [Lit ''error-pages'']) Undef"
| "instanceSettings (UpdateErrorPages body) = ep PUT (v1 ''settings'' @ [Lit ''error-pages'']) body"

section \<open>CrowdSec\<close>

record listParams =
  lp_page :: "int option"
  lp_pageSize :: "int option"
  lp_includeCommunity :: "bool option"
  lp_q :: "jstring option"

definition no_params :: listParams where
  "no_params = \<lparr>lp_page = None, lp_pageSize = None, lp_includeCommunity = None, lp_q = None\<rparr>"

definition listQuery :: "listParams \<Rightarrow> queryValue object" where
  "listQuery p =
     (case lp_page p of Some n \<Rightarrow> [(js ''page'', QNum n)] | None \<Rightarrow> []) @
     (case lp_pageSize p of Some n \<Rightarrow> [(js ''page_size'', QNum n)] | None \<Rightarrow> []) @
     (case lp_includeCommunity p of Some b \<Rightarrow> [(js ''include_community'', QBool b)] | None \<Rightarrow> []) @
     (case lp_q p of
        Some q \<Rightarrow> if trim q \<noteq> [] then [(js ''q'', QStr (trim q))] else []
      | None \<Rightarrow> [])"

datatype crowdsecOp =
    Health
  | ListDecisions listParams
  | AddDecision jval
  | DeleteDecision int
  | ListAlerts listParams
  | GetAlert int
  | ListWhitelists
  | CreateWhitelist jval
  | UpdateWhitelist int jval
  | DeleteWhitelist int
  | PreviewWhitelist jval
  | WhitelistStatus
  | ApplyWhitelists
  | Maintenance
  | Waf
  | HubUpdateNow
  | CapiRegister

primrec crowdsec :: "crowdsecOp \<Rightarrow> endpoint" where
  "crowdsec Health = ep GET (v1 ''crowdsec'' @ [Lit ''health'']) Undef"
| "crowdsec (ListDecisions p) =
     (ep GET (v1 ''crowdsec'' @ [Lit ''decisions'']) Undef)\<lparr>ep_query := listQuery p\<rparr>"
| "crowdsec (AddDecision body) = ep POST (v1 ''crowdsec'' @ [Lit ''decisions'']) body"
| "crowdsec (DeleteDecision i) = ep DELETE (v1 ''crowdsec'' @ [Lit ''decisions'', Id i]) Undef"
| "crowdsec (ListAlerts p) =
     (ep GET (v1 ''crowdsec'' @ [Lit ''alerts'']) Undef)\<lparr>ep_query := listQuery p\<rparr>"
| "crowdsec (GetAlert i) = ep GET (v1 ''crowdsec'' @ [Lit ''alerts'', Id i]) Undef"
| "crowdsec ListWhitelists = ep GET (v1 ''crowdsec'' @ [Lit ''whitelists'']) Undef"
| "crowdsec (CreateWhitelist body) = ep POST (v1 ''crowdsec'' @ [Lit ''whitelists'']) body"
| "crowdsec (UpdateWhitelist i body) = ep PATCH (v1 ''crowdsec'' @ [Lit ''whitelists'', Id i]) body"
| "crowdsec (DeleteWhitelist i) = ep DELETE (v1 ''crowdsec'' @ [Lit ''whitelists'', Id i]) Undef"
| "crowdsec (PreviewWhitelist body) = ep POST (v1 ''crowdsec'' @ [Lit ''whitelists'', Lit ''preview'']) body"
| "crowdsec WhitelistStatus = ep GET (v1 ''crowdsec'' @ [Lit ''whitelists'', Lit ''status'']) Undef"
| "crowdsec ApplyWhitelists = ep POST (v1 ''crowdsec'' @ [Lit ''whitelists'', Lit ''apply'']) (Obj [])"
| "crowdsec Maintenance = ep GET (v1 ''crowdsec'' @ [Lit ''maintenance'']) Undef"
| "crowdsec Waf = ep GET (v1 ''crowdsec'' @ [Lit ''waf'']) Undef"
| "crowdsec HubUpdateNow = ep POST (v1 ''crowdsec'' @ [Lit ''hub'', Lit ''update'']) (Obj [])"
| "crowdsec CapiRegister = ep POST (v1 ''crowdsec'' @ [Lit ''capi'', Lit ''register'']) (Obj [])"

section \<open>The rest\<close>

datatype dashboardOp = Summary | Threats | Visitors int

primrec dashboard :: "dashboardOp \<Rightarrow> endpoint" where
  "dashboard Summary = ep GET (v1 ''dashboard'' @ [Lit ''summary'']) Undef"
| "dashboard Threats = ep GET (v1 ''dashboard'' @ [Lit ''threats'']) Undef"
| "dashboard (Visitors days) =
     ep GET (v1 ''dashboard'' @ [Raw (js ''visitors?days='' @ str_int days)]) Undef"

datatype nginxOp = NginxStatus | NginxReload

primrec nginx :: "nginxOp \<Rightarrow> endpoint" where
  "nginx NginxStatus = ep GET (v1 ''nginx'' @ [Lit ''status'']) Undef"
| "nginx NginxReload = ep POST (v1 ''nginx'' @ [Lit ''reload'']) (Obj [])"

definition tasks_get :: "jstring \<Rightarrow> endpoint" where
  "tasks_get i = ep GET (v1 ''tasks'' @ [Raw i]) Undef"

definition liveLogs_ticket :: endpoint where
  "liveLogs_ticket = ep POST (v1 ''live-logs'' @ [Lit ''ticket'']) Undef"

text \<open>The socket's URL: the origin without its trailing slash, with \<open>http\<close> swapped for \<open>ws\<close>.\<close>

definition liveSocketUrl :: "jstring \<Rightarrow> jstring \<Rightarrow> jstring option" where
  "liveSocketUrl api_base ticket =
     (let b = strip_slash api_base;
          base = (if startsWith b (js ''http'') then js ''ws'' @ drop 4 b else b)
      in map_option (\<lambda>t. base @ js ''/api/v1/live-logs/ws?ticket='' @ t) (encodeURIComponent ticket))"

text \<open>The backups client; a name with a lone surrogate is a URIError (\<open>None\<close>).\<close>

datatype backupsOp = BackupList | BackupCreate | BackupRemove jstring | Restore jstring | RestoreStatus

fun backups :: "backupsOp \<Rightarrow> endpoint option" where
  "backups BackupList = Some (ep GET (v1 ''backups'') Undef)"
| "backups BackupCreate = Some (ep POST (v1 ''backups'') (Obj []))"
| "backups (BackupRemove name) =
     map_option (\<lambda>n. ep DELETE (v1 ''backups'' @ [Raw n]) Undef) (encodeURIComponent name)"
| "backups (Restore name) =
     map_option (\<lambda>n. ep POST (v1 ''backups'' @ [Raw n, Lit ''restore'']) (Obj [])) (encodeURIComponent name)"
| "backups RestoreStatus = Some (ep GET (v1 ''backups'' @ [Lit ''restore-status'']) Undef)"

section \<open>Paths determine operations\<close>

text \<open>A literal that is not a number and has no slash, or an id: what \<open>path_text\<close> writes can be read back.\<close>

fun plain_seg :: "seg \<Rightarrow> bool" where
  "plain_seg (Lit s) = (s \<noteq> [] \<and> 47 \<notin> set (js s) \<and> \<not> is_digit (hd (js s)) \<and> hd (js s) \<noteq> 45)"
| "plain_seg (Id i) = True"
| "plain_seg (Raw s) = False"

lemma str_int_head: "is_digit (hd (str_int i)) \<or> hd (str_int i) = 45"
  by (auto simp: str_int_def hd_str_nat)

lemma str_int_no_slash: "47 \<notin> set (str_int i)"
proof -
  have "47 \<notin> set (str_nat n)" for n
    using str_nat_digits [of n] by (auto simp: list_all_iff is_digit_def)
  then show ?thesis by (simp add: str_int_def)
qed

lemma seg_text_inj: "plain_seg a \<Longrightarrow> plain_seg b \<Longrightarrow> seg_text a = seg_text b \<Longrightarrow> a = b"
  using str_int_head by (cases a; cases b) (auto, metis parseInt_str_int jsnum.inject)

lemma seg_text_no_slash: "plain_seg a \<Longrightarrow> 47 \<notin> set (seg_text a)"
  by (cases a) (auto simp: str_int_no_slash)

lemma path_text_inj:
  "list_all plain_seg p \<Longrightarrow> list_all plain_seg q \<Longrightarrow> path_text p = path_text q \<Longrightarrow> p = q"
proof (induction p arbitrary: q)
  case Nil
  then show ?case by (cases q) (auto simp: path_text_def)
next
  case (Cons a p)
  then obtain b q' where q: "q = b # q'" by (cases q) (auto simp: path_text_def)
  have tails: "path_text p = [] \<or> (\<exists>r. path_text p = 47 # r)" "path_text q' = [] \<or> (\<exists>r. path_text q' = 47 # r)"
    by (cases p; cases q'; auto simp: path_text_def)+
  have eq: "seg_text a @ path_text p = seg_text b @ path_text q'"
    using Cons.prems(3) q by (simp add: path_text_def)
  have tw: "takeWhile (\<lambda>c. c \<noteq> 47) (seg_text x @ t) = seg_text x"
    if "plain_seg x" "t = [] \<or> (\<exists>r. t = 47 # r)" for x t
    using that seg_text_no_slash [of x] by (auto simp: takeWhile_until takeWhile_eq_all_conv)
  from Cons.prems q have pl: "plain_seg a" "plain_seg b" by auto
  have "seg_text a = seg_text b"
    using tw [OF pl(1) tails(1)] tw [OF pl(2) tails(2)] eq by simp
  with pl have "a = b" by (simp add: seg_text_inj)
  with eq Cons q show ?case by auto
qed

end
