(* ===== verification/Dialog_Flow.thy ===== *)
theory Dialog_Flow
  imports Resources Machines
begin

text \<open>
  What the dialogs, cards and list views of the application share. A dialog validates its form,
  then saves through the client and either closes with a toast or shows the described error; a
  list view loads its rows and flips a switch of a row before the backend has answered. Each
  component defines its own handler; the locales here state the contract those handlers meet,
  and the components interpret them.
\<close>

section \<open>Dialogs\<close>

datatype toast = ToastSuccess jstring | ToastError jstring | ToastWarning jstring | ToastMessage jstring

record dialog_ui =
  ui_open :: bool
  ui_error :: "jstring option"
  ui_saving :: bool
  ui_toasts :: "toast list"
  ui_saved :: nat

text \<open>
  From \<open>setSaving(true)\<close> to the end of the handler: the save, then on success the toast, the
  dialog closed and \<open>onSaved\<close> called, and on failure the described error shown and toasted;
  \<open>finally\<close> the saving flag is cleared.
\<close>

definition save_flow :: "jstring \<Rightarrow> ('w, 'a) io \<Rightarrow> dialog_ui \<Rightarrow> 'w \<Rightarrow> dialog_ui \<times> 'w" where
  "save_flow ok_text save ui w =
     (case save w of
        (Inr x, w') \<Rightarrow>
          (ui\<lparr>ui_open := False, ui_saving := False, ui_saved := ui_saved ui + 1,
              ui_toasts := ui_toasts ui @ [ToastSuccess ok_text]\<rparr>, w')
      | (Inl err, w') \<Rightarrow>
          (ui\<lparr>ui_error := Some (de_message (describeError err)), ui_saving := False,
              ui_toasts := ui_toasts ui @ [ToastError (de_message (describeError err))]\<rparr>, w'))"

definition refuse :: "jstring \<Rightarrow> dialog_ui \<Rightarrow> dialog_ui" where
  "refuse message ui = ui\<lparr>ui_error := Some message\<rparr>"

definition fresh_ui :: dialog_ui where
  "fresh_ui = \<lparr>ui_open = True, ui_error = None, ui_saving = False, ui_toasts = [], ui_saved = 0\<rparr>"

text \<open>
  The contract: a problem of the form is shown and nothing is sent; otherwise the handler is
  the save flow on a clean error.
\<close>

locale submit_dialog =
  fixes problem :: "'f \<Rightarrow> jstring option"
    and save :: "'f \<Rightarrow> ('w, 'a) io"
    and ok_text :: "'f \<Rightarrow> jstring"
    and submit :: "'f \<Rightarrow> dialog_ui \<Rightarrow> 'w \<Rightarrow> dialog_ui \<times> 'w"
  assumes refused: "problem f = Some m \<Longrightarrow> submit f ui w = (refuse m ui, w)"
    and accepted: "problem f = None \<Longrightarrow> submit f ui w = save_flow (ok_text f) (save f) (ui\<lparr>ui_error := None\<rparr>) w"
begin

lemma world_unchanged: "problem f \<noteq> None \<Longrightarrow> snd (submit f ui w) = w"
  using refused by fastforce

lemma not_saving: "\<not> ui_saving ui \<Longrightarrow> \<not> ui_saving (fst (submit f ui w))"
  by (cases "problem f") (auto simp: refused accepted save_flow_def refuse_def split: prod.splits sum.splits)

lemma closes_iff:
  "ui_open ui \<Longrightarrow>
   \<not> ui_open (fst (submit f ui w)) \<longleftrightarrow> problem f = None \<and> (\<exists>x. fst (save f w) = Inr x)"
  by (cases "problem f") (auto simp: refused accepted save_flow_def refuse_def split: prod.splits sum.splits)

lemma error_or_closed:
  "ui_open (fst (submit f ui w)) \<Longrightarrow> ui_error (fst (submit f ui w)) \<noteq> None"
  by (cases "problem f") (auto simp: refused accepted save_flow_def refuse_def split: prod.splits sum.splits)

lemma saved_iff_closed:
  "ui_open ui \<Longrightarrow>
   ui_saved (fst (submit f ui w)) = ui_saved ui + (if ui_open (fst (submit f ui w)) then 0 else 1)"
  by (cases "problem f") (auto simp: refused accepted save_flow_def refuse_def split: prod.splits sum.splits)

text \<open>A dialog the operator keeps resubmitting until it closes: the form may change in between.\<close>

fun attempts :: "'f list \<Rightarrow> dialog_ui \<Rightarrow> 'w \<Rightarrow> dialog_ui \<times> 'w" where
  "attempts [] ui w = (ui, w)"
| "attempts (f # fs) ui w =
     (let (ui', w') = submit f ui w in if ui_open ui' then attempts fs ui' w' else (ui', w'))"

lemma attempts_saved_once:
  "ui_open ui \<Longrightarrow> \<not> ui_saving ui \<Longrightarrow>
   (case attempts fs ui w of (ui', w') \<Rightarrow>
      \<not> ui_saving ui' \<and> ui_saved ui' = ui_saved ui + (if ui_open ui' then 0 else 1))"
proof (induction fs arbitrary: ui w)
  case (Cons f fs)
  obtain ui' w' where s: "submit f ui w = (ui', w')" by force
  with not_saving [OF Cons.prems(2), of f w] saved_iff_closed [OF Cons.prems(1), of f w]
  have "\<not> ui_saving ui'" "ui_saved ui' = ui_saved ui + (if ui_open ui' then 0 else 1)" by simp_all
  with Cons.IH [of ui' w'] s show ?case by (auto simp: Let_def)
qed simp

end

text \<open>
  The confirmation dialog: the action, then on success the toast, the dialog closed and the caller
  told; a failure is only toasted and leaves the dialog open. Which requests the action makes is the
  caller's.
\<close>

definition confirm_flow :: "jstring \<Rightarrow> ('w, 'a) io \<Rightarrow> dialog_ui \<Rightarrow> 'w \<Rightarrow> dialog_ui \<times> 'w" where
  "confirm_flow ok_text action ui w =
     (case action w of
        (Inr x, w') \<Rightarrow>
          (ui\<lparr>ui_open := False, ui_saving := False, ui_saved := ui_saved ui + 1,
              ui_toasts := ui_toasts ui @ [ToastSuccess ok_text]\<rparr>, w')
      | (Inl err, w') \<Rightarrow>
          (ui\<lparr>ui_saving := False, ui_toasts := ui_toasts ui @ [ToastError (de_message (describeError err))]\<rparr>, w'))"

section \<open>List views\<close>

text \<open>
  The switch of a row: flipped at once, sent as a one-field patch, put back when that fails.
\<close>

definition flip :: "('r \<Rightarrow> int) \<Rightarrow> (bool \<Rightarrow> 'r \<Rightarrow> 'r) \<Rightarrow> int \<Rightarrow> bool \<Rightarrow> 'r list \<Rightarrow> 'r list" where
  "flip row_id put i b rows = map (\<lambda>r. if row_id r = i then put b r else r) rows"

record 'r view_ui =
  vw_rows :: "'r list"
  vw_loading :: bool
  vw_loadError :: "jstring option"
  vw_toasts :: "toast list"

definition toggle_row ::
  "('r \<Rightarrow> int) \<Rightarrow> (bool \<Rightarrow> 'r \<Rightarrow> 'r) \<Rightarrow> (int \<Rightarrow> bool \<Rightarrow> ('w, 'a) io) \<Rightarrow> int \<Rightarrow> bool \<Rightarrow>
   'r view_ui \<Rightarrow> 'w \<Rightarrow> 'r view_ui \<times> 'w" where
  "toggle_row row_id put patch i b vw w =
     (let v1 = vw\<lparr>vw_rows := flip row_id put i b (vw_rows vw)\<rparr>
      in case patch i b w of
           (Inr x, w') \<Rightarrow> (v1, w')
         | (Inl err, w') \<Rightarrow>
             (v1\<lparr>vw_rows := flip row_id put i (\<not> b) (vw_rows v1),
                 vw_toasts := vw_toasts vw @ [ToastError (de_message (describeError err))]\<rparr>, w'))"

text \<open>What a list view keeps of a switch: it overwrites one field of the row with that id.\<close>

locale row_switch =
  fixes row_id :: "'r \<Rightarrow> int" and put :: "bool \<Rightarrow> 'r \<Rightarrow> 'r" and get :: "'r \<Rightarrow> bool option"
  assumes put_put: "put a (put b r) = put a r"
    and put_id: "row_id (put b r) = row_id r"
    and put_get: "get r = Some b \<Longrightarrow> put b r = r"
    and get_put: "get (put b r) = Some b"
begin

lemma flip_back:
  assumes "\<And>r. r \<in> set rows \<Longrightarrow> row_id r = i \<Longrightarrow> get r = Some (\<not> b)"
  shows "flip row_id put i (\<not> b) (flip row_id put i b rows) = rows"
proof -
  have "(if row_id (if row_id r = i then put b r else r) = i
         then put (\<not> b) (if row_id r = i then put b r else r)
         else if row_id r = i then put b r else r) = r" if "r \<in> set rows" for r
    using assms [OF that] put_get [of r "\<not> b"] by (auto simp: put_id put_put)
  then show ?thesis by (simp add: flip_def comp_def map_idI)
qed

lemma toggle_row_outcome:
  assumes "\<And>r. r \<in> set (vw_rows vw) \<Longrightarrow> row_id r = i \<Longrightarrow> get r = Some (\<not> b)"
  shows "case patch i b w of
      (Inr x, w') \<Rightarrow>
        toggle_row row_id put patch i b vw w = (vw\<lparr>vw_rows := flip row_id put i b (vw_rows vw)\<rparr>, w')
    | (Inl err, w') \<Rightarrow>
        toggle_row row_id put patch i b vw w =
          (vw\<lparr>vw_toasts := vw_toasts vw @ [ToastError (de_message (describeError err))]\<rparr>, w')"
  using flip_back [of "vw_rows vw" i b] assms
  by (auto simp: toggle_row_def Let_def split: prod.splits sum.splits)

lemma flip_others: "r \<in> set rows \<Longrightarrow> row_id r \<noteq> i \<Longrightarrow> r \<in> set (flip row_id put i b rows)"
  by (force simp: flip_def)

lemma flip_ids: "map row_id (flip row_id put i b rows) = map row_id rows"
  by (simp add: flip_def put_id)

end

text \<open>Loading the rows: all lists or an error, and the skeleton off either way.\<close>

definition load_view :: "('w, 'r list) io \<Rightarrow> 'r view_ui \<Rightarrow> 'w \<Rightarrow> 'r view_ui \<times> 'w" where
  "load_view fetch_all vw w =
     (case fetch_all w of
        (Inr rows, w') \<Rightarrow> (vw\<lparr>vw_rows := rows, vw_loadError := None, vw_loading := False\<rparr>, w')
      | (Inl err, w') \<Rightarrow>
          (vw\<lparr>vw_loadError := Some (de_message (describeError err)), vw_loading := False\<rparr>, w'))"

section \<open>Environments for the examples\<close>

text \<open>A network that is down, and a backend that accepts everything with an empty answer.\<close>

definition offline_env :: "unit api_env" where
  "offline_env =
     \<lparr>env_base = js ''http://localhost:8000'',
      env_fetch = (\<lambda>rq w. (Inl (ThrownError (js ''Failed to fetch'')), w)),
      env_authTokenProvider = (\<lambda>w. Inr None), env_tokenRefresher = None, env_parse = (\<lambda>s. None)\<rparr>"

definition accepting_env :: "unit api_env" where
  "accepting_env =
     offline_env\<lparr>env_fetch :=
       (\<lambda>rq w. (Inr \<lparr>rs_status = 204, rs_contentType = None, rs_text = []\<rparr>, w))\<rparr>"

lemma run_endpoint_offline:
  "run_endpoint offline_env e () = (Inl (ThrownError (js ''Failed to fetch'')), ())"
  by (simp add: run_endpoint_def api_get_def api_post_def api_put_def api_patch_def api_delete_def
      apiFetch_def first_token_def send_def offline_env_def Let_def default_options_def split: verb.splits)

lemma run_endpoint_accepting: "run_endpoint accepting_env e () = (Inr Undef, ())"
  by (simp add: run_endpoint_def api_get_def api_post_def api_put_def api_patch_def api_delete_def
      apiFetch_def first_token_def send_def offline_env_def accepting_env_def Let_def
      default_options_def after_first_def finish_fetch_def parseBody_def response_ok_def split: verb.splits)

end
