(* ===== verification/Domains.thy ===== *)
theory Domains
  imports Js_Number Machines
begin

text \<open>
  The domain-name field: the helpers of \<^verbatim>\<open>components/domains/lib.ts\<close> and the tag input of
  \<^verbatim>\<open>components/domains/domain-tags-input.tsx\<close> as a machine over the field's events.

  The regular expression \<open>DOMAIN_RE\<close> is read as a split: an optional leading wildcard label,
  then labels between dots. A label holds no dot, so the match is the same.
\<close>

section \<open>Domain names\<close>

definition is_alnum :: "nat \<Rightarrow> bool" where
  "is_alnum c \<longleftrightarrow> is_lower_az c \<or> is_digit c"

text \<open>\<open>[a-z0-9](?:[a-z0-9-]{0,61}[a-z0-9])?\<close>\<close>

definition is_label :: "jstring \<Rightarrow> bool" where
  "is_label l \<longleftrightarrow>
     l \<noteq> [] \<and> length l \<le> 63 \<and> is_alnum (hd l) \<and> is_alnum (last l) \<and>
     list_all (\<lambda>c. is_alnum c \<or> c = 45) l"

definition isValidDomain :: "jstring \<Rightarrow> bool" where
  "isValidDomain name \<longleftrightarrow>
     list_all is_label (split_on 46 (if startsWith name (js ''*.'') then drop 2 name else name))"

definition normalizeDomain :: "jstring \<Rightarrow> jstring" where
  "normalizeDomain raw = toLowerCase (trim raw)"

text \<open>The separators of a typed or pasted list: white space and commas.\<close>

definition is_sep :: "nat \<Rightarrow> bool" where
  "is_sep c \<longleftrightarrow> is_ws c \<or> c = 44"

fun parse_loop :: "jstring list \<Rightarrow> jstring list \<Rightarrow> jstring list" where
  "parse_loop [] result = result"
| "parse_loop (raw # raws) result =
     (let name = normalizeDomain raw
      in if name \<noteq> [] \<and> name \<notin> set result then parse_loop raws (result @ [name])
         else parse_loop raws result)"

definition parseDomains :: "jstring \<Rightarrow> jstring list" where
  "parseDomains input = parse_loop (split_runs is_sep input) []"

fun add_loop :: "jstring list \<Rightarrow> jstring list \<times> jstring list \<Rightarrow> jstring list \<times> jstring list" where
  "add_loop [] acc = acc"
| "add_loop (raw # raws) (nxt, rejected) =
     (let name = normalizeDomain raw
      in if name = [] then add_loop raws (nxt, rejected)
         else if \<not> isValidDomain name then add_loop raws (nxt, rejected @ [name])
         else if name \<in> set nxt then add_loop raws (nxt, rejected)
         else add_loop raws (nxt @ [name], rejected))"

definition addDomains :: "jstring list \<Rightarrow> jstring \<Rightarrow> jstring list \<times> jstring list" where
  "addDomains existing text = add_loop (split_runs is_sep text) (existing, [])"

section \<open>The tag input\<close>

text \<open>
  The field's own state (pending text, invalid flag), the tags, which the surrounding form
  holds, and the last value the form was told through \<open>onPendingInvalidChange\<close>.
\<close>

record tags_input =
  ti_tags :: "jstring list"
  ti_pending :: jstring
  ti_invalid :: bool
  ti_reported :: bool

definition report :: "bool \<Rightarrow> tags_input \<Rightarrow> tags_input" where
  "report nxt t = (if nxt \<noteq> ti_invalid t then t\<lparr>ti_invalid := nxt, ti_reported := nxt\<rparr> else t)"

definition commit :: "jstring \<Rightarrow> tags_input \<Rightarrow> tags_input" where
  "commit text t =
     (if trim text = [] then t
      else let (nxt, rejected) = addDomains (ti_tags t) text;
               changed = length nxt \<noteq> length (ti_tags t);
               t1 = (if changed then t\<lparr>ti_tags := nxt\<rparr> else t)
           in if rejected \<noteq> []
              then report True (t1\<lparr>ti_pending := (if changed then join (js '', '') rejected else text)\<rparr>)
              else report False (t1\<lparr>ti_pending := []\<rparr>))"

definition onKeyDown :: "jstring \<Rightarrow> tags_input \<Rightarrow> tags_input" where
  "onKeyDown key t =
     (if key = js ''Enter'' \<or> key = js '','' \<or> key = js '' '' then commit (ti_pending t) t
      else if key = js ''Tab'' \<and> trim (ti_pending t) \<noteq> [] then commit (ti_pending t) t
      else if key = js ''Backspace'' \<and> ti_pending t = [] \<and> ti_tags t \<noteq> []
      then t\<lparr>ti_tags := butlast (ti_tags t)\<rparr>
      else t)"

definition onPaste :: "jstring \<Rightarrow> tags_input \<Rightarrow> tags_input" where
  "onPaste text t = (if text = [] then t else commit (ti_pending t @ js '' '' @ text) t)"

definition remove_tag :: "jstring \<Rightarrow> tags_input \<Rightarrow> tags_input" where
  "remove_tag domain t = t\<lparr>ti_tags := filter (\<lambda>d. d \<noteq> domain) (ti_tags t)\<rparr>"

definition onInput :: "jstring \<Rightarrow> tags_input \<Rightarrow> tags_input" where
  "onInput v t =
     (let t1 = t\<lparr>ti_pending := v\<rparr> in if v = [] then report False t1 else t1)"

datatype tagsEvent = KeyDown jstring | Paste jstring | RemoveTag jstring | Input jstring | Blur

primrec tags_step :: "tags_input \<Rightarrow> tagsEvent \<Rightarrow> tags_input" where
  "tags_step t (KeyDown key) = onKeyDown key t"
| "tags_step t (Paste text) = onPaste text t"
| "tags_step t (RemoveTag domain) = remove_tag domain t"
| "tags_step t (Input v) = onInput v t"
| "tags_step t Blur = commit (ti_pending t) t"

section \<open>Lists of domains\<close>

lemma normalizeDomain_idem [simp]: "normalizeDomain (normalizeDomain s) = normalizeDomain s"
  by (simp add: normalizeDomain_def toLowerCase_trim)

text \<open>The normalised, non-empty entries of a text.\<close>

definition entries :: "jstring \<Rightarrow> jstring list" where
  "entries text = filter (\<lambda>n. n \<noteq> []) (map normalizeDomain (split_runs is_sep text))"

text \<open>The first occurrence of each element, in order: the reference for both loops.\<close>

definition keep_first :: "'a list \<Rightarrow> 'a list" where
  "keep_first xs = rev (remdups (rev xs))"

lemma keep_first_snoc [simp]:
  "keep_first [] = []"
  "keep_first (xs @ [x]) = (if x \<in> set xs then keep_first xs else keep_first xs @ [x])"
  by (simp_all add: keep_first_def)

lemma keep_first_props [simp]: "set (keep_first xs) = set xs" "distinct (keep_first xs)"
  by (simp_all add: keep_first_def)

lemma parse_loop_snoc:
  "parse_loop (raws @ [raw]) result =
     (let name = normalizeDomain raw; res = parse_loop raws result
      in if name \<noteq> [] \<and> name \<notin> set res then res @ [name] else res)"
  by (induction raws result rule: parse_loop.induct) (auto simp: Let_def)

lemma parse_loop_eq:
  "parse_loop raws [] = keep_first (filter (\<lambda>n. n \<noteq> []) (map normalizeDomain raws))"
  by (induction raws rule: rev_induct) (auto simp: parse_loop_snoc Let_def)

lemma parseDomains_eq: "parseDomains text = keep_first (entries text)"
  by (simp add: parseDomains_def parse_loop_eq entries_def)

lemma add_loop_snoc:
  "add_loop (raws @ [raw]) acc =
     (let name = normalizeDomain raw; (nxt, rejected) = add_loop raws acc
      in if name = [] then (nxt, rejected)
         else if \<not> isValidDomain name then (nxt, rejected @ [name])
         else if name \<in> set nxt then (nxt, rejected)
         else (nxt @ [name], rejected))"
  by (induction raws acc rule: add_loop.induct) (auto simp: Let_def)

lemma add_loop_eq:
  "add_loop raws (existing, []) =
     (existing @ keep_first (filter (\<lambda>n. n \<noteq> [] \<and> isValidDomain n \<and> n \<notin> set existing) (map normalizeDomain raws)),
      filter (\<lambda>n. n \<noteq> [] \<and> \<not> isValidDomain n) (map normalizeDomain raws))"
proof (induction raws rule: rev_induct)
  case (snoc raw raws)
  then show ?case by (auto simp: add_loop_snoc Let_def)
qed simp

lemma addDomains_eq:
  "addDomains existing text =
     (existing @ keep_first (filter (\<lambda>n. isValidDomain n \<and> n \<notin> set existing) (entries text)),
      filter (\<lambda>n. \<not> isValidDomain n) (entries text))"
  by (simp add: addDomains_def add_loop_eq entries_def conj_commute conj_left_commute)

text \<open>A list of tags as the field keeps it: distinct valid names.\<close>

definition tags_ok :: "jstring list \<Rightarrow> bool" where
  "tags_ok tags \<longleftrightarrow> distinct tags \<and> list_all isValidDomain tags"

lemma tags_ok_addDomains [form_invs]: "tags_ok tags \<Longrightarrow> tags_ok (fst (addDomains tags text))"
  by (auto simp: tags_ok_def addDomains_eq list_all_iff)

lemma length_addDomains: "length (fst (addDomains tags text)) = length tags \<longleftrightarrow> fst (addDomains tags text) = tags"
  by (simp add: addDomains_eq)

section \<open>The machine\<close>

text \<open>
  The field keeps its tags valid, what it told the form is its flag, and a flag that is set
  stands for text still in the input.
\<close>

definition tags_inv :: "tags_input \<Rightarrow> bool" where
  "tags_inv t \<longleftrightarrow>
     tags_ok (ti_tags t) \<and> ti_reported t = ti_invalid t \<and> (ti_invalid t \<longrightarrow> ti_pending t \<noteq> [])"

lemma report_simps [simp]:
  "ti_tags (report b t) = ti_tags t" "ti_pending (report b t) = ti_pending t"
  "ti_invalid (report b t) = b" "ti_reported t = ti_invalid t \<Longrightarrow> ti_reported (report b t) = b"
  by (auto simp: report_def)

lemma rejected_text: "rejected = snd (addDomains tags text) \<Longrightarrow> rejected \<noteq> [] \<Longrightarrow> join (js '', '') rejected \<noteq> []"
proof -
  assume r: "rejected = snd (addDomains tags text)" "rejected \<noteq> []"
  then have "\<forall>n \<in> set rejected. n \<noteq> []" by (auto simp: addDomains_eq entries_def)
  with r(2) show ?thesis by (cases rejected; cases "tl rejected") auto
qed

lemma commit_inv [form_invs]: "tags_inv t \<Longrightarrow> tags_inv (commit text t)"
proof -
  assume inv: "tags_inv t"
  obtain nxt rejected where ad: "addDomains (ti_tags t) text = (nxt, rejected)" by force
  have ok: "tags_ok nxt" using tags_ok_addDomains [of "ti_tags t" "text"] inv ad by (simp add: tags_inv_def)
  have rej: "rejected \<noteq> [] \<Longrightarrow> join (js '', '') rejected \<noteq> []"
    using rejected_text [of rejected "ti_tags t" "text"] ad by simp
  show ?thesis
    using inv ok rej by (auto simp: commit_def ad tags_inv_def Let_def)
qed

lemma tags_step_inv [form_invs]: "tags_inv t \<Longrightarrow> tags_inv (tags_step t e)"
proof (cases e)
  case (KeyDown key)
  have "tags_inv t \<Longrightarrow> tags_inv (t\<lparr>ti_tags := butlast (ti_tags t)\<rparr>)"
    by (auto simp: tags_inv_def tags_ok_def distinct_butlast list_all_iff dest: in_set_butlastD)
  with KeyDown show "tags_inv t \<Longrightarrow> ?thesis" by (simp add: onKeyDown_def commit_inv)
next
  case (Paste str)
  then show "tags_inv t \<Longrightarrow> ?thesis" by (simp add: onPaste_def commit_inv)
next
  case (RemoveTag domain)
  then show "tags_inv t \<Longrightarrow> ?thesis"
    by (auto simp: remove_tag_def tags_inv_def tags_ok_def list_all_iff)
next
  case (Input v)
  then show "tags_inv t \<Longrightarrow> ?thesis"
    by (auto simp: onInput_def tags_inv_def Let_def)
qed (simp add: commit_inv)

interpretation tags: machine tags_step tags_inv
  by unfold_locales (rule tags_step_inv)

section \<open>Properties\<close>

text \<open>
  No entry of a typed or pasted list is lost: adding a text to the tags keeps the old tags
  in place, appends the new valid names once each in the order typed, and hands every invalid
  entry back; parsing a text gives every entry once. All names are trimmed and lower case.
\<close>

theorem addDomains_complete:
  "let (nxt, rejected) = addDomains existing text
   in take (length existing) nxt = existing \<and>
      drop (length existing) nxt =
        keep_first (filter (\<lambda>n. isValidDomain n \<and> n \<notin> set existing) (entries text)) \<and>
      set (entries text) \<subseteq> set nxt \<union> set rejected \<and>
      list_all (\<lambda>n. \<not> isValidDomain n \<and> n \<in> set (entries text)) rejected \<and>
      set (parseDomains text) = set (entries text) \<and> distinct (parseDomains text) \<and>
      map normalizeDomain (parseDomains text) = parseDomains text"
proof -
  have "\<And>n. n \<in> set (entries text) \<Longrightarrow> normalizeDomain n = n" by (auto simp: entries_def)
  then have "map normalizeDomain (parseDomains text) = parseDomains text"
    by (intro map_idI) (auto simp: parseDomains_eq)
  then show ?thesis
    by (auto simp: addDomains_eq parseDomains_eq list_all_iff)
qed

text \<open>
  Whatever is typed, pasted, committed and removed in the field, its tags are distinct valid
  domain names; and the form is told that an entry is invalid exactly while the field shows
  the error, which it does only with the offending text still in the input.
\<close>

theorem tags_machine:
  assumes "tags_ok tags"
  shows "let t = foldl tags_step
               \<lparr>ti_tags = tags, ti_pending = [], ti_invalid = False, ti_reported = False\<rparr> events
         in tags_ok (ti_tags t) \<and> ti_reported t = ti_invalid t \<and> (ti_invalid t \<longrightarrow> ti_pending t \<noteq> [])"
proof -
  have "tags_inv \<lparr>ti_tags = tags, ti_pending = [], ti_invalid = False, ti_reported = False\<rparr>"
    using assms by (simp add: tags_inv_def)
  from tags.run_inv [OF this] show ?thesis by (simp add: tags_inv_def Let_def)
qed

theorem tags_machine_witness:
  "tags_ok (ti_tags (foldl tags_step
     \<lparr>ti_tags = [js ''a.io''], ti_pending = [], ti_invalid = False, ti_reported = False\<rparr>
     [Paste (js ''b.io, A.io -x''), KeyDown (js ''Enter'')]))"
proof -
  have "tags_ok [js ''a.io'']"
    by (simp add: tags_ok_def isValidDomain_def is_label_def is_alnum_def char_class_defs startsWith_def js_def)
  from tags_machine [OF this, of "[Paste (js ''b.io, A.io -x''), KeyDown (js ''Enter'')]"]
  show ?thesis by (simp only: Let_def)
qed

end
