(* ===== verification/Proxy_Hosts.thy ===== *)
theory Proxy_Hosts
  imports Dialog_Flow Domains
begin

text \<open>
  Proxy hosts: the form model of \<^verbatim>\<open>components/proxy-hosts/lib.ts\<close> (load, validate, build), the
  dialog of \<^verbatim>\<open>proxy-host-dialog.tsx\<close>, the row editing of \<^verbatim>\<open>locations-editor.tsx\<close> and the row
  switches of \<^verbatim>\<open>proxy-hosts-view.tsx\<close>.
\<close>

section \<open>Data\<close>

datatype httpScheme = Http | Https

datatype targetMode = HostTarget | PoolTarget

datatype locationTargetMode = LHost | LPool | LDefaultSite | LCustomPage | LErrorPage

datatype dialogTab = ForwardingTab | CertificateTab | AdvancedTab

datatype toggleKey =
    Ssl_forced | Http2_support | Hsts_enabled | Hsts_subdomains | Caching_enabled
  | Block_exploits | Allow_websocket_upgrade | Crowdsec_enabled | Maintenance_enabled

definition TOGGLE_KEYS :: "toggleKey list" where
  "TOGGLE_KEYS =
     [Ssl_forced, Http2_support, Hsts_enabled, Hsts_subdomains, Caching_enabled, Block_exploits,
      Allow_websocket_upgrade, Crowdsec_enabled, Maintenance_enabled]"

definition NO_ACCESS_LIST :: jstring where "NO_ACCESS_LIST = js ''none''"

definition NO_CERTIFICATE :: jstring where "NO_CERTIFICATE = js ''none''"

definition ERROR_CODES :: "int list" where
  "ERROR_CODES = [400, 401, 403, 404, 500, 502, 503, 504]"

record locationRow =
  lr_key :: jstring
  lr_path :: jstring
  lr_targetMode :: locationTargetMode
  lr_upstreamId :: jstring
  lr_forwardHost :: jstring
  lr_forwardPort :: jstring
  lr_scheme :: httpScheme
  lr_customPageId :: jstring
  lr_errorCode :: jstring

record proxyHostFormState =
  fs_domains :: "jstring list"
  fs_accessListId :: jstring
  fs_enabled :: bool
  fs_rootTargetMode :: targetMode
  fs_rootUpstreamId :: jstring
  fs_rootForwardHost :: jstring
  fs_rootForwardPort :: jstring
  fs_rootScheme :: httpScheme
  fs_locations :: "locationRow list"
  fs_certificateId :: jstring
  fs_toggles :: "toggleKey \<Rightarrow> bool"
  fs_maintenanceAllow :: "jstring list"
  fs_advancedConfig :: jstring

record formError =
  fe_message :: jstring
  fe_tab :: "dialogTab option"

text \<open>What the backend returns; a field the schema makes optional or nullable is an option.\<close>

record locationRead =
  lo_id :: int
  lo_path :: jstring
  lo_target :: "locationTargetMode option"
  lo_upstream_id :: "int option"
  lo_forward_host :: "jstring option"
  lo_forward_port :: "int option"
  lo_forward_scheme :: "httpScheme option"
  lo_custom_page_id :: "int option"
  lo_error_code :: "int option"

record proxyHost =
  ph_id :: int
  ph_domain_names :: "jstring list"
  ph_upstream_id :: "int option"
  ph_forward_host :: "jstring option"
  ph_forward_port :: "int option"
  ph_forward_scheme :: "httpScheme option"
  ph_certificate_id :: "int option"
  ph_access_list_id :: "int option"
  ph_enabled :: "bool option"
  ph_maintenance_allow :: "jstring list option"
  ph_advanced_config :: "jstring option"
  ph_toggle :: "toggleKey \<Rightarrow> bool option"
  ph_locations :: "locationRead list option"
  ph_crowdsec_appsec_enabled :: "bool option"

text \<open>What is sent; a parsed id may be NaN.\<close>

record locationPayload =
  lp_path :: jstring
  lp_target :: locationTargetMode
  lp_upstream_id :: "jsnum option"
  lp_forward_host :: "jstring option"
  lp_forward_port :: "int option"
  lp_forward_scheme :: httpScheme
  lp_custom_page_id :: "jsnum option"
  lp_error_code :: "jsnum option"

record proxyHostCreate =
  pc_domain_names :: "jstring list"
  pc_upstream_id :: "jsnum option"
  pc_forward_host :: "jstring option"
  pc_forward_port :: "int option"
  pc_forward_scheme :: httpScheme
  pc_certificate_id :: "jsnum option"
  pc_access_list_id :: "jsnum option"
  pc_enabled :: bool
  pc_maintenance_allow :: "jstring list"
  pc_advanced_config :: jstring
  pc_toggles :: "toggleKey \<Rightarrow> bool"
  pc_locations :: "locationPayload list"
  pc_crowdsec_appsec_enabled :: bool

section \<open>The form model\<close>

definition parsePort :: "jstring \<Rightarrow> int option" where
  "parsePort input =
     (case parseInt (trim input) of
        Num n \<Rightarrow> if 1 \<le> n \<and> n \<le> 65535 then Some n else None
      | NaN \<Rightarrow> None)"

definition newLocationRow :: "nat \<Rightarrow> locationRow \<times> nat" where
  "newLocationRow newRowSeq =
     (let n = newRowSeq + 1
      in (\<lparr>lr_key = js ''loc-new-'' @ str_nat n, lr_path = [], lr_targetMode = LPool, lr_upstreamId = [],
           lr_forwardHost = [], lr_forwardPort = [], lr_scheme = Http, lr_customPageId = [],
           lr_errorCode = []\<rparr>, n))"

definition emptyToggles :: "toggleKey \<Rightarrow> bool" where
  "emptyToggles = (\<lambda>k. False)"

text \<open>\<open>x != null ? String(x) : ""\<close> and \<open>id ? String(id) : sentinel\<close>\<close>

definition text_or_empty :: "int option \<Rightarrow> jstring" where
  "text_or_empty x = (case x of Some i \<Rightarrow> str_int i | None \<Rightarrow> [])"

definition id_or_sentinel :: "jstring \<Rightarrow> int option \<Rightarrow> jstring" where
  "id_or_sentinel sentinel x =
     (case x of Some i \<Rightarrow> if i \<noteq> 0 then str_int i else sentinel | None \<Rightarrow> sentinel)"

definition or_default :: "'a option \<Rightarrow> 'a \<Rightarrow> 'a" where
  "or_default x d = (case x of Some v \<Rightarrow> v | None \<Rightarrow> d)"

definition row_of_location :: "locationRead \<Rightarrow> locationRow" where
  "row_of_location l =
     \<lparr>lr_key = js ''loc-'' @ str_int (lo_id l), lr_path = lo_path l,
      lr_targetMode = or_default (lo_target l) (if lo_upstream_id l \<noteq> None then LPool else LHost),
      lr_upstreamId = text_or_empty (lo_upstream_id l),
      lr_forwardHost = or_default (lo_forward_host l) [],
      lr_forwardPort = text_or_empty (lo_forward_port l),
      lr_scheme = or_default (lo_forward_scheme l) Http,
      lr_customPageId = text_or_empty (lo_custom_page_id l),
      lr_errorCode = text_or_empty (lo_error_code l)\<rparr>"

definition stateFromHost :: "proxyHost option \<Rightarrow> bool \<Rightarrow> proxyHostFormState" where
  "stateFromHost host hasPools =
     (case host of
        None \<Rightarrow>
          \<lparr>fs_domains = [], fs_accessListId = NO_ACCESS_LIST, fs_enabled = True,
           fs_rootTargetMode = (if hasPools then PoolTarget else HostTarget),
           fs_rootUpstreamId = [], fs_rootForwardHost = [], fs_rootForwardPort = [],
           fs_rootScheme = Http, fs_locations = [], fs_certificateId = NO_CERTIFICATE,
           fs_toggles = emptyToggles, fs_maintenanceAllow = [], fs_advancedConfig = []\<rparr>
      | Some h \<Rightarrow>
          \<lparr>fs_domains = ph_domain_names h,
           fs_accessListId = id_or_sentinel NO_ACCESS_LIST (ph_access_list_id h),
           fs_enabled = or_default (ph_enabled h) True,
           fs_rootTargetMode = (if ph_upstream_id h \<noteq> None then PoolTarget else HostTarget),
           fs_rootUpstreamId = text_or_empty (ph_upstream_id h),
           fs_rootForwardHost = or_default (ph_forward_host h) [],
           fs_rootForwardPort = text_or_empty (ph_forward_port h),
           fs_rootScheme = or_default (ph_forward_scheme h) Http,
           fs_locations = map row_of_location (or_default (ph_locations h) []),
           fs_certificateId = id_or_sentinel NO_CERTIFICATE (ph_certificate_id h),
           fs_toggles = (\<lambda>k. or_default (ph_toggle h k) False),
           fs_maintenanceAllow = or_default (ph_maintenance_allow h) [],
           fs_advancedConfig = or_default (ph_advanced_config h) []\<rparr>)"

text \<open>\<open>LOCATION_FORBIDDEN\<close>: white space, braces, semicolon or double quote.\<close>

definition forbidden_unit :: "nat \<Rightarrow> bool" where
  "forbidden_unit c \<longleftrightarrow> is_ws c \<or> c \<in> {123, 125, 59, 34}"

definition row_problem :: "jstring set \<Rightarrow> locationRow \<Rightarrow> jstring option" where
  "row_problem seen row =
     (let path = trim (lr_path row)
      in if \<not> startsWith path (js ''/'')
         then Some (js ''Location path '' @ dq @ path @ dq @ js '' must start with /.'')
         else if path = js ''/''
         then Some (js ''/ is the root route '' @ [8212] @ js '' add a sub-path such as /api/.'')
         else if list_ex forbidden_unit path
         then Some (js ''Location path '' @ dq @ path @ dq @ js '' must not contain whitespace or { } ; '' @ dq @ js ''.'')
         else if 255 < length path then Some (js ''Location paths are limited to 255 characters.'')
         else if path \<in> seen then Some (js ''Duplicate location path '' @ dq @ path @ dq @ js ''.'')
         else if lr_targetMode row = LPool \<and> lr_upstreamId row = []
         then Some (js ''Select an upstream pool for '' @ path @ js ''.'')
         else if lr_targetMode row = LCustomPage \<and> lr_customPageId row = []
         then Some (js ''Select a page for '' @ path @ js ''.'')
         else if lr_targetMode row = LErrorPage \<and> lr_errorCode row = []
         then Some (js ''Select a status code for '' @ path @ js ''.'')
         else if lr_targetMode row = LHost \<and> trim (lr_forwardHost row) = []
         then Some (js ''Enter a forward host for '' @ path @ js ''.'')
         else if lr_targetMode row = LHost \<and> parsePort (lr_forwardPort row) = None
         then Some (js ''Forward port for '' @ path @ js '' must be between 1 and 65535.'')
         else None)"

fun validate_rows :: "jstring set \<Rightarrow> locationRow list \<Rightarrow> formError option" where
  "validate_rows seen [] = None"
| "validate_rows seen (row # rows) =
     (case row_problem seen row of
        Some message \<Rightarrow> Some \<lparr>fe_message = message, fe_tab = Some ForwardingTab\<rparr>
      | None \<Rightarrow> validate_rows (insert (trim (lr_path row)) seen) rows)"

definition validateLocations :: "locationRow list \<Rightarrow> formError option" where
  "validateLocations rows = validate_rows {} rows"

text \<open>\<open>/^\d{1,3}$/\<close>\<close>

definition short_number :: "jstring \<Rightarrow> bool" where
  "short_number s \<longleftrightarrow> s \<noteq> [] \<and> length s \<le> 3 \<and> list_all is_digit s"

definition is_hex_unit :: "nat \<Rightarrow> bool" where
  "is_hex_unit c \<longleftrightarrow> is_digit c \<or> 97 \<le> c \<and> c \<le> 102 \<or> 65 \<le> c \<and> c \<le> 70"

definition isIpOrCidr :: "jstring \<Rightarrow> bool" where
  "isIpOrCidr entry =
     (let v = trim entry
      in if v = [] then False
         else let parts = split_on 47 v; address = hd parts
              in if 2 < length parts then False
                 else let v6 = js_includes address (js '':'')
                      in if length parts = 2 \<and>
                            (\<not> short_number (parts ! 1) \<or>
                             (if v6 then 128 else 32) < nat_of_digits (parts ! 1))
                         then False
                         else if v6
                         then address \<noteq> [] \<and> list_all (\<lambda>c. is_hex_unit c \<or> c = 58) address \<and>
                              \<not> js_includes address (js '':::'')
                         else let octets = split_on 46 address
                              in length octets = 4 \<and>
                                 list_all (\<lambda>oct. short_number oct \<and> nat_of_digits oct \<le> 255) octets)"

definition validateForm :: "proxyHostFormState \<Rightarrow> formError option" where
  "validateForm form =
     (if fs_domains form = []
      then Some \<lparr>fe_message = js ''Enter at least one domain name.'', fe_tab = None\<rparr>
      else if fs_rootTargetMode form = PoolTarget \<and> fs_rootUpstreamId form = []
      then Some \<lparr>fe_message = js ''Select an upstream pool to forward to.'', fe_tab = Some ForwardingTab\<rparr>
      else if fs_rootTargetMode form = HostTarget \<and> trim (fs_rootForwardHost form) = []
      then Some \<lparr>fe_message = js ''Enter a forward host.'', fe_tab = Some ForwardingTab\<rparr>
      else if fs_rootTargetMode form = HostTarget \<and> parsePort (fs_rootForwardPort form) = None
      then Some \<lparr>fe_message = js ''Forward port must be between 1 and 65535.'', fe_tab = Some ForwardingTab\<rparr>
      else (case find (\<lambda>entry. \<not> isIpOrCidr entry) (fs_maintenanceAllow form) of
              Some entry \<Rightarrow>
                Some \<lparr>fe_message = dq @ entry @ dq @ js '' is not an IP address or CIDR range.'',
                      fe_tab = Some AdvancedTab\<rparr>
            | None \<Rightarrow> validateLocations (fs_locations form)))"

definition idOrNull :: "jstring \<Rightarrow> jstring \<Rightarrow> jsnum option" where
  "idOrNull v sentinel = (if v = sentinel then None else Some (parseInt v))"

definition payload_of_row :: "locationRow \<Rightarrow> locationPayload" where
  "payload_of_row row =
     (let pooled = (lr_targetMode row = LPool); proxied = (pooled \<or> lr_targetMode row = LHost)
      in \<lparr>lp_path = trim (lr_path row), lp_target = lr_targetMode row,
          lp_upstream_id = (if pooled then Some (parseInt (lr_upstreamId row)) else None),
          lp_forward_host = (if proxied \<and> \<not> pooled then Some (trim (lr_forwardHost row)) else None),
          lp_forward_port = (if proxied \<and> \<not> pooled then parsePort (lr_forwardPort row) else None),
          lp_forward_scheme = lr_scheme row,
          lp_custom_page_id = (if lr_targetMode row = LCustomPage then Some (parseInt (lr_customPageId row)) else None),
          lp_error_code = (if lr_targetMode row = LErrorPage then Some (parseInt (lr_errorCode row)) else None)\<rparr>)"

definition buildPayload :: "proxyHostFormState \<Rightarrow> proxyHost option \<Rightarrow> proxyHostCreate" where
  "buildPayload form host =
     (let rootPool = (fs_rootTargetMode form = PoolTarget)
      in \<lparr>pc_domain_names = fs_domains form,
          pc_upstream_id = (if rootPool then Some (parseInt (fs_rootUpstreamId form)) else None),
          pc_forward_host = (if rootPool then None else Some (trim (fs_rootForwardHost form))),
          pc_forward_port = (if rootPool then None else parsePort (fs_rootForwardPort form)),
          pc_forward_scheme = fs_rootScheme form,
          pc_certificate_id = idOrNull (fs_certificateId form) NO_CERTIFICATE,
          pc_access_list_id = idOrNull (fs_accessListId form) NO_ACCESS_LIST,
          pc_enabled = fs_enabled form,
          pc_maintenance_allow = fs_maintenanceAllow form,
          pc_advanced_config = fs_advancedConfig form,
          pc_toggles = fs_toggles form,
          pc_locations = map payload_of_row (fs_locations form),
          pc_crowdsec_appsec_enabled =
            (case host of Some h \<Rightarrow> or_default (ph_crowdsec_appsec_enabled h) False | None \<Rightarrow> False)\<rparr>)"

section \<open>The body of the request\<close>

primrec scheme_name :: "httpScheme \<Rightarrow> jstring" where
  "scheme_name Http = js ''http''"
| "scheme_name Https = js ''https''"

primrec target_name :: "locationTargetMode \<Rightarrow> jstring" where
  "target_name LHost = js ''host''"
| "target_name LPool = js ''pool''"
| "target_name LDefaultSite = js ''default_site''"
| "target_name LCustomPage = js ''custom_page''"
| "target_name LErrorPage = js ''error_page''"

primrec toggle_name :: "toggleKey \<Rightarrow> jstring" where
  "toggle_name Ssl_forced = js ''ssl_forced''"
| "toggle_name Http2_support = js ''http2_support''"
| "toggle_name Hsts_enabled = js ''hsts_enabled''"
| "toggle_name Hsts_subdomains = js ''hsts_subdomains''"
| "toggle_name Caching_enabled = js ''caching_enabled''"
| "toggle_name Block_exploits = js ''block_exploits''"
| "toggle_name Allow_websocket_upgrade = js ''allow_websocket_upgrade''"
| "toggle_name Crowdsec_enabled = js ''crowdsec_enabled''"
| "toggle_name Maintenance_enabled = js ''maintenance_enabled''"

text \<open>NaN is written as null, as \<open>JSON.stringify\<close> does.\<close>

definition num_json :: "jsnum option \<Rightarrow> jval" where
  "num_json x = (case x of Some (Num i) \<Rightarrow> Number i | _ \<Rightarrow> Null)"

definition opt_json :: "('a \<Rightarrow> jval) \<Rightarrow> 'a option \<Rightarrow> jval" where
  "opt_json f x = (case x of Some v \<Rightarrow> f v | None \<Rightarrow> Null)"

definition location_json :: "locationPayload \<Rightarrow> jval" where
  "location_json l =
     Obj [(js ''path'', Str (lp_path l)), (js ''target'', Str (target_name (lp_target l))),
          (js ''upstream_id'', num_json (lp_upstream_id l)),
          (js ''forward_host'', opt_json Str (lp_forward_host l)),
          (js ''forward_port'', opt_json Number (lp_forward_port l)),
          (js ''forward_scheme'', Str (scheme_name (lp_forward_scheme l))),
          (js ''custom_page_id'', num_json (lp_custom_page_id l)),
          (js ''error_code'', num_json (lp_error_code l))]"

definition host_json :: "proxyHostCreate \<Rightarrow> jval" where
  "host_json p =
     Obj ([(js ''domain_names'', Arr (map Str (pc_domain_names p))),
           (js ''upstream_id'', num_json (pc_upstream_id p)),
           (js ''forward_host'', opt_json Str (pc_forward_host p)),
           (js ''forward_port'', opt_json Number (pc_forward_port p)),
           (js ''forward_scheme'', Str (scheme_name (pc_forward_scheme p))),
           (js ''certificate_id'', num_json (pc_certificate_id p)),
           (js ''access_list_id'', num_json (pc_access_list_id p)),
           (js ''enabled'', Bool (pc_enabled p)),
           (js ''maintenance_allow'', Arr (map Str (pc_maintenance_allow p))),
           (js ''advanced_config'', Str (pc_advanced_config p))] @
          map (\<lambda>k. (toggle_name k, Bool (pc_toggles p k))) TOGGLE_KEYS @
          [(js ''locations'', Arr (map location_json (pc_locations p))),
           (js ''crowdsec_appsec_enabled'', Bool (pc_crowdsec_appsec_enabled p))])"

section \<open>The dialog\<close>

record proxyHostDialog =
  hd_host :: "proxyHost option"
  hd_form :: proxyHostFormState
  hd_tab :: dialogTab
  hd_domainsInvalid :: bool
  hd_allowText :: jstring
  hd_rowSeq :: nat

definition openHostDialog :: "proxyHost option \<Rightarrow> bool \<Rightarrow> nat \<Rightarrow> proxyHostDialog" where
  "openHostDialog host hasPools rowSeq =
     \<lparr>hd_host = host, hd_form = stateFromHost host hasPools, hd_tab = ForwardingTab,
      hd_domainsInvalid = False,
      hd_allowText = join (js '', '') (case host of Some h \<Rightarrow> or_default (ph_maintenance_allow h) [] | None \<Rightarrow> []),
      hd_rowSeq = rowSeq\<rparr>"

definition parseAllowList :: "jstring \<Rightarrow> jstring list" where
  "parseAllowList input = filter (\<lambda>e. e \<noteq> []) (map trim (split_runs is_sep input))"

definition setToggle :: "toggleKey \<Rightarrow> bool \<Rightarrow> proxyHostDialog \<Rightarrow> proxyHostDialog" where
  "setToggle k b d = d\<lparr>hd_form := (hd_form d)\<lparr>fs_toggles := (fs_toggles (hd_form d))(k := b)\<rparr>\<rparr>"

definition setAllowText :: "jstring \<Rightarrow> proxyHostDialog \<Rightarrow> proxyHostDialog" where
  "setAllowText v d =
     d\<lparr>hd_allowText := v, hd_form := (hd_form d)\<lparr>fs_maintenanceAllow := parseAllowList v\<rparr>\<rparr>"

definition addRow :: "proxyHostDialog \<Rightarrow> proxyHostDialog" where
  "addRow d =
     (let (row, n) = newLocationRow (hd_rowSeq d)
      in d\<lparr>hd_form := (hd_form d)\<lparr>fs_locations := fs_locations (hd_form d) @ [row]\<rparr>, hd_rowSeq := n\<rparr>)"

definition updateRow :: "jstring \<Rightarrow> (locationRow \<Rightarrow> locationRow) \<Rightarrow> locationRow list \<Rightarrow> locationRow list" where
  "updateRow key change rows = map (\<lambda>r. if lr_key r = key then change r else r) rows"

definition removeRow :: "jstring \<Rightarrow> locationRow list \<Rightarrow> locationRow list" where
  "removeRow key rows = filter (\<lambda>r. lr_key r \<noteq> key) rows"

text \<open>The message that keeps the dialog open, the tab it opens, and the save.\<close>

definition host_problem :: "proxyHostDialog \<Rightarrow> jstring option" where
  "host_problem d =
     (if hd_domainsInvalid d then Some (js ''Fix the highlighted domain first.'')
      else map_option fe_message (validateForm (hd_form d)))"

definition problem_tab :: "proxyHostDialog \<Rightarrow> dialogTab" where
  "problem_tab d =
     (if hd_domainsInvalid d then hd_tab d
      else case validateForm (hd_form d) of
             Some p \<Rightarrow> or_default (fe_tab p) (hd_tab d)
           | None \<Rightarrow> hd_tab d)"

definition save_host :: "'w api_env \<Rightarrow> proxyHostDialog \<Rightarrow> ('w, jval) io" where
  "save_host env d =
     (let payload = host_json (buildPayload (hd_form d) (hd_host d))
      in run_endpoint env (proxyHosts
           (case hd_host d of Some h \<Rightarrow> Update (ph_id h) payload | None \<Rightarrow> Create payload)))"

definition host_ok_text :: "proxyHostDialog \<Rightarrow> jstring" where
  "host_ok_text d = (if hd_host d \<noteq> None then js ''Proxy host updated'' else js ''Proxy host created'')"

definition handleHostSubmit ::
  "'w api_env \<Rightarrow> proxyHostDialog \<Rightarrow> dialog_ui \<Rightarrow> 'w \<Rightarrow> (proxyHostDialog \<times> dialog_ui) \<times> 'w" where
  "handleHostSubmit env d ui w =
     (let ui1 = ui\<lparr>ui_error := None\<rparr>
      in if hd_domainsInvalid d then ((d, refuse (js ''Fix the highlighted domain first.'') ui1), w)
         else case validateForm (hd_form d) of
                Some p \<Rightarrow> ((d\<lparr>hd_tab := or_default (fe_tab p) (hd_tab d)\<rparr>, refuse (fe_message p) ui1), w)
              | None \<Rightarrow>
                  (case save_flow (host_ok_text d) (save_host env d) (ui1\<lparr>ui_saving := True\<rparr>) w of
                     (ui', w') \<Rightarrow> ((d, ui'), w')))"

interpretation host_dialog: submit_dialog host_problem "save_host env" host_ok_text
  "\<lambda>d ui w. case handleHostSubmit env d ui w of ((_, ui'), w') \<Rightarrow> (ui', w')" for env
proof (unfold_locales, goal_cases)
  case (1 f m ui w)
  then show ?case
    by (auto simp: host_problem_def handleHostSubmit_def refuse_def split: if_splits option.splits)
next
  case (2 f ui w)
  then have "validateForm (hd_form f) = None" "\<not> hd_domainsInvalid f"
    by (auto simp: host_problem_def split: if_splits)
  then show ?case
    by (auto simp: handleHostSubmit_def save_flow_def split: prod.splits sum.splits)
qed

section \<open>The list view\<close>

definition put_enabled :: "bool \<Rightarrow> proxyHost \<Rightarrow> proxyHost" where
  "put_enabled b h = h\<lparr>ph_enabled := Some b\<rparr>"

definition put_maintenance :: "bool \<Rightarrow> proxyHost \<Rightarrow> proxyHost" where
  "put_maintenance b h = h\<lparr>ph_toggle := (ph_toggle h)(Maintenance_enabled := Some b)\<rparr>"

definition setEnabled ::
  "'w api_env \<Rightarrow> int \<Rightarrow> bool \<Rightarrow> proxyHost view_ui \<Rightarrow> 'w \<Rightarrow> proxyHost view_ui \<times> 'w" where
  "setEnabled env =
     toggle_row ph_id put_enabled
       (\<lambda>i b. run_endpoint env (proxyHosts (Update i (body1 ''enabled'' (Bool b)))))"

definition setMaintenance ::
  "'w api_env \<Rightarrow> int \<Rightarrow> bool \<Rightarrow> proxyHost view_ui \<Rightarrow> 'w \<Rightarrow> proxyHost view_ui \<times> 'w" where
  "setMaintenance env =
     toggle_row ph_id put_maintenance
       (\<lambda>i b. run_endpoint env (proxyHosts (Update i (body1 ''maintenance_enabled'' (Bool b)))))"

interpretation enabled_switch: row_switch ph_id put_enabled ph_enabled
  by unfold_locales (simp_all add: put_enabled_def)

interpretation maintenance_switch: row_switch ph_id put_maintenance "\<lambda>h. ph_toggle h Maintenance_enabled"
  by unfold_locales (simp_all add: put_maintenance_def fun_upd_idem)

section \<open>Ports\<close>

lemma parsePort_bounds: "parsePort s = Some n \<Longrightarrow> 1 \<le> n \<and> n \<le> 65535"
  by (auto simp: parsePort_def split: jsnum.splits if_splits)

lemma parsePort_str_int [simp]:
  "parsePort (str_int i) = (if 1 \<le> i \<and> i \<le> 65535 then Some i else None)"
  by (simp add: parsePort_def)

section \<open>What a validated form sends\<close>

text \<open>A location's payload carries the fields of its target and no others.\<close>

definition location_exact :: "locationPayload \<Rightarrow> bool" where
  "location_exact l \<longleftrightarrow>
     (case lp_upstream_id l of Some n \<Rightarrow> lp_target l = LPool \<and> is_integer n | None \<Rightarrow> lp_target l \<noteq> LPool) \<and>
     (case lp_forward_host l of Some h \<Rightarrow> lp_target l = LHost \<and> trim h \<noteq> [] | None \<Rightarrow> lp_target l \<noteq> LHost) \<and>
     (case lp_forward_port l of
        Some p \<Rightarrow> lp_target l = LHost \<and> 1 \<le> p \<and> p \<le> 65535 | None \<Rightarrow> lp_target l \<noteq> LHost) \<and>
     (case lp_custom_page_id l of
        Some n \<Rightarrow> lp_target l = LCustomPage \<and> is_integer n | None \<Rightarrow> lp_target l \<noteq> LCustomPage) \<and>
     (case lp_error_code l of
        Some n \<Rightarrow> lp_target l = LErrorPage \<and> is_integer n | None \<Rightarrow> lp_target l \<noteq> LErrorPage)"

definition path_ok :: "jstring \<Rightarrow> bool" where
  "path_ok path \<longleftrightarrow>
     startsWith path (js ''/'') \<and> path \<noteq> js ''/'' \<and> \<not> list_ex forbidden_unit path \<and> length path \<le> 255"

text \<open>The root forwards to a pool or to one backend, never both.\<close>

definition root_exact :: "proxyHostCreate \<Rightarrow> bool" where
  "root_exact p \<longleftrightarrow>
     (\<exists>n. pc_upstream_id p = Some (Num n) \<and> pc_forward_host p = None \<and> pc_forward_port p = None) \<or>
     (\<exists>h n. pc_upstream_id p = None \<and> pc_forward_host p = Some h \<and> trim h \<noteq> [] \<and>
        pc_forward_port p = Some n \<and> 1 \<le> n \<and> n \<le> 65535)"

text \<open>The pickers hold an id of the backend or nothing.\<close>

definition picked :: "jstring \<Rightarrow> bool" where
  "picked s \<longleftrightarrow> s = [] \<or> is_integer (parseInt s)"

definition pickers_ok :: "proxyHostFormState \<Rightarrow> bool" where
  "pickers_ok form \<longleftrightarrow>
     picked (fs_rootUpstreamId form) \<and>
     list_all (\<lambda>r. picked (lr_upstreamId r) \<and> picked (lr_customPageId r) \<and> picked (lr_errorCode r))
       (fs_locations form)"

lemma row_problem_None:
  assumes "row_problem seen row = None"
  shows "path_ok (trim (lr_path row))" "trim (lr_path row) \<notin> seen"
    "lr_targetMode row = LPool \<Longrightarrow> lr_upstreamId row \<noteq> []"
    "lr_targetMode row = LCustomPage \<Longrightarrow> lr_customPageId row \<noteq> []"
    "lr_targetMode row = LErrorPage \<Longrightarrow> lr_errorCode row \<noteq> []"
    "lr_targetMode row = LHost \<Longrightarrow> trim (lr_forwardHost row) \<noteq> []"
    "lr_targetMode row = LHost \<Longrightarrow> parsePort (lr_forwardPort row) \<noteq> None"
  using assms by (simp_all add: row_problem_def path_ok_def Let_def split: if_splits)

lemma payload_of_row_exact:
  assumes "row_problem seen row = None"
    and "picked (lr_upstreamId row)" "picked (lr_customPageId row)" "picked (lr_errorCode row)"
  shows "location_exact (payload_of_row row)"
  using row_problem_None [OF assms(1)] assms(2-) parsePort_bounds [of "lr_forwardPort row"]
  by (cases "lr_targetMode row")
    (auto simp: location_exact_def payload_of_row_def picked_def Let_def split: option.splits)

lemma validate_rows_None:
  "validate_rows seen rows = None \<Longrightarrow>
   list_all (\<lambda>r. \<exists>s. row_problem s r = None) rows \<and>
   distinct (map (\<lambda>r. trim (lr_path r)) rows) \<and> (\<forall>r \<in> set rows. trim (lr_path r) \<notin> seen)"
proof (induction rows arbitrary: seen)
  case (Cons r rows)
  then have r: "row_problem seen r = None" and "validate_rows (insert (trim (lr_path r)) seen) rows = None"
    by (auto split: option.splits)
  from Cons.IH [OF this(2)] r row_problem_None(2) [OF r] show ?case by auto
qed simp

lemma validated_rows:
  assumes "validate_rows seen rows = None"
  shows "list_all (\<lambda>r. picked (lr_upstreamId r) \<and> picked (lr_customPageId r) \<and> picked (lr_errorCode r)) rows \<Longrightarrow>
      list_all location_exact (map payload_of_row rows)"
    and "list_all (\<lambda>l. path_ok (lp_path l)) (map payload_of_row rows)"
proof -
  have r: "\<exists>s. row_problem s r = None" if "r \<in> set rows" for r
    using validate_rows_None [OF assms] that by (simp add: list_all_iff)
  then show "list_all location_exact (map payload_of_row rows)"
    if "list_all (\<lambda>r. picked (lr_upstreamId r) \<and> picked (lr_customPageId r) \<and> picked (lr_errorCode r)) rows"
    using that payload_of_row_exact by (simp add: list_all_iff) blast
  show "list_all (\<lambda>l. path_ok (lp_path l)) (map payload_of_row rows)"
    using r row_problem_None(1) by (simp add: list_all_iff payload_of_row_def Let_def) blast
qed

lemma payload_paths: "map lp_path (map payload_of_row rows) = map (\<lambda>r. trim (lr_path r)) rows"
  by (simp add: payload_of_row_def Let_def)

section \<open>Properties\<close>

text \<open>
  C13. A form that passes validation is sent with at least one domain, exactly one target for the
  root (a pool, or a non-blank host with a port from 1 to 65535), locations whose paths are
  well formed and pairwise distinct and which carry exactly the fields of their own target, and
  only IP addresses or CIDR ranges in the maintenance allow list. The pickers are assumed to
  hold ids, as their options do.
\<close>

theorem validated_payload:
  assumes "validateForm form = None" and "pickers_ok form"
  shows "let p = buildPayload form host
         in pc_domain_names p \<noteq> [] \<and> root_exact p \<and> list_all location_exact (pc_locations p) \<and>
            list_all (\<lambda>l. path_ok (lp_path l)) (pc_locations p) \<and>
            distinct (map lp_path (pc_locations p)) \<and> list_all isIpOrCidr (pc_maintenance_allow p)"
proof -
  from assms(1) have v: "fs_domains form \<noteq> []" "validate_rows {} (fs_locations form) = None"
      "find (\<lambda>entry. \<not> isIpOrCidr entry) (fs_maintenanceAllow form) = None"
    and pool: "fs_rootTargetMode form = PoolTarget \<Longrightarrow> fs_rootUpstreamId form \<noteq> []"
    and host: "fs_rootTargetMode form = HostTarget \<Longrightarrow>
      trim (fs_rootForwardHost form) \<noteq> [] \<and> parsePort (fs_rootForwardPort form) \<noteq> None"
    by (auto simp: validateForm_def validateLocations_def split: if_splits option.splits)
  have root: "root_exact (buildPayload form host)"
    using pool host assms(2) parsePort_bounds [of "fs_rootForwardPort form"]
    by (cases "fs_rootTargetMode form"; cases "parseInt (fs_rootUpstreamId form)")
      (auto simp: root_exact_def buildPayload_def pickers_ok_def picked_def)
  have allow: "list_all isIpOrCidr (fs_maintenanceAllow form)"
    using v(3) by (auto simp: find_None_iff list_all_iff)
  have rows: "list_all location_exact (map payload_of_row (fs_locations form))"
    "list_all (\<lambda>l. path_ok (lp_path l)) (map payload_of_row (fs_locations form))"
    using validated_rows [OF v(2)] assms(2) by (simp_all add: pickers_ok_def)
  show ?thesis
    using root allow rows v(1) validate_rows_None [OF v(2)]
    by (simp add: buildPayload_def Let_def payload_paths del: map_map)
qed

definition demo_form :: proxyHostFormState where
  "demo_form =
     (stateFromHost None False)\<lparr>fs_domains := [js ''a.io''], fs_rootForwardHost := js '' web '',
        fs_rootForwardPort := js ''8080'', fs_maintenanceAllow := [js ''10.0.0.0/8''],
        fs_locations := [(fst (newLocationRow 0))\<lparr>lr_path := js ''/api/'', lr_upstreamId := js ''7''\<rparr>]\<rparr>"

lemma demo_form_valid: "validateForm demo_form = None" "pickers_ok demo_form"
  by (simp_all add: demo_form_def stateFromHost_def newLocationRow_def validateForm_def validateLocations_def
      row_problem_def parsePort_def isIpOrCidr_def short_number_def pickers_ok_def picked_def parseInt_def
      js_def trim_def trimStart_def trimEnd_def char_class_defs nat_of_digits_def digit_val_def
      startsWith_def forbidden_unit_def)

theorem validated_payload_witness:
  "root_exact (buildPayload demo_form None) \<and> pc_domain_names (buildPayload demo_form None) \<noteq> []"
  using validated_payload [OF demo_form_valid, of None] by (simp add: Let_def)

text \<open>What the backend holds: one target per route, ids that are not zero, trimmed text.\<close>

definition location_stored :: "locationRead \<Rightarrow> bool" where
  "location_stored l \<longleftrightarrow>
     trim (lo_path l) = lo_path l \<and>
     (case lo_target l of
        Some LPool \<Rightarrow> lo_upstream_id l \<noteq> None \<and> lo_forward_host l = None \<and> lo_forward_port l = None \<and>
                      lo_custom_page_id l = None \<and> lo_error_code l = None
      | Some LHost \<Rightarrow> lo_upstream_id l = None \<and>
                      (case lo_forward_host l of Some h \<Rightarrow> trim h = h | None \<Rightarrow> False) \<and>
                      (case lo_forward_port l of Some p \<Rightarrow> 1 \<le> p \<and> p \<le> 65535 | None \<Rightarrow> False) \<and>
                      lo_custom_page_id l = None \<and> lo_error_code l = None
      | Some LDefaultSite \<Rightarrow> lo_upstream_id l = None \<and> lo_forward_host l = None \<and> lo_forward_port l = None \<and>
                      lo_custom_page_id l = None \<and> lo_error_code l = None
      | Some LCustomPage \<Rightarrow> lo_upstream_id l = None \<and> lo_forward_host l = None \<and> lo_forward_port l = None \<and>
                      lo_custom_page_id l \<noteq> None \<and> lo_error_code l = None
      | Some LErrorPage \<Rightarrow> lo_upstream_id l = None \<and> lo_forward_host l = None \<and> lo_forward_port l = None \<and>
                      lo_custom_page_id l = None \<and> lo_error_code l \<noteq> None
      | None \<Rightarrow> False)"

definition host_stored :: "proxyHost \<Rightarrow> bool" where
  "host_stored h \<longleftrightarrow>
     (case ph_upstream_id h of
        Some u \<Rightarrow> ph_forward_host h = None \<and> ph_forward_port h = None
      | None \<Rightarrow> (case ph_forward_host h of Some t \<Rightarrow> trim t = t | None \<Rightarrow> False) \<and>
                (case ph_forward_port h of Some p \<Rightarrow> 1 \<le> p \<and> p \<le> 65535 | None \<Rightarrow> False)) \<and>
     ph_certificate_id h \<noteq> Some 0 \<and> ph_access_list_id h \<noteq> Some 0 \<and>
     list_all location_stored (or_default (ph_locations h) [])"

definition location_view :: "locationRead \<Rightarrow> locationPayload" where
  "location_view l =
     \<lparr>lp_path = lo_path l, lp_target = or_default (lo_target l) LPool,
      lp_upstream_id = map_option Num (lo_upstream_id l), lp_forward_host = lo_forward_host l,
      lp_forward_port = lo_forward_port l, lp_forward_scheme = or_default (lo_forward_scheme l) Http,
      lp_custom_page_id = map_option Num (lo_custom_page_id l),
      lp_error_code = map_option Num (lo_error_code l)\<rparr>"

definition host_view :: "proxyHost \<Rightarrow> proxyHostCreate" where
  "host_view h =
     \<lparr>pc_domain_names = ph_domain_names h, pc_upstream_id = map_option Num (ph_upstream_id h),
      pc_forward_host = ph_forward_host h, pc_forward_port = ph_forward_port h,
      pc_forward_scheme = or_default (ph_forward_scheme h) Http,
      pc_certificate_id = map_option Num (ph_certificate_id h),
      pc_access_list_id = map_option Num (ph_access_list_id h),
      pc_enabled = or_default (ph_enabled h) True,
      pc_maintenance_allow = or_default (ph_maintenance_allow h) [],
      pc_advanced_config = or_default (ph_advanced_config h) [],
      pc_toggles = (\<lambda>k. or_default (ph_toggle h k) False),
      pc_locations = map location_view (or_default (ph_locations h) []),
      pc_crowdsec_appsec_enabled = or_default (ph_crowdsec_appsec_enabled h) False\<rparr>"

lemma location_roundtrip: "location_stored l \<Longrightarrow> payload_of_row (row_of_location l) = location_view l"
  by (auto simp: location_stored_def payload_of_row_def row_of_location_def location_view_def
      or_default_def text_or_empty_def Let_def split: option.splits locationTargetMode.splits)

lemma str_int_not_none: "str_int i \<noteq> js ''none''"
proof
  assume "str_int i = js ''none''"
  then show False using str_int_head [of i] by (simp add: js_def is_digit_def)
qed

lemma id_roundtrip: "x \<noteq> Some 0 \<Longrightarrow> idOrNull (id_or_sentinel (js ''none'') x) (js ''none'') = map_option Num x"
  by (auto simp: idOrNull_def id_or_sentinel_def str_int_not_none split: option.splits)

text \<open>
  Opening a stored host and saving it unchanged sends the host back as it is: the same
  target, ids, toggles and locations, a missing optional field as its default. This is for
  hosts as the backend stores them (one target per route, ids other than zero, trimmed text).
\<close>

theorem edit_roundtrip:
  assumes "host_stored h"
  shows "buildPayload (stateFromHost (Some h) hasPools) (Some h) = host_view h"
proof -
  have "map payload_of_row (map row_of_location (or_default (ph_locations h) [])) =
      map location_view (or_default (ph_locations h) [])"
    using assms by (auto simp: host_stored_def list_all_iff location_roundtrip)
  moreover have "idOrNull (id_or_sentinel (js ''none'') (ph_certificate_id h)) (js ''none'') =
      map_option Num (ph_certificate_id h)"
    "idOrNull (id_or_sentinel (js ''none'') (ph_access_list_id h)) (js ''none'') =
      map_option Num (ph_access_list_id h)"
    using assms by (auto simp: host_stored_def intro!: id_roundtrip)
  ultimately show ?thesis
    using assms
    by (cases "ph_upstream_id h")
      (auto simp: buildPayload_def stateFromHost_def host_view_def host_stored_def or_default_def
        text_or_empty_def NO_CERTIFICATE_def NO_ACCESS_LIST_def split: option.splits)
qed

definition demo_host :: proxyHost where
  "demo_host =
     \<lparr>ph_id = 3, ph_domain_names = [js ''a.io''], ph_upstream_id = None,
      ph_forward_host = Some (js ''web''), ph_forward_port = Some 80, ph_forward_scheme = None,
      ph_certificate_id = Some 4, ph_access_list_id = None, ph_enabled = Some False,
      ph_maintenance_allow = None, ph_advanced_config = None, ph_toggle = (\<lambda>k. None),
      ph_locations = Some [\<lparr>lo_id = 1, lo_path = js ''/x'', lo_target = Some LPool, lo_upstream_id = Some 2,
        lo_forward_host = None, lo_forward_port = None, lo_forward_scheme = None,
        lo_custom_page_id = None, lo_error_code = None\<rparr>],
      ph_crowdsec_appsec_enabled = None\<rparr>"

theorem edit_roundtrip_witness:
  "buildPayload (stateFromHost (Some demo_host) True) (Some demo_host) = host_view demo_host"
proof -
  have "host_stored demo_host"
    by (simp add: host_stored_def demo_host_def location_stored_def or_default_def trim_no_ws js_def is_ws_def)
  then show ?thesis by (rule edit_roundtrip)
qed

text \<open>
  Submitting the dialog: a form with a problem shows the problem, opens its tab and sends
  nothing; otherwise the host is saved, and the dialog closes when the backend accepts it and
  shows the described error when it does not. It never stays in the saving state, and however
  often it is submitted, it reports at most one save and closes with it.
\<close>

theorem host_dialog_submit:
  "case handleHostSubmit env d fresh_ui w of
     ((d', ui'), w') \<Rightarrow>
       \<not> ui_saving ui' \<and> hd_tab d' = problem_tab d \<and> hd_form d' = hd_form d \<and>
       ui_open ui' = (case host_problem d of Some m \<Rightarrow> True | None \<Rightarrow> \<exists>e. fst (save_host env d w) = Inl e) \<and>
       w' = (if host_problem d = None then snd (save_host env d w) else w) \<and>
       ui_error ui' =
         (case host_problem d of
            Some m \<Rightarrow> Some m
          | None \<Rightarrow> (case fst (save_host env d w) of
                       Inl e \<Rightarrow> Some (de_message (describeError e))
                     | Inr _ \<Rightarrow> None)) \<and>
       (case host_dialog.attempts env ds fresh_ui w of
          (ui2, _) \<Rightarrow> ui_saved ui2 = (if ui_open ui2 then 0 else 1))"
proof -
  have ui: "ui_open fresh_ui" "\<not> ui_saving fresh_ui" "ui_saved fresh_ui = 0" by (simp_all add: fresh_ui_def)
  have once: "case host_dialog.attempts env ds fresh_ui w of
      (ui2, _) \<Rightarrow> ui_saved ui2 = (if ui_open ui2 then 0 else 1)"
    using host_dialog.attempts_saved_once [OF ui(1,2), of env ds w] ui(3) by (auto split: prod.splits)
  show ?thesis
    using once
    by (auto simp: handleHostSubmit_def host_problem_def problem_tab_def save_flow_def refuse_def
        fresh_ui_def or_default_def Let_def split: option.splits prod.splits sum.splits if_splits)
qed

text \<open>
  Flipping the enabled or the maintenance switch of a host: the row shows the new state at
  once and keeps it if the backend accepts the patch; if it refuses, the whole table is as
  before and the error is toasted. The switch must have shown the opposite state.
\<close>

theorem host_switches:
  assumes "\<And>h. h \<in> set (vw_rows vw) \<Longrightarrow> ph_id h = i \<Longrightarrow>
      ph_enabled h = Some (\<not> b) \<and> ph_toggle h Maintenance_enabled = Some (\<not> b)"
  shows "(case run_endpoint env (proxyHosts (Update i (body1 ''enabled'' (Bool b)))) w of
      (Inr x, w') \<Rightarrow> setEnabled env i b vw w = (vw\<lparr>vw_rows := flip ph_id put_enabled i b (vw_rows vw)\<rparr>, w')
    | (Inl err, w') \<Rightarrow> setEnabled env i b vw w =
        (vw\<lparr>vw_toasts := vw_toasts vw @ [ToastError (de_message (describeError err))]\<rparr>, w')) \<and>
    (case run_endpoint env (proxyHosts (Update i (body1 ''maintenance_enabled'' (Bool b)))) w of
      (Inr x, w') \<Rightarrow>
        setMaintenance env i b vw w = (vw\<lparr>vw_rows := flip ph_id put_maintenance i b (vw_rows vw)\<rparr>, w')
    | (Inl err, w') \<Rightarrow> setMaintenance env i b vw w =
        (vw\<lparr>vw_toasts := vw_toasts vw @ [ToastError (de_message (describeError err))]\<rparr>, w'))"
  unfolding setEnabled_def setMaintenance_def
  using assms
  by (intro conjI enabled_switch.toggle_row_outcome maintenance_switch.toggle_row_outcome) auto

theorem host_switches_witness:
  "setEnabled offline_env 3 True
     \<lparr>vw_rows = [demo_host\<lparr>ph_toggle := (\<lambda>k. Some False)\<rparr>], vw_loading = False, vw_loadError = None,
      vw_toasts = []\<rparr> () =
   (\<lparr>vw_rows = [demo_host\<lparr>ph_toggle := (\<lambda>k. Some False)\<rparr>], vw_loading = False, vw_loadError = None,
      vw_toasts = [ToastError (js ''Failed to fetch'')]\<rparr>, ())"
  using host_switches [of "\<lparr>vw_rows = [demo_host\<lparr>ph_toggle := (\<lambda>k. Some False)\<rparr>], vw_loading = False,
      vw_loadError = None, vw_toasts = []\<rparr>" 3 True offline_env "()"]
  by (simp add: run_endpoint_offline demo_host_def describeError_def)

end
