(* ===== verification/Other_Hosts.thy ===== *)
theory Other_Hosts
  imports Proxy_Hosts
begin

text \<open>
  The other kinds of hosts: streams (\<^verbatim>\<open>components/streams\<close>), redirection hosts
  (\<^verbatim>\<open>components/redirection-hosts\<close>) and 404 hosts (\<^verbatim>\<open>components/dead-hosts\<close>), with what their
  dialogs and lists share in \<^verbatim>\<open>components/hosts\<close>: the certificate picker, the domain links and
  the guarded switch of a row.
\<close>

section \<open>Shared parts\<close>

definition certificateIdFromValue :: "jstring \<Rightarrow> jsnum option" where
  "certificateIdFromValue v = (if v = NO_CERTIFICATE then None else Some (parseInt v))"

definition valueFromCertificateId :: "int option \<Rightarrow> jstring" where
  "valueFromCertificateId x = (case x of Some i \<Rightarrow> str_int i | None \<Rightarrow> NO_CERTIFICATE)"

lemma certificate_value_roundtrip [simp]:
  "certificateIdFromValue (valueFromCertificateId x) = map_option Num x"
  by (auto simp: certificateIdFromValue_def valueFromCertificateId_def NO_CERTIFICATE_def str_int_not_none
      split: option.splits)

text \<open>A domain as the lists show it: a link, or plain text where a wildcard has no address.\<close>

datatype domainCell = PlainDomain jstring | DomainLink jstring jstring

definition domainLinks :: "bool \<Rightarrow> jstring list \<Rightarrow> domainCell list" where
  "domainLinks secure domains =
     map (\<lambda>d. if js_includes d (js ''*'') then PlainDomain d
              else DomainLink d (js (if secure then ''https'' else ''http'') @ js ''://'' @ d)) domains"

text \<open>
  The three dialogs have a Details tab that every check of theirs concerns: a problem opens it.
  The handler clears the error first, so a refusal shows only its own message.
\<close>

datatype hostTab = DetailsTab | SslTab

definition details_submit ::
  "('d \<Rightarrow> jstring option) \<Rightarrow> ('d \<Rightarrow> 'd) \<Rightarrow> ('d \<Rightarrow> jstring) \<Rightarrow> ('d \<Rightarrow> ('w, jval) io) \<Rightarrow>
   'd \<Rightarrow> dialog_ui \<Rightarrow> 'w \<Rightarrow> ('d \<times> dialog_ui) \<times> 'w" where
  "details_submit problem details ok_text save d ui w =
     (let ui1 = ui\<lparr>ui_error := None\<rparr>
      in case problem d of
           Some m \<Rightarrow> ((details d, refuse m ui1), w)
         | None \<Rightarrow>
             (case save_flow (ok_text d) (save d) (ui1\<lparr>ui_saving := True\<rparr>) w of
                (ui', w') \<Rightarrow> ((d, ui'), w')))"

lemma details_submit_dialog:
  "submit_dialog problem save ok_text
     (\<lambda>d ui w. case details_submit problem details ok_text save d ui w of ((_, ui'), w') \<Rightarrow> (ui', w'))"
  by unfold_locales (auto simp: details_submit_def refuse_def save_flow_def split: prod.splits sum.splits)

section \<open>Streams\<close>

text \<open>\<open>parsePort\<close> of \<^verbatim>\<open>streams/lib.ts\<close>: digits only, unlike the one of the proxy hosts.\<close>

definition streamPort :: "jstring \<Rightarrow> int option" where
  "streamPort s =
     (let t = trim s
      in if t = [] \<or> \<not> list_all is_digit t then None
         else case parseInt t of
                NaN \<Rightarrow> None
              | Num n \<Rightarrow> if n < 1 \<or> 65535 < n then None else Some n)"

record streamForm =
  st_targetMode :: targetMode
  st_upstreamId :: jstring
  st_incomingPort :: jstring
  st_forwardHost :: jstring
  st_forwardPort :: jstring
  st_tcp :: bool
  st_udp :: bool
  st_certificateId :: jstring
  st_enabled :: bool

record stream =
  sr_id :: int
  sr_upstream_id :: "int option"
  sr_incoming_port :: int
  sr_forward_host :: "jstring option"
  sr_forward_port :: "int option"
  sr_tcp :: bool
  sr_udp :: bool
  sr_certificate_id :: "int option"
  sr_enabled :: bool

definition stateFromStream :: "stream option \<Rightarrow> streamForm" where
  "stateFromStream x =
     (case x of
        None \<Rightarrow>
          \<lparr>st_targetMode = HostTarget, st_upstreamId = [], st_incomingPort = [], st_forwardHost = [],
           st_forwardPort = [], st_tcp = True, st_udp = False,
           st_certificateId = valueFromCertificateId None, st_enabled = True\<rparr>
      | Some s \<Rightarrow>
          \<lparr>st_targetMode = (if sr_upstream_id s \<noteq> None then PoolTarget else HostTarget),
           st_upstreamId = (case sr_upstream_id s of Some i \<Rightarrow> str_int i | None \<Rightarrow> []),
           st_incomingPort = str_int (sr_incoming_port s),
           st_forwardHost = (case sr_forward_host s of Some h \<Rightarrow> h | None \<Rightarrow> []),
           st_forwardPort = (case sr_forward_port s of Some p \<Rightarrow> str_int p | None \<Rightarrow> []),
           st_tcp = sr_tcp s, st_udp = sr_udp s,
           st_certificateId = valueFromCertificateId (sr_certificate_id s), st_enabled = sr_enabled s\<rparr>)"

record streamDialog =
  sd_stream :: "stream option"
  sd_form :: streamForm
  sd_tab :: hostTab

definition openStreamDialog :: "stream option \<Rightarrow> streamDialog" where
  "openStreamDialog s = \<lparr>sd_stream = s, sd_form = stateFromStream s, sd_tab = DetailsTab\<rparr>"

definition stream_problem :: "streamDialog \<Rightarrow> jstring option" where
  "stream_problem d =
     (let form = sd_form d; usingPool = (st_targetMode form = PoolTarget)
      in if streamPort (st_incomingPort form) = None
         then Some (js ''Incoming port must be between 1 and 65535.'')
         else if usingPool \<and> st_upstreamId form = []
         then Some (js ''Choose an upstream pool to forward to.'')
         else if \<not> usingPool \<and> trim (st_forwardHost form) = []
         then Some (js ''Enter a forward host.'')
         else if \<not> usingPool \<and> streamPort (st_forwardPort form) = None
         then Some (js ''Forward port must be between 1 and 65535.'')
         else if \<not> st_tcp form \<and> \<not> st_udp form
         then Some (js ''Enable at least one protocol (TCP or UDP).'')
         else None)"

record streamPayload =
  tp_incoming_port :: "int option"
  tp_forward_host :: "jstring option"
  tp_forward_port :: "int option"
  tp_upstream_id :: "jsnum option"
  tp_tcp :: bool
  tp_udp :: bool
  tp_certificate_id :: "jsnum option"
  tp_enabled :: bool

definition streamPayload_of :: "streamForm \<Rightarrow> streamPayload" where
  "streamPayload_of form =
     (let usingPool = (st_targetMode form = PoolTarget)
      in \<lparr>tp_incoming_port = streamPort (st_incomingPort form),
          tp_forward_host = (if usingPool then None else Some (trim (st_forwardHost form))),
          tp_forward_port = (if usingPool then None else streamPort (st_forwardPort form)),
          tp_upstream_id = (if usingPool then Some (parseInt (st_upstreamId form)) else None),
          tp_tcp = st_tcp form, tp_udp = st_udp form,
          tp_certificate_id = certificateIdFromValue (st_certificateId form),
          tp_enabled = st_enabled form\<rparr>)"

definition stream_json :: "streamPayload \<Rightarrow> jval" where
  "stream_json p =
     Obj [(js ''incoming_port'', opt_json Number (tp_incoming_port p)),
          (js ''forward_host'', opt_json Str (tp_forward_host p)),
          (js ''forward_port'', opt_json Number (tp_forward_port p)),
          (js ''upstream_id'', num_json (tp_upstream_id p)),
          (js ''tcp_forwarding'', Bool (tp_tcp p)), (js ''udp_forwarding'', Bool (tp_udp p)),
          (js ''certificate_id'', num_json (tp_certificate_id p)), (js ''enabled'', Bool (tp_enabled p))]"

definition save_stream :: "'w api_env \<Rightarrow> streamDialog \<Rightarrow> ('w, jval) io" where
  "save_stream env d =
     (let payload = stream_json (streamPayload_of (sd_form d))
      in run_endpoint env (streams
           (case sd_stream d of Some s \<Rightarrow> Update (sr_id s) payload | None \<Rightarrow> Create payload)))"

definition stream_ok_text :: "streamDialog \<Rightarrow> jstring" where
  "stream_ok_text d = (if sd_stream d \<noteq> None then js ''Stream updated'' else js ''Stream created'')"

definition handleStreamSubmit ::
  "'w api_env \<Rightarrow> streamDialog \<Rightarrow> dialog_ui \<Rightarrow> 'w \<Rightarrow> (streamDialog \<times> dialog_ui) \<times> 'w" where
  "handleStreamSubmit env =
     details_submit stream_problem (\<lambda>d. d\<lparr>sd_tab := DetailsTab\<rparr>) stream_ok_text (save_stream env)"

interpretation stream_dialog: submit_dialog stream_problem "save_stream env" stream_ok_text
  "\<lambda>d ui w. case handleStreamSubmit env d ui w of ((_, ui'), w') \<Rightarrow> (ui', w')" for env
  unfolding handleStreamSubmit_def by (rule details_submit_dialog)

definition put_stream_enabled :: "bool \<Rightarrow> stream \<Rightarrow> stream" where
  "put_stream_enabled b s = s\<lparr>sr_enabled := b\<rparr>"

definition setStreamEnabled ::
  "'w api_env \<Rightarrow> int \<Rightarrow> bool \<Rightarrow> stream view_ui \<Rightarrow> 'w \<Rightarrow> stream view_ui \<times> 'w" where
  "setStreamEnabled env =
     toggle_row sr_id put_stream_enabled
       (\<lambda>i b. run_endpoint env (streams (Update i (body1 ''enabled'' (Bool b)))))"

interpretation stream_switch: row_switch sr_id put_stream_enabled "\<lambda>s. Some (sr_enabled s)"
  by unfold_locales (simp_all add: put_stream_enabled_def)

section \<open>Redirection hosts\<close>

datatype redirectScheme = AutoScheme | HttpScheme | HttpsScheme

primrec redirect_scheme_name :: "redirectScheme \<Rightarrow> jstring" where
  "redirect_scheme_name AutoScheme = js ''auto''"
| "redirect_scheme_name HttpScheme = js ''http''"
| "redirect_scheme_name HttpsScheme = js ''https''"

definition REDIRECTION_TOGGLES :: "toggleKey list" where
  "REDIRECTION_TOGGLES =
     [Ssl_forced, Http2_support, Hsts_enabled, Hsts_subdomains, Block_exploits, Crowdsec_enabled]"

definition DEAD_TOGGLES :: "toggleKey list" where
  "DEAD_TOGGLES = [Ssl_forced, Http2_support, Hsts_enabled, Hsts_subdomains, Crowdsec_enabled]"

text \<open>The toggles of a new host, of either kind: CrowdSec on and the rest off.\<close>

definition newToggles :: "toggleKey \<Rightarrow> bool" where
  "newToggles k = (k = Crowdsec_enabled)"

record redirectionForm =
  rf_domains :: "jstring list"
  rf_forwardDomainName :: jstring
  rf_forwardScheme :: redirectScheme
  rf_forwardHttpCode :: int
  rf_preservePath :: bool
  rf_certificateId :: jstring
  rf_enabled :: bool
  rf_toggles :: "toggleKey \<Rightarrow> bool"

record redirectionHost =
  rh_id :: int
  rh_domain_names :: "jstring list"
  rh_forward_domain_name :: jstring
  rh_forward_scheme :: redirectScheme
  rh_forward_http_code :: int
  rh_preserve_path :: bool
  rh_certificate_id :: "int option"
  rh_enabled :: bool
  rh_toggles :: "toggleKey \<Rightarrow> bool"
  rh_advanced_config :: "jstring option"

definition stateFromRedirection :: "redirectionHost option \<Rightarrow> redirectionForm" where
  "stateFromRedirection x =
     (case x of
        None \<Rightarrow>
          \<lparr>rf_domains = [], rf_forwardDomainName = [], rf_forwardScheme = AutoScheme,
           rf_forwardHttpCode = 302, rf_preservePath = True,
           rf_certificateId = valueFromCertificateId None, rf_enabled = True, rf_toggles = newToggles\<rparr>
      | Some h \<Rightarrow>
          \<lparr>rf_domains = rh_domain_names h, rf_forwardDomainName = rh_forward_domain_name h,
           rf_forwardScheme = rh_forward_scheme h, rf_forwardHttpCode = rh_forward_http_code h,
           rf_preservePath = rh_preserve_path h,
           rf_certificateId = valueFromCertificateId (rh_certificate_id h), rf_enabled = rh_enabled h,
           rf_toggles = rh_toggles h\<rparr>)"

record redirectionDialog =
  rd_host :: "redirectionHost option"
  rd_form :: redirectionForm
  rd_tab :: hostTab
  rd_domainsInvalid :: bool

definition openRedirectionDialog :: "redirectionHost option \<Rightarrow> redirectionDialog" where
  "openRedirectionDialog h =
     \<lparr>rd_host = h, rd_form = stateFromRedirection h, rd_tab = DetailsTab, rd_domainsInvalid = False\<rparr>"

definition setRedirectionToggle :: "toggleKey \<Rightarrow> bool \<Rightarrow> redirectionDialog \<Rightarrow> redirectionDialog" where
  "setRedirectionToggle k b d =
     d\<lparr>rd_form := (rd_form d)\<lparr>rf_toggles := (rf_toggles (rd_form d))(k := b)\<rparr>\<rparr>"

definition redirection_problem :: "redirectionDialog \<Rightarrow> jstring option" where
  "redirection_problem d =
     (if rd_domainsInvalid d then Some (js ''Fix the highlighted domain first.'')
      else if rf_domains (rd_form d) = [] then Some (js ''Enter at least one domain name.'')
      else if trim (rf_forwardDomainName (rd_form d)) = []
      then Some (js ''Enter a forward domain to redirect to.'')
      else None)"

record redirectionPayload =
  rp_domain_names :: "jstring list"
  rp_forward_domain_name :: jstring
  rp_forward_scheme :: redirectScheme
  rp_forward_http_code :: int
  rp_preserve_path :: bool
  rp_certificate_id :: "jsnum option"
  rp_enabled :: bool
  rp_advanced_config :: jstring
  rp_toggles :: "toggleKey \<Rightarrow> bool"

definition redirectionPayload_of :: "redirectionDialog \<Rightarrow> redirectionPayload" where
  "redirectionPayload_of d =
     (let form = rd_form d
      in \<lparr>rp_domain_names = rf_domains form, rp_forward_domain_name = trim (rf_forwardDomainName form),
          rp_forward_scheme = rf_forwardScheme form, rp_forward_http_code = rf_forwardHttpCode form,
          rp_preserve_path = rf_preservePath form,
          rp_certificate_id = certificateIdFromValue (rf_certificateId form), rp_enabled = rf_enabled form,
          rp_advanced_config =
            (case rd_host d of Some h \<Rightarrow> or_default (rh_advanced_config h) [] | None \<Rightarrow> []),
          rp_toggles = rf_toggles form\<rparr>)"

definition redirection_json :: "redirectionPayload \<Rightarrow> jval" where
  "redirection_json p =
     Obj ([(js ''domain_names'', Arr (map Str (rp_domain_names p))),
           (js ''forward_domain_name'', Str (rp_forward_domain_name p)),
           (js ''forward_scheme'', Str (redirect_scheme_name (rp_forward_scheme p))),
           (js ''forward_http_code'', Number (rp_forward_http_code p)),
           (js ''preserve_path'', Bool (rp_preserve_path p)),
           (js ''certificate_id'', num_json (rp_certificate_id p)), (js ''enabled'', Bool (rp_enabled p)),
           (js ''advanced_config'', Str (rp_advanced_config p))] @
          map (\<lambda>k. (toggle_name k, Bool (rp_toggles p k))) REDIRECTION_TOGGLES)"

definition save_redirection :: "'w api_env \<Rightarrow> redirectionDialog \<Rightarrow> ('w, jval) io" where
  "save_redirection env d =
     (let payload = redirection_json (redirectionPayload_of d)
      in run_endpoint env (redirectionHosts
           (case rd_host d of Some h \<Rightarrow> Update (rh_id h) payload | None \<Rightarrow> Create payload)))"

definition redirection_ok_text :: "redirectionDialog \<Rightarrow> jstring" where
  "redirection_ok_text d =
     (if rd_host d \<noteq> None then js ''Redirection host updated'' else js ''Redirection host created'')"

definition handleRedirectionSubmit ::
  "'w api_env \<Rightarrow> redirectionDialog \<Rightarrow> dialog_ui \<Rightarrow> 'w \<Rightarrow> (redirectionDialog \<times> dialog_ui) \<times> 'w" where
  "handleRedirectionSubmit env =
     details_submit redirection_problem (\<lambda>d. d\<lparr>rd_tab := DetailsTab\<rparr>) redirection_ok_text (save_redirection env)"

interpretation redirection_dialog: submit_dialog redirection_problem "save_redirection env" redirection_ok_text
  "\<lambda>d ui w. case handleRedirectionSubmit env d ui w of ((_, ui'), w') \<Rightarrow> (ui', w')" for env
  unfolding handleRedirectionSubmit_def by (rule details_submit_dialog)

definition put_redirection_enabled :: "bool \<Rightarrow> redirectionHost \<Rightarrow> redirectionHost" where
  "put_redirection_enabled b h = h\<lparr>rh_enabled := b\<rparr>"

definition setRedirectionEnabled ::
  "'w api_env \<Rightarrow> int \<Rightarrow> bool \<Rightarrow> redirectionHost view_ui \<Rightarrow> 'w \<Rightarrow> redirectionHost view_ui \<times> 'w" where
  "setRedirectionEnabled env =
     toggle_row rh_id put_redirection_enabled
       (\<lambda>i b. run_endpoint env (redirectionHosts (Update i (body1 ''enabled'' (Bool b)))))"

interpretation redirection_switch: row_switch rh_id put_redirection_enabled "\<lambda>h. Some (rh_enabled h)"
  by unfold_locales (simp_all add: put_redirection_enabled_def)

section \<open>404 hosts\<close>

record deadForm =
  df_domains :: "jstring list"
  df_certificateId :: jstring
  df_enabled :: bool
  df_toggles :: "toggleKey \<Rightarrow> bool"

record deadHost =
  dh_id :: int
  dh_domain_names :: "jstring list"
  dh_certificate_id :: "int option"
  dh_enabled :: bool
  dh_toggles :: "toggleKey \<Rightarrow> bool"
  dh_advanced_config :: "jstring option"

definition stateFromDead :: "deadHost option \<Rightarrow> deadForm" where
  "stateFromDead x =
     (case x of
        None \<Rightarrow>
          \<lparr>df_domains = [], df_certificateId = valueFromCertificateId None, df_enabled = True,
           df_toggles = newToggles\<rparr>
      | Some h \<Rightarrow>
          \<lparr>df_domains = dh_domain_names h, df_certificateId = valueFromCertificateId (dh_certificate_id h),
           df_enabled = dh_enabled h, df_toggles = dh_toggles h\<rparr>)"

record deadDialog =
  dd_host :: "deadHost option"
  dd_form :: deadForm
  dd_tab :: hostTab
  dd_domainsInvalid :: bool

definition openDeadDialog :: "deadHost option \<Rightarrow> deadDialog" where
  "openDeadDialog h =
     \<lparr>dd_host = h, dd_form = stateFromDead h, dd_tab = DetailsTab, dd_domainsInvalid = False\<rparr>"

definition setDeadToggle :: "toggleKey \<Rightarrow> bool \<Rightarrow> deadDialog \<Rightarrow> deadDialog" where
  "setDeadToggle k b d = d\<lparr>dd_form := (dd_form d)\<lparr>df_toggles := (df_toggles (dd_form d))(k := b)\<rparr>\<rparr>"

definition dead_problem :: "deadDialog \<Rightarrow> jstring option" where
  "dead_problem d =
     (if dd_domainsInvalid d then Some (js ''Fix the highlighted domain first.'')
      else if df_domains (dd_form d) = [] then Some (js ''Enter at least one domain name.'')
      else None)"

record deadPayload =
  dp_domain_names :: "jstring list"
  dp_certificate_id :: "jsnum option"
  dp_enabled :: bool
  dp_advanced_config :: jstring
  dp_toggles :: "toggleKey \<Rightarrow> bool"

definition deadPayload_of :: "deadDialog \<Rightarrow> deadPayload" where
  "deadPayload_of d =
     (let form = dd_form d
      in \<lparr>dp_domain_names = df_domains form,
          dp_certificate_id = certificateIdFromValue (df_certificateId form), dp_enabled = df_enabled form,
          dp_advanced_config =
            (case dd_host d of Some h \<Rightarrow> or_default (dh_advanced_config h) [] | None \<Rightarrow> []),
          dp_toggles = df_toggles form\<rparr>)"

definition dead_json :: "deadPayload \<Rightarrow> jval" where
  "dead_json p =
     Obj ([(js ''domain_names'', Arr (map Str (dp_domain_names p))),
           (js ''certificate_id'', num_json (dp_certificate_id p)), (js ''enabled'', Bool (dp_enabled p)),
           (js ''advanced_config'', Str (dp_advanced_config p))] @
          map (\<lambda>k. (toggle_name k, Bool (dp_toggles p k))) DEAD_TOGGLES)"

definition save_dead :: "'w api_env \<Rightarrow> deadDialog \<Rightarrow> ('w, jval) io" where
  "save_dead env d =
     (let payload = dead_json (deadPayload_of d)
      in run_endpoint env (deadHosts
           (case dd_host d of Some h \<Rightarrow> Update (dh_id h) payload | None \<Rightarrow> Create payload)))"

definition dead_ok_text :: "deadDialog \<Rightarrow> jstring" where
  "dead_ok_text d = (if dd_host d \<noteq> None then js ''404 host updated'' else js ''404 host created'')"

definition handleDeadSubmit ::
  "'w api_env \<Rightarrow> deadDialog \<Rightarrow> dialog_ui \<Rightarrow> 'w \<Rightarrow> (deadDialog \<times> dialog_ui) \<times> 'w" where
  "handleDeadSubmit env =
     details_submit dead_problem (\<lambda>d. d\<lparr>dd_tab := DetailsTab\<rparr>) dead_ok_text (save_dead env)"

interpretation dead_dialog: submit_dialog dead_problem "save_dead env" dead_ok_text
  "\<lambda>d ui w. case handleDeadSubmit env d ui w of ((_, ui'), w') \<Rightarrow> (ui', w')" for env
  unfolding handleDeadSubmit_def by (rule details_submit_dialog)

definition put_dead_enabled :: "bool \<Rightarrow> deadHost \<Rightarrow> deadHost" where
  "put_dead_enabled b h = h\<lparr>dh_enabled := b\<rparr>"

definition setDeadEnabled ::
  "'w api_env \<Rightarrow> int \<Rightarrow> bool \<Rightarrow> deadHost view_ui \<Rightarrow> 'w \<Rightarrow> deadHost view_ui \<times> 'w" where
  "setDeadEnabled env =
     toggle_row dh_id put_dead_enabled
       (\<lambda>i b. run_endpoint env (deadHosts (Update i (body1 ''enabled'' (Bool b)))))"

interpretation dead_switch: row_switch dh_id put_dead_enabled "\<lambda>h. Some (dh_enabled h)"
  by unfold_locales (simp_all add: put_dead_enabled_def)

section \<open>The guarded switch of a row\<close>

text \<open>
  \<open>EnabledToggle\<close> as the row sees it over time: the value shown, the change in flight if any,
  and, beside it, the value the backend holds. A click asks for the opposite of what is shown;
  while a change is pending, or for an operator who may not write, it does nothing. The answer
  comes later: an accepted change is what the backend now holds, a refused one is put back.
\<close>

record switch_state =
  sw_shown :: bool
  sw_pending :: "bool option"
  sw_stored :: bool
  sw_sent :: nat

datatype switchEvent = Click | Answer bool

definition handleChange :: "bool \<Rightarrow> bool \<Rightarrow> switch_state \<Rightarrow> switch_state" where
  "handleChange disabled nxt s =
     (if sw_pending s \<noteq> None \<or> disabled then s
      else s\<lparr>sw_shown := nxt, sw_pending := Some nxt, sw_sent := sw_sent s + 1\<rparr>)"

definition settle :: "bool \<Rightarrow> switch_state \<Rightarrow> switch_state" where
  "settle accepted s =
     (case sw_pending s of
        None \<Rightarrow> s
      | Some b \<Rightarrow>
          if accepted then s\<lparr>sw_stored := b, sw_pending := None\<rparr>
          else s\<lparr>sw_shown := (\<not> b), sw_pending := None\<rparr>)"

primrec switch_step :: "bool \<Rightarrow> switch_state \<Rightarrow> switchEvent \<Rightarrow> switch_state" where
  "switch_step disabled s Click = handleChange disabled (\<not> sw_shown s) s"
| "switch_step disabled s (Answer ok) = settle ok s"

definition switch_inv :: "switch_state \<Rightarrow> bool" where
  "switch_inv s \<longleftrightarrow>
     (case sw_pending s of
        None \<Rightarrow> sw_shown s = sw_stored s
      | Some b \<Rightarrow> sw_shown s = b \<and> sw_stored s = (\<not> b))"

interpretation row_toggle: machine "switch_step disabled" switch_inv for disabled
proof
  show "switch_inv s \<Longrightarrow> switch_inv (switch_step disabled s e)" for s e
    by (cases e) (auto simp: switch_inv_def handleChange_def settle_def split: option.splits)
qed

section \<open>Properties\<close>

lemma streamPort_str_int [simp]:
  "1 \<le> i \<Longrightarrow> i \<le> 65535 \<Longrightarrow> streamPort (str_int i) = Some i"
  using str_nat_digits [of "nat i"] by (simp add: streamPort_def Let_def) (simp add: str_int_def)

lemma streamPort_bounds: "streamPort s = Some n \<Longrightarrow> 1 \<le> n \<and> n \<le> 65535"
  by (auto simp: streamPort_def Let_def split: jsnum.splits if_splits)

text \<open>What the backend accepts of a stream: both ports in range, one target, one protocol at least.\<close>

definition port_ok :: "int option \<Rightarrow> bool" where
  "port_ok p \<longleftrightarrow> (case p of Some n \<Rightarrow> 1 \<le> n \<and> n \<le> 65535 | None \<Rightarrow> False)"

definition stream_ok :: "streamPayload \<Rightarrow> bool" where
  "stream_ok p \<longleftrightarrow>
     port_ok (tp_incoming_port p) \<and> (tp_tcp p \<or> tp_udp p) \<and>
     (case tp_upstream_id p of
        Some u \<Rightarrow> tp_forward_host p = None \<and> tp_forward_port p = None
      | None \<Rightarrow> (case tp_forward_host p of Some h \<Rightarrow> h \<noteq> [] | None \<Rightarrow> False) \<and> port_ok (tp_forward_port p))"

lemma stream_problem_ok: "stream_problem d = None \<Longrightarrow> stream_ok (streamPayload_of (sd_form d))"
  by (auto simp: stream_problem_def stream_ok_def streamPayload_of_def port_ok_def Let_def
      dest: streamPort_bounds split: if_splits option.splits targetMode.splits)

text \<open>
  Submitting the stream dialog: a form with a problem is refused with its message on the
  Details tab and nothing is sent; any other form is sent once, with both ports in range,
  exactly one target (a pool, or a host with its port) and at least one protocol, and the dialog
  closes exactly when the save succeeds.
\<close>

theorem stream_submit:
  "case handleStreamSubmit env d fresh_ui w of
     ((d', ui'), w') \<Rightarrow>
       sd_form d' = sd_form d \<and> \<not> ui_saving ui' \<and>
       (case stream_problem d of
          Some m \<Rightarrow> ui_error ui' = Some m \<and> ui_open ui' \<and> sd_tab d' = DetailsTab \<and> w' = w
        | None \<Rightarrow>
            stream_ok (streamPayload_of (sd_form d)) \<and> d' = d \<and> w' = snd (save_stream env d w) \<and>
            (case fst (save_stream env d w) of
               Inr x \<Rightarrow> \<not> ui_open ui' \<and> ui_saved ui' = 1 \<and> ui_error ui' = None
             | Inl e \<Rightarrow> ui_open ui' \<and> ui_saved ui' = 0 \<and> ui_error ui' = Some (de_message (describeError e))))"
proof (cases "stream_problem d")
  case None
  obtain r w' where "save_stream env d w = (r, w')" by force
  with None stream_problem_ok [OF None] show ?thesis
    by (cases r) (simp_all add: handleStreamSubmit_def details_submit_def save_flow_def fresh_ui_def)
next
  case (Some m)
  then show ?thesis by (simp add: handleStreamSubmit_def details_submit_def refuse_def fresh_ui_def)
qed

text \<open>Hosts as the backend stores them.\<close>

definition stream_stored :: "stream \<Rightarrow> bool" where
  "stream_stored s \<longleftrightarrow>
     port_ok (Some (sr_incoming_port s)) \<and> (sr_tcp s \<or> sr_udp s) \<and>
     (case sr_upstream_id s of
        Some u \<Rightarrow> sr_forward_host s = None \<and> sr_forward_port s = None
      | None \<Rightarrow>
          (case sr_forward_host s of Some h \<Rightarrow> h \<noteq> [] \<and> trim h = h | None \<Rightarrow> False) \<and>
          port_ok (sr_forward_port s))"

text \<open>
  C14. Opening a stored host and saving it unchanged sends it back as stored: a proxy host with its
  target, ids, toggles and locations, a missing optional field as its default; and, accepted by their
  dialogs, a stream with its ports, target, protocols and certificate; a redirection host and a 404 host
  with their domains, certificate, toggles and the advanced configuration the dialogs do not show.
\<close>

theorem stored_hosts_roundtrip:
  assumes "host_stored p" and "stream_stored s"
    and "rh_domain_names r \<noteq> []" and "trim (rh_forward_domain_name r) = rh_forward_domain_name r"
    and "rh_forward_domain_name r \<noteq> []" and "dh_domain_names h \<noteq> []"
  shows "buildPayload (stateFromHost (Some p) hasPools) (Some p) = host_view p \<and>
    (stream_problem (openStreamDialog (Some s)) = None \<and>
      streamPayload_of (sd_form (openStreamDialog (Some s))) =
        \<lparr>tp_incoming_port = Some (sr_incoming_port s), tp_forward_host = sr_forward_host s,
         tp_forward_port = sr_forward_port s, tp_upstream_id = map_option Num (sr_upstream_id s),
         tp_tcp = sr_tcp s, tp_udp = sr_udp s, tp_certificate_id = map_option Num (sr_certificate_id s),
         tp_enabled = sr_enabled s\<rparr>) \<and>
    (redirection_problem (openRedirectionDialog (Some r)) = None \<and>
      redirectionPayload_of (openRedirectionDialog (Some r)) =
        \<lparr>rp_domain_names = rh_domain_names r, rp_forward_domain_name = rh_forward_domain_name r,
         rp_forward_scheme = rh_forward_scheme r, rp_forward_http_code = rh_forward_http_code r,
         rp_preserve_path = rh_preserve_path r, rp_certificate_id = map_option Num (rh_certificate_id r),
         rp_enabled = rh_enabled r, rp_advanced_config = or_default (rh_advanced_config r) [],
         rp_toggles = rh_toggles r\<rparr>) \<and>
    (dead_problem (openDeadDialog (Some h)) = None \<and>
      deadPayload_of (openDeadDialog (Some h)) =
        \<lparr>dp_domain_names = dh_domain_names h, dp_certificate_id = map_option Num (dh_certificate_id h),
         dp_enabled = dh_enabled h, dp_advanced_config = or_default (dh_advanced_config h) [],
         dp_toggles = dh_toggles h\<rparr>)"
  using assms(2-)
  by (auto simp: edit_roundtrip [OF assms(1)] stream_stored_def port_ok_def stream_problem_def openStreamDialog_def stateFromStream_def
      streamPayload_of_def openRedirectionDialog_def stateFromRedirection_def redirection_problem_def
      redirectionPayload_of_def openDeadDialog_def stateFromDead_def dead_problem_def deadPayload_of_def
      Let_def split: option.splits)

definition demo_stream :: stream where
  "demo_stream =
     \<lparr>sr_id = 1, sr_upstream_id = Some 4, sr_incoming_port = 5432, sr_forward_host = None,
      sr_forward_port = None, sr_tcp = True, sr_udp = False, sr_certificate_id = None, sr_enabled = True\<rparr>"

definition demo_redirection :: redirectionHost where
  "demo_redirection =
     \<lparr>rh_id = 2, rh_domain_names = [js ''old.example''], rh_forward_domain_name = js ''new.example'',
      rh_forward_scheme = AutoScheme, rh_forward_http_code = 301, rh_preserve_path = True,
      rh_certificate_id = Some 9, rh_enabled = True, rh_toggles = newToggles, rh_advanced_config = None\<rparr>"

definition demo_dead :: deadHost where
  "demo_dead =
     \<lparr>dh_id = 3, dh_domain_names = [js ''gone.example''], dh_certificate_id = None, dh_enabled = False,
      dh_toggles = newToggles, dh_advanced_config = Some (js ''# kept'')\<rparr>"

theorem stored_hosts_roundtrip_witness:
  "buildPayload (stateFromHost (Some demo_host) True) (Some demo_host) = host_view demo_host \<and>
   tp_upstream_id (streamPayload_of (sd_form (openStreamDialog (Some demo_stream)))) = Some (Num 4) \<and>
   rp_certificate_id (redirectionPayload_of (openRedirectionDialog (Some demo_redirection))) = Some (Num 9) \<and>
   dp_advanced_config (deadPayload_of (openDeadDialog (Some demo_dead))) = js ''# kept''"
proof -
  have host: "host_stored demo_host"
    by (simp add: host_stored_def demo_host_def location_stored_def or_default_def trim_no_ws js_def is_ws_def)
  have "trim (js ''new.example'') = js ''new.example''" by (simp add: trim_no_ws js_def is_ws_def)
  then show ?thesis
    using stored_hosts_roundtrip [OF host, of demo_stream demo_redirection demo_dead]
    by (simp add: demo_stream_def demo_redirection_def demo_dead_def stream_stored_def port_ok_def or_default_def)
qed

text \<open>
  The switch of a row under any interleaving of clicks and answers: at most one change is in
  flight, an idle switch shows what the backend stores, and the changes sent are exactly the
  clicks made while idle; an operator who may not write sends none.
\<close>

theorem row_switch_settles:
  "let s = foldl (switch_step disabled) \<lparr>sw_shown = b, sw_pending = None, sw_stored = b, sw_sent = 0\<rparr> es
   in (if sw_pending s = None then sw_shown s = sw_stored s else sw_stored s = (\<not> sw_shown s)) \<and>
      sw_sent (switch_step disabled s Click) = sw_sent s + (if sw_pending s = None \<and> \<not> disabled then 1 else 0) \<and>
      sw_sent (switch_step disabled s (Answer ok)) = sw_sent s \<and>
      (if disabled then sw_sent s = 0 \<and> sw_shown s = b else sw_sent s \<le> length (filter (\<lambda>e. e = Click) es))"
proof -
  let ?s0 = "\<lparr>sw_shown = b, sw_pending = None, sw_stored = b, sw_sent = 0\<rparr>"
  have "switch_inv ?s0" by (simp add: switch_inv_def)
  then have "switch_inv (foldl (switch_step disabled) ?s0 es)" by (rule row_toggle.run_inv)
  moreover have "foldl (switch_step True) ?s0 es = ?s0"
  proof (induction es)
    case (Cons e es)
    then show ?case by (cases e) (simp_all add: handleChange_def settle_def)
  qed simp
  moreover have "sw_sent (foldl (switch_step disabled) s es) \<le> sw_sent s + length (filter (\<lambda>e. e = Click) es)" for s
  proof (induction es arbitrary: s)
    case (Cons e es)
    from Cons [of "switch_step disabled s e"] show ?case
      by (cases e) (auto simp: handleChange_def settle_def split: option.splits if_splits)
  qed simp
  from this [of ?s0] have "sw_sent (foldl (switch_step disabled) ?s0 es) \<le> length (filter (\<lambda>e. e = Click) es)" by simp
  ultimately show ?thesis
    by (auto simp: Let_def switch_inv_def handleChange_def settle_def split: option.splits)
qed

end
