(* ===== verification/Js_Date.thy ===== *)
theory Js_Date
  imports Js_Number "HOL-Library.Monad_Syntax"
begin

text \<open>
  The part of the \<open>Date\<close> object the application uses: reading an ISO 8601 timestamp to epoch
  milliseconds, as the language specifies it, and writing the date of a time value. A fraction of
  a second may have any number of digits (the backend writes six) and is cut to milliseconds.
  The offset of local time and the formats an engine accepts beyond ISO are parameters.
\<close>

section \<open>The calendar\<close>

definition leap_year :: "int \<Rightarrow> bool" where
  "leap_year y \<longleftrightarrow> 4 dvd y \<and> \<not> 100 dvd y \<or> 400 dvd y"

definition day_from_year :: "int \<Rightarrow> int" where
  "day_from_year y =
     365 * (y - 1970) + (y - 1969) div 4 - (y - 1901) div 100 + (y - 1601) div 400"

definition month_lengths :: "bool \<Rightarrow> int list" where
  "month_lengths leap = [31, if leap then 29 else 28, 31, 30, 31, 30, 31, 31, 30, 31, 30, 31]"

definition valid_day :: "int \<Rightarrow> int \<Rightarrow> int \<Rightarrow> bool" where
  "valid_day y m d \<longleftrightarrow>
     1 \<le> m \<and> m \<le> 12 \<and> 1 \<le> d \<and> d \<le> month_lengths (leap_year y) ! nat (m - 1)"

definition day_number :: "int \<Rightarrow> int \<Rightarrow> int \<Rightarrow> int" where
  "day_number y m d =
     day_from_year y + sum_list (take (nat (m - 1)) (month_lengths (leap_year y))) + (d - 1)"

text \<open>The year a day falls in: searched upwards from a year that does not start after it.\<close>

lemma div_step:
  fixes c c' k y :: int
  assumes "0 < k" and "k dvd c" and "c' = c + 1"
  shows "(y - c) div k = (y - c') div k + (if k dvd y then 1 else 0)"
proof -
  define x where "x = y - c'"
  have split: "x = k * (x div k) + x mod k" by simp
  have rem: "0 \<le> x mod k" "x mod k < k" using assms(1) by simp_all
  have "k dvd y \<longleftrightarrow> k dvd x + 1" using assms(2,3) by (simp add: x_def dvd_diff_left_iff)
  also have "\<dots> \<longleftrightarrow> k dvd x mod k + 1" using split by (metis add.assoc dvd_add_right_iff dvd_triv_left)
  also have "\<dots> \<longleftrightarrow> x mod k = k - 1" using rem zdvd_imp_le [of k "x mod k + 1"] by fastforce
  finally have "k dvd y \<longleftrightarrow> x mod k = k - 1" .
  moreover have "(x + 1) div k = x div k + 1" if "x mod k = k - 1"
    using split that by (intro int_div_pos_eq [of _ _ _ 0]) (auto simp: algebra_simps assms(1))
  moreover have "(x + 1) div k = x div k" if "x mod k \<noteq> k - 1"
    using split that rem by (intro int_div_pos_eq [of _ _ _ "x mod k + 1"]) auto
  ultimately show ?thesis using assms(3) by (auto simp: x_def algebra_simps)
qed

lemma leap_count:
  fixes a b c a' b' c' z :: int
  assumes "a' = a + (if p then 1 else 0)" and "b' = b + (if q then 1 else 0)" and "c' = c + (if r then 1 else 0)"
    and "r \<Longrightarrow> q" and "q \<Longrightarrow> p"
  shows "365 * (z + 1) + a' - b' + c' = 365 * z + a - b + c + (if p \<and> \<not> q \<or> r then 366 else 365)"
  using assms by (cases p; cases q; cases r) simp_all

lemma day_from_year_step: "day_from_year (y + 1) = day_from_year y + (if leap_year y then 366 else 365)"
proof -
  have shift: "y + 1 - 1969 = y - 1968" "y + 1 - 1901 = y - 1900" "y + 1 - 1601 = y - 1600" "y + 1 - 1970 = y - 1970 + 1"
    by simp_all
  have "(y - 1968) div 4 = (y - 1969) div 4 + (if 4 dvd y then 1 else 0)" by (rule div_step) simp_all
  moreover have "(y - 1900) div 100 = (y - 1901) div 100 + (if 100 dvd y then 1 else 0)" by (rule div_step) simp_all
  moreover have "(y - 1600) div 400 = (y - 1601) div 400 + (if 400 dvd y then 1 else 0)" by (rule div_step) simp_all
  moreover have "400 dvd y \<Longrightarrow> 100 dvd y" "100 dvd y \<Longrightarrow> 4 dvd y"
    using dvd_trans [of 100 400 y] dvd_trans [of 4 100 y] by simp_all
  ultimately show ?thesis unfolding day_from_year_def leap_year_def shift by (intro leap_count)
qed

lemma day_from_year_up: "day_from_year (y + int k) \<le> day_from_year y + 366 * int k"
proof (induction k)
  case (Suc k)
  then show ?case using day_from_year_step [of "y + int k"] by (simp add: algebra_simps split: if_splits)
qed simp

lemma day_from_year_down: "day_from_year (y - int k) \<le> day_from_year y - 365 * int k"
proof (induction k)
  case (Suc k)
  then show ?case using day_from_year_step [of "y - int (Suc k)"] by (simp add: algebra_simps split: if_splits)
qed simp

function search_year :: "int \<Rightarrow> int \<Rightarrow> int" where
  "search_year y n = (if day_from_year (y + 1) \<le> n then search_year (y + 1) n else y)"
  by pat_completeness auto

termination
  by (relation "measure (\<lambda>(y, n). nat (n - day_from_year y))") (auto simp: day_from_year_step split: if_splits)

declare search_year.simps [simp del]

definition year_of_day :: "int \<Rightarrow> int" where
  "year_of_day n = search_year (if 0 \<le> n then 1970 + n div 366 else 1969 + n div 365) n"

fun split_months :: "int list \<Rightarrow> int \<Rightarrow> int \<times> int" where
  "split_months [] k = (1, k + 1)"
| "split_months (len # lens) k =
     (if k < len then (1, k + 1) else let (m, d) = split_months lens (k - len) in (m + 1, d))"

definition date_of_day :: "int \<Rightarrow> int \<times> int \<times> int" where
  "date_of_day n =
     (let y = year_of_day n in (y, split_months (month_lengths (leap_year y)) (n - day_from_year y)))"

lemma search_year_bounds:
  "day_from_year y \<le> n \<Longrightarrow>
   day_from_year (search_year y n) \<le> n \<and> n < day_from_year (search_year y n + 1)"
proof (induction y n rule: search_year.induct)
  case (1 y n)
  then show ?case by (subst (1 2) search_year.simps) auto
qed

lemma day_from_year_less: "a < b \<Longrightarrow> day_from_year a < day_from_year b"
proof (induction "nat (b - a)" arbitrary: b)
  case (Suc k)
  then have "a = b - 1 \<or> a < b - 1" by linarith
  with Suc have "day_from_year a \<le> day_from_year (b - 1)" by (cases "a = b - 1") force+
  with day_from_year_step [of "b - 1"] show ?case by (simp split: if_splits)
qed simp

lemma day_from_year_le: "a \<le> b \<Longrightarrow> day_from_year a \<le> day_from_year b"
  using day_from_year_less [of a b] by (cases "a = b") auto

lemma year_of_day_bounds: "day_from_year (year_of_day n) \<le> n \<and> n < day_from_year (year_of_day n + 1)"
proof -
  have epoch: "day_from_year 1970 = 0" by (simp add: day_from_year_def)
  have "day_from_year (1970 + n div 366) \<le> n" if "0 \<le> n"
  proof -
    have "int (nat (n div 366)) = n div 366" using that by (simp add: pos_imp_zdiv_nonneg_iff)
    with day_from_year_up [of 1970 "nat (n div 366)"] epoch show ?thesis by simp
  qed
  moreover have "day_from_year (1969 + n div 365) \<le> n" if "n < 0"
  proof -
    have "n div 365 < 0" using that by (simp add: neg_imp_zdiv_neg_iff)
    then have "1970 - int (nat (1 - n div 365)) = 1969 + n div 365" "int (nat (1 - n div 365)) = 1 - n div 365" by auto
    with day_from_year_down [of 1970 "nat (1 - n div 365)"] epoch show ?thesis by simp
  qed
  ultimately show ?thesis
    unfolding year_of_day_def by (intro search_year_bounds) (simp split: if_split)
qed

lemma year_of_day_unique:
  "day_from_year y \<le> n \<Longrightarrow> n < day_from_year (y + 1) \<Longrightarrow> year_of_day n = y"
  using year_of_day_bounds [of n] day_from_year_le [of "y + 1" "year_of_day n"]
    day_from_year_le [of "year_of_day n + 1" y] by linarith

lemma split_months_nth:
  "i < length lens \<Longrightarrow> list_all (\<lambda>l. 0 \<le> l) lens \<Longrightarrow> 0 \<le> k \<Longrightarrow> k < lens ! i \<Longrightarrow>
   split_months lens (sum_list (take i lens) + k) = (int i + 1, k + 1) \<and>
   0 \<le> sum_list (take i lens) + k \<and> sum_list (take i lens) + k < sum_list lens"
proof (induction lens arbitrary: i)
  case (Cons len lens)
  show ?case
  proof (cases i)
    case 0
    have "0 \<le> sum_list lens" using Cons.prems(2) by (auto intro: sum_list_nonneg simp: list_all_iff)
    with 0 Cons.prems show ?thesis by simp
  next
    case (Suc j)
    with Cons.IH [of j] Cons.prems
    have "split_months lens (sum_list (take j lens) + k) = (int j + 1, k + 1)"
      "0 \<le> sum_list (take j lens) + k" "sum_list (take j lens) + k < sum_list lens" by auto
    with Suc Cons.prems(2) show ?thesis by (simp add: algebra_simps)
  qed
qed simp

lemma date_of_day_number: "valid_day y m d \<Longrightarrow> date_of_day (day_number y m d) = (y, m, d)"
proof -
  assume v: "valid_day y m d"
  let ?lens = "month_lengths (leap_year y)"
  have "nat (m - 1) < length ?lens" "list_all (\<lambda>l. 0 \<le> l) ?lens"
    using v by (auto simp: valid_day_def month_lengths_def)
  from split_months_nth [OF this, of "d - 1"] v
  have s: "split_months ?lens (sum_list (take (nat (m - 1)) ?lens) + (d - 1)) = (m, d)"
    and b: "0 \<le> sum_list (take (nat (m - 1)) ?lens) + (d - 1)"
      "sum_list (take (nat (m - 1)) ?lens) + (d - 1) < sum_list ?lens"
    by (auto simp: valid_day_def)
  have "sum_list ?lens = (if leap_year y then 366 else 365)" by (simp add: month_lengths_def)
  with b have "year_of_day (day_number y m d) = y"
    by (intro year_of_day_unique) (simp_all add: day_number_def day_from_year_step)
  with s show ?thesis by (simp add: date_of_day_def day_number_def add_diff_eq)
qed

section \<open>Reading a timestamp\<close>

definition digits_field :: "nat \<Rightarrow> jstring \<Rightarrow> (int \<times> jstring) option" where
  "digits_field n s =
     (if n \<le> length s \<and> list_all is_digit (take n s)
      then Some (int (nat_of_digits (take n s)), drop n s) else None)"

text \<open>A field after its separator, and one that may be left out.\<close>

definition sep_field :: "nat \<Rightarrow> nat \<Rightarrow> jstring \<Rightarrow> (int \<times> jstring) option" where
  "sep_field c n s = (case s of x # r \<Rightarrow> if x = c then digits_field n r else None | [] \<Rightarrow> None)"

definition opt_sep_field :: "nat \<Rightarrow> nat \<Rightarrow> int \<Rightarrow> jstring \<Rightarrow> (int \<times> jstring) option" where
  "opt_sep_field c n dflt s =
     (case s of x # r \<Rightarrow> if x = c then digits_field n r else Some (dflt, s) | [] \<Rightarrow> Some (dflt, s))"

definition iso_day :: "jstring \<Rightarrow> (int \<times> jstring) option" where
  "iso_day s =
     do { (y, r) \<leftarrow> digits_field 4 s;
          (m, r) \<leftarrow> opt_sep_field 45 2 1 r;
          (d, r) \<leftarrow> opt_sep_field 45 2 1 r;
          if valid_day y m d then Some (day_number y m d, r) else None }"

text \<open>The milliseconds of a fraction: its first three digits, padded on the right.\<close>

definition fraction_ms :: "jstring \<Rightarrow> int" where
  "fraction_ms ds = int (nat_of_digits (take 3 (ds @ [48, 48])))"

definition iso_fraction :: "jstring \<Rightarrow> (int \<times> jstring) option" where
  "iso_fraction s =
     (case s of
        x # r \<Rightarrow>
          if x = 46
          then let ds = takeWhile is_digit r
               in if ds = [] then None else Some (fraction_ms ds, dropWhile is_digit r)
          else Some (0, s)
      | [] \<Rightarrow> Some (0, s))"

definition iso_clock :: "jstring \<Rightarrow> (int \<times> jstring) option" where
  "iso_clock s =
     do { (h, r) \<leftarrow> digits_field 2 s;
          (mi, r) \<leftarrow> sep_field 58 2 r;
          (sec, r1) \<leftarrow> opt_sep_field 58 2 0 r;
          (ms, r2) \<leftarrow> (if r1 = r then Some (0, r) else iso_fraction r1);
          if (h < 24 \<or> h = 24 \<and> mi = 0 \<and> sec = 0 \<and> ms = 0) \<and> mi < 60 \<and> sec < 60
          then Some (((h * 60 + mi) * 60 + sec) * 1000 + ms, r2) else None }"

datatype isoZone = LocalZone | FixedZone int

definition iso_zone :: "jstring \<Rightarrow> isoZone option" where
  "iso_zone s =
     (case s of
        [] \<Rightarrow> Some LocalZone
      | x # r \<Rightarrow>
          if x = 90 then if r = [] then Some (FixedZone 0) else None
          else if x = 43 \<or> x = 45
          then do { (h, r) \<leftarrow> digits_field 2 r;
                    (mi, r) \<leftarrow> sep_field 58 2 r;
                    if r = [] \<and> h < 24 \<and> mi < 60
                    then Some (FixedZone ((if x = 43 then 1 else -1) * (h * 60 + mi) * 60000)) else None }
          else None)"

definition MS_PER_DAY :: int where "MS_PER_DAY = 24 * 60 * 60 * 1000"

record date_env =
  de_local_offset :: "int \<Rightarrow> int"
  de_other_formats :: "jstring \<Rightarrow> int option"

definition iso_time :: "date_env \<Rightarrow> jstring \<Rightarrow> int option" where
  "iso_time de s =
     do { (day, r) \<leftarrow> iso_day s;
          (case r of
             [] \<Rightarrow> Some (day * MS_PER_DAY)
           | x # r \<Rightarrow>
               if x = 84
               then do { (ms, r) \<leftarrow> iso_clock r;
                         zone \<leftarrow> iso_zone r;
                         let wall = day * MS_PER_DAY + ms;
                         Some (case zone of FixedZone off \<Rightarrow> wall - off
                                          | LocalZone \<Rightarrow> wall - de_local_offset de wall) }
               else None) }"

definition date_parse :: "date_env \<Rightarrow> jstring \<Rightarrow> int option" where
  "date_parse de s = (case iso_time de s of Some t \<Rightarrow> Some t | None \<Rightarrow> de_other_formats de s)"

section \<open>Writing a date\<close>

definition pad_digits :: "nat \<Rightarrow> nat \<Rightarrow> jstring" where
  "pad_digits n x = replicate (n - length (str_nat x)) 48 @ str_nat x"

text \<open>\<open>toISOString().slice(0, 10)\<close>: years outside 0 to 9999 are written with a sign and six digits.\<close>

definition date_text :: "int \<Rightarrow> int \<Rightarrow> int \<Rightarrow> jstring" where
  "date_text y m d =
     (if 0 \<le> y \<and> y \<le> 9999 then pad_digits 4 (nat y)
      else (if y < 0 then 45 else 43) # pad_digits 6 (nat \<bar>y\<bar>)) @
     45 # pad_digits 2 (nat m) @ 45 # pad_digits 2 (nat d)"

definition iso_date_prefix :: "int \<Rightarrow> jstring" where
  "iso_date_prefix t = (let (y, m, d) = date_of_day (t div MS_PER_DAY) in take 10 (date_text y m d))"

definition clock_text :: "int \<Rightarrow> int \<Rightarrow> int \<Rightarrow> jstring" where
  "clock_text h mi sec = pad_digits 2 (nat h) @ 58 # pad_digits 2 (nat mi) @ 58 # pad_digits 2 (nat sec)"

lemma length_str_nat: "x < 10 ^ n \<Longrightarrow> 0 < n \<Longrightarrow> length (str_nat x) \<le> n"
proof (induction n arbitrary: x)
  case (Suc n)
  show ?case
  proof (cases "x < 10")
    case True
    then show ?thesis by (subst str_nat.simps) simp
  next
    case False
    then have "0 < n" "x div 10 < 10 ^ n" using Suc.prems(1) by (auto simp: less_mult_imp_div_less intro: ccontr)
    with Suc.IH [of "x div 10"] False show ?thesis by (subst str_nat.simps) simp
  qed
qed simp

lemma nat_of_digits_zeros [simp]: "nat_of_digits (replicate k 48 @ ds) = nat_of_digits ds"
  by (induction k) (simp_all add: nat_of_digits_def digit_val_def)

lemma length_pad_digits: "x < 10 ^ n \<Longrightarrow> 0 < n \<Longrightarrow> length (pad_digits n x) = n"
  using length_str_nat [of x n] by (simp add: pad_digits_def)

lemma digits_field_pad [simp]:
  "x < 10 ^ n \<Longrightarrow> 0 < n \<Longrightarrow> digits_field n (pad_digits n x @ r) = Some (int x, r)"
  using length_pad_digits [of x n] str_nat_digits [of x]
  by (simp add: digits_field_def) (auto simp: pad_digits_def list_all_iff is_digit_def)

text \<open>A timestamp in UTC as it is written, read back: its instant, and its date.\<close>

lemma two_digits: "0 \<le> x \<Longrightarrow> x < 100 \<Longrightarrow> digits_field 2 (pad_digits 2 (nat x) @ r) = Some (x, r)"
  using digits_field_pad [of "nat x" 2 r] by simp

lemma valid_day_range: "valid_day y m d \<Longrightarrow> 0 \<le> m \<and> m < 100 \<and> 0 \<le> d \<and> d < 100"
proof -
  assume v: "valid_day y m d"
  then have "nat (m - 1) < 12" by (auto simp: valid_day_def)
  then have "month_lengths (leap_year y) ! nat (m - 1) \<le> 31"
    by (auto simp: month_lengths_def less_Suc_eq numeral_eq_Suc)
  with v show ?thesis by (auto simp: valid_day_def)
qed

lemma iso_day_text:
  "valid_day y m d \<Longrightarrow> 0 \<le> y \<Longrightarrow> y \<le> 9999 \<Longrightarrow> iso_day (date_text y m d @ r) = Some (day_number y m d, r)"
  using valid_day_range [of y m d] digits_field_pad [of "nat y" 4]
  by (simp add: iso_day_def date_text_def opt_sep_field_def two_digits)

lemma iso_clock_text:
  "0 \<le> h \<Longrightarrow> h < 24 \<Longrightarrow> 0 \<le> mi \<Longrightarrow> mi < 60 \<Longrightarrow> 0 \<le> sec \<Longrightarrow> sec < 60 \<Longrightarrow>
   iso_clock (clock_text h mi sec @ [90]) = Some (((h * 60 + mi) * 60 + sec) * 1000, [90])"
  by (simp add: iso_clock_def clock_text_def sep_field_def opt_sep_field_def two_digits iso_fraction_def)

lemma iso_time_utc:
  assumes "valid_day y m d" and "0 \<le> y" and "y \<le> 9999"
    and "0 \<le> h" and "h < 24" and "0 \<le> mi" and "mi < 60" and "0 \<le> sec" and "sec < 60"
  shows "iso_time de (date_text y m d @ 84 # clock_text h mi sec @ [90]) =
    Some (day_number y m d * MS_PER_DAY + ((h * 60 + mi) * 60 + sec) * 1000)"
  using assms by (simp add: iso_time_def iso_day_text iso_clock_text iso_zone_def)

lemma iso_date_prefix_time:
  assumes "valid_day y m d" and "0 \<le> y" and "y \<le> 9999" and "0 \<le> ms" and "ms < MS_PER_DAY"
  shows "iso_date_prefix (day_number y m d * MS_PER_DAY + ms) = date_text y m d"
proof -
  have "(day_number y m d * MS_PER_DAY + ms) div MS_PER_DAY = day_number y m d"
    using assms(4,5) by (simp add: MS_PER_DAY_def)
  moreover have "length (date_text y m d) = 10"
    using assms valid_day_range [OF assms(1)] length_pad_digits [of "nat y" 4] length_pad_digits [of "nat m" 2]
      length_pad_digits [of "nat d" 2] by (auto simp: date_text_def)
  ultimately show ?thesis by (simp add: iso_date_prefix_def date_of_day_number [OF assms(1)])
qed

end
