(* ===== verification/Settings_Forms.thy ===== *)
theory Settings_Forms
  imports Dialog_Flow
begin

text \<open>
  The settings page: the form helpers of \<^verbatim>\<open>components/settings/lib.ts\<close> (default site, language
  model, mail) and the cards beside them (ban page, maintenance page, error pages). A card keeps
  its form, saves it through its own patch and reseeds itself from the answer. Two of the forms
  hold a secret that the backend never returns; the locale below states what a save does to it.

  An answer of the backend is read as a settings record by an argument of the handlers, since
  the client trusts its declared type.
\<close>

section \<open>Data\<close>

datatype defaultSiteMode = Congratulations | Not_found | No_response | Redirect | Custom_page_site

datatype banMode = Megoopm_page | Ban_custom_page | No_ban_page

datatype maintenanceMode = Maintenance_default | Maintenance_custom_page

datatype smtpSecurity = NoSecurity | Starttls | Tls

record instanceSettingsRead =
  is_default_site_mode :: defaultSiteMode
  is_default_site_redirect_url :: "jstring option"
  is_default_site_page_id :: "int option"
  is_llm_enabled :: bool
  is_llm_model :: "jstring option"
  is_llm_api_base :: "jstring option"
  is_llm_api_key_set :: bool
  is_smtp_enabled :: bool
  is_smtp_host :: "jstring option"
  is_smtp_port :: "int option"
  is_smtp_security :: "smtpSecurity option"
  is_smtp_username :: "jstring option"
  is_smtp_password_set :: bool
  is_smtp_from :: "jstring option"
  is_smtp_from_name :: "jstring option"
  is_app_url :: "jstring option"
  is_ban_mode :: banMode
  is_ban_page_id :: "int option"
  is_maintenance_mode :: maintenanceMode
  is_maintenance_page_id :: "int option"
  is_maintenance_minutes :: int

definition or_empty :: "jstring option \<Rightarrow> jstring" where
  "or_empty x = (case x of Some s \<Rightarrow> s | None \<Rightarrow> [])"

text \<open>\<open>s.trim() || null\<close>\<close>

definition trim_or_null :: "jstring \<Rightarrow> jstring option" where
  "trim_or_null s = (if trim s \<noteq> [] then Some (trim s) else None)"

section \<open>Default site\<close>

record settingsFormState =
  sf_mode :: defaultSiteMode
  sf_redirectUrl :: jstring
  sf_pageId :: "int option"

definition emptySettingsState :: settingsFormState where
  "emptySettingsState = \<lparr>sf_mode = Not_found, sf_redirectUrl = [], sf_pageId = None\<rparr>"

definition stateFromSettings :: "instanceSettingsRead \<Rightarrow> settingsFormState" where
  "stateFromSettings s =
     \<lparr>sf_mode = is_default_site_mode s, sf_redirectUrl = or_empty (is_default_site_redirect_url s),
      sf_pageId = is_default_site_page_id s\<rparr>"

text \<open>\<open>/^https?:\/\//i\<close>; no other code unit matches a letter of it when case is ignored.\<close>

definition web_url :: "jstring \<Rightarrow> bool" where
  "web_url u \<longleftrightarrow>
     (let l = map (\<lambda>c. if is_upper_az c then c + 32 else c) u
      in startsWith l (js ''http://'') \<or> startsWith l (js ''https://''))"

definition validateSettingsForm :: "settingsFormState \<Rightarrow> jstring option" where
  "validateSettingsForm state =
     (if sf_mode state = Redirect \<and> trim (sf_redirectUrl state) = []
      then Some (js ''Enter the URL to redirect to.'')
      else if sf_mode state = Redirect \<and> \<not> web_url (trim (sf_redirectUrl state))
      then Some (js ''The URL must start with http:// or https://.'')
      else if sf_mode state = Custom_page_site \<and> sf_pageId state = None
      then Some (js ''Choose a custom page to serve.'')
      else None)"

record defaultSiteUpdate =
  du_mode :: defaultSiteMode
  du_redirect_url :: "jstring option"
  du_page_id :: "int option"

definition buildDefaultSitePayload :: "settingsFormState \<Rightarrow> defaultSiteUpdate" where
  "buildDefaultSitePayload state =
     \<lparr>du_mode = sf_mode state,
      du_redirect_url = (if sf_mode state = Redirect then Some (trim (sf_redirectUrl state)) else None),
      du_page_id = (if sf_mode state = Custom_page_site then sf_pageId state else None)\<rparr>"

definition dirty :: "settingsFormState \<Rightarrow> settingsFormState \<Rightarrow> bool" where
  "dirty form saved \<longleftrightarrow>
     sf_mode form \<noteq> sf_mode saved \<or> sf_redirectUrl form \<noteq> sf_redirectUrl saved \<or>
     sf_pageId form \<noteq> sf_pageId saved"

section \<open>Language model\<close>

record llmFormState =
  ll_enabled :: bool
  ll_model :: jstring
  ll_apiBase :: jstring
  ll_apiKey :: jstring
  ll_keyIsSet :: bool
  ll_keyCleared :: bool

definition emptyLlmState :: llmFormState where
  "emptyLlmState =
     \<lparr>ll_enabled = False, ll_model = [], ll_apiBase = [], ll_apiKey = [], ll_keyIsSet = False,
      ll_keyCleared = False\<rparr>"

definition llmStateFromSettings :: "instanceSettingsRead \<Rightarrow> llmFormState" where
  "llmStateFromSettings s =
     \<lparr>ll_enabled = is_llm_enabled s, ll_model = or_empty (is_llm_model s),
      ll_apiBase = or_empty (is_llm_api_base s), ll_apiKey = [], ll_keyIsSet = is_llm_api_key_set s,
      ll_keyCleared = False\<rparr>"

definition validateLlmForm :: "llmFormState \<Rightarrow> jstring option" where
  "validateLlmForm state =
     (if \<not> ll_enabled state then None
      else if trim (ll_model state) = [] then Some (js ''Enter a model to enable LLM features.'')
      else None)"

text \<open>A secret in a payload: omitted, null, or a string.\<close>

type_synonym secret = "jstring option option"

record llmSettingsUpdate =
  lu_enabled :: bool
  lu_model :: "jstring option"
  lu_api_base :: "jstring option"
  lu_api_key :: secret

definition buildLlmPayload :: "llmFormState \<Rightarrow> llmSettingsUpdate" where
  "buildLlmPayload state =
     \<lparr>lu_enabled = ll_enabled state, lu_model = trim_or_null (ll_model state),
      lu_api_base = trim_or_null (ll_apiBase state),
      lu_api_key =
        (if trim (ll_apiKey state) \<noteq> [] then Some (Some (trim (ll_apiKey state)))
         else if ll_keyCleared state then Some None else None)\<rparr>"

record llmTestRequest =
  lt_model :: "jstring option"
  lt_api_base :: "jstring option"
  lt_api_key :: "jstring option"

definition buildLlmTestPayload :: "llmFormState \<Rightarrow> llmTestRequest" where
  "buildLlmTestPayload state =
     \<lparr>lt_model = trim_or_null (ll_model state), lt_api_base = trim_or_null (ll_apiBase state),
      lt_api_key = trim_or_null (ll_apiKey state)\<rparr>"

text \<open>The key field of the card: typing in it, and the button that removes the stored key.\<close>

definition typeKey :: "jstring \<Rightarrow> llmFormState \<Rightarrow> llmFormState" where
  "typeKey v f = f\<lparr>ll_apiKey := v, ll_keyCleared := False\<rparr>"

definition removeKey :: "llmFormState \<Rightarrow> llmFormState" where
  "removeKey f = f\<lparr>ll_apiKey := [], ll_keyIsSet := False, ll_keyCleared := True\<rparr>"

section \<open>Mail\<close>

record smtpFormState =
  sm_enabled :: bool
  sm_host :: jstring
  sm_port :: jstring
  sm_security :: smtpSecurity
  sm_password :: jstring
  sm_passwordIsSet :: bool
  sm_passwordCleared :: bool
  sm_username :: jstring
  sm_from :: jstring
  sm_fromName :: jstring
  sm_appUrl :: jstring

definition smtpStateFromSettings :: "instanceSettingsRead \<Rightarrow> smtpFormState" where
  "smtpStateFromSettings s =
     \<lparr>sm_enabled = is_smtp_enabled s, sm_host = or_empty (is_smtp_host s),
      sm_port = str_int (case is_smtp_port s of Some p \<Rightarrow> p | None \<Rightarrow> 587),
      sm_security = (case is_smtp_security s of Some x \<Rightarrow> x | None \<Rightarrow> Starttls),
      sm_password = [], sm_passwordIsSet = is_smtp_password_set s, sm_passwordCleared = False,
      sm_username = or_empty (is_smtp_username s), sm_from = or_empty (is_smtp_from s),
      sm_fromName = or_empty (is_smtp_from_name s), sm_appUrl = or_empty (is_app_url s)\<rparr>"

definition validateSmtpForm :: "smtpFormState \<Rightarrow> jstring option" where
  "validateSmtpForm state =
     (if (case as_integer (js_Number (sm_port state)) of
            Some port \<Rightarrow> port < 1 \<or> 65535 < port | None \<Rightarrow> True)
      then Some (js ''Port must be a whole number between 1 and 65535.'')
      else if \<not> sm_enabled state then None
      else if trim (sm_host state) = [] then Some (js ''A host is required to send mail.'')
      else if trim (sm_from state) = [] then Some (js ''A from address is required to send mail.'')
      else None)"

record smtpSettingsUpdate =
  su_enabled :: bool
  su_host :: "jstring option"
  su_port :: jsreal
  su_security :: smtpSecurity
  su_username :: "jstring option"
  su_from :: "jstring option"
  su_from_name :: "jstring option"
  su_app_url :: "jstring option"
  su_password :: secret

definition buildSmtpPayload :: "smtpFormState \<Rightarrow> smtpSettingsUpdate" where
  "buildSmtpPayload state =
     \<lparr>su_enabled = sm_enabled state, su_host = trim_or_null (sm_host state),
      su_port = js_Number (sm_port state), su_security = sm_security state,
      su_username = trim_or_null (sm_username state), su_from = trim_or_null (sm_from state),
      su_from_name = trim_or_null (sm_fromName state), su_app_url = trim_or_null (sm_appUrl state),
      su_password =
        (if sm_password state \<noteq> [] then Some (Some (sm_password state))
         else if sm_passwordCleared state then Some None else None)\<rparr>"

definition typePassword :: "jstring \<Rightarrow> smtpFormState \<Rightarrow> smtpFormState" where
  "typePassword v f = f\<lparr>sm_password := v, sm_passwordCleared := False\<rparr>"

definition removePassword :: "smtpFormState \<Rightarrow> smtpFormState" where
  "removePassword f = f\<lparr>sm_password := [], sm_passwordIsSet := False, sm_passwordCleared := True\<rparr>"

section \<open>A secret the backend never returns\<close>

text \<open>What a payload does to the stored secret: absent keeps it, null clears it, text replaces it.\<close>

definition apply_secret :: "secret \<Rightarrow> jstring option \<Rightarrow> jstring option" where
  "apply_secret p stored = (case p of None \<Rightarrow> stored | Some s \<Rightarrow> s)"

datatype secretEvent = TypeSecret jstring | RemoveSecret

locale secret_field =
  fixes seed :: "'s \<Rightarrow> bool" and typed :: "jstring \<Rightarrow> 's \<Rightarrow> 's" and remove :: "'s \<Rightarrow> 's"
    and payload :: "'s \<Rightarrow> secret" and shown :: "'s \<Rightarrow> bool" and norm :: "jstring \<Rightarrow> jstring"
  assumes seed_payload: "seed s \<Longrightarrow> payload s = None"
    and typed_payload: "payload (typed v s) = (if norm v = [] then None else Some (Some (norm v)))"
    and removed_payload: "payload (remove s) = Some None"
    and removed_shown: "\<not> shown (remove s)"
    and typed_shown: "shown (typed v s) = shown s"
begin

primrec secret_step :: "'s \<Rightarrow> secretEvent \<Rightarrow> 's" where
  "secret_step s (TypeSecret v) = typed v s"
| "secret_step s RemoveSecret = remove s"

text \<open>The last event decides; typing and erasing again after a removal keeps the stored secret.\<close>

lemma stored_after:
  assumes "seed s"
  shows "apply_secret (payload (foldl secret_step s events)) stored =
    (if events = [] then stored
     else case last events of
            RemoveSecret \<Rightarrow> None
          | TypeSecret v \<Rightarrow> if norm v = [] then stored else Some (norm v))"
proof (cases events rule: rev_cases)
  case Nil
  with seed_payload [OF assms] show ?thesis by (simp add: apply_secret_def)
next
  case (snoc es e)
  then show ?thesis
    by (cases e) (simp_all add: apply_secret_def typed_payload removed_payload)
qed

lemma kept_though_hidden:
  assumes "seed s" and "norm [] = []"
  shows "\<not> shown (foldl secret_step s [RemoveSecret, TypeSecret v, TypeSecret []]) \<and>
    apply_secret (payload (foldl secret_step s [RemoveSecret, TypeSecret v, TypeSecret []])) stored = stored"
  using assms by (simp add: typed_shown removed_shown typed_payload apply_secret_def)

end

definition llm_seed :: "llmFormState \<Rightarrow> bool" where
  "llm_seed f \<longleftrightarrow> ll_apiKey f = [] \<and> \<not> ll_keyCleared f"

definition smtp_seed :: "smtpFormState \<Rightarrow> bool" where
  "smtp_seed f \<longleftrightarrow> sm_password f = [] \<and> \<not> sm_passwordCleared f"

interpretation llm_key: secret_field llm_seed typeKey removeKey
  "\<lambda>f. lu_api_key (buildLlmPayload f)" ll_keyIsSet trim
  by unfold_locales (auto simp: llm_seed_def buildLlmPayload_def typeKey_def removeKey_def)

interpretation smtp_password: secret_field smtp_seed typePassword removePassword
  "\<lambda>f. su_password (buildSmtpPayload f)" sm_passwordIsSet "\<lambda>v. v"
  by unfold_locales (auto simp: smtp_seed_def buildSmtpPayload_def typePassword_def removePassword_def)

section \<open>Cards\<close>

record 'f card_ui =
  cu_form :: 'f
  cu_error :: "jstring option"
  cu_saving :: bool
  cu_toasts :: "toast list"
  cu_testing :: bool
  cu_result :: "jval option"

text \<open>
  The save of a card: a problem is shown and nothing is sent; otherwise the form is sent and
  reseeded from the answer. The mail card shows a failure only in place, the others toast it too.
\<close>

definition card_save ::
  "('f \<Rightarrow> jstring option) \<Rightarrow> ('f \<Rightarrow> ('w, jval) io) \<Rightarrow> (jval \<Rightarrow> 'f) \<Rightarrow> jstring \<Rightarrow> bool \<Rightarrow>
   'f card_ui \<Rightarrow> 'w \<Rightarrow> 'f card_ui \<times> 'w" where
  "card_save problem save reseed ok_text toast_failure c w =
     (case problem (cu_form c) of
        Some m \<Rightarrow> (c\<lparr>cu_error := Some m\<rparr>, w)
      | None \<Rightarrow>
          (case save (cu_form c) w of
             (Inr updated, w') \<Rightarrow>
               (c\<lparr>cu_form := reseed updated, cu_error := None, cu_saving := False,
                  cu_toasts := cu_toasts c @ [ToastSuccess ok_text]\<rparr>, w')
           | (Inl err, w') \<Rightarrow>
               (c\<lparr>cu_error := Some (de_message (describeError err)), cu_saving := False,
                  cu_toasts := cu_toasts c @
                    (if toast_failure then [ToastError (de_message (describeError err))] else [])\<rparr>, w')))"

definition card_test :: "('w, jval) io \<Rightarrow> 'f card_ui \<Rightarrow> 'w \<Rightarrow> 'f card_ui \<times> 'w" where
  "card_test probe c w =
     (case probe w of
        (Inr result, w') \<Rightarrow> (c\<lparr>cu_error := None, cu_result := Some result, cu_testing := False\<rparr>, w')
      | (Inl err, w') \<Rightarrow>
          (c\<lparr>cu_error := Some (de_message (describeError err)), cu_result := None, cu_testing := False\<rparr>, w'))"

primrec site_mode_name :: "defaultSiteMode \<Rightarrow> jstring" where
  "site_mode_name Congratulations = js ''congratulations''"
| "site_mode_name Not_found = js ''not_found''"
| "site_mode_name No_response = js ''no_response''"
| "site_mode_name Redirect = js ''redirect''"
| "site_mode_name Custom_page_site = js ''custom_page''"

primrec security_name :: "smtpSecurity \<Rightarrow> jstring" where
  "security_name NoSecurity = js ''none''"
| "security_name Starttls = js ''starttls''"
| "security_name Tls = js ''tls''"

definition str_or_null :: "jstring option \<Rightarrow> jval" where
  "str_or_null x = (case x of Some s \<Rightarrow> Str s | None \<Rightarrow> Null)"

definition int_or_null :: "int option \<Rightarrow> jval" where
  "int_or_null x = (case x of Some i \<Rightarrow> Number i | None \<Rightarrow> Null)"

definition secret_field_json :: "string \<Rightarrow> secret \<Rightarrow> (jstring \<times> jval) list" where
  "secret_field_json k p = (case p of None \<Rightarrow> [] | Some s \<Rightarrow> [(js k, str_or_null s)])"

definition default_site_json :: "defaultSiteUpdate \<Rightarrow> jval" where
  "default_site_json p =
     Obj [(js ''default_site_mode'', Str (site_mode_name (du_mode p))),
          (js ''default_site_redirect_url'', str_or_null (du_redirect_url p)),
          (js ''default_site_page_id'', int_or_null (du_page_id p))]"

definition llm_json :: "llmSettingsUpdate \<Rightarrow> jval" where
  "llm_json p =
     Obj ([(js ''llm_enabled'', Bool (lu_enabled p)), (js ''llm_model'', str_or_null (lu_model p)),
           (js ''llm_api_base'', str_or_null (lu_api_base p))] @ secret_field_json ''llm_api_key'' (lu_api_key p))"

definition llm_test_json :: "llmTestRequest \<Rightarrow> jval" where
  "llm_test_json p =
     Obj ((case lt_model p of Some s \<Rightarrow> [(js ''model'', Str s)] | None \<Rightarrow> []) @
          (case lt_api_base p of Some s \<Rightarrow> [(js ''api_base'', Str s)] | None \<Rightarrow> []) @
          (case lt_api_key p of Some s \<Rightarrow> [(js ''api_key'', Str s)] | None \<Rightarrow> []))"

text \<open>A port that is not a whole number is written as null here; validation refuses it before.\<close>

definition smtp_json :: "smtpSettingsUpdate \<Rightarrow> jval" where
  "smtp_json p =
     Obj ([(js ''smtp_enabled'', Bool (su_enabled p)), (js ''smtp_host'', str_or_null (su_host p)),
           (js ''smtp_port'', int_or_null (as_integer (su_port p))),
           (js ''smtp_security'', Str (security_name (su_security p))),
           (js ''smtp_username'', str_or_null (su_username p)), (js ''smtp_from'', str_or_null (su_from p)),
           (js ''smtp_from_name'', str_or_null (su_from_name p)), (js ''app_url'', str_or_null (su_app_url p))] @
          secret_field_json ''smtp_password'' (su_password p))"

definition saveDefaultSite ::
  "'w api_env \<Rightarrow> (jval \<Rightarrow> instanceSettingsRead) \<Rightarrow> settingsFormState card_ui \<Rightarrow> 'w \<Rightarrow> settingsFormState card_ui \<times> 'w" where
  "saveDefaultSite env read =
     card_save validateSettingsForm
       (\<lambda>f. run_endpoint env (instanceSettings (UpdateDefaultSite (default_site_json (buildDefaultSitePayload f)))))
       (\<lambda>v. stateFromSettings (read v)) (js ''Default site saved'') True"

definition saveLlm ::
  "'w api_env \<Rightarrow> (jval \<Rightarrow> instanceSettingsRead) \<Rightarrow> llmFormState card_ui \<Rightarrow> 'w \<Rightarrow> llmFormState card_ui \<times> 'w" where
  "saveLlm env read =
     card_save validateLlmForm
       (\<lambda>f. run_endpoint env (instanceSettings (UpdateLlm (llm_json (buildLlmPayload f)))))
       (\<lambda>v. llmStateFromSettings (read v)) (js ''LLM settings saved'') True"

definition testLlm :: "'w api_env \<Rightarrow> llmFormState card_ui \<Rightarrow> 'w \<Rightarrow> llmFormState card_ui \<times> 'w" where
  "testLlm env c =
     card_test (run_endpoint env (instanceSettings (TestLlm (llm_test_json (buildLlmTestPayload (cu_form c)))))) c"

definition saveSmtp ::
  "'w api_env \<Rightarrow> (jval \<Rightarrow> instanceSettingsRead) \<Rightarrow> smtpFormState card_ui \<Rightarrow> 'w \<Rightarrow> smtpFormState card_ui \<times> 'w" where
  "saveSmtp env read =
     card_save validateSmtpForm
       (\<lambda>f. run_endpoint env (instanceSettings (UpdateSmtp (smtp_json (buildSmtpPayload f)))))
       (\<lambda>v. smtpStateFromSettings (read v)) (js ''Email settings saved'') False"

definition testSmtp :: "'w api_env \<Rightarrow> smtpFormState card_ui \<Rightarrow> 'w \<Rightarrow> smtpFormState card_ui \<times> 'w" where
  "testSmtp env = card_test (run_endpoint env (instanceSettings (TestSmtp (Obj []))))"

section \<open>Pages served by mode\<close>

record banForm =
  bf_mode :: banMode
  bf_pageId :: "int option"

definition setBanMode :: "banMode \<Rightarrow> banForm \<Rightarrow> banForm" where
  "setBanMode nxt f = (let f1 = f\<lparr>bf_mode := nxt\<rparr> in if nxt \<noteq> Ban_custom_page then f1\<lparr>bf_pageId := None\<rparr> else f1)"

definition banSavable :: "instanceSettingsRead \<Rightarrow> banForm \<Rightarrow> bool" where
  "banSavable s f \<longleftrightarrow>
     (bf_mode f \<noteq> is_ban_mode s \<or> bf_pageId f \<noteq> is_ban_page_id s) \<and>
     \<not> (bf_mode f = Ban_custom_page \<and> bf_pageId f = None)"

definition banPayload :: "banForm \<Rightarrow> banMode \<times> int option" where
  "banPayload f = (bf_mode f, if bf_mode f = Ban_custom_page then bf_pageId f else None)"

record maintenanceForm =
  mf_mode :: maintenanceMode
  mf_pageId :: "int option"
  mf_minutes :: jstring

definition MIN_MINUTES :: int where "MIN_MINUTES = 1"

definition MAX_MINUTES :: int where "MAX_MINUTES = 10080"

definition maintenanceFrom :: "instanceSettingsRead \<Rightarrow> maintenanceForm" where
  "maintenanceFrom s =
     \<lparr>mf_mode = is_maintenance_mode s, mf_pageId = is_maintenance_page_id s,
      mf_minutes = str_int (is_maintenance_minutes s)\<rparr>"

definition setMaintenanceMode :: "maintenanceMode \<Rightarrow> maintenanceForm \<Rightarrow> maintenanceForm" where
  "setMaintenanceMode nxt f =
     (let f1 = f\<lparr>mf_mode := nxt\<rparr> in if nxt \<noteq> Maintenance_custom_page then f1\<lparr>mf_pageId := None\<rparr> else f1)"

definition minutesUsable :: "maintenanceForm \<Rightarrow> bool" where
  "minutesUsable f \<longleftrightarrow>
     trim (mf_minutes f) \<noteq> [] \<and>
     (case as_integer (js_Number (mf_minutes f)) of
        Some n \<Rightarrow> MIN_MINUTES \<le> n \<and> n \<le> MAX_MINUTES | None \<Rightarrow> False)"

definition maintenanceSavable :: "instanceSettingsRead \<Rightarrow> maintenanceForm \<Rightarrow> bool" where
  "maintenanceSavable s f \<longleftrightarrow>
     (mf_mode f \<noteq> is_maintenance_mode s \<or> mf_pageId f \<noteq> is_maintenance_page_id s \<or>
      as_integer (js_Number (mf_minutes f)) \<noteq> Some (is_maintenance_minutes s)) \<and>
     minutesUsable f \<and> \<not> (mf_mode f = Maintenance_custom_page \<and> mf_pageId f = None)"

definition maintenancePayload :: "maintenanceForm \<Rightarrow> maintenanceMode \<times> int option \<times> jsreal" where
  "maintenancePayload f =
     (mf_mode f, if mf_mode f = Maintenance_custom_page then mf_pageId f else None, js_Number (mf_minutes f))"

record errorRow =
  er_code :: int
  er_custom :: bool
  er_pageId :: "int option"

definition sameSet :: "errorRow list \<Rightarrow> errorRow list \<Rightarrow> bool" where
  "sameSet a b \<longleftrightarrow>
     length a = length b \<and>
     list_all (\<lambda>(r, q). er_custom r = er_custom q \<and> er_pageId r = er_pageId q) (zip a b)"

definition pickErrorMode :: "int \<Rightarrow> bool \<Rightarrow> errorRow list \<Rightarrow> errorRow list" where
  "pickErrorMode code custom rows =
     map (\<lambda>r. if er_code r = code
              then r\<lparr>er_custom := custom, er_pageId := (if custom then er_pageId r else None)\<rparr> else r) rows"

definition pickErrorPage :: "int \<Rightarrow> int \<Rightarrow> errorRow list \<Rightarrow> errorRow list" where
  "pickErrorPage code page rows = map (\<lambda>r. if er_code r = code then r\<lparr>er_pageId := Some page\<rparr> else r) rows"

definition errorPagesSavable :: "errorRow list \<Rightarrow> errorRow list \<Rightarrow> bool" where
  "errorPagesSavable stored rows \<longleftrightarrow>
     \<not> sameSet rows stored \<and> \<not> list_ex (\<lambda>r. er_custom r \<and> er_pageId r = None) rows"

definition errorPagesPayload :: "errorRow list \<Rightarrow> errorRow list" where
  "errorPagesPayload rows = map (\<lambda>r. if er_custom r then r else r\<lparr>er_pageId := None\<rparr>) rows"

text \<open>
  The saves of these cards toast a failure and keep the form as typed; a ban or maintenance save
  hands the stored row back to the page, the error page card reseeds its own rows.
\<close>

record page_card =
  pc_saving :: bool
  pc_toasts :: "toast list"
  pc_row :: "jval option"

definition page_save :: "jstring \<Rightarrow> ('w, jval) io \<Rightarrow> page_card \<Rightarrow> 'w \<Rightarrow> page_card \<times> 'w" where
  "page_save ok_text save c w =
     (case save w of
        (Inr row, w') \<Rightarrow>
          (c\<lparr>pc_saving := False, pc_toasts := pc_toasts c @ [ToastSuccess ok_text], pc_row := Some row\<rparr>, w')
      | (Inl err, w') \<Rightarrow>
          (c\<lparr>pc_saving := False,
             pc_toasts := pc_toasts c @ [ToastError (de_message (describeError err))]\<rparr>, w'))"

primrec ban_mode_name :: "banMode \<Rightarrow> jstring" where
  "ban_mode_name Megoopm_page = js ''megoopm''"
| "ban_mode_name Ban_custom_page = js ''custom_page''"
| "ban_mode_name No_ban_page = js ''none''"

primrec maintenance_mode_name :: "maintenanceMode \<Rightarrow> jstring" where
  "maintenance_mode_name Maintenance_default = js ''megoopm''"
| "maintenance_mode_name Maintenance_custom_page = js ''custom_page''"

definition saveBan :: "'w api_env \<Rightarrow> banForm \<Rightarrow> page_card \<Rightarrow> 'w \<Rightarrow> page_card \<times> 'w" where
  "saveBan env f =
     (let (mode, page) = banPayload f
      in page_save (js ''Ban page saved'')
           (run_endpoint env (instanceSettings (UpdateBanPage
              (Obj [(js ''crowdsec_ban_mode'', Str (ban_mode_name mode)),
                    (js ''crowdsec_ban_page_id'', int_or_null page)])))))"

definition saveMaintenance :: "'w api_env \<Rightarrow> maintenanceForm \<Rightarrow> page_card \<Rightarrow> 'w \<Rightarrow> page_card \<times> 'w" where
  "saveMaintenance env f =
     (let (mode, page, minutes) = maintenancePayload f
      in page_save (js ''Maintenance page saved'')
           (run_endpoint env (instanceSettings (UpdateMaintenance
              (Obj [(js ''mode'', Str (maintenance_mode_name mode)), (js ''page_id'', int_or_null page),
                    (js ''retry_after_minutes'', int_or_null (as_integer minutes))])))))"

record errorPagesCard =
  ep_stored :: "errorRow list option"
  ep_rows :: "errorRow list"
  ep_error :: "jstring option"
  ep_saving :: bool
  ep_toasts :: "toast list"

definition error_row_json :: "errorRow \<Rightarrow> jval" where
  "error_row_json r =
     Obj [(js ''code'', Number (er_code r)), (js ''mode'', Str (js (if er_custom r then ''custom_page'' else ''default''))),
          (js ''custom_page_id'', int_or_null (er_pageId r))]"

definition loadErrorPages :: "'w api_env \<Rightarrow> (jval \<Rightarrow> errorRow list) \<Rightarrow> errorPagesCard \<Rightarrow> 'w \<Rightarrow> errorPagesCard \<times> 'w" where
  "loadErrorPages env toRows c w =
     (case run_endpoint env (instanceSettings ListErrorPages) w of
        (Inr v, w') \<Rightarrow> (c\<lparr>ep_stored := Some (toRows v), ep_rows := toRows v, ep_error := None\<rparr>, w')
      | (Inl err, w') \<Rightarrow> (c\<lparr>ep_error := Some (de_message (describeError err))\<rparr>, w'))"

definition saveErrorPages :: "'w api_env \<Rightarrow> (jval \<Rightarrow> errorRow list) \<Rightarrow> errorPagesCard \<Rightarrow> 'w \<Rightarrow> errorPagesCard \<times> 'w" where
  "saveErrorPages env toRows c w =
     (case run_endpoint env
             (instanceSettings (UpdateErrorPages (Arr (map error_row_json (errorPagesPayload (ep_rows c)))))) w of
        (Inr v, w') \<Rightarrow>
          (c\<lparr>ep_stored := Some (toRows v), ep_rows := toRows v, ep_saving := False,
             ep_toasts := ep_toasts c @ [ToastSuccess (js ''Error pages saved'')]\<rparr>, w')
      | (Inl err, w') \<Rightarrow>
          (c\<lparr>ep_saving := False, ep_toasts := ep_toasts c @ [ToastError (de_message (describeError err))]\<rparr>, w'))"

definition errorPagesDirty :: "errorPagesCard \<Rightarrow> bool" where
  "errorPagesDirty c \<longleftrightarrow> (case ep_stored c of Some stored \<Rightarrow> errorPagesSavable stored (ep_rows c) | None \<Rightarrow> False)"

lemma sameSet_refl: "sameSet rows rows"
  by (auto simp: sameSet_def list_all_iff in_set_zip)

lemma saveErrorPages_outcome:
  "case saveErrorPages env toRows c w of
     (c', w') \<Rightarrow> \<not> errorPagesDirty c' \<or> (ep_rows c', ep_stored c') = (ep_rows c, ep_stored c)"
proof -
  have "\<not> errorPagesDirty (c\<lparr>ep_stored := Some rows, ep_rows := rows, ep_saving := b, ep_toasts := ts\<rparr>)" for rows b ts
    by (simp add: errorPagesDirty_def errorPagesSavable_def sameSet_refl)
  then show ?thesis by (simp add: saveErrorPages_def split: prod.split sum.split)
qed

section \<open>Properties\<close>

text \<open>
  C20. What saving does to a secret the backend holds. Whatever is typed and removed in the key or
  password field, the last event decides: a removal clears the stored secret, a typed value
  replaces it, and an empty field keeps it, which is also what an untouched card does. As a
  consequence a secret that was removed in the form survives the save when something was typed
  and erased afterwards, while the card says that none is stored.
\<close>

theorem secrets_after_save:
  "apply_secret (lu_api_key (buildLlmPayload (foldl llm_key.secret_step (llmStateFromSettings st) events))) stored =
     (if events = [] then stored
      else case last events of
             RemoveSecret \<Rightarrow> None | TypeSecret v \<Rightarrow> if trim v = [] then stored else Some (trim v)) \<and>
   apply_secret (su_password (buildSmtpPayload (foldl smtp_password.secret_step (smtpStateFromSettings st) events))) stored =
     (if events = [] then stored
      else case last events of
             RemoveSecret \<Rightarrow> None | TypeSecret v \<Rightarrow> if v = [] then stored else Some v) \<and>
   (let f = foldl llm_key.secret_step (llmStateFromSettings st) [RemoveSecret, TypeSecret v, TypeSecret []]
    in \<not> ll_keyIsSet f \<and> apply_secret (lu_api_key (buildLlmPayload f)) stored = stored)"
proof -
  have "llm_seed (llmStateFromSettings st)" by (simp add: llm_seed_def llmStateFromSettings_def)
  moreover have "smtp_seed (smtpStateFromSettings st)" by (simp add: smtp_seed_def smtpStateFromSettings_def)
  ultimately show ?thesis
    using llm_key.stored_after smtp_password.stored_after llm_key.kept_though_hidden
    by (simp add: Let_def)
qed

text \<open>
  A page or URL is sent only with the mode that uses it, in each of the four groups that
  serve a page: a valid default-site form sends the redirect URL exactly in redirect mode (an
  http or https URL) and the page exactly in custom-page mode; a savable ban, maintenance or
  error page form names a page exactly for the custom-page mode, and the maintenance delay it
  sends is a whole number of minutes between 1 and 10080. Saving the error pages either leaves
  nothing further to save or, when it fails, keeps the rows as they were typed.
\<close>

theorem page_payloads:
  assumes "validateSettingsForm site = None" and "banSavable st ban" and "maintenanceSavable st mnt"
    and "errorPagesSavable stored rows"
  shows "(du_redirect_url (buildDefaultSitePayload site) \<noteq> None \<longleftrightarrow> sf_mode site = Redirect) \<and>
    (\<forall>u. du_redirect_url (buildDefaultSitePayload site) = Some u \<longrightarrow> web_url u \<and> u \<noteq> []) \<and>
    (du_page_id (buildDefaultSitePayload site) \<noteq> None \<longleftrightarrow> sf_mode site = Custom_page_site) \<and>
    (snd (banPayload ban) \<noteq> None \<longleftrightarrow> fst (banPayload ban) = Ban_custom_page) \<and>
    (case maintenancePayload mnt of
       (m, page, minutes) \<Rightarrow> (page \<noteq> None \<longleftrightarrow> m = Maintenance_custom_page) \<and>
         (\<exists>n. as_integer minutes = Some n \<and> 1 \<le> n \<and> n \<le> 10080)) \<and>
    list_all (\<lambda>r. er_pageId r \<noteq> None \<longleftrightarrow> er_custom r) (errorPagesPayload rows) \<and>
    map er_code (errorPagesPayload rows) = map er_code rows \<and>
    (case saveErrorPages env toRows c w of
       (c', w') \<Rightarrow> \<not> errorPagesDirty c' \<or> (ep_rows c', ep_stored c') = (ep_rows c, ep_stored c))"
proof -
  have site: "du_redirect_url (buildDefaultSitePayload site) \<noteq> None \<longleftrightarrow> sf_mode site = Redirect"
    "\<forall>u. du_redirect_url (buildDefaultSitePayload site) = Some u \<longrightarrow> web_url u \<and> u \<noteq> []"
    "du_page_id (buildDefaultSitePayload site) \<noteq> None \<longleftrightarrow> sf_mode site = Custom_page_site"
    using assms(1) by (auto simp: validateSettingsForm_def buildDefaultSitePayload_def split: if_splits)
  have ban: "snd (banPayload ban) \<noteq> None \<longleftrightarrow> fst (banPayload ban) = Ban_custom_page"
    using assms(2) by (auto simp: banSavable_def banPayload_def)
  have mnt: "case maintenancePayload mnt of
       (m, page, minutes) \<Rightarrow> (page \<noteq> None \<longleftrightarrow> m = Maintenance_custom_page) \<and>
         (\<exists>n. as_integer minutes = Some n \<and> 1 \<le> n \<and> n \<le> 10080)"
    using assms(3)
    by (auto simp: maintenanceSavable_def maintenancePayload_def minutesUsable_def MIN_MINUTES_def
        MAX_MINUTES_def split: option.splits)
  have err: "list_all (\<lambda>r. er_pageId r \<noteq> None \<longleftrightarrow> er_custom r) (errorPagesPayload rows)"
    "map er_code (errorPagesPayload rows) = map er_code rows"
    using assms(4) by (auto simp: errorPagesSavable_def errorPagesPayload_def list_all_iff list_ex_iff)
  show ?thesis using site ban mnt err saveErrorPages_outcome [of c env toRows w] by blast
qed

definition demo_settings :: instanceSettingsRead where
  "demo_settings =
     \<lparr>is_default_site_mode = Not_found, is_default_site_redirect_url = None, is_default_site_page_id = None,
      is_llm_enabled = False, is_llm_model = None, is_llm_api_base = None, is_llm_api_key_set = True,
      is_smtp_enabled = True, is_smtp_host = Some (js ''mail''), is_smtp_port = None,
      is_smtp_security = None, is_smtp_username = None, is_smtp_password_set = False,
      is_smtp_from = Some (js ''a@b''), is_smtp_from_name = None, is_app_url = None,
      is_ban_mode = No_ban_page, is_ban_page_id = None, is_maintenance_mode = Maintenance_default,
      is_maintenance_page_id = None, is_maintenance_minutes = 5\<rparr>"

theorem page_payloads_witness:
  "snd (banPayload \<lparr>bf_mode = Ban_custom_page, bf_pageId = Some 3\<rparr>) \<noteq> None \<and>
   du_page_id (buildDefaultSitePayload emptySettingsState) = None"
proof -
  let ?mnt = "\<lparr>mf_mode = Maintenance_default, mf_pageId = None, mf_minutes = str_nat 30\<rparr>"
  have "validateSettingsForm emptySettingsState = None"
    by (simp add: validateSettingsForm_def emptySettingsState_def)
  moreover have "banSavable demo_settings \<lparr>bf_mode = Ban_custom_page, bf_pageId = Some 3\<rparr>"
    by (simp add: banSavable_def demo_settings_def)
  moreover have "trim (str_nat 30) \<noteq> []"
    using str_nat_digits [of 30] by (simp add: trim_no_ws list_all_iff digit_not_ws)
  then have "maintenanceSavable demo_settings ?mnt"
    by (simp add: maintenanceSavable_def minutesUsable_def demo_settings_def MIN_MINUTES_def MAX_MINUTES_def)
  moreover have "errorPagesSavable [\<lparr>er_code = 404, er_custom = False, er_pageId = None\<rparr>]
      [\<lparr>er_code = 404, er_custom = True, er_pageId = Some 1\<rparr>]"
    by (simp add: errorPagesSavable_def sameSet_def)
  ultimately show ?thesis
    using page_payloads [of emptySettingsState demo_settings "\<lparr>bf_mode = Ban_custom_page, bf_pageId = Some 3\<rparr>"
      ?mnt "[\<lparr>er_code = 404, er_custom = False, er_pageId = None\<rparr>]"
      "[\<lparr>er_code = 404, er_custom = True, er_pageId = Some 1\<rparr>]"
      "\<lparr>ep_stored = None, ep_rows = [], ep_error = None, ep_saving = False, ep_toasts = []\<rparr>" offline_env "\<lambda>v. []" "()"]
    by (simp add: emptySettingsState_def banPayload_def)
qed

text \<open>What the mail form keeps of stored settings: blank text and missing text are the same.\<close>

definition text_view :: "jstring option \<Rightarrow> jstring option" where
  "text_view x = trim_or_null (or_empty x)"

lemma text_view_trimmed: "x \<noteq> Some [] \<Longrightarrow> (\<And>s. x = Some s \<Longrightarrow> trim s = s) \<Longrightarrow> text_view x = x"
  by (cases x) (auto simp: text_view_def trim_or_null_def or_empty_def)

text \<open>
  A valid mail form sends a port that is a whole number from 1 to 65535, and with delivery
  switched on a host and a sender; an invalid form is not sent at all. Opening the card on
  stored settings and saving it unchanged is valid and sends every field back as stored (a
  missing port as 587) without touching the password.
\<close>

theorem smtp_payload:
  assumes "1 \<le> port" and "port \<le> 65535" and "is_smtp_port st = Some port"
    and "is_smtp_enabled st \<Longrightarrow> text_view (is_smtp_host st) \<noteq> None \<and> text_view (is_smtp_from st) \<noteq> None"
  shows "(case validateSmtpForm f of
      None \<Rightarrow> (\<exists>n. as_integer (su_port (buildSmtpPayload f)) = Some n \<and> 1 \<le> n \<and> n \<le> 65535) \<and>
        (sm_enabled f \<longrightarrow> su_host (buildSmtpPayload f) \<noteq> None \<and> su_from (buildSmtpPayload f) \<noteq> None)
    | Some m \<Rightarrow> saveSmtp env read (c\<lparr>cu_form := f\<rparr>) w = (c\<lparr>cu_form := f, cu_error := Some m\<rparr>, w)) \<and>
    validateSmtpForm (smtpStateFromSettings st) = None \<and>
    buildSmtpPayload (smtpStateFromSettings st) =
      \<lparr>su_enabled = is_smtp_enabled st, su_host = text_view (is_smtp_host st), su_port = RFin (of_int port),
       su_security = (case is_smtp_security st of Some x \<Rightarrow> x | None \<Rightarrow> Starttls),
       su_username = text_view (is_smtp_username st), su_from = text_view (is_smtp_from st),
       su_from_name = text_view (is_smtp_from_name st), su_app_url = text_view (is_app_url st),
       su_password = None\<rparr>"
proof -
  have "str_int port = str_nat (nat port)" using assms(1) by (simp add: str_int_def)
  then have num: "js_Number (str_int port) = RFin (of_int port)" using assms(1) by simp
  have "validateSmtpForm (smtpStateFromSettings st) = None"
    using assms by (auto simp: validateSmtpForm_def smtpStateFromSettings_def num text_view_def
        trim_or_null_def split: if_splits)
  moreover have "case validateSmtpForm f of
      None \<Rightarrow> (\<exists>n. as_integer (su_port (buildSmtpPayload f)) = Some n \<and> 1 \<le> n \<and> n \<le> 65535) \<and>
        (sm_enabled f \<longrightarrow> su_host (buildSmtpPayload f) \<noteq> None \<and> su_from (buildSmtpPayload f) \<noteq> None)
    | Some m \<Rightarrow> saveSmtp env read (c\<lparr>cu_form := f\<rparr>) w = (c\<lparr>cu_form := f, cu_error := Some m\<rparr>, w)"
    by (auto simp: saveSmtp_def card_save_def split: option.splits)
      (auto simp: validateSmtpForm_def buildSmtpPayload_def trim_or_null_def split: option.splits if_splits)
  ultimately show ?thesis
    using assms(3) by (simp add: buildSmtpPayload_def smtpStateFromSettings_def num text_view_def)
qed

theorem smtp_payload_witness:
  "validateSmtpForm (smtpStateFromSettings (demo_settings\<lparr>is_smtp_port := Some 25\<rparr>)) = None"
  using smtp_payload [of 25 "demo_settings\<lparr>is_smtp_port := Some 25\<rparr>" _ offline_env _ _ "()"]
  by (simp add: demo_settings_def text_view_def trim_or_null_def or_empty_def trim_no_ws js_def is_ws_def)

end
