(* ===== verification/Certificates.thy ===== *)
theory Certificates
  imports Other_Hosts Js_Date Settings_Forms "HOL-Library.Multiset"
begin

text \<open>
  Certificates and the DNS credentials they use: the expiry classification and the
  Let's Encrypt form of \<^verbatim>\<open>components/certificates/lib.ts\<close>, the two forms of
  \<^verbatim>\<open>certificate-dialog.tsx\<close>, the option building of \<^verbatim>\<open>components/dns-providers/lib.ts\<close> and its
  credential dialog. The em dash of the labels is the code unit 8212, the middle dot 183.
\<close>

section \<open>Expiry\<close>

datatype expiryLevel = ExpiryNone | ExpiryOk | ExpiryWarning | Expired

record expiryInfo =
  ei_level :: expiryLevel
  ei_daysUntil :: "int option"
  ei_label :: jstring

definition EXPIRY_WARNING_DAYS :: int where "EXPIRY_WARNING_DAYS = 30"

definition em_dash :: jstring where "em_dash = [8212]"

definition no_expiry :: expiryInfo where
  "no_expiry = \<lparr>ei_level = ExpiryNone, ei_daysUntil = None, ei_label = em_dash\<rparr>"

definition expiryInfo_of :: "date_env \<Rightarrow> jstring option \<Rightarrow> int \<Rightarrow> expiryInfo" where
  "expiryInfo_of de expiresOn now =
     (case expiresOn of
        None \<Rightarrow> no_expiry
      | Some stamp \<Rightarrow>
          if stamp = [] then no_expiry
          else (case date_parse de stamp of
                  None \<Rightarrow> no_expiry
                | Some t \<Rightarrow>
                    (let daysUntil = (t - now) div MS_PER_DAY
                     in if daysUntil < 0
                        then \<lparr>ei_level = Expired, ei_daysUntil = Some daysUntil, ei_label = js ''Expired''\<rparr>
                        else if daysUntil = 0
                        then \<lparr>ei_level = ExpiryWarning, ei_daysUntil = Some daysUntil, ei_label = js ''Expires today''\<rparr>
                        else let label = js ''in '' @ str_int daysUntil @ js '' day'' @
                                         (if daysUntil = 1 then [] else js ''s'')
                             in \<lparr>ei_level = (if daysUntil \<le> EXPIRY_WARNING_DAYS then ExpiryWarning else ExpiryOk),
                                 ei_daysUntil = Some daysUntil, ei_label = label\<rparr>)))"

definition formatDate :: "date_env \<Rightarrow> jstring option \<Rightarrow> jstring" where
  "formatDate de stamp =
     (case stamp of
        None \<Rightarrow> em_dash
      | Some s \<Rightarrow>
          if s = [] then em_dash
          else case date_parse de s of None \<Rightarrow> em_dash | Some t \<Rightarrow> iso_date_prefix t)"

datatype certificateProvider = LetsEncrypt | CustomCert

datatype acmeChallenge = Http01 | Dns01

primrec challenge_name :: "acmeChallenge \<Rightarrow> jstring" where
  "challenge_name Http01 = js ''http-01''"
| "challenge_name Dns01 = js ''dns-01''"

definition challengeLabel :: "certificateProvider \<Rightarrow> acmeChallenge option \<Rightarrow> jstring option \<Rightarrow> jstring" where
  "challengeLabel provider challenge label =
     (if provider \<noteq> LetsEncrypt then em_dash
      else case challenge of
             None \<Rightarrow> em_dash
           | Some Dns01 \<Rightarrow>
               (case label of
                  Some l \<Rightarrow> if l = [] then js ''DNS-01'' else js ''DNS-01 '' @ [183] @ js '' '' @ l
                | None \<Rightarrow> js ''DNS-01'')
           | Some Http01 \<Rightarrow> js ''HTTP-01'')"

section \<open>The Let's Encrypt form\<close>

record letsEncryptFormInput =
  le_name :: jstring
  le_domains :: "jstring list"
  le_challenge :: acmeChallenge
  le_accountEmail :: jstring
  le_dnsCredentialId :: jstring

record letsEncryptCreate =
  lc_name :: jstring
  lc_domain_names :: "jstring list"
  lc_challenge :: acmeChallenge
  lc_account_email :: "jstring option"
  lc_dns_credential_id :: "jsreal option"

definition letsEncryptPayload :: "letsEncryptFormInput \<Rightarrow> jstring + letsEncryptCreate" where
  "letsEncryptPayload input =
     (let name = trim (le_name input); isDns = (le_challenge input = Dns01)
      in if name = [] then Inl (js ''Give the certificate a name.'')
         else if le_domains input = [] then Inl (js ''Enter at least one domain name.'')
         else if isDns \<and> le_dnsCredentialId input = []
         then Inl (js ''Choose DNS provider credentials for DNS-01.'')
         else Inr \<lparr>lc_name = name, lc_domain_names = le_domains input, lc_challenge = le_challenge input,
                   lc_account_email = trim_or_null (le_accountEmail input),
                   lc_dns_credential_id = (if isDns then Some (js_Number (le_dnsCredentialId input)) else None)\<rparr>)"

definition letsencrypt_json :: "letsEncryptCreate \<Rightarrow> jval" where
  "letsencrypt_json b =
     Obj [(js ''name'', Str (lc_name b)), (js ''domain_names'', Arr (map Str (lc_domain_names b))),
          (js ''challenge'', Str (challenge_name (lc_challenge b))),
          (js ''account_email'', str_or_null (lc_account_email b)),
          (js ''dns_credential_id'', int_or_null (Option.bind (lc_dns_credential_id b) as_integer))]"

section \<open>The certificate dialog\<close>

record pendingTask =
  pt_taskId :: jval
  pt_label :: jstring

record certificateDialog =
  cd_input :: letsEncryptFormInput
  cd_domainsInvalid :: bool
  cd_customName :: jstring
  cd_certPem :: jstring
  cd_keyPem :: jstring
  cd_chainPem :: jstring
  cd_pending :: "pendingTask list"

definition letsencrypt_problem :: "certificateDialog \<Rightarrow> jstring option" where
  "letsencrypt_problem d =
     (if cd_domainsInvalid d then Some (js ''Fix the highlighted domain first.'')
      else case letsEncryptPayload (cd_input d) of Inl e \<Rightarrow> Some e | Inr b \<Rightarrow> None)"

text \<open>
  The answer is read as \<open>issued.task_id\<close> and \<open>issued.certificate.name\<close> after the success toast
  and the close, so an answer without them throws inside the \<open>try\<close>: the dialog has closed and
  the failure is then shown and toasted as well.
\<close>

definition issued_task :: "jval \<Rightarrow> thrown + pendingTask" where
  "issued_task v =
     (case member v (js ''task_id'') of
        Inl e \<Rightarrow> Inl e
      | Inr task \<Rightarrow>
          (case member v (js ''certificate'') of
             Inl e \<Rightarrow> Inl e
           | Inr c \<Rightarrow>
               (case member c (js ''name'') of
                  Inl e \<Rightarrow> Inl e
                | Inr n \<Rightarrow> Inr \<lparr>pt_taskId = task, pt_label = js ''Issuing '' @ [8220] @ js_String n @ [8221]\<rparr>)))"

definition letsencrypt_ok_text :: jstring where
  "letsencrypt_ok_text = js ''Issuance requested '' @ em_dash @ js '' this can take a minute.''"

definition submitLetsEncrypt ::
  "'w api_env \<Rightarrow> certificateDialog \<Rightarrow> dialog_ui \<Rightarrow> 'w \<Rightarrow> (certificateDialog \<times> dialog_ui) \<times> 'w" where
  "submitLetsEncrypt env d ui w =
     (let ui1 = ui\<lparr>ui_error := None\<rparr>
      in if cd_domainsInvalid d then ((d, refuse (js ''Fix the highlighted domain first.'') ui1), w)
         else case letsEncryptPayload (cd_input d) of
                Inl e \<Rightarrow> ((d, refuse e ui1), w)
              | Inr body \<Rightarrow>
                  (case run_endpoint env (certificates (RequestLetsEncrypt (letsencrypt_json body))) w of
                     (Inl err, w') \<Rightarrow>
                       ((d, ui1\<lparr>ui_error := Some (de_message (describeError err)), ui_saving := False,
                               ui_toasts := ui_toasts ui @ [ToastError (de_message (describeError err))]\<rparr>), w')
                   | (Inr issued, w') \<Rightarrow>
                       (let ui2 = ui1\<lparr>ui_open := False, ui_saving := False,
                                     ui_toasts := ui_toasts ui @ [ToastSuccess letsencrypt_ok_text]\<rparr>
                        in case issued_task issued of
                             Inr task \<Rightarrow>
                               ((d\<lparr>cd_pending := cd_pending d @ [task]\<rparr>, ui2\<lparr>ui_saved := ui_saved ui + 1\<rparr>), w')
                           | Inl err \<Rightarrow>
                               ((d, ui2\<lparr>ui_error := Some (de_message (describeError err)),
                                       ui_toasts := ui_toasts ui2 @ [ToastError (de_message (describeError err))]\<rparr>), w'))))"

definition custom_problem :: "certificateDialog \<Rightarrow> jstring option" where
  "custom_problem d =
     (if trim (cd_customName d) = [] then Some (js ''Give the certificate a name.'')
      else if trim (cd_certPem d) = [] then Some (js ''Paste the leaf certificate (PEM).'')
      else if trim (cd_keyPem d) = [] then Some (js ''Paste the matching private key (PEM).'')
      else None)"

definition save_custom :: "'w api_env \<Rightarrow> certificateDialog \<Rightarrow> ('w, jval) io" where
  "save_custom env d =
     run_endpoint env (certificates (UploadCustom
       (Obj [(js ''name'', Str (trim (cd_customName d))), (js ''certificate_pem'', Str (cd_certPem d)),
             (js ''private_key_pem'', Str (cd_keyPem d)),
             (js ''chain_pem'', str_or_null (trim_or_null (cd_chainPem d)))])))"

definition submitCustom :: "'w api_env \<Rightarrow> certificateDialog \<Rightarrow> dialog_ui \<Rightarrow> 'w \<Rightarrow> dialog_ui \<times> 'w" where
  "submitCustom env d ui w =
     (let ui1 = ui\<lparr>ui_error := None\<rparr>
      in case custom_problem d of
           Some m \<Rightarrow> (refuse m ui1, w)
         | None \<Rightarrow> save_flow (js ''Certificate uploaded'') (save_custom env d) (ui1\<lparr>ui_saving := True\<rparr>) w)"

interpretation custom_dialog: submit_dialog custom_problem "save_custom env" "\<lambda>d. js ''Certificate uploaded''"
  "submitCustom env" for env
  by unfold_locales (auto simp: submitCustom_def refuse_def save_flow_def split: prod.splits sum.splits)

section \<open>DNS credentials\<close>

record dnsProviderField =
  pf_name :: jstring
  pf_label :: jstring
  pf_secret :: bool
  pf_help :: "jstring option"

record dnsProviderInfo =
  pi_id :: jstring
  pi_label :: jstring
  pi_description :: "jstring option"
  pi_fields :: "dnsProviderField list"

record dnsCredential =
  dc_id :: int
  dc_name :: jstring
  dc_provider :: jstring
  dc_provider_label :: jstring
  dc_options :: "jstring object"
  dc_secret_fields :: "jstring list"
  dc_in_use_by :: "jstring list"

definition credentialLabel :: "dnsCredential \<Rightarrow> jstring" where
  "credentialLabel cred = dc_name cred @ js '' '' @ [183] @ js '' '' @ dc_provider_label cred"

definition fieldLabel :: "jstring \<Rightarrow> jstring" where
  "fieldLabel name =
     (let spaced = map (\<lambda>c. if c = 95 then 32 else c) name in toUpperCase (take 1 spaced) @ drop 1 spaced)"

definition emptyValues :: "dnsProviderField list \<Rightarrow> jstring object" where
  "emptyValues fs = fold (\<lambda>f. set_prop (pf_name f) []) fs []"

definition value_of :: "jstring object \<Rightarrow> jstring \<Rightarrow> jstring" where
  "value_of values k = trim (or_empty (map_of values k))"

fun buildOptionsPayload :: "dnsProviderField list \<Rightarrow> jstring object \<Rightarrow> jstring object \<Rightarrow> jstring object" where
  "buildOptionsPayload [] values payload = payload"
| "buildOptionsPayload (f # fs) values payload =
     buildOptionsPayload fs values
       (if value_of values (pf_name f) \<noteq> [] then set_prop (pf_name f) (value_of values (pf_name f)) payload else payload)"

definition missingSecret :: "dnsProviderField list \<Rightarrow> jstring object \<Rightarrow> bool" where
  "missingSecret fs values \<longleftrightarrow> \<not> list_ex (\<lambda>f. pf_secret f \<and> value_of values (pf_name f) \<noteq> []) fs"

record dnsDialog =
  nd_credential :: "dnsCredential option"
  nd_catalog :: "dnsProviderInfo list"
  nd_name :: jstring
  nd_providerId :: jstring
  nd_values :: "jstring object"

definition find_provider :: "dnsProviderInfo list \<Rightarrow> jstring \<Rightarrow> dnsProviderInfo option" where
  "find_provider catalog i = find (\<lambda>p. pi_id p = i) catalog"

definition fields_of :: "dnsProviderInfo option \<Rightarrow> dnsProviderField list" where
  "fields_of p = (case p of Some q \<Rightarrow> pi_fields q | None \<Rightarrow> [])"

definition openDnsDialog :: "dnsCredential option \<Rightarrow> dnsProviderInfo list \<Rightarrow> dnsDialog" where
  "openDnsDialog cred catalog =
     (let providerId =
            (case cred of
               Some c \<Rightarrow> dc_provider c
             | None \<Rightarrow> (case catalog of p # _ \<Rightarrow> pi_id p | [] \<Rightarrow> []));
          options = (case cred of Some c \<Rightarrow> dc_options c | None \<Rightarrow> [])
      in \<lparr>nd_credential = cred, nd_catalog = catalog,
          nd_name = (case cred of Some c \<Rightarrow> dc_name c | None \<Rightarrow> []), nd_providerId = providerId,
          nd_values = fold (\<lambda>(k, v). set_prop k v) (own_order options)
                        (emptyValues (fields_of (find_provider catalog providerId)))\<rparr>)"

definition changeProvider :: "jstring \<Rightarrow> dnsDialog \<Rightarrow> dnsDialog" where
  "changeProvider i d =
     d\<lparr>nd_providerId := i, nd_values := emptyValues (fields_of (find_provider (nd_catalog d) i))\<rparr>"

definition dns_problem :: "dnsDialog \<Rightarrow> jstring option" where
  "dns_problem d =
     (if trim (nd_name d) = [] then Some (js ''Give the credentials a name.'')
      else case find_provider (nd_catalog d) (nd_providerId d) of
             None \<Rightarrow> Some (js ''Choose a DNS provider.'')
           | Some p \<Rightarrow>
               if nd_credential d = None \<and> missingSecret (pi_fields p) (nd_values d)
               then Some (js ''Enter at least one credential (secret) field.'')
               else None)"

definition dns_options :: "dnsDialog \<Rightarrow> jstring object" where
  "dns_options d =
     buildOptionsPayload (fields_of (find_provider (nd_catalog d) (nd_providerId d))) (nd_values d) []"

definition options_json :: "jstring object \<Rightarrow> jval" where
  "options_json o1 = Obj (map (\<lambda>(k, v). (k, Str v)) o1)"

definition save_dns :: "'w api_env \<Rightarrow> dnsDialog \<Rightarrow> ('w, jval) io" where
  "save_dns env d =
     run_endpoint env (dnsCredentials
       (case nd_credential d of
          Some c \<Rightarrow> DnsUpdate (dc_id c)
            (Obj [(js ''name'', Str (trim (nd_name d))), (js ''options'', options_json (dns_options d))])
        | None \<Rightarrow> DnsCreate
            (Obj [(js ''name'', Str (trim (nd_name d))),
                  (js ''provider'', Str (nd_providerId d)),
                  (js ''options'', options_json (dns_options d))])))"

text \<open>A failed save is shown in the dialog and not toasted.\<close>

definition submitDns :: "'w api_env \<Rightarrow> dnsDialog \<Rightarrow> dialog_ui \<Rightarrow> 'w \<Rightarrow> dialog_ui \<times> 'w" where
  "submitDns env d ui w =
     (let ui1 = ui\<lparr>ui_error := None\<rparr>
      in case dns_problem d of
           Some m \<Rightarrow> (refuse m ui1, w)
         | None \<Rightarrow>
             (case save_dns env d w of
                (Inr x, w') \<Rightarrow>
                  (ui1\<lparr>ui_open := False, ui_saving := False, ui_saved := ui_saved ui + 1,
                       ui_toasts := ui_toasts ui @
                         [ToastSuccess (js (if nd_credential d \<noteq> None then ''Credentials updated'' else ''Credentials saved''))]\<rparr>, w')
              | (Inl err, w') \<Rightarrow>
                  (ui1\<lparr>ui_error := Some (de_message (describeError err)), ui_saving := False\<rparr>, w')))"

section \<open>Properties\<close>

lemma expiry_of_time:
  assumes "date_parse de s = Some t" and "s \<noteq> []"
  shows "ei_level (expiryInfo_of de (Some s) now) =
    (if t < now then Expired else if t < now + 31 * MS_PER_DAY then ExpiryWarning else ExpiryOk)"
proof -
  have "(t - now) div MS_PER_DAY < 0 \<longleftrightarrow> t < now"
    by (simp add: MS_PER_DAY_def) linarith
  moreover have "(t - now) div MS_PER_DAY \<le> 30 \<longleftrightarrow> t < now + 31 * MS_PER_DAY"
    by (simp add: MS_PER_DAY_def) linarith
  ultimately show ?thesis
    using assms by (auto simp: expiryInfo_of_def Let_def EXPIRY_WARNING_DAYS_def)
qed

text \<open>
  C26. A certificate whose expiry is given as a UTC timestamp is shown with exactly the date of
  that timestamp, and it is flagged as expired exactly from that instant on, as a warning from
  31 days before it (30 whole days or fewer are left), and as fine before; a certificate
  without an expiry is not flagged.
\<close>

theorem expiry_levels:
  assumes "valid_day y m d" and "0 \<le> y" and "y \<le> 9999"
    and "0 \<le> h" and "h < 24" and "0 \<le> mi" and "mi < 60" and "0 \<le> sec" and "sec < 60"
  shows "let s = date_text y m d @ 84 # clock_text h mi sec @ [90];
      t = day_number y m d * MS_PER_DAY + ((h * 60 + mi) * 60 + sec) * 1000
    in formatDate de (Some s) = date_text y m d \<and>
       ei_level (expiryInfo_of de (Some s) now) =
         (if t < now then Expired else if t < now + 31 * MS_PER_DAY then ExpiryWarning else ExpiryOk) \<and>
       ei_daysUntil (expiryInfo_of de (Some s) now) = Some ((t - now) div MS_PER_DAY) \<and>
       expiryInfo_of de None now = no_expiry"
proof -
  let ?s = "date_text y m d @ 84 # clock_text h mi sec @ [90]"
  let ?ms = "((h * 60 + mi) * 60 + sec) * 1000"
  have p: "date_parse de ?s = Some (day_number y m d * MS_PER_DAY + ?ms)"
    using iso_time_utc [OF assms] by (simp add: date_parse_def)
  have "0 \<le> ?ms" "?ms < MS_PER_DAY" using assms(4-9) by (simp_all add: MS_PER_DAY_def)
  from iso_date_prefix_time [OF assms(1-3) this] p
  have "formatDate de (Some ?s) = date_text y m d" by (simp add: formatDate_def)
  moreover have "ei_daysUntil (expiryInfo_of de (Some ?s) now) =
      Some ((day_number y m d * MS_PER_DAY + ?ms - now) div MS_PER_DAY)"
    using p by (simp add: expiryInfo_of_def Let_def)
  moreover note expiry_of_time [OF p, of now]
  moreover have "expiryInfo_of de None now = no_expiry" by (simp add: expiryInfo_of_def)
  ultimately show ?thesis unfolding Let_def by simp
qed

definition demo_dates :: date_env where
  "demo_dates = \<lparr>de_local_offset = (\<lambda>t. 0), de_other_formats = (\<lambda>s. None)\<rparr>"

theorem expiry_levels_witness:
  "formatDate demo_dates (Some (date_text 2028 2 29 @ 84 # clock_text 23 59 59 @ [90])) = date_text 2028 2 29 \<and>
   ei_level (expiryInfo_of demo_dates (Some (date_text 2028 2 29 @ 84 # clock_text 23 59 59 @ [90])) 0) = ExpiryOk"
proof -
  have "valid_day 2028 2 29" by (simp add: valid_day_def month_lengths_def leap_year_def)
  moreover have "day_number 2028 2 29 = 21243"
    by (simp add: day_number_def day_from_year_def month_lengths_def leap_year_def)
  ultimately show ?thesis
    using expiry_levels [of 2028 2 29 23 59 59 demo_dates 0] by (simp add: Let_def MS_PER_DAY_def)
qed

text \<open>
  Requesting a certificate: nothing is sent unless every check passes, and what is sent has a
  trimmed name, the domains of the form and a DNS credential exactly for DNS-01. The dialog
  closes exactly when the backend accepts, and one task is then handed on for polling, unless
  the answer lacks the task's fields, in which case the error is shown after the dialog closed.
\<close>

theorem letsencrypt_submit:
  "case submitLetsEncrypt env d fresh_ui w of
     ((d', ui'), w') \<Rightarrow>
       cd_input d' = cd_input d \<and> \<not> ui_saving ui' \<and>
       (case letsencrypt_problem d of
          Some m \<Rightarrow> ui_error ui' = Some m \<and> ui_open ui' \<and> d' = d \<and> w' = w
        | None \<Rightarrow>
            (\<exists>b. letsEncryptPayload (cd_input d) = Inr b \<and>
              lc_name b = trim (le_name (cd_input d)) \<and> lc_name b \<noteq> [] \<and>
              lc_domain_names b = le_domains (cd_input d) \<and> lc_domain_names b \<noteq> [] \<and>
              (lc_dns_credential_id b \<noteq> None \<longleftrightarrow> lc_challenge b = Dns01) \<and>
              (case run_endpoint env (certificates (RequestLetsEncrypt (letsencrypt_json b))) w of
                 (Inl e, w1) \<Rightarrow> w' = w1 \<and> ui_open ui' \<and> d' = d \<and> ui_error ui' = Some (de_message (describeError e))
               | (Inr v, w1) \<Rightarrow>
                   w' = w1 \<and> \<not> ui_open ui' \<and>
                   (case issued_task v of
                      Inr t \<Rightarrow> cd_pending d' = cd_pending d @ [t] \<and> ui_saved ui' = 1 \<and> ui_error ui' = None
                    | Inl e \<Rightarrow> d' = d \<and> ui_saved ui' = 0 \<and> ui_error ui' = Some (de_message (describeError e))))))"
proof (cases "letsencrypt_problem d")
  case (Some m)
  then show ?thesis
    by (auto simp: letsencrypt_problem_def submitLetsEncrypt_def refuse_def fresh_ui_def
        split: sum.splits if_splits)
next
  case None
  then obtain b where inv: "\<not> cd_domainsInvalid d" and b: "letsEncryptPayload (cd_input d) = Inr b"
    by (auto simp: letsencrypt_problem_def split: sum.splits if_splits)
  have "lc_name b = trim (le_name (cd_input d))" "lc_name b \<noteq> []"
    "lc_domain_names b = le_domains (cd_input d)" "lc_domain_names b \<noteq> []"
    "lc_dns_credential_id b \<noteq> None \<longleftrightarrow> lc_challenge b = Dns01"
    using b by (auto simp: letsEncryptPayload_def Let_def split: if_splits)
  moreover obtain r w1 where r: "run_endpoint env (certificates (RequestLetsEncrypt (letsencrypt_json b))) w = (r, w1)"
    by force
  ultimately show ?thesis
    using None inv b
    by (cases r) (auto simp: submitLetsEncrypt_def fresh_ui_def Let_def split: sum.splits)
qed

lemma own_order_perm: "mset (own_order kvs) = mset kvs"
  by (simp add: own_order_def)

lemma own_order_distinct: "distinct (map fst kvs) \<Longrightarrow> distinct (map fst (own_order kvs))"
  using own_order_perm [of kvs] by (metis mset_eq_imp_distinct_iff mset_map)

lemma own_order_map_of: "distinct (map fst kvs) \<Longrightarrow> map_of (own_order kvs) = map_of kvs"
  by (simp add: map_of_inject_set own_order_distinct)

lemma fold_set_prop_fields:
  "map_of (fold (\<lambda>f. set_prop (pf_name f) []) fs acc) k =
     (if k \<in> pf_name ` set fs then Some [] else map_of acc k)"
  by (induction fs arbitrary: acc) auto

lemma map_of_emptyValues: "map_of (emptyValues fs) k = (if k \<in> pf_name ` set fs then Some [] else None)"
  by (simp add: emptyValues_def fold_set_prop_fields)

lemma map_of_options:
  "map_of (buildOptionsPayload fs vals acc) k =
     (if k \<in> pf_name ` set fs \<and> value_of vals k \<noteq> [] then Some (value_of vals k) else map_of acc k)"
  by (induction fs vals acc rule: buildOptionsPayload.induct) auto

lemma map_of_fold_set_prop:
  "distinct (map fst kvs) \<Longrightarrow> map_of (fold (\<lambda>(k, v). set_prop k v) kvs acc) = map_of acc ++ map_of kvs"
proof (induction kvs arbitrary: acc)
  case (Cons kv kvs)
  then show ?case
    by (cases kv) (force simp: map_add_def fun_eq_iff split: option.splits dest: map_of_SomeD)
qed simp

text \<open>
  What a DNS credential sends. Only fields of the chosen provider are sent, each with its
  trimmed value, and blank ones never, so that a secret left blank keeps its stored value; a new
  credential is refused exactly when no secret would be sent; a stored one, opened and saved
  unchanged, sends its options back as stored; and changing the provider forgets every value.
\<close>

theorem dns_credential_options:
  assumes "find_provider catalog (dc_provider c) = Some p"
    and "distinct (map fst (dc_options c))"
    and "list_all (\<lambda>(k, v). trim v = v \<and> v \<noteq> [] \<and> k \<in> pf_name ` set (pi_fields p)) (dc_options c)"
    and "trim (dc_name c) \<noteq> []"
  shows "map_of (dns_options d) k =
      (let v = value_of (nd_values d) k
       in if k \<in> pf_name ` set (fields_of (find_provider (nd_catalog d) (nd_providerId d))) \<and> v \<noteq> [] then Some v else None) \<and>
    (missingSecret fs vals \<longleftrightarrow>
       \<not> list_ex (\<lambda>f. pf_secret f \<and> pf_name f \<in> dom (map_of (buildOptionsPayload fs vals []))) fs) \<and>
    (dns_problem (openDnsDialog (Some c) catalog) = None \<and>
     map_of (dns_options (openDnsDialog (Some c) catalog)) = map_of (dc_options c)) \<and>
    dns_options (changeProvider i d) = []"
proof -
  have "map_of (dns_options (openDnsDialog (Some c) catalog)) k = map_of (dc_options c) k" for k
  proof -
    have v: "map_of (nd_values (openDnsDialog (Some c) catalog)) = map_of (emptyValues (pi_fields p)) ++ map_of (dc_options c)"
      using assms(1) map_of_fold_set_prop [OF own_order_distinct [OF assms(2)], of "emptyValues (pi_fields p)"]
        own_order_map_of [OF assms(2)] by (simp add: openDnsDialog_def fields_of_def)
    show ?thesis
    proof (cases "map_of (dc_options c) k")
      case None
      with v have "value_of (nd_values (openDnsDialog (Some c) catalog)) k = []"
        by (auto simp: value_of_def map_add_def or_empty_def map_of_emptyValues split: option.splits)
      with None show ?thesis by (simp add: dns_options_def map_of_options)
    next
      case (Some x)
      with assms(3) have "trim x = x" "x \<noteq> []" "k \<in> pf_name ` set (pi_fields p)"
        by (auto simp: list_all_iff dest: map_of_SomeD)
      with Some v assms(1) show ?thesis
        by (simp add: dns_options_def map_of_options value_of_def or_empty_def)
          (simp add: openDnsDialog_def fields_of_def)
    qed
  qed
  then have same: "map_of (dns_options (openDnsDialog (Some c) catalog)) = map_of (dc_options c)" by blast
  have "dns_problem (openDnsDialog (Some c) catalog) = None"
    using assms(1,4) by (simp add: dns_problem_def openDnsDialog_def)
  moreover have "missingSecret fs vals \<longleftrightarrow>
      \<not> list_ex (\<lambda>f. pf_secret f \<and> pf_name f \<in> dom (map_of (buildOptionsPayload fs vals []))) fs"
    by (auto simp: missingSecret_def list_ex_iff map_of_options dom_def)
  moreover have "map_of (dns_options (changeProvider i d)) k = None" for k
    by (auto simp: dns_options_def changeProvider_def map_of_options value_of_def or_empty_def map_of_emptyValues)
  then have "dns_options (changeProvider i d) = []" by (metis list.exhaust map_of_eq_empty_iff ext)
  ultimately show ?thesis
    using same by (simp add: dns_options_def map_of_options Let_def)
qed

definition demo_provider :: dnsProviderInfo where
  "demo_provider =
     \<lparr>pi_id = js ''cloudflare'', pi_label = js ''Cloudflare'', pi_description = None,
      pi_fields = [\<lparr>pf_name = js ''email'', pf_label = js ''Email'', pf_secret = False, pf_help = None\<rparr>,
        \<lparr>pf_name = js ''api_token'', pf_label = js ''Api token'', pf_secret = True, pf_help = None\<rparr>]\<rparr>"

definition demo_credential :: dnsCredential where
  "demo_credential =
     \<lparr>dc_id = 7, dc_name = js ''prod'', dc_provider = js ''cloudflare'', dc_provider_label = js ''Cloudflare'',
      dc_options = [(js ''email'', js ''ops'')], dc_secret_fields = [js ''api_token''], dc_in_use_by = []\<rparr>"

theorem dns_credential_options_witness:
  "map_of (dns_options (openDnsDialog (Some demo_credential) [demo_provider])) = [js ''email'' \<mapsto> js ''ops''] \<and>
   missingSecret (pi_fields demo_provider) []"
proof -
  have "trim (js ''ops'') = js ''ops''" "trim (js ''prod'') = js ''prod''" by (simp_all add: trim_no_ws js_def is_ws_def)
  then show ?thesis
    using dns_credential_options [of "[demo_provider]" demo_credential demo_provider
        "openDnsDialog (Some demo_credential) [demo_provider]" "js ''email''" "pi_fields demo_provider" "[]" "[]"]
    by (simp add: demo_credential_def demo_provider_def find_provider_def)
      (simp add: missingSecret_def value_of_def or_empty_def)
qed

end
