(* ===== verification/Security.thy ===== *)
theory Security
  imports Certificates
begin

text \<open>
  The helpers of the Security page: \<^verbatim>\<open>components/security/lib.ts\<close> (relative times, the alert
  timeline, the ranking of sources, pagination), \<^verbatim>\<open>updates-lib.ts\<close> (hours across time zones and
  the status lines of the update jobs) and \<^verbatim>\<open>waf-lib.ts\<close>. \<open>localeCompare\<close> and the locale's date
  format are parameters: they depend on the browser.
\<close>

section \<open>Times\<close>

definition parseTimestamp :: "date_env \<Rightarrow> jstring option \<Rightarrow> int option" where
  "parseTimestamp de stamp =
     (case stamp of None \<Rightarrow> None | Some s \<Rightarrow> if s = [] then None else date_parse de s)"

definition formatRelativeTime :: "date_env \<Rightarrow> jstring option \<Rightarrow> int \<Rightarrow> jstring" where
  "formatRelativeTime de stamp nowMs =
     (case parseTimestamp de stamp of
        None \<Rightarrow> em_dash
      | Some t \<Rightarrow>
          (let diff = nowMs - t
           in if diff < 60000 then js ''just now''
              else let minutes = diff div 60000
                   in if minutes < 60 then str_int minutes @ js ''m ago''
                      else let hours = minutes div 60
                           in if hours < 24 then str_int hours @ js ''h ago''
                              else str_int (hours div 24) @ js ''d ago''))"

record alert =
  al_start_at :: "jstring option"
  al_created_at :: "jstring option"
  al_events_count :: "int option"
  al_source_value :: "jstring option"
  al_source_ip :: "jstring option"
  al_source_cn :: "jstring option"

record timeBucket =
  tb_startMs :: int
  tb_count :: nat

definition alert_time :: "date_env \<Rightarrow> alert \<Rightarrow> int option" where
  "alert_time de a =
     parseTimestamp de (case al_start_at a of Some s \<Rightarrow> Some s | None \<Rightarrow> al_created_at a)"

definition count_alert ::
  "date_env \<Rightarrow> int \<Rightarrow> int \<Rightarrow> nat \<Rightarrow> alert \<Rightarrow> timeBucket list \<Rightarrow> timeBucket list" where
  "count_alert de nowMs bucketMs buckets a result =
     (case alert_time de a of
        None \<Rightarrow> result
      | Some t \<Rightarrow>
          (let fromNow = max 0 ((nowMs - t) div bucketMs)
           in if int buckets \<le> fromNow then result
              else let i = buckets - 1 - nat fromNow
                   in result[i := (result ! i)\<lparr>tb_count := tb_count (result ! i) + 1\<rparr>]))"

definition buildTimeline :: "date_env \<Rightarrow> alert list \<Rightarrow> int \<Rightarrow> int \<Rightarrow> nat \<Rightarrow> timeBucket list" where
  "buildTimeline de alerts nowMs bucketMs buckets =
     fold (count_alert de nowMs bucketMs buckets) alerts
       (map (\<lambda>i. \<lparr>tb_startMs = nowMs - int (buckets - i) * bucketMs, tb_count = 0\<rparr>) [0..<buckets])"

section \<open>Sources\<close>

record offender =
  of_key :: jstring
  of_count :: int
  of_country :: "jstring option"

definition alertSourceKey :: "alert \<Rightarrow> jstring option" where
  "alertSourceKey a = (case al_source_value a of Some v \<Rightarrow> Some v | None \<Rightarrow> al_source_ip a)"

definition alert_events :: "alert \<Rightarrow> int" where
  "alert_events a = (let events = (case al_events_count a of Some n \<Rightarrow> n | None \<Rightarrow> 1) in if 0 < events then events else 1)"

text \<open>The loop over the alerts, with the two maps in insertion order.\<close>

definition add_alert :: "alert \<Rightarrow> int object \<times> jstring object \<Rightarrow> int object \<times> jstring object" where
  "add_alert a maps =
     (case maps of
        (totals, countries) \<Rightarrow>
          (case alertSourceKey a of
             None \<Rightarrow> (totals, countries)
           | Some key \<Rightarrow>
               if key = [] then (totals, countries)
               else (set_prop key ((case map_of totals key of Some n \<Rightarrow> n | None \<Rightarrow> 0) + alert_events a) totals,
                     (case al_source_cn a of
                        Some cn \<Rightarrow> if cn \<noteq> [] \<and> map_of countries key = None then set_prop key cn countries else countries
                      | None \<Rightarrow> countries))))"

text \<open>A stable sort, as \<open>Array.prototype.sort\<close> is.\<close>

fun insert_by :: "('a \<Rightarrow> 'a \<Rightarrow> bool) \<Rightarrow> 'a \<Rightarrow> 'a list \<Rightarrow> 'a list" where
  "insert_by le x [] = [x]"
| "insert_by le x (y # ys) = (if le x y then x # y # ys else y # insert_by le x ys)"

definition sort_by :: "('a \<Rightarrow> 'a \<Rightarrow> bool) \<Rightarrow> 'a list \<Rightarrow> 'a list" where
  "sort_by le xs = foldr (insert_by le) xs []"

definition offender_le :: "(jstring \<Rightarrow> jstring \<Rightarrow> int) \<Rightarrow> offender \<Rightarrow> offender \<Rightarrow> bool" where
  "offender_le localeCompare a b \<longleftrightarrow>
     of_count b < of_count a \<or> of_count b = of_count a \<and> localeCompare (of_key a) (of_key b) \<le> 0"

definition all_offenders :: "alert list \<Rightarrow> offender list" where
  "all_offenders alerts =
     (case fold add_alert alerts ([], []) of
        (totals, countries) \<Rightarrow>
          map (\<lambda>(key, n). \<lparr>of_key = key, of_count = n, of_country = map_of countries key\<rparr>) totals)"

definition topOffenders :: "(jstring \<Rightarrow> jstring \<Rightarrow> int) \<Rightarrow> alert list \<Rightarrow> nat \<Rightarrow> offender list" where
  "topOffenders localeCompare alerts limit =
     take limit (sort_by (offender_le localeCompare) (all_offenders alerts))"

record decision =
  dn_id :: "int option"
  dn_scope :: jstring
  dn_value :: jstring

definition decisionRowKey :: "decision \<Rightarrow> nat \<Rightarrow> jstring" where
  "decisionRowKey d i =
     (case dn_id d of
        Some k \<Rightarrow> js ''id-'' @ str_int k
      | None \<Rightarrow> dn_scope d @ js '':'' @ dn_value d @ js '':'' @ str_nat i)"

section \<open>Pagination\<close>

text \<open>\<open>Math.ceil\<close> of a quotient of whole numbers.\<close>

definition ceil_div :: "int \<Rightarrow> int \<Rightarrow> int" where
  "ceil_div a b = - ((- a) div b)"

definition pageCount :: "int \<Rightarrow> int \<Rightarrow> int" where
  "pageCount tot pageSize = (if pageSize \<le> 0 then 1 else max 1 (ceil_div tot pageSize))"

definition clampPage :: "jsreal \<Rightarrow> int \<Rightarrow> int \<Rightarrow> int" where
  "clampPage page tot pageSize =
     (case page of
        RFin q \<Rightarrow> if q < 1 then 1 else min (floor q) (pageCount tot pageSize)
      | _ \<Rightarrow> 1)"

definition range_start :: "int \<Rightarrow> int \<Rightarrow> int" where
  "range_start page pageSize = (page - 1) * pageSize + 1"

definition range_end :: "int \<Rightarrow> int \<Rightarrow> int \<Rightarrow> int" where
  "range_end page pageSize tot = min (page * pageSize) tot"

definition rangeLabel :: "int \<Rightarrow> int \<Rightarrow> int \<Rightarrow> jstring" where
  "rangeLabel page pageSize tot =
     (if tot \<le> 0 then js ''0 of 0''
      else str_int (range_start page pageSize) @ [8211] @ str_int (range_end page pageSize tot) @
           js '' of '' @ str_int tot)"

text \<open>The footer's buttons: the page each one asks for, or nothing while it is disabled.\<close>

datatype pageButton = FirstPage | PreviousPage | NextPage | LastPage

definition press :: "pageButton \<Rightarrow> bool \<Rightarrow> int \<Rightarrow> int \<Rightarrow> int \<Rightarrow> int option" where
  "press b loading page pageSize tot =
     (let lst = pageCount tot pageSize; atFirst = (page \<le> 1); atLast = (lst \<le> page)
      in case b of
           FirstPage \<Rightarrow> if loading \<or> atFirst then None else Some 1
         | PreviousPage \<Rightarrow> if loading \<or> atFirst then None else Some (page - 1)
         | NextPage \<Rightarrow> if loading \<or> atLast then None else Some (page + 1)
         | LastPage \<Rightarrow> if loading \<or> atLast then None else Some lst)"

section \<open>Update jobs\<close>

text \<open>JavaScript's remainder takes the sign of the dividend.\<close>

definition js_rem :: "int \<Rightarrow> int \<Rightarrow> int" where
  "js_rem a b = (if a < 0 then - ((- a) mod b) else a mod b)"

text \<open>\<open>getTimezoneOffset\<close> is the minutes local time lags behind UTC.\<close>

definition offsetHours :: "int \<Rightarrow> int" where
  "offsetHours timezoneOffset = (30 - timezoneOffset) div 60"

definition utcHourToLocal :: "int \<Rightarrow> int \<Rightarrow> int" where
  "utcHourToLocal hourUtc tz = js_rem (js_rem (hourUtc + offsetHours tz) 24 + 24) 24"

definition localHourToUtc :: "int \<Rightarrow> int \<Rightarrow> int" where
  "localHourToUtc hourLocal tz = js_rem (js_rem (hourLocal - offsetHours tz) 24 + 24) 24"

record jobRun =
  jr_started_at :: jstring
  jr_finished_at :: "jstring option"
  jr_ok :: bool
  jr_error :: "jstring option"
  jr_restarted :: bool
  jr_detail :: jval

definition ellipsis :: jstring where "ellipsis = [8230]"

definition unknown_error :: "jobRun \<Rightarrow> jstring" where
  "unknown_error r = (case jr_error r of Some e \<Rightarrow> e | None \<Rightarrow> js ''unknown error'')"

text \<open>\<open>finished_at\<close> is a timestamp or null; an empty one counts as missing.\<close>

definition unfinished :: "jobRun \<Rightarrow> bool" where
  "unfinished r \<longleftrightarrow> jr_finished_at r = None \<or> jr_finished_at r = Some []"

definition describeHubRun :: "(jstring \<Rightarrow> jstring) \<Rightarrow> jobRun option \<Rightarrow> jstring" where
  "describeHubRun when_text run =
     (case run of
        None \<Rightarrow> js ''Never run.''
      | Some r \<Rightarrow>
          if unfinished r then js ''Running since '' @ when_text (jr_started_at r) @ ellipsis
          else if \<not> jr_ok r
          then js ''Last run '' @ when_text (jr_started_at r) @ js '' failed: '' @ unknown_error r
          else (case get_prop (jr_detail r) (js ''updated'') of
                  Arr (u # us) \<Rightarrow>
                    js ''Last run '' @ when_text (jr_started_at r) @ js '': '' @ str_nat (Suc (length us)) @
                    js '' item'' @ (if us = [] then [] else js ''s'') @ js '' updated'' @
                    (if jr_restarted r then js '', CrowdSec restarted'' else []) @ js ''.''
                | _ \<Rightarrow> js ''Last run '' @ when_text (jr_started_at r) @ js '': no changes.''))"

record statusLine =
  sl_label :: jstring
  sl_failed :: bool

definition status_line :: "jstring \<Rightarrow> statusLine" where
  "status_line l = \<lparr>sl_label = l, sl_failed = False\<rparr>"

definition describeCapiRun :: "bool \<Rightarrow> jobRun option \<Rightarrow> bool \<Rightarrow> statusLine" where
  "describeCapiRun desired run running =
     (if running \<or> (case run of Some r \<Rightarrow> unfinished r | None \<Rightarrow> False)
      then status_line (js (if desired then ''Turning on'' else ''Turning off'') @ ellipsis)
      else case run of
             Some r \<Rightarrow>
               if \<not> jr_ok r
               then \<lparr>sl_label = js ''Failed: '' @ unknown_error r @
                       (if get_prop (jr_detail r) (js ''registered'') = Bool True then []
                        else js '' '' @ em_dash @ js '' the previous configuration was restored.''),
                     sl_failed = True\<rparr>
               else let achieved = (get_prop (jr_detail r) (js ''enabled'') = Bool True)
                    in if \<not> desired \<and> \<not> achieved \<and> get_prop (jr_detail r) (js ''reason'') = Str (js ''blocked'')
                       then status_line (js ''Off '' @ em_dash @
                              js '' switched off because CrowdSec's servers were blocking this address. Turn it back on once the block lifts.'')
                       else if desired = achieved then status_line (js (if desired then ''On'' else ''Off''))
                       else status_line (js (if desired then ''Off '' else ''On '') @ em_dash @ js '' not applied yet'')
           | None \<Rightarrow>
               if \<not> desired then status_line (js ''Off'')
               else status_line (js ''Off '' @ em_dash @ js '' not applied yet''))"

section \<open>The WAF body limit\<close>

definition MIN_MB :: int where "MIN_MB = 1"

definition MAX_MB :: int where "MAX_MB = 100"

definition DEFAULT_MB :: int where "DEFAULT_MB = 10"

datatype bodyAction = DropBody | PartialBody | AllowBody

definition DEFAULT_ACTION :: bodyAction where "DEFAULT_ACTION = PartialBody"

definition ACTIONS :: "bodyAction list" where "ACTIONS = [DropBody, PartialBody, AllowBody]"

definition toMb :: "jstring \<Rightarrow> int option" where
  "toMb v =
     (let trimmed = trim v
      in if trimmed = [] then None
         else case as_integer (js_Number trimmed) of
                None \<Rightarrow> None
              | Some mb \<Rightarrow> if mb < MIN_MB \<or> MAX_MB < mb then None else Some mb)"

definition formatMb :: "int \<Rightarrow> jstring" where
  "formatMb mb = str_int mb @ js '' MB''"

primrec action_name :: "bodyAction \<Rightarrow> jstring" where
  "action_name DropBody = js ''drop''"
| "action_name PartialBody = js ''partial''"
| "action_name AllowBody = js ''allow''"

primrec action_title :: "bodyAction \<Rightarrow> jstring" where
  "action_title DropBody = js ''Block it''"
| "action_title PartialBody = js ''Check the first part''"
| "action_title AllowBody = js ''Let it through without checking the body''"

text \<open>\<open>Number(v)\<close> of a property that holds a number, text, a flag or nothing.\<close>

fun number_of :: "jval \<Rightarrow> jsreal" where
  "number_of (Number i) = RFin (of_int i)"
| "number_of (Str s) = js_Number s"
| "number_of (Bool b) = RFin (if b then 1 else 0)"
| "number_of Null = RFin 0"
| "number_of v = RNaN"

record wafStatus =
  ws_running :: bool
  ws_run :: "jobRun option"
  ws_max_body_mb :: int
  ws_action :: bodyAction

definition waf_applied :: "wafStatus \<Rightarrow> jobRun \<Rightarrow> bool" where
  "waf_applied st r \<longleftrightarrow>
     number_of (get_prop (jr_detail r) (js ''max_body_bytes'')) = RFin (of_int (ws_max_body_mb st * (1024 * 1024))) \<and>
     get_prop (jr_detail r) (js ''action'') = Str (action_name (ws_action st))"

definition describeWafRun :: "(jstring \<Rightarrow> jstring) \<Rightarrow> wafStatus \<Rightarrow> statusLine" where
  "describeWafRun when_text st =
     (if ws_running st \<or> (case ws_run st of Some r \<Rightarrow> unfinished r | None \<Rightarrow> False)
      then status_line (js ''Applying'' @ ellipsis @ js '' CrowdSec is restarting.'')
      else case ws_run st of
             None \<Rightarrow>
               if ws_max_body_mb st \<noteq> DEFAULT_MB \<or> ws_action st \<noteq> DEFAULT_ACTION
               then status_line (js ''Saved '' @ em_dash @ js '' not applied yet.'')
               else status_line (js ''Live: '' @ formatMb DEFAULT_MB @ js '' '' @ [183] @ js '' '' @
                      action_title DEFAULT_ACTION @ js '' '' @ em_dash @ js '' the default.'')
           | Some r \<Rightarrow>
               if \<not> jr_ok r then \<lparr>sl_label = js ''Failed: '' @ unknown_error r, sl_failed = True\<rparr>
               else if \<not> waf_applied st r then status_line (js ''Saved '' @ em_dash @ js '' not applied yet.'')
               else status_line (js ''Applied '' @ when_text (jr_started_at r) @
                      (if jr_restarted r then js '' '' @ em_dash @ js '' CrowdSec restarted.'' else js ''.'') @
                      (if get_prop (jr_detail r) (js ''blocklist_switched_off'') = Bool True
                       then js '' The community blocklist was switched off: CrowdSec's servers were blocking this address.''
                       else [])))"

section \<open>The timeline\<close>

definition bucket_index :: "date_env \<Rightarrow> int \<Rightarrow> int \<Rightarrow> nat \<Rightarrow> alert \<Rightarrow> nat option" where
  "bucket_index de nowMs bucketMs buckets a =
     (case alert_time de a of
        None \<Rightarrow> None
      | Some t \<Rightarrow>
          (let k = max 0 ((nowMs - t) div bucketMs)
           in if int buckets \<le> k then None else Some (buckets - 1 - nat k)))"

lemma count_alert_index:
  "count_alert de nowMs bucketMs buckets a result =
     (case bucket_index de nowMs bucketMs buckets a of
        None \<Rightarrow> result
      | Some i \<Rightarrow> result[i := (result ! i)\<lparr>tb_count := tb_count (result ! i) + 1\<rparr>])"
  by (simp add: count_alert_def bucket_index_def Let_def split: option.split)

lemma fold_count_alert:
  "i < length result \<Longrightarrow>
   (let r = fold (count_alert de nowMs bucketMs buckets) alerts result
    in length r = length result \<and> tb_startMs (r ! i) = tb_startMs (result ! i) \<and>
       tb_count (r ! i) =
         tb_count (result ! i) + length (filter (\<lambda>a. bucket_index de nowMs bucketMs buckets a = Some i) alerts))"
proof (induction alerts arbitrary: result)
  case (Cons a alerts)
  let ?r = "count_alert de nowMs bucketMs buckets a result"
  have "length ?r = length result" "tb_startMs (?r ! i) = tb_startMs (result ! i)"
    "tb_count (?r ! i) = tb_count (result ! i) + (if bucket_index de nowMs bucketMs buckets a = Some i then 1 else 0)"
    using Cons.prems
    by (cases "bucket_index de nowMs bucketMs buckets a"; cases "bucket_index de nowMs bucketMs buckets a = Some i";
        simp add: count_alert_index)+
  with Cons.IH [of ?r] Cons.prems show ?case by (simp add: Let_def)
qed (simp add: Let_def)

lemma div_eq_interval:
  fixes x b k :: int
  assumes "0 < b"
  shows "x div b = k \<longleftrightarrow> k * b \<le> x \<and> x < (k + 1) * b"
proof
  assume "x div b = k"
  then have "x = k * b + x mod b" using div_mult_mod_eq [of x b] by simp
  with pos_mod_sign [OF assms, of x] pos_mod_bound [OF assms, of x]
  show "k * b \<le> x \<and> x < (k + 1) * b" by (simp add: distrib_right)
next
  assume "k * b \<le> x \<and> x < (k + 1) * b"
  then show "x div b = k" by (intro int_div_pos_eq [of x b k "x - k * b"]) (auto simp: algebra_simps)
qed

lemma div_less_one: "0 < b \<Longrightarrow> x div b < 1 \<longleftrightarrow> x < b" for x b :: int
  using pos_imp_zdiv_pos_iff [of b x] by linarith

lemma bucket_index_interval:
  fixes nowMs :: int
  assumes "0 < bucketMs" and "i < buckets"
  defines "start \<equiv> nowMs - int (buckets - i) * bucketMs"
  shows "bucket_index de nowMs bucketMs buckets a = Some i \<longleftrightarrow>
    (case alert_time de a of
       None \<Rightarrow> False | Some t \<Rightarrow> start < t \<and> (t \<le> start + bucketMs \<or> i = buckets - 1))"
proof (cases "alert_time de a")
  case (Some t)
  define k where "k = buckets - 1 - i"
  have k: "int (buckets - i) = int k + 1" "i = buckets - 1 - k" "k < buckets" using assms(2) by (auto simp: k_def)
  have "bucket_index de nowMs bucketMs buckets a = Some i \<longleftrightarrow> max 0 ((nowMs - t) div bucketMs) = int k"
    using Some k by (auto simp: bucket_index_def Let_def)
  also have "\<dots> \<longleftrightarrow> (if k = 0 then (nowMs - t) div bucketMs < 1 else (nowMs - t) div bucketMs = int k)" by auto
  also have "\<dots> \<longleftrightarrow> start < t \<and> (t \<le> start + bucketMs \<or> k = 0)"
    using assms(1) k(1) div_eq_interval [OF assms(1), of "nowMs - t" "int k"]
      div_less_one [OF assms(1), of "nowMs - t"]
    by (auto simp: start_def algebra_simps)
  also have "k = 0 \<longleftrightarrow> i = buckets - 1" using assms(2) by (auto simp: k_def)
  finally show ?thesis using Some by simp
qed (simp add: bucket_index_def)

section \<open>The ranking of sources\<close>

definition events_of :: "jstring \<Rightarrow> alert list \<Rightarrow> int" where
  "events_of k alerts = sum_list (map alert_events (filter (\<lambda>a. alertSourceKey a = Some k) alerts))"

lemma alert_events_pos: "0 < alert_events a"
  by (simp add: alert_events_def Let_def)

lemma add_alert_totals:
  "map_of (fst (add_alert a m)) k =
     (if alertSourceKey a = Some k \<and> k \<noteq> []
      then Some ((case map_of (fst m) k of Some n \<Rightarrow> n | None \<Rightarrow> 0) + alert_events a) else map_of (fst m) k)"
  by (auto simp: add_alert_def split: prod.split option.split)

lemma add_alert_distinct: "distinct (map fst (fst m)) \<Longrightarrow> distinct (map fst (fst (add_alert a m)))"
  by (auto simp: add_alert_def distinct_set_prop split: prod.split option.split)

lemma totals_of:
  "map_of (fst (fold add_alert alerts m)) k =
     (if k \<noteq> [] \<and> (\<exists>a \<in> set alerts. alertSourceKey a = Some k)
      then Some ((case map_of (fst m) k of Some n \<Rightarrow> n | None \<Rightarrow> 0) + events_of k alerts) else map_of (fst m) k)"
  by (induction alerts arbitrary: m) (auto simp: add_alert_totals events_of_def split: option.splits)

lemma totals_distinct: "distinct (map fst (fst m)) \<Longrightarrow> distinct (map fst (fst (fold add_alert alerts m)))"
  by (induction alerts arbitrary: m) (auto simp: add_alert_distinct)

lemma mset_insert_by: "mset (insert_by le x xs) = add_mset x (mset xs)"
  by (induction xs) auto

lemma mset_sort_by: "mset (sort_by le xs) = mset xs"
  by (induction xs) (simp_all add: sort_by_def mset_insert_by)

lemma sorted_insert_by:
  assumes "\<And>a b. le a b \<or> le b a" and "\<And>a b c. le a b \<Longrightarrow> le b c \<Longrightarrow> le a c"
  shows "sorted_wrt le xs \<Longrightarrow> sorted_wrt le (insert_by le x xs)"
proof (induction xs)
  case (Cons y ys)
  have "set (insert_by le x ys) = insert x (set ys)"
    using mset_insert_by [of le x ys] by (metis set_mset_add_mset_insert set_mset_mset)
  with Cons assms show ?case by (auto intro: assms(2))
qed simp

lemma sorted_sort_by:
  assumes "\<And>a b. le a b \<or> le b a" and "\<And>a b c. le a b \<Longrightarrow> le b c \<Longrightarrow> le a c"
  shows "sorted_wrt le (sort_by le xs)"
  by (induction xs) (simp_all add: sort_by_def sorted_insert_by [OF assms])

lemma all_offenders_keys:
  "distinct (map of_key (all_offenders alerts)) \<and>
   (\<forall>r \<in> set (all_offenders alerts). of_count r = events_of (of_key r) alerts) \<and>
   of_key ` set (all_offenders alerts) = {k. k \<noteq> [] \<and> (\<exists>a \<in> set alerts. alertSourceKey a = Some k)}"
proof -
  obtain T C where f: "fold add_alert alerts ([], []) = (T, C)" by force
  have d: "distinct (map fst T)" using totals_distinct [of "([], [])" alerts] f by simp
  have m: "map_of T k = (if k \<noteq> [] \<and> (\<exists>a \<in> set alerts. alertSourceKey a = Some k) then Some (events_of k alerts) else None)" for k
    using totals_of [of alerts "([], [])" k] f by simp
  have keys: "map of_key (all_offenders alerts) = map fst T" by (auto simp: all_offenders_def f)
  have "n = events_of k alerts" if "(k, n) \<in> set T" for k n
    using m [of k] map_of_is_SomeI [OF d that] by (simp split: if_splits)
  then have "\<forall>r \<in> set (all_offenders alerts). of_count r = events_of (of_key r) alerts"
    by (auto simp: all_offenders_def f)
  moreover have "fst ` set T = {k. k \<noteq> [] \<and> (\<exists>a \<in> set alerts. alertSourceKey a = Some k)}"
    using m by (auto simp: dom_map_of_conv_image_fst [symmetric] dom_def)
  moreover have "of_key ` set (all_offenders alerts) = fst ` set T" using keys by (metis set_map)
  ultimately show ?thesis using d keys by simp
qed

section \<open>Pages\<close>

lemma pageCount_bounds:
  assumes "0 < pageSize" and "0 < tot"
  shows "(pageCount tot pageSize - 1) * pageSize < tot \<and> tot \<le> pageCount tot pageSize * pageSize"
proof -
  define q where "q = - ((- tot) div pageSize)"
  have "(- tot) div pageSize = - q" by (simp add: q_def)
  with div_eq_interval [OF assms(1), of "- tot" "- q"]
  have "(q - 1) * pageSize < tot" "tot \<le> q * pageSize" by (auto simp: algebra_simps)
  moreover have "1 \<le> q"
  proof (rule ccontr)
    assume "\<not> 1 \<le> q"
    then have "q * pageSize \<le> 0" using assms(1) by (simp add: mult_nonpos_nonneg)
    with \<open>tot \<le> q * pageSize\<close> assms(2) show False by simp
  qed
  ultimately show ?thesis using assms(1) by (simp add: pageCount_def ceil_div_def q_def [symmetric])
qed

lemma clampPage_range: "1 \<le> clampPage p tot pageSize \<and> clampPage p tot pageSize \<le> pageCount tot pageSize"
  by (cases p) (auto simp: clampPage_def pageCount_def le_floor_iff)

lemma press_range:
  "press b loading page pageSize tot = Some p \<Longrightarrow> page \<le> pageCount tot pageSize \<or> b = FirstPage \<Longrightarrow>
   1 \<le> page \<or> b = LastPage \<Longrightarrow> 1 \<le> p \<and> p \<le> pageCount tot pageSize"
  by (cases b) (auto simp: press_def Let_def pageCount_def split: if_splits)

section \<open>Hours and status lines\<close>

lemma js_rem_mod: "js_rem (js_rem x 24 + 24) 24 = x mod 24"
proof (cases "x < 0")
  case True
  have "0 \<le> (- x) mod 24" "(- x) mod 24 < 24" by simp_all
  then have "js_rem (js_rem x 24 + 24) 24 = (24 - (- x) mod 24) mod 24" using True by (simp add: js_rem_def)
  also have "\<dots> = (24 - (- x)) mod 24" by (rule mod_diff_right_eq)
  also have "\<dots> = x mod 24" by simp
  finally show ?thesis .
qed (simp add: js_rem_def)

lemma hours_roundtrip:
  "localHourToUtc (utcHourToLocal h tz) tz = h mod 24 \<and> utcHourToLocal (localHourToUtc h tz) tz = h mod 24"
  unfolding localHourToUtc_def utcHourToLocal_def js_rem_mod
  by (metis (no_types) add_diff_cancel_right' diff_add_cancel mod_add_left_eq mod_diff_left_eq)

lemma toMb_bounds: "toMb v = Some n \<Longrightarrow> 1 \<le> n \<and> n \<le> 100"
  by (auto simp: toMb_def Let_def MIN_MB_def MAX_MB_def split: if_splits option.splits)

lemma describeCapiRun_On:
  "sl_label (describeCapiRun desired run running) = js ''On'' \<longleftrightarrow>
     desired \<and> \<not> running \<and>
     (case run of
        Some r \<Rightarrow> \<not> unfinished r \<and> jr_ok r \<and> get_prop (jr_detail r) (js ''enabled'') = Bool True
      | None \<Rightarrow> False)"
  by (simp add: describeCapiRun_def status_line_def Let_def ellipsis_def em_dash_def js_def split: option.split)

lemma describeCapiRun_failed:
  "sl_failed (describeCapiRun desired run running) \<longleftrightarrow>
     \<not> running \<and> (case run of Some r \<Rightarrow> \<not> unfinished r \<and> \<not> jr_ok r | None \<Rightarrow> False)"
  by (simp add: describeCapiRun_def status_line_def Let_def split: option.split)

lemma describeWafRun_failed:
  "sl_failed (describeWafRun when_text st) \<longleftrightarrow>
     \<not> ws_running st \<and> (case ws_run st of Some r \<Rightarrow> \<not> unfinished r \<and> \<not> jr_ok r | None \<Rightarrow> False)"
  by (simp add: describeWafRun_def status_line_def split: option.split)

section \<open>Properties\<close>

text \<open>
  The alert timeline has exactly the asked number of buckets, oldest first; bucket \<open>i\<close> counts
  the alerts after its start and up to its end, the end included and the start not, and the last
  bucket also those dated in the future. An alert at the very start of a bucket is thus counted
  in the one before it.
\<close>

theorem timeline_counts:
  assumes "0 < bucketMs" and "i < buckets"
  shows "let tl = buildTimeline de alerts nowMs bucketMs buckets; start = nowMs - int (buckets - i) * bucketMs
    in length tl = buckets \<and> tb_startMs (tl ! i) = start \<and>
       tb_count (tl ! i) =
         length (filter (\<lambda>a. case alert_time de a of
                               None \<Rightarrow> False
                             | Some t \<Rightarrow> start < t \<and> (t \<le> start + bucketMs \<or> i = buckets - 1)) alerts)"
  using assms fold_count_alert [of i "map (\<lambda>i. \<lparr>tb_startMs = nowMs - int (buckets - i) * bucketMs, tb_count = 0\<rparr>) [0..<buckets]"
      de nowMs bucketMs buckets alerts]
  by (simp add: buildTimeline_def Let_def bucket_index_interval del: of_nat_diff)

definition demo_alert :: "int \<Rightarrow> alert" where
  "demo_alert h =
     \<lparr>al_start_at = Some (date_text 2026 9 1 @ 84 # clock_text h 0 0 @ [90]), al_created_at = None,
      al_events_count = None, al_source_value = Some (js ''192.0.2.1''), al_source_ip = None, al_source_cn = None\<rparr>"

theorem timeline_counts_witness:
  "tb_count (buildTimeline demo_dates [demo_alert 10, demo_alert 11]
     (day_number 2026 9 1 * MS_PER_DAY + 12 * 3600000) 3600000 2 ! 0) = 1"
proof -
  have v: "valid_day 2026 9 1" by (simp add: valid_day_def month_lengths_def leap_year_def)
  have t: "alert_time demo_dates (demo_alert h) = Some (day_number 2026 9 1 * MS_PER_DAY + h * 3600000)"
    if "0 \<le> h" "h < 24" for h
    using iso_time_utc [OF v, of h 0 0 demo_dates] that
    by (simp add: alert_time_def demo_alert_def parseTimestamp_def date_parse_def algebra_simps)
  show ?thesis
    using timeline_counts [of 3600000 0 2 demo_dates "[demo_alert 10, demo_alert 11]"
        "day_number 2026 9 1 * MS_PER_DAY + 12 * 3600000"]
    by (simp add: Let_def t)
qed

text \<open>
  The ranking of sources: the listed sources are distinct, each with the sum of the events of
  its alerts, highest first, at most \<open>limit\<close> of them; every source that raised an alert is listed
  or has no more events than any that is.
\<close>

theorem top_offenders_correct:
  assumes "\<And>a b. localeCompare a b \<le> 0 \<or> localeCompare b a \<le> 0"
    and "\<And>a b c. localeCompare a b \<le> 0 \<Longrightarrow> localeCompare b c \<le> 0 \<Longrightarrow> localeCompare a c \<le> 0"
  shows "let top = topOffenders localeCompare alerts limit
    in length top \<le> limit \<and> distinct (map of_key top) \<and>
       list_all (\<lambda>r. of_count r = events_of (of_key r) alerts) top \<and>
       sorted_wrt (\<lambda>a b. of_count b \<le> of_count a) top \<and>
       (\<forall>a k. a \<in> set alerts \<and> alertSourceKey a = Some k \<and> k \<noteq> [] \<longrightarrow>
          k \<in> of_key ` set top \<or> list_all (\<lambda>r. events_of k alerts \<le> of_count r) top)"
proof -
  let ?le = "offender_le localeCompare"
  define xs where "xs = sort_by ?le (all_offenders alerts)"
  have "?le a b \<or> ?le b a" for a b using assms(1) by (auto simp: offender_le_def)
  moreover have "?le a b \<Longrightarrow> ?le b c \<Longrightarrow> ?le a c" for a b c using assms(2) by (auto simp: offender_le_def)
  ultimately have "sorted_wrt ?le xs" unfolding xs_def by (rule sorted_sort_by)
  then have srt: "sorted_wrt (\<lambda>a b. of_count b \<le> of_count a) xs"
    by (rule sorted_wrt_mono_rel [rotated]) (auto simp: offender_le_def)
  have ms: "mset xs = mset (all_offenders alerts)" by (simp add: xs_def mset_sort_by)
  then have set_xs: "set xs = set (all_offenders alerts)" by (metis set_mset_mset)
  have "distinct (map of_key xs)"
    using ms all_offenders_keys [of alerts] by (metis mset_eq_imp_distinct_iff mset_map)
  then have d: "distinct (map of_key (take limit xs))" by (metis distinct_take take_map)
  have cnt: "of_count r = events_of (of_key r) alerts" if "r \<in> set xs" for r
    using all_offenders_keys [of alerts] that set_xs by blast
  have "k \<in> of_key ` set (take limit xs) \<or> list_all (\<lambda>r. events_of k alerts \<le> of_count r) (take limit xs)"
    if "a \<in> set alerts" "alertSourceKey a = Some k" "k \<noteq> []" for a k
  proof -
    have "k \<in> of_key ` set xs" using all_offenders_keys [of alerts] that set_xs by blast
    then obtain r where r: "r \<in> set xs" "of_key r = k" by blast
    with cnt have "of_count r = events_of k alerts" by blast
    moreover have "sorted_wrt (\<lambda>a b. of_count b \<le> of_count a) (take limit xs @ drop limit xs)" using srt by simp
    then have "of_count y \<le> of_count x" if "x \<in> set (take limit xs)" "y \<in> set (drop limit xs)" for x y
      using that unfolding sorted_wrt_append by blast
    ultimately show ?thesis
      using r by (metis append_take_drop_id image_eqI list_all_iff Un_iff set_append)
  qed
  moreover have "list_all (\<lambda>r. of_count r = events_of (of_key r) alerts) (take limit xs)"
    using cnt by (auto simp: list_all_iff dest: in_set_takeD)
  ultimately show ?thesis
    using d srt by (auto simp: Let_def topOffenders_def xs_def [symmetric] sorted_wrt_take)
qed

theorem top_offenders_correct_witness:
  "let top = topOffenders (\<lambda>a b. int (length a) - int (length b)) [demo_alert 1, demo_alert 2] 5
   in length top \<le> 5 \<and> sorted_wrt (\<lambda>a b. of_count b \<le> of_count a) top"
proof -
  have "let top = topOffenders (\<lambda>a b. int (length a) - int (length b)) [demo_alert 1, demo_alert 2] 5
    in length top \<le> 5 \<and> distinct (map of_key top) \<and>
       list_all (\<lambda>r. of_count r = events_of (of_key r) [demo_alert 1, demo_alert 2]) top \<and>
       sorted_wrt (\<lambda>a b. of_count b \<le> of_count a) top \<and>
       (\<forall>a k. a \<in> set [demo_alert 1, demo_alert 2] \<and> alertSourceKey a = Some k \<and> k \<noteq> [] \<longrightarrow>
          k \<in> of_key ` set top \<or> list_all (\<lambda>r. events_of k [demo_alert 1, demo_alert 2] \<le> of_count r) top)"
    by (rule top_offenders_correct) auto
  then show ?thesis by (simp add: Let_def)
qed

text \<open>
  C36. The pages of a list partition it: the first starts at row 1, the last ends at the last row,
  each one starts right after the one before it and none is empty. The clamped page is always one
  of them, a page in range is left alone, and so is every page a button of the footer asks for.
\<close>

theorem pages_partition:
  assumes "0 < pageSize" and "0 < tot" and "1 \<le> page" and "page \<le> pageCount tot pageSize"
  shows "1 \<le> range_start page pageSize \<and> range_start page pageSize \<le> range_end page pageSize tot \<and>
    range_end page pageSize tot \<le> tot \<and> range_start 1 pageSize = 1 \<and>
    range_end (pageCount tot pageSize) pageSize tot = tot \<and>
    (if page < pageCount tot pageSize
     then range_start (page + 1) pageSize = range_end page pageSize tot + 1 else range_end page pageSize tot = tot) \<and>
    clampPage (RFin (of_int page)) tot pageSize = page \<and>
    (1 \<le> clampPage p tot pageSize \<and> clampPage p tot pageSize \<le> pageCount tot pageSize) \<and>
    (case press b loading page pageSize tot of
       Some q \<Rightarrow> 1 \<le> q \<and> q \<le> pageCount tot pageSize \<and> q \<noteq> page | None \<Rightarrow> True)"
proof -
  have pc: "(pageCount tot pageSize - 1) * pageSize < tot" "tot \<le> pageCount tot pageSize * pageSize"
    using pageCount_bounds [OF assms(1,2)] by simp_all
  have "(page - 1) * pageSize \<le> (pageCount tot pageSize - 1) * pageSize"
    using assms(1,4) by (intro mult_right_mono) auto
  with pc have start: "(page - 1) * pageSize < tot" by linarith
  have full: "page * pageSize < tot" if "page < pageCount tot pageSize"
  proof -
    have "page * pageSize \<le> (pageCount tot pageSize - 1) * pageSize"
      using assms(1) that by (intro mult_right_mono) auto
    with pc show ?thesis by linarith
  qed
  have "0 \<le> (page - 1) * pageSize" "(page - 1) * pageSize + 1 \<le> page * pageSize"
    using assms(1,3) by (simp_all add: algebra_simps)
  moreover have "case press b loading page pageSize tot of
      Some q \<Rightarrow> 1 \<le> q \<and> q \<le> pageCount tot pageSize \<and> q \<noteq> page | None \<Rightarrow> True"
    using assms(3,4) by (cases b) (auto simp: press_def Let_def)
  moreover have "clampPage (RFin (of_int page)) tot pageSize = page" using assms(3,4) by (simp add: clampPage_def)
  moreover have "page < pageCount tot pageSize \<or> page = pageCount tot pageSize" using assms(4) by linarith
  ultimately show ?thesis
    using start full pc clampPage_range [of p tot pageSize]
    by (elim disjE) (simp_all add: range_start_def range_end_def min_def)
qed

theorem pages_partition_witness:
  "range_start (4 + 1) 50 = range_end 4 50 213 + 1 \<and> range_end 5 50 213 = 213"
proof -
  have "pageCount 213 50 = 5" by (simp add: pageCount_def ceil_div_def)
  then show ?thesis using pages_partition [of 50 213 4 RNaN NextPage False] by simp
qed

end
