(* ===== verification/Paged_Lists.thy ===== *)
theory Paged_Lists
  imports Security
begin

text \<open>
  Lists that the server pages, while requests are in flight: the decisions and alerts of
  \<^verbatim>\<open>security-view.tsx\<close> and the audit log of \<^verbatim>\<open>audit-log-view.tsx\<close>, with the debounced search of
  \<^verbatim>\<open>use-debounced-value.ts\<close>. A change of what is asked for starts a request; answers come later and
  in any order. The Security page ignores the answer to a request that a newer one has replaced;
  the audit log page does not. The audit log's own texts are in the theory after this one.
\<close>

section \<open>Asking and answering\<close>

text \<open>
  A view that asks: what it asks for now, the number of the latest request, what is shown and
  for which question it was the answer, and the loading and error states. \<open>guarded\<close> is the
  \<open>active\<close> flag of the effect: whether the answer to an older request is dropped.
\<close>

record ('q, 'a) asker =
  as_query :: 'q
  as_latest :: nat
  as_asked :: "nat \<Rightarrow> 'q"
  as_shown :: "'a option"
  as_shownFor :: "'q option"
  as_loading :: bool
  as_error :: "jstring option"

definition ask :: "'q \<Rightarrow> ('q, 'a) asker \<Rightarrow> ('q, 'a) asker" where
  "ask q s =
     s\<lparr>as_query := q, as_latest := as_latest s + 1, as_asked := (as_asked s)(as_latest s + 1 := q),
       as_loading := True\<rparr>"

text \<open>An effect runs again only when something it depends on has changed.\<close>

definition ask_if_changed :: "'q \<Rightarrow> ('q, 'a) asker \<Rightarrow> ('q, 'a) asker" where
  "ask_if_changed q s = (if q = as_query s then s else ask q s)"

definition answer ::
  "bool \<Rightarrow> (('q, 'a) asker \<Rightarrow> ('q, 'a) asker) \<Rightarrow> nat \<Rightarrow> thrown + 'a \<Rightarrow> ('q, 'a) asker \<Rightarrow> ('q, 'a) asker" where
  "answer guarded on_error i r s =
     (if guarded \<and> i \<noteq> as_latest s then s
      else case r of
             Inr a \<Rightarrow>
               s\<lparr>as_shown := Some a, as_shownFor := Some (as_asked s i), as_error := None, as_loading := False\<rparr>
           | Inl e \<Rightarrow> (on_error s)\<lparr>as_error := Some (de_message (describeError e)), as_loading := False\<rparr>)"

text \<open>
  What the guard gives: once nothing is loading and no error is shown, the rows on the page are
  the answer to what is asked for now.
\<close>

definition current :: "('q, 'a) asker \<Rightarrow> bool" where
  "current s \<longleftrightarrow>
     as_asked s (as_latest s) = as_query s \<and>
     (as_loading s \<or> as_error s \<noteq> None \<or> as_shownFor s = Some (as_query s) \<and> as_shown s \<noteq> None)"

lemma current_ask: "current (ask q s)"
  by (simp add: current_def ask_def)

lemma current_ask_if_changed: "current s \<Longrightarrow> current (ask_if_changed q s)"
  by (simp add: ask_if_changed_def current_ask)

lemma current_answer: "current s \<Longrightarrow> current (answer True (\<lambda>s. s) i r s)"
  by (auto simp: current_def answer_def split: sum.split)

lemma stale_answer: "i \<noteq> as_latest s \<Longrightarrow> answer True f i r s = s"
  by (simp add: answer_def)

section \<open>Decisions and alerts\<close>

record listDeps =
  ld_page :: int
  ld_pageSize :: int
  ld_community :: bool
  ld_search :: jstring
  ld_tick :: nat

record listPage =
  lp_items :: "jval list"
  lp_total :: int

record pagedList =
  pl_asker :: "(listDeps, listPage) asker"
  pl_query :: jstring
  pl_debounce :: "jstring option"

definition DEFAULT_PAGE_SIZE :: int where "DEFAULT_PAGE_SIZE = 50"

definition PAGE_SIZE_OPTIONS :: "int list" where "PAGE_SIZE_OPTIONS = [10, 25, 50, 100]"

definition first_deps :: listDeps where
  "first_deps = \<lparr>ld_page = 1, ld_pageSize = DEFAULT_PAGE_SIZE, ld_community = False, ld_search = [], ld_tick = 0\<rparr>"

definition openList :: pagedList where
  "openList =
     \<lparr>pl_asker = ask first_deps
        \<lparr>as_query = first_deps, as_latest = 0, as_asked = (\<lambda>n. first_deps), as_shown = None,
         as_shownFor = None, as_loading = True, as_error = None\<rparr>,
      pl_query = [], pl_debounce = None\<rparr>"

abbreviation deps :: "pagedList \<Rightarrow> listDeps" where
  "deps s \<equiv> as_query (pl_asker s)"

definition setDeps :: "listDeps \<Rightarrow> pagedList \<Rightarrow> pagedList" where
  "setDeps d s = s\<lparr>pl_asker := ask_if_changed d (pl_asker s)\<rparr>"

text \<open>Typing goes to page one at once and restarts the timer of the debounced search.\<close>

definition changeQuery :: "jstring \<Rightarrow> pagedList \<Rightarrow> pagedList" where
  "changeQuery q s =
     setDeps ((deps s)\<lparr>ld_page := 1\<rparr>)
       (s\<lparr>pl_query := q, pl_debounce := (if q = pl_query s then pl_debounce s else Some q)\<rparr>)"

definition debounceFires :: "pagedList \<Rightarrow> pagedList" where
  "debounceFires s =
     (case pl_debounce s of
        None \<Rightarrow> s
      | Some q \<Rightarrow> setDeps ((deps s)\<lparr>ld_search := q\<rparr>) (s\<lparr>pl_debounce := None\<rparr>))"

definition setCommunity :: "bool \<Rightarrow> pagedList \<Rightarrow> pagedList" where
  "setCommunity b s = setDeps ((deps s)\<lparr>ld_community := b, ld_page := 1\<rparr>) s"

definition setPage :: "int \<Rightarrow> pagedList \<Rightarrow> pagedList" where
  "setPage p s = setDeps ((deps s)\<lparr>ld_page := p\<rparr>) s"

definition setPageSize :: "int \<Rightarrow> pagedList \<Rightarrow> pagedList" where
  "setPageSize n s = setDeps ((deps s)\<lparr>ld_pageSize := n, ld_page := 1\<rparr>) s"

definition refreshList :: "pagedList \<Rightarrow> pagedList" where
  "refreshList s = setDeps ((deps s)\<lparr>ld_tick := ld_tick (deps s) + 1\<rparr>) s"

text \<open>An answer past the end of a list that has shrunk steps back to its last page.\<close>

definition listAnswer :: "nat \<Rightarrow> thrown + listPage \<Rightarrow> pagedList \<Rightarrow> pagedList" where
  "listAnswer i r s =
     (if i \<noteq> as_latest (pl_asker s) then s
      else let s1 = s\<lparr>pl_asker := answer True (\<lambda>a. a) i r (pl_asker s)\<rparr>
           in case r of
                Inl e \<Rightarrow> s1
              | Inr page \<Rightarrow>
                  setPage (clampPage (RFin (of_int (ld_page (deps s)))) (lp_total page) (ld_pageSize (deps s))) s1)"

datatype listEvent =
    TypeQuery jstring
  | Debounced
  | Community bool
  | GoTo int
  | PageSize int
  | Refresh
  | ListAnswer nat "thrown + listPage"

primrec list_step :: "pagedList \<Rightarrow> listEvent \<Rightarrow> pagedList" where
  "list_step s (TypeQuery q) = changeQuery q s"
| "list_step s Debounced = debounceFires s"
| "list_step s (Community b) = setCommunity b s"
| "list_step s (GoTo p) = setPage p s"
| "list_step s (PageSize n) = setPageSize n s"
| "list_step s Refresh = refreshList s"
| "list_step s (ListAnswer i r) = listAnswer i r s"

text \<open>In range: what is shown, once settled, is a page the list has.\<close>

definition page_in_range :: "(listDeps, listPage) asker \<Rightarrow> bool" where
  "page_in_range a \<longleftrightarrow>
     (as_loading a \<or> as_error a \<noteq> None \<or>
      (case as_shown a of
         Some l \<Rightarrow> 1 \<le> ld_page (as_query a) \<and> ld_page (as_query a) \<le> pageCount (lp_total l) (ld_pageSize (as_query a))
       | None \<Rightarrow> False))"

definition list_inv :: "pagedList \<Rightarrow> bool" where
  "list_inv s \<longleftrightarrow>
     current (pl_asker s) \<and> page_in_range (pl_asker s) \<and>
     (pl_debounce s = None \<and> ld_search (deps s) = pl_query s \<or> pl_debounce s = Some (pl_query s))"

lemma setDeps_inv:
  assumes "current (pl_asker s)" and "page_in_range (pl_asker s)"
    and "pl_debounce s = None \<and> ld_search d = pl_query s \<or> pl_debounce s = Some (pl_query s)"
  shows "list_inv (setDeps d s)"
  using assms
  by (auto simp: list_inv_def setDeps_def ask_if_changed_def current_ask ask_def page_in_range_def current_def)

lemma listAnswer_inv: "list_inv s \<Longrightarrow> list_inv (listAnswer i r s)"
proof (cases "i = as_latest (pl_asker s)")
  case True
  assume inv: "list_inv s"
  let ?a = "pl_asker s"
  show ?thesis
  proof (cases r)
    case (Inl e)
    with True inv show ?thesis
      by (simp add: listAnswer_def list_inv_def current_answer page_in_range_def Let_def) (simp add: answer_def)
  next
    case (Inr page)
    let ?q = "as_query ?a"
    let ?c = "clampPage (RFin (of_int (ld_page ?q))) (lp_total page) (ld_pageSize ?q)"
    let ?b = "answer True (\<lambda>a. a) i r ?a"
    have b: "as_query ?b = ?q" "as_shown ?b = Some page" "current ?b"
      using True Inr inv by (simp_all add: answer_def list_inv_def current_answer)
        (simp add: current_def)
    show ?thesis
    proof (cases "?c = ld_page ?q")
      case c: True
      have "page_in_range ?b"
        using b c clampPage_range [of "RFin (of_int (ld_page ?q))" "lp_total page" "ld_pageSize ?q"]
        by (simp add: page_in_range_def)
      with b c inv True Inr show ?thesis
        by (simp add: listAnswer_def list_inv_def setPage_def setDeps_def ask_if_changed_def Let_def)
    next
      case False
      have "ld_page (?q\<lparr>ld_page := ?c\<rparr>) = ?c" by simp
      with False have ne: "?q\<lparr>ld_page := ?c\<rparr> \<noteq> ?q" by metis
      have "page_in_range (ask d a)" for d a by (simp add: page_in_range_def ask_def)
      with ne b inv True Inr show ?thesis
        by (simp add: listAnswer_def list_inv_def setPage_def setDeps_def ask_if_changed_def Let_def current_ask)
          (simp add: ask_def)
    qed
  qed
qed (simp add: listAnswer_def)

interpretation paged_list: machine list_step list_inv
proof
  fix s e
  assume "list_inv s"
  then have inv: "current (pl_asker s)" "page_in_range (pl_asker s)"
    "pl_debounce s = None \<and> ld_search (deps s) = pl_query s \<or> pl_debounce s = Some (pl_query s)" and l: "list_inv s"
    by (simp_all add: list_inv_def)
  show "list_inv (list_step s e)"
  proof (cases e)
    case (ListAnswer i r)
    with l show ?thesis by (simp add: listAnswer_inv)
  next
    case Debounced
    with inv l show ?thesis
      by (auto simp: debounceFires_def intro!: setDeps_inv split: option.split)
  qed (use inv in \<open>auto simp: changeQuery_def setCommunity_def setPage_def setPageSize_def refreshList_def
        intro!: setDeps_inv split: option.splits\<close>)
qed

section \<open>The audit log page\<close>

record auditQuery =
  aq_actor :: jstring
  aq_action :: jstring
  aq_objectType :: jstring
  aq_offset :: int

record auditPage =
  ap_items :: "jval list"
  ap_total :: int

record auditView =
  av_asker :: "(auditQuery, auditPage) asker"
  av_actorQuery :: jstring
  av_debounce :: "jstring option"
  av_total :: int

definition AUDIT_PAGE_SIZE :: int where "AUDIT_PAGE_SIZE = 50"

definition ANY :: jstring where "ANY = js ''any''"

definition first_audit :: auditQuery where
  "first_audit = \<lparr>aq_actor = [], aq_action = ANY, aq_objectType = ANY, aq_offset = 0\<rparr>"

definition openAudit :: auditView where
  "openAudit =
     \<lparr>av_asker = ask first_audit
        \<lparr>as_query = first_audit, as_latest = 0, as_asked = (\<lambda>n. first_audit), as_shown = None,
         as_shownFor = None, as_loading = True, as_error = None\<rparr>,
      av_actorQuery = [], av_debounce = None, av_total = 0\<rparr>"

definition setAudit :: "auditQuery \<Rightarrow> auditView \<Rightarrow> auditView" where
  "setAudit q s = s\<lparr>av_asker := ask_if_changed q (av_asker s)\<rparr>"

abbreviation audit_deps :: "auditView \<Rightarrow> auditQuery" where
  "audit_deps s \<equiv> as_query (av_asker s)"

text \<open>Every filter goes back to the first page; the actor is debounced, the offset is not.\<close>

datatype auditEvent =
    TypeActor jstring
  | ActorDebounced
  | PickAction jstring
  | PickObject jstring
  | Previous
  | Next
  | AuditAnswer nat "thrown + auditPage"

definition typeActor :: "jstring \<Rightarrow> auditView \<Rightarrow> auditView" where
  "typeActor q s =
     setAudit ((audit_deps s)\<lparr>aq_offset := 0\<rparr>)
       (s\<lparr>av_actorQuery := q, av_debounce := (if q = av_actorQuery s then av_debounce s else Some q)\<rparr>)"

definition actorDebounced :: "auditView \<Rightarrow> auditView" where
  "actorDebounced s =
     (case av_debounce s of
        None \<Rightarrow> s
      | Some q \<Rightarrow> setAudit ((audit_deps s)\<lparr>aq_actor := q\<rparr>) (s\<lparr>av_debounce := None\<rparr>))"

definition previousPage :: "auditView \<Rightarrow> auditView" where
  "previousPage s =
     (if aq_offset (audit_deps s) = 0 \<or> as_loading (av_asker s) then s
      else setAudit ((audit_deps s)\<lparr>aq_offset := max 0 (aq_offset (audit_deps s) - AUDIT_PAGE_SIZE)\<rparr>) s)"

definition nextPage :: "auditView \<Rightarrow> auditView" where
  "nextPage s =
     (if av_total s \<le> aq_offset (audit_deps s) + AUDIT_PAGE_SIZE \<or> as_loading (av_asker s) then s
      else setAudit ((audit_deps s)\<lparr>aq_offset := aq_offset (audit_deps s) + AUDIT_PAGE_SIZE\<rparr>) s)"

text \<open>The answer to any request is shown, the latest or not; a failure clears the rows.\<close>

definition auditAnswer :: "nat \<Rightarrow> thrown + auditPage \<Rightarrow> auditView \<Rightarrow> auditView" where
  "auditAnswer i r s =
     s\<lparr>av_asker := answer False (\<lambda>a. a\<lparr>as_shown := None\<rparr>) i r (av_asker s),
       av_total := (case r of Inr page \<Rightarrow> ap_total page | Inl e \<Rightarrow> av_total s)\<rparr>"

primrec audit_step :: "auditView \<Rightarrow> auditEvent \<Rightarrow> auditView" where
  "audit_step s (TypeActor q) = typeActor q s"
| "audit_step s ActorDebounced = actorDebounced s"
| "audit_step s (PickAction a) = setAudit ((audit_deps s)\<lparr>aq_action := a, aq_offset := 0\<rparr>) s"
| "audit_step s (PickObject t) = setAudit ((audit_deps s)\<lparr>aq_objectType := t, aq_offset := 0\<rparr>) s"
| "audit_step s Previous = previousPage s"
| "audit_step s Next = nextPage s"
| "audit_step s (AuditAnswer i r) = auditAnswer i r s"

text \<open>Offsets stay on page boundaries.\<close>

definition audit_inv :: "auditView \<Rightarrow> bool" where
  "audit_inv s \<longleftrightarrow> 0 \<le> aq_offset (audit_deps s) \<and> AUDIT_PAGE_SIZE dvd aq_offset (audit_deps s)"

lemma query_setAudit [simp]: "audit_deps (setAudit q s) = q"
  by (simp add: setAudit_def ask_if_changed_def ask_def)

interpretation audit_list: machine audit_step audit_inv
proof
  show "audit_inv s \<Longrightarrow> audit_inv (audit_step s e)" for s e
  proof (cases e)
    case Previous
    assume inv: "audit_inv s"
    then have "0 \<le> aq_offset (audit_deps s)" "AUDIT_PAGE_SIZE dvd aq_offset (audit_deps s)" by (simp_all add: audit_inv_def)
    moreover from this have "AUDIT_PAGE_SIZE dvd max 0 (aq_offset (audit_deps s) - AUDIT_PAGE_SIZE)" by (simp add: max_def)
    ultimately show ?thesis using inv Previous by (simp add: audit_inv_def previousPage_def)
  next
    case Next
    assume "audit_inv s"
    with Next show ?thesis by (auto simp: audit_inv_def nextPage_def AUDIT_PAGE_SIZE_def)
  next
    case (AuditAnswer i r)
    assume "audit_inv s"
    with AuditAnswer show ?thesis by (cases r) (simp_all add: audit_inv_def auditAnswer_def answer_def)
  qed (auto simp: audit_inv_def typeActor_def actorDebounced_def split: option.splits)
qed

section \<open>Properties\<close>

text \<open>
  C37. The decisions and alerts lists, under any order of typing, paging, refreshing and answers:
  an answer to a request that a newer one has replaced changes nothing; once nothing is loading
  and no error is shown, the rows are the answer to exactly what is asked for now, the page is
  one the list has, and, when the typing has settled, the search is the text in the box.
\<close>

theorem list_shows_current:
  "let s = foldl list_step openList es; a = pl_asker s
   in (if i = as_latest a then True else list_step s (ListAnswer i r) = s) \<and>
      (if \<not> as_loading a \<and> as_error a = None
       then as_shownFor a = Some (deps s) \<and>
            (case as_shown a of
               Some l \<Rightarrow> 1 \<le> ld_page (deps s) \<and> ld_page (deps s) \<le> pageCount (lp_total l) (ld_pageSize (deps s))
             | None \<Rightarrow> False)
       else True) \<and>
      (if pl_debounce s = None then ld_search (deps s) = pl_query s else True)"
proof -
  have "list_inv openList"
    by (simp add: list_inv_def openList_def current_ask page_in_range_def) (simp add: ask_def first_deps_def)
  then have "list_inv (foldl list_step openList es)" by (rule paged_list.run_inv)
  then show ?thesis
    by (auto simp: Let_def list_inv_def current_def page_in_range_def listAnswer_def)
qed

text \<open>
  C38. The audit log page shows the answer that arrived last, whichever filter it was for: the rows
  are always those of the most recent answer. Two requests whose answers cross, the newer one's
  first, therefore leave the rows of the old filter under the new one, with nothing loading and
  no error shown. Offsets stay on page boundaries throughout.
\<close>

theorem audit_last_answer_wins:
  "let s = foldl audit_step openAudit es
   in as_shown (av_asker (audit_step s (AuditAnswer i (Inr p)))) = Some p \<and>
      0 \<le> aq_offset (audit_deps s) \<and> 50 dvd aq_offset (audit_deps s) \<and>
      (let t = foldl audit_step openAudit [PickAction (js ''delete''), AuditAnswer 2 (Inr new), AuditAnswer 1 (Inr old)]
       in as_shown (av_asker t) = Some old \<and> as_shownFor (av_asker t) = Some first_audit \<and>
          aq_action (audit_deps t) = js ''delete'' \<and> \<not> as_loading (av_asker t) \<and> as_error (av_asker t) = None)"
proof -
  have "audit_inv openAudit" by (simp add: audit_inv_def openAudit_def ask_def first_audit_def)
  then have "audit_inv (foldl audit_step openAudit es)" by (rule audit_list.run_inv)
  moreover have "first_audit\<lparr>aq_action := js ''delete'', aq_offset := 0\<rparr> \<noteq> first_audit"
    by (simp add: first_audit_def ANY_def)
  ultimately show ?thesis
    by (simp add: Let_def audit_inv_def AUDIT_PAGE_SIZE_def auditAnswer_def answer_def setAudit_def
        ask_if_changed_def openAudit_def ask_def)
qed

end
