(* ===== verification/Event_Stream.thy ===== *)
theory Event_Stream
  imports Dialog_Flow
begin

text \<open>
  The dashboard's event stream (\<^verbatim>\<open>lib/events.ts\<close>) and the polling of background tasks
  (\<^verbatim>\<open>lib/api/resources/tasks.ts\<close>). The text of the stream arrives in chunks that may be cut
  anywhere; the subscription reconnects with a capped delay until it is stopped; a poll asks
  until the task is ready or the deadline has passed. \<open>JSON.parse\<close> is the parameter \<open>parse\<close>, as in
  the API client, and the chunks are the text the decoder has produced.
\<close>

section \<open>Frames\<close>

text \<open>The types a line of a frame carries: none, or one truthy \<open>type\<close> property of its JSON.\<close>

definition data_prefix :: jstring where "data_prefix = js ''data: ''"

definition line_types :: "(jstring \<Rightarrow> jval option) \<Rightarrow> jstring \<Rightarrow> jval list" where
  "line_types parse line =
     (if \<not> startsWith line data_prefix then []
      else case parse (drop (length data_prefix) line) of
             None \<Rightarrow> []
           | Some v \<Rightarrow>
               (case member v (js ''type'') of
                  Inl e \<Rightarrow> []
                | Inr t \<Rightarrow> if truthy t then [t] else []))"

definition frame_types :: "(jstring \<Rightarrow> jval option) \<Rightarrow> jstring \<Rightarrow> jval list" where
  "frame_types parse frame = concat (map (line_types parse) (split_on 10 frame))"

text \<open>\<open>indexOf\<close> of a blank line, with the text before and after it.\<close>

fun cut_frame :: "jstring \<Rightarrow> (jstring \<times> jstring) option" where
  "cut_frame (a # b # s) =
     (if a = 10 \<and> b = 10 then Some ([], s)
      else map_option (\<lambda>(f, r). (a # f, r)) (cut_frame (b # s)))"
| "cut_frame s = None"

lemma cut_frame_length: "cut_frame s = Some (f, r) \<Longrightarrow> length r < length s"
  by (induction s arbitrary: f rule: cut_frame.induct) (auto split: if_splits)

function frame_loop :: "(jstring \<Rightarrow> jval option) \<Rightarrow> jval list \<Rightarrow> jstring \<Rightarrow> jval list \<times> jstring" where
  "frame_loop parse types rest =
     (case cut_frame rest of
        None \<Rightarrow> (types, rest)
      | Some (frame, rest') \<Rightarrow> frame_loop parse (types @ frame_types parse frame) rest')"
  by pat_completeness auto

termination
  by (relation "measure (\<lambda>(parse, types, rest). length rest)") (auto dest: cut_frame_length)

declare frame_loop.simps [simp del]

definition parseFrames :: "(jstring \<Rightarrow> jval option) \<Rightarrow> jstring \<Rightarrow> jval list \<times> jstring" where
  "parseFrames parse buffer = frame_loop parse [] buffer"

text \<open>The reading loop: each chunk is appended to what was left over and the types are delivered.\<close>

fun read_chunks :: "(jstring \<Rightarrow> jval option) \<Rightarrow> jstring \<Rightarrow> jstring list \<Rightarrow> jval list \<times> jstring" where
  "read_chunks parse buffer [] = ([], buffer)"
| "read_chunks parse buffer (c # cs) =
     (let (types, rest) = parseFrames parse (buffer @ c); (more, left) = read_chunks parse rest cs
      in (types @ more, left))"

lemma cut_frame_append: "cut_frame s = Some (f, r) \<Longrightarrow> cut_frame (s @ t) = Some (f, r @ t)"
  by (induction s arbitrary: f rule: cut_frame.induct) (auto split: if_splits)

lemma parse_loop_acc: "frame_loop parse ts s = (ts @ fst (frame_loop parse [] s), snd (frame_loop parse [] s))"
proof (induction s arbitrary: ts rule: measure_induct_rule [of length])
  case (less s)
  show ?case
  proof (cases "cut_frame s")
    case None
    then show ?thesis by (simp add: frame_loop.simps)
  next
    case (Some fr)
    obtain f r where fr: "fr = (f, r)" by force
    have step: "frame_loop parse us s = frame_loop parse (us @ frame_types parse f) r" for us
      by (subst frame_loop.simps) (simp add: Some fr)
    have "length r < length s" using Some fr by (simp add: cut_frame_length)
    note ih = less.IH [OF this]
    show ?thesis
      unfolding step ih [of "ts @ frame_types parse f"] ih [of "[] @ frame_types parse f"] by simp
  qed
qed

lemma parseFrames_step:
  "parseFrames parse s =
     (case cut_frame s of
        None \<Rightarrow> ([], s)
      | Some (f, r) \<Rightarrow> (frame_types parse f @ fst (parseFrames parse r), snd (parseFrames parse r)))"
  unfolding parseFrames_def
  by (subst frame_loop.simps) (simp add: parse_loop_acc [of parse "frame_types parse _"] split: option.split)

lemma parseFrames_append:
  "parseFrames parse (s @ t) =
     (fst (parseFrames parse s) @ fst (parseFrames parse (snd (parseFrames parse s) @ t)),
      snd (parseFrames parse (snd (parseFrames parse s) @ t)))"
proof (induction s rule: measure_induct_rule [of length])
  case (less s)
  show ?case
  proof (cases "cut_frame s")
    case None
    then show ?thesis by (simp add: parseFrames_step [of parse s])
  next
    case (Some fr)
    obtain f r where fr: "fr = (f, r)" by force
    with Some have "cut_frame (s @ t) = Some (f, r @ t)" and "length r < length s"
      by (simp_all add: cut_frame_append cut_frame_length)
    with less.IH [of r] Some fr show ?thesis
      by (simp add: parseFrames_step [of parse "s @ t"] parseFrames_step [of parse s])
  qed
qed

lemma parseFrames_rest: "parseFrames parse (snd (parseFrames parse s)) = ([], snd (parseFrames parse s))"
proof (induction s rule: measure_induct_rule [of length])
  case (less s)
  show ?case
  proof (cases "cut_frame s")
    case None
    then show ?thesis by (simp add: parseFrames_step [of parse s])
  next
    case (Some fr)
    obtain f r where fr: "fr = (f, r)" by force
    with Some have "length r < length s" by (simp add: cut_frame_length)
    with less.IH [of r] Some fr show ?thesis by (simp add: parseFrames_step [of parse s])
  qed
qed

lemma read_chunks_parse:
  "read_chunks parse buffer cs =
     (if cs = [] then ([], buffer) else parseFrames parse (buffer @ concat cs))"
proof (induction cs arbitrary: buffer)
  case (Cons c cs)
  show ?case
    using parseFrames_append [of parse "buffer @ c" "concat cs"]
    by (auto simp: Cons Let_def split: prod.split)
qed simp

text \<open>The reference: cut the text at every blank line; all pieces but the last are frames.\<close>

lemma cut_frame_split_seq:
  "split_seq [10, 10] s = (case cut_frame s of None \<Rightarrow> [s] | Some (f, r) \<Rightarrow> f # split_seq [10, 10] r)"
proof (induction s rule: cut_frame.induct)
  case (1 a b s)
  then show ?case by (auto simp: startsWith_def split: option.splits prod.splits)
qed (simp_all add: startsWith_def)

lemma parseFrames_split_seq:
  "parseFrames parse s =
     (concat (map (frame_types parse) (butlast (split_seq [10, 10] s))), last (split_seq [10, 10] s))"
proof (induction s rule: measure_induct_rule [of length])
  case (less s)
  show ?case
  proof (cases "cut_frame s")
    case None
    then show ?thesis by (simp add: parseFrames_step [of parse s] cut_frame_split_seq [of s])
  next
    case (Some fr)
    obtain f r where fr: "fr = (f, r)" by force
    with Some have "length r < length s" by (simp add: cut_frame_length)
    with less.IH [of r] Some fr show ?thesis
      by (simp add: parseFrames_step [of parse s] cut_frame_split_seq [of s])
  qed
qed

section \<open>The subscription\<close>

definition FIRST_RETRY_MS :: nat where "FIRST_RETRY_MS = 1000"

definition MAX_RETRY_MS :: nat where "MAX_RETRY_MS = 30000"

definition backoffFor :: "nat \<Rightarrow> nat" where
  "backoffFor attempt = min (FIRST_RETRY_MS * 2 ^ attempt) MAX_RETRY_MS"

interpretation event_backoff: backoff_delay backoffFor FIRST_RETRY_MS MAX_RETRY_MS
  by unfold_locales (simp_all add: backoffFor_def FIRST_RETRY_MS_def MAX_RETRY_MS_def)

text \<open>
  The loop of \<open>run\<close>, cut at its awaits: it is opening the stream, reading it with what is left
  over of the text, waiting before the next attempt, or has returned. The events are what the
  awaits deliver: the open fails (no token, no network, a refusal) or succeeds, a chunk arrives,
  the stream ends or breaks, the timer fires; and the caller unsubscribes.
\<close>

datatype phase = Opening | Reading jstring | Waiting nat | Returned

record subscription =
  sub_phase :: phase
  sub_attempt :: nat
  sub_stopped :: bool
  sub_delivered :: "jval list"

datatype subEvent = OpenFailed | Opened | Chunk jstring | StreamEnd | Timer | Unsubscribe

definition subscribeToEvents :: subscription where
  "subscribeToEvents = \<lparr>sub_phase = Opening, sub_attempt = 0, sub_stopped = False, sub_delivered = []\<rparr>"

text \<open>After the \<open>try\<close>, whatever happened in it.\<close>

definition after_try :: "subscription \<Rightarrow> subscription" where
  "after_try s =
     s\<lparr>sub_phase := (if sub_stopped s then Returned else Waiting (backoffFor (sub_attempt s)))\<rparr>"

definition on_chunk :: "(jstring \<Rightarrow> jval option) \<Rightarrow> jstring \<Rightarrow> jstring \<Rightarrow> subscription \<Rightarrow> subscription" where
  "on_chunk parse buffer c s =
     (if sub_stopped s then after_try s
      else let (types, rest) = parseFrames parse (buffer @ c)
           in s\<lparr>sub_phase := Reading rest, sub_delivered := sub_delivered s @ types\<rparr>)"

definition on_timer :: "subscription \<Rightarrow> subscription" where
  "on_timer s =
     s\<lparr>sub_attempt := min (sub_attempt s + 1) 5,
       sub_phase := (if sub_stopped s then Returned else Opening)\<rparr>"

fun sub_step :: "(jstring \<Rightarrow> jval option) \<Rightarrow> subscription \<Rightarrow> subEvent \<Rightarrow> subscription" where
  "sub_step parse s Unsubscribe = s\<lparr>sub_stopped := True\<rparr>"
| "sub_step parse s e =
     (case (sub_phase s, e) of
        (Opening, OpenFailed) \<Rightarrow> after_try s
      | (Opening, Opened) \<Rightarrow> s\<lparr>sub_attempt := 0, sub_phase := Reading []\<rparr>
      | (Reading buffer, Chunk c) \<Rightarrow> on_chunk parse buffer c s
      | (Reading buffer, StreamEnd) \<Rightarrow> after_try s
      | (Waiting ms, Timer) \<Rightarrow> on_timer s
      | _ \<Rightarrow> s)"

definition sub_inv :: "subscription \<Rightarrow> bool" where
  "sub_inv s \<longleftrightarrow>
     sub_attempt s \<le> 5 \<and>
     (case sub_phase s of
        Waiting ms \<Rightarrow> ms = backoffFor (sub_attempt s)
      | Returned \<Rightarrow> sub_stopped s
      | _ \<Rightarrow> True)"

lemmas sub_defs = sub_inv_def after_try_def on_chunk_def on_timer_def

interpretation event_subscription: absorbing "sub_step parse" sub_inv sub_stopped for parse
proof
  show "sub_inv s \<Longrightarrow> sub_inv (sub_step parse s e)" for s e
    by (cases e; cases "sub_phase s") (auto simp: sub_defs split: prod.splits)
  show "sub_inv s \<Longrightarrow> sub_stopped s \<Longrightarrow> sub_stopped (sub_step parse s e)" for s e
    by (cases e; cases "sub_phase s") (auto simp: sub_defs split: prod.splits)
qed

lemma stopped_delivers_nothing:
  "sub_stopped s \<Longrightarrow> sub_delivered (sub_step parse s e) = sub_delivered s \<and> sub_stopped (sub_step parse s e)"
  by (cases e; cases "sub_phase s") (simp_all add: sub_defs)

lemma stopped_run:
  "sub_stopped s \<Longrightarrow> sub_delivered (foldl (sub_step parse) s es) = sub_delivered s"
  by (induction es arbitrary: s) (simp_all add: stopped_delivers_nothing)

text \<open>Reading a run of chunks, as the machine does it.\<close>

lemma sub_read:
  "sub_phase s = Reading b \<Longrightarrow> \<not> sub_stopped s \<Longrightarrow>
   foldl (sub_step parse) s (map Chunk cs) =
     s\<lparr>sub_phase := Reading (snd (read_chunks parse b cs)),
       sub_delivered := sub_delivered s @ fst (read_chunks parse b cs)\<rparr>"
proof (induction cs arbitrary: s b)
  case (Cons c cs)
  obtain ts r where p: "parseFrames parse (b @ c) = (ts, r)" by force
  let ?s = "s\<lparr>sub_phase := Reading r, sub_delivered := sub_delivered s @ ts\<rparr>"
  have "sub_step parse s (Chunk c) = ?s" using Cons.prems p by (simp add: on_chunk_def)
  with Cons.IH [of ?s r] Cons.prems p show ?case by (simp add: Let_def split: prod.split)
qed simp

text \<open>A run of failed attempts, each followed by its wait.\<close>

definition failures :: "nat \<Rightarrow> subEvent list" where
  "failures k = concat (replicate k [OpenFailed, Timer])"

lemma failures_attempts:
  "sub_phase s = Opening \<Longrightarrow> \<not> sub_stopped s \<Longrightarrow> sub_attempt s \<le> 5 \<Longrightarrow>
   foldl (sub_step parse) s (failures k) = s\<lparr>sub_attempt := min (sub_attempt s + k) 5\<rparr>"
proof (induction k arbitrary: s)
  case (Suc k)
  let ?s = "s\<lparr>sub_attempt := min (sub_attempt s + 1) 5\<rparr>"
  have "sub_step parse (sub_step parse s OpenFailed) Timer = ?s"
    using Suc.prems by (simp add: sub_defs)
  with Suc.IH [of ?s] Suc.prems show ?case by (simp add: failures_def)
qed (simp add: failures_def)

section \<open>Polling a task\<close>

text \<open>
  What the platform gives the poll: the clock, whether the abort signal has fired, and a timer,
  which either elapses or is cut short by the signal. A rejected poll is an \<open>AbortError\<close>.
\<close>

record 'w poll_env =
  pe_now :: "'w \<Rightarrow> int"
  pe_aborted :: "'w \<Rightarrow> bool"
  pe_timer :: "int \<Rightarrow> 'w \<Rightarrow> bool \<times> 'w"

definition abort_error :: thrown where
  "abort_error = ThrownError (js ''Polling aborted'')"

definition delay :: "'w poll_env \<Rightarrow> int \<Rightarrow> ('w, unit) io" where
  "delay pe ms w =
     (if pe_aborted pe w then (Inl abort_error, w)
      else case pe_timer pe ms w of
             (elapsed, w') \<Rightarrow> (if elapsed then Inr () else Inl abort_error, w'))"

text \<open>The loop, with fuel for its rounds: \<open>None\<close> is a loop that has not returned yet.\<close>

fun poll_loop ::
  "nat \<Rightarrow> 'w poll_env \<Rightarrow> ('w, jval) io \<Rightarrow> int \<Rightarrow> int \<Rightarrow> jval \<Rightarrow> 'w \<Rightarrow> ((thrown + jval) \<times> 'w) option" where
  "poll_loop fuel pe get_task intervalMs deadline seen w =
     (case member seen (js ''ready'') of
        Inl e \<Rightarrow> Some (Inl e, w)
      | Inr ready \<Rightarrow>
          if truthy ready \<or> deadline \<le> pe_now pe w then Some (Inr seen, w)
          else if pe_aborted pe w then Some (Inl abort_error, w)
          else (case fuel of
                  0 \<Rightarrow> None
                | Suc fuel' \<Rightarrow>
                    (case bind_io (delay pe intervalMs) (\<lambda>_. get_task) w of
                       (Inl e, w') \<Rightarrow> Some (Inl e, w')
                     | (Inr seen', w') \<Rightarrow> poll_loop fuel' pe get_task intervalMs deadline seen' w')))"

declare poll_loop.simps [simp del]

definition pollTask ::
  "nat \<Rightarrow> 'w poll_env \<Rightarrow> 'w api_env \<Rightarrow> jstring \<Rightarrow> int \<Rightarrow> int \<Rightarrow> 'w \<Rightarrow> ((thrown + jval) \<times> 'w) option" where
  "pollTask fuel pe env taskId intervalMs timeoutMs w =
     (let deadline = pe_now pe w + timeoutMs; get_task = run_endpoint env (tasks_get taskId)
      in case get_task w of
           (Inl e, w') \<Rightarrow> Some (Inl e, w')
         | (Inr seen, w') \<Rightarrow> poll_loop fuel pe get_task intervalMs deadline seen w')"

text \<open>
  A clock the poll can rely on: a request does not turn it back, and a timer that elapses moves
  it on by at least the time asked for.
\<close>

definition forward_clock :: "'w poll_env \<Rightarrow> ('w, 'a) io \<Rightarrow> bool" where
  "forward_clock pe m \<longleftrightarrow> (\<forall>w. pe_now pe w \<le> pe_now pe (snd (m w)))"

definition honest_timer :: "'w poll_env \<Rightarrow> bool" where
  "honest_timer pe \<longleftrightarrow> (\<forall>ms w. pe_now pe w \<le> pe_now pe (snd (pe_timer pe ms w)) \<and>
     (fst (pe_timer pe ms w) \<longrightarrow> pe_now pe w + ms \<le> pe_now pe (snd (pe_timer pe ms w))))"

lemma round_advances:
  assumes "forward_clock pe get_task" and "honest_timer pe"
    and "bind_io (delay pe ms) (\<lambda>_. get_task) w = (Inr v, w')"
  shows "pe_now pe w + ms \<le> pe_now pe w'"
proof -
  obtain elapsed w1 where t: "pe_timer pe ms w = (elapsed, w1)" by force
  with assms(3) have e: "elapsed" and g: "get_task w1 = (Inr v, w')"
    by (auto simp: bind_io_def delay_def split: if_splits)
  from assms(2) t e have "pe_now pe w + ms \<le> pe_now pe w1"
    unfolding honest_timer_def by (metis fst_conv snd_conv)
  also from assms(1) g have "pe_now pe w1 \<le> pe_now pe w'" unfolding forward_clock_def by (metis snd_conv)
  finally show ?thesis .
qed

text \<open>What a poll may return: a ready status, the last one seen once the deadline has passed, or an error.\<close>

definition poll_result :: "'w poll_env \<Rightarrow> int \<Rightarrow> (thrown + jval) \<times> 'w \<Rightarrow> bool" where
  "poll_result pe deadline out =
     (case out of
        (Inr seen, w') \<Rightarrow> truthy (get_prop seen (js ''ready'')) \<or> deadline \<le> pe_now pe w'
      | (Inl e, w') \<Rightarrow> True)"

lemma poll_loop_returns:
  assumes "forward_clock pe get_task" and "honest_timer pe" and "0 < intervalMs"
  shows "deadline - pe_now pe w \<le> int fuel * intervalMs \<Longrightarrow>
    \<exists>out. poll_loop fuel pe get_task intervalMs deadline seen w = Some out \<and> poll_result pe deadline out"
proof (induction fuel arbitrary: seen w)
  case 0
  then show ?case
    by (subst poll_loop.simps) (auto simp: poll_result_def member_def split: sum.splits if_splits)
next
  case (Suc fuel)
  obtain r w' where b: "bind_io (delay pe intervalMs) (\<lambda>_. get_task) w = (r, w')" by force
  show ?case
  proof (cases r)
    case (Inl e)
    with b show ?thesis
      by (subst poll_loop.simps) (auto simp: poll_result_def member_def split: sum.splits if_splits)
  next
    case (Inr v)
    with round_advances [OF assms(1,2)] b Suc.prems
    have "deadline - pe_now pe w' \<le> int fuel * intervalMs" by (simp add: algebra_simps) (smt (verit))
    from Suc.IH [OF this, of v] b Inr show ?thesis
      by (subst poll_loop.simps) (auto simp: poll_result_def member_def split: sum.splits if_splits)
  qed
qed

section \<open>Properties\<close>

text \<open>
  C29. However the text of the stream is cut into chunks, the reading loop delivers the same
  types in the same order and keeps the same remainder as one parse of the whole text, and these
  are the types of the frames between blank lines, the last piece being the remainder.
\<close>

theorem frames_any_chunking:
  "read_chunks parse [] (c # cs) = parseFrames parse (concat (c # cs)) \<and>
   parseFrames parse s =
     (concat (map (frame_types parse) (butlast (split_seq [10, 10] s))), last (split_seq [10, 10] s)) \<and>
   parseFrames parse (snd (parseFrames parse s)) = ([], snd (parseFrames parse s))"
  unfolding parseFrames_rest using read_chunks_parse [of parse "[]" "c # cs"] parseFrames_split_seq by auto

text \<open>
  C30. The subscription, under any order of opens, failures, chunks, ends, timers and an
  unsubscribe: once it is stopped nothing more is delivered and it stays stopped; every wait is
  between one and thirty seconds; after \<open>k\<close> failures in a row the next wait is that of attempt
  \<open>min k 5\<close>; a connection resets the delay to one second and delivers exactly the types of the
  text it has read.
\<close>

theorem subscription_behaviour:
  "let s = foldl (sub_step parse) subscribeToEvents es
   in sub_delivered (foldl (sub_step parse) (sub_step parse s Unsubscribe) es') = sub_delivered s \<and>
      sub_stopped (foldl (sub_step parse) (sub_step parse s Unsubscribe) es') \<and>
      (case sub_phase s of Waiting ms \<Rightarrow> 1000 \<le> ms \<and> ms \<le> 30000 | Returned \<Rightarrow> sub_stopped s | _ \<Rightarrow> True) \<and>
      sub_phase (foldl (sub_step parse) subscribeToEvents (failures k @ [OpenFailed])) =
        Waiting (backoffFor (min k 5)) \<and>
      (let r = foldl (sub_step parse) subscribeToEvents (failures k @ Opened # map Chunk (c # cs))
       in sub_delivered r = fst (parseFrames parse (concat (c # cs))) \<and>
          sub_phase (sub_step parse r StreamEnd) = Waiting 1000)"
proof -
  let ?s = "foldl (sub_step parse) subscribeToEvents es"
  have inv: "sub_inv subscribeToEvents" by (simp add: sub_inv_def subscribeToEvents_def)
  then have "sub_inv ?s" by (rule event_subscription.run_inv)
  then have wait: "case sub_phase ?s of Waiting ms \<Rightarrow> 1000 \<le> ms \<and> ms \<le> 30000 | Returned \<Rightarrow> sub_stopped ?s | _ \<Rightarrow> True"
    using event_backoff.delay_bounds
    by (auto simp: sub_inv_def FIRST_RETRY_MS_def MAX_RETRY_MS_def split: phase.splits)
  have "sub_inv (sub_step parse ?s Unsubscribe)" using \<open>sub_inv ?s\<close> by (rule event_subscription.step_inv)
  then have stop: "sub_stopped (foldl (sub_step parse) (sub_step parse ?s Unsubscribe) es')"
    by (rule event_subscription.run_final) simp
  have quiet: "sub_delivered (foldl (sub_step parse) (sub_step parse ?s Unsubscribe) es') = sub_delivered ?s"
    by (simp add: stopped_run)
  have fails: "foldl (sub_step parse) subscribeToEvents (failures k) = subscribeToEvents\<lparr>sub_attempt := min k 5\<rparr>"
    using failures_attempts [of subscribeToEvents parse k] by (simp add: subscribeToEvents_def)
  let ?o = "subscribeToEvents\<lparr>sub_attempt := 0, sub_phase := Reading []\<rparr>"
  have "foldl (sub_step parse) subscribeToEvents (failures k @ Opened # map Chunk (c # cs)) =
      foldl (sub_step parse) ?o (map Chunk (c # cs))"
    by (simp only: foldl_append fails foldl_Cons) (simp add: subscribeToEvents_def)
  also have "\<dots> = ?o\<lparr>sub_phase := Reading (snd (read_chunks parse [] (c # cs))),
      sub_delivered := fst (read_chunks parse [] (c # cs))\<rparr>"
    by (subst sub_read [of _ "[]"]) (simp_all add: subscribeToEvents_def)
  finally have conn: "foldl (sub_step parse) subscribeToEvents (failures k @ Opened # map Chunk (c # cs)) = \<dots>" .
  show ?thesis
    unfolding Let_def conn using wait stop quiet fails read_chunks_parse [of parse "[]" "c # cs"]
    by (simp add: subscribeToEvents_def after_try_def backoffFor_def FIRST_RETRY_MS_def MAX_RETRY_MS_def)
qed


text \<open>A backend whose task is never ready, on a clock that only the timer moves.\<close>

definition pending_env :: "int api_env" where
  "pending_env =
     \<lparr>env_base = js ''http://localhost:8000'',
      env_fetch = (\<lambda>rq w. (Inr \<lparr>rs_status = 200, rs_contentType = Some (js ''application/json''), rs_text = js ''x''\<rparr>, w)),
      env_authTokenProvider = (\<lambda>w. Inr None), env_tokenRefresher = None,
      env_parse = (\<lambda>s. Some (Obj [(js ''ready'', Bool False)]))\<rparr>"

definition ticking :: "int poll_env" where
  "ticking = \<lparr>pe_now = (\<lambda>w. w), pe_aborted = (\<lambda>w. False), pe_timer = (\<lambda>ms w. (True, w + \<bar>ms\<bar>))\<rparr>"


end
