(* ===== verification/Live_Logs.thy ===== *)
theory Live_Logs
  imports Event_Stream
begin

text \<open>
  The live logs page: the line helpers of \<^verbatim>\<open>components/live-logs/lib.ts\<close> and the hook
  \<^verbatim>\<open>use-live-logs.ts\<close>, which keeps a socket open, files the lines it receives under four tabs and
  shows them in batches. The hook is a machine whose events are what the browser calls back:
  answers to the ticket request, the socket's open, message and close, the three timers, and the
  page's own calls. A frame is the server's JSON, read by the parameter \<open>parse\<close>.
\<close>

section \<open>Lines\<close>

datatype logKind = Request | ErrorLog | Security | StreamLog | Decision | UnknownLog

datatype logTab = Requests | Errors | SecurityTab | Streams

record liveLine =
  ln_id :: nat
  ln_at :: int
  ln_node :: jstring
  ln_host :: jstring
  ln_log :: logKind
  ln_sev :: int
  ln_f :: "jstring object option"
  ln_raw :: "jstring option"
  ln_truncated :: bool
  ln_cc :: "jstring option"

definition TAB_OF :: "logKind \<Rightarrow> logTab option" where
  "TAB_OF k =
     (case k of
        Request \<Rightarrow> Some Requests | ErrorLog \<Rightarrow> Some Errors | Security \<Rightarrow> Some SecurityTab
      | Decision \<Rightarrow> Some SecurityTab | StreamLog \<Rightarrow> Some Streams | UnknownLog \<Rightarrow> None)"

definition LINE_CAP :: nat where "LINE_CAP = 1000"

definition appendCapped :: "'a list \<Rightarrow> 'a list \<Rightarrow> nat \<Rightarrow> 'a list" where
  "appendCapped xs nxt cap =
     (let all = xs @ nxt in if cap < length all then drop (length all - cap) all else all)"

definition statusClass :: "jstring option \<Rightarrow> jstring option" where
  "statusClass st =
     (case parseInt (case st of Some s \<Rightarrow> s | None \<Rightarrow> []) of
        NaN \<Rightarrow> None
      | Num n \<Rightarrow> if n < 100 \<or> 599 < n then None else Some (str_int (n div 100) @ js ''xx''))"

record lineFilter =
  lf_node :: jstring
  lf_status :: jstring
  lf_text :: jstring

definition line_field :: "liveLine \<Rightarrow> string \<Rightarrow> jstring option" where
  "line_field line k = (case ln_f line of Some f \<Rightarrow> map_of f (js k) | None \<Rightarrow> None)"

definition matches :: "liveLine \<Rightarrow> lineFilter \<Rightarrow> bool" where
  "matches line filt =
     (if lf_node filt \<noteq> [] \<and> ln_node line \<noteq> lf_node filt then False
      else if lf_status filt \<noteq> [] \<and> statusClass (line_field line ''st'') \<noteq> Some (lf_status filt) then False
      else let needle = toLowerCase (trim (lf_text filt))
           in if needle = [] then True
              else list_ex (\<lambda>part. case part of Some s \<Rightarrow> js_includes (toLowerCase s) needle | None \<Rightarrow> False)
                     [line_field line ''u'', line_field line ''ip'', line_field line ''ua'', ln_raw line])"

section \<open>Frames\<close>

record lineFrame =
  fr_node :: "jstring option"
  fr_host :: "jstring option"
  fr_log :: logKind
  fr_sev :: "int option"
  fr_f :: "jval object option"
  fr_raw :: "jstring option"
  fr_truncated :: bool
  fr_cc :: "jstring option"

record decisionFrame =
  dc_value :: "jstring option"
  dc_scope :: "jstring option"
  dc_type :: "jstring option"
  dc_scenario :: "jstring option"
  dc_duration :: "jstring option"
  dc_origin :: "jstring option"
  dc_cc :: "jstring option"

datatype liveFrame =
    LineFrame lineFrame
  | DecisionFrame decisionFrame
  | SkippedFrame nat
  | PingFrame
  | OtherFrame

definition stringFields :: "jval object \<Rightarrow> jstring object" where
  "stringFields source =
     fold (\<lambda>(k, v). if v \<noteq> Null \<and> v \<noteq> Undef then set_prop k (js_String v) else (\<lambda>out. out))
       (own_order source) []"

definition opt_str :: "jstring option \<Rightarrow> jval" where
  "opt_str x = (case x of Some s \<Rightarrow> Str s | None \<Rightarrow> Undef)"

definition toLine :: "int \<Rightarrow> liveFrame \<Rightarrow> nat \<Rightarrow> liveLine option" where
  "toLine now frame i =
     (case frame of
        LineFrame fr \<Rightarrow>
          Some \<lparr>ln_id = i, ln_at = now,
                ln_node = (case fr_node fr of Some n \<Rightarrow> n | None \<Rightarrow> js ''local''),
                ln_host = (case fr_host fr of Some h \<Rightarrow> h | None \<Rightarrow> []), ln_log = fr_log fr,
                ln_sev = (case fr_sev fr of Some n \<Rightarrow> n | None \<Rightarrow> 6),
                ln_f = map_option stringFields (fr_f fr), ln_raw = fr_raw fr,
                ln_truncated = fr_truncated fr, ln_cc = fr_cc fr\<rparr>
      | DecisionFrame d \<Rightarrow>
          Some \<lparr>ln_id = i, ln_at = now, ln_node = js ''local'', ln_host = [], ln_log = Decision, ln_sev = 6,
                ln_f = Some (stringFields
                  [(js ''value'', opt_str (dc_value d)), (js ''scope'', opt_str (dc_scope d)),
                   (js ''type'', opt_str (dc_type d)), (js ''scenario'', opt_str (dc_scenario d)),
                   (js ''duration'', opt_str (dc_duration d)), (js ''origin'', opt_str (dc_origin d))]),
                ln_raw = None, ln_truncated = False, ln_cc = dc_cc d\<rparr>
      | _ \<Rightarrow> None)"

section \<open>The hook\<close>

datatype liveStatus = Connecting | Live | Reconnecting | Revoked | Failed

record watch =
  wt_hosts :: "jstring list"
  wt_decisions :: bool

definition BACKOFF_START_MS :: nat where "BACKOFF_START_MS = 1000"

definition BACKOFF_MAX_MS :: nat where "BACKOFF_MAX_MS = 30000"

definition CLOSE_BAD_FRAME :: int where "CLOSE_BAD_FRAME = 4400"

definition CLOSE_UNAUTHORIZED :: int where "CLOSE_UNAUTHORIZED = 4401"

definition CLOSE_FORBIDDEN :: int where "CLOSE_FORBIDDEN = 4403"

text \<open>
  Where the connection is: asking for a ticket, a socket that is not open yet, an open one, the
  retry timer running, or nothing left to happen. \<open>lg_sent\<close> is what was sent on the current socket.
\<close>

datatype conn = FetchingTicket | SocketConnecting | SocketOpen | RetryIn nat | NoConnection

record liveLogs =
  lg_status :: liveStatus
  lg_lines :: "logTab \<Rightarrow> liveLine list"
  lg_skipped :: nat
  lg_pending :: nat
  lg_rate :: nat
  lg_paused :: bool
  lg_buffers :: "logTab \<Rightarrow> liveLine list"
  lg_pendingRef :: nat
  lg_requestsThisSecond :: nat
  lg_nextId :: nat
  lg_flushTimer :: bool
  lg_watch :: watch
  lg_conn :: conn
  lg_sent :: "watch list"
  lg_stopped :: bool
  lg_attempt :: nat
  lg_lastWas401 :: bool

definition emptyBuffers :: "logTab \<Rightarrow> liveLine list" where
  "emptyBuffers = (\<lambda>t. [])"

definition useLiveLogs :: "watch \<Rightarrow> liveLogs" where
  "useLiveLogs w =
     \<lparr>lg_status = Connecting, lg_lines = emptyBuffers, lg_skipped = 0, lg_pending = 0, lg_rate = 0,
      lg_paused = False, lg_buffers = emptyBuffers, lg_pendingRef = 0, lg_requestsThisSecond = 0,
      lg_nextId = 1, lg_flushTimer = False, lg_watch = w, lg_conn = FetchingTicket, lg_sent = [],
      lg_stopped = False, lg_attempt = 0, lg_lastWas401 = False\<rparr>"

definition live_flush :: "liveLogs \<Rightarrow> liveLogs" where
  "live_flush s =
     (let s1 = s\<lparr>lg_flushTimer := False\<rparr>
      in if lg_paused s1 then s1\<lparr>lg_pending := lg_pendingRef s1\<rparr>
         else s1\<lparr>lg_pendingRef := 0, lg_lines := lg_buffers s1, lg_pending := 0\<rparr>)"

definition scheduleFlush :: "liveLogs \<Rightarrow> liveLogs" where
  "scheduleFlush s = s\<lparr>lg_flushTimer := True\<rparr>"

definition setPaused :: "bool \<Rightarrow> liveLogs \<Rightarrow> liveLogs" where
  "setPaused nxt s = (let s1 = s\<lparr>lg_paused := nxt\<rparr> in if \<not> nxt then scheduleFlush s1 else s1)"

definition live_clear :: "liveLogs \<Rightarrow> liveLogs" where
  "live_clear s =
     s\<lparr>lg_buffers := emptyBuffers, lg_pendingRef := 0, lg_lines := emptyBuffers, lg_pending := 0, lg_skipped := 0\<rparr>"

definition setWatch :: "watch \<Rightarrow> liveLogs \<Rightarrow> liveLogs" where
  "setWatch w s =
     (let s1 = s\<lparr>lg_watch := w\<rparr>
      in if lg_conn s1 = SocketOpen \<and> \<not> lg_stopped s1 then s1\<lparr>lg_sent := lg_sent s1 @ [w]\<rparr> else s1)"

definition retryIn :: "nat \<Rightarrow> liveLogs \<Rightarrow> liveLogs" where
  "retryIn ms s = s\<lparr>lg_status := Reconnecting, lg_conn := RetryIn ms\<rparr>"

definition live_delay :: "nat \<Rightarrow> nat" where
  "live_delay attempt = min (BACKOFF_START_MS * 2 ^ attempt) BACKOFF_MAX_MS"

interpretation live_backoff: backoff_delay live_delay BACKOFF_START_MS BACKOFF_MAX_MS
  by unfold_locales (simp_all add: live_delay_def BACKOFF_START_MS_def BACKOFF_MAX_MS_def)

definition backoff :: "liveLogs \<Rightarrow> liveLogs" where
  "backoff s = retryIn (live_delay (lg_attempt s)) (s\<lparr>lg_attempt := lg_attempt s + 1\<rparr>)"

definition file_line :: "liveLine \<Rightarrow> logTab \<Rightarrow> liveLogs \<Rightarrow> liveLogs" where
  "file_line line tab s =
     scheduleFlush
       (s\<lparr>lg_buffers := (lg_buffers s)(tab := appendCapped (lg_buffers s tab) [line] LINE_CAP),
          lg_requestsThisSecond := lg_requestsThisSecond s + (if ln_log line = Request then 1 else 0),
          lg_pendingRef := lg_pendingRef s + (if lg_paused s then 1 else 0)\<rparr>)"

definition handleFrame :: "int \<Rightarrow> liveFrame \<Rightarrow> liveLogs \<Rightarrow> liveLogs" where
  "handleFrame now frame s =
     (case frame of
        PingFrame \<Rightarrow> s
      | SkippedFrame n \<Rightarrow> s\<lparr>lg_skipped := lg_skipped s + n\<rparr>
      | _ \<Rightarrow>
          (let line = toLine now frame (lg_nextId s); s1 = s\<lparr>lg_nextId := lg_nextId s + 1\<rparr>
           in case line of
                None \<Rightarrow> s1
              | Some l \<Rightarrow> (case TAB_OF (ln_log l) of None \<Rightarrow> s1 | Some tab \<Rightarrow> file_line l tab s1)))"

definition onTicket :: "thrown + unit \<Rightarrow> liveLogs \<Rightarrow> liveLogs" where
  "onTicket answer s =
     (if lg_stopped s then s\<lparr>lg_conn := NoConnection\<rparr>
      else case answer of
             Inr _ \<Rightarrow> s\<lparr>lg_conn := SocketConnecting, lg_sent := []\<rparr>
           | Inl (ThrownApi e) \<Rightarrow>
               if ae_status e = 401 \<or> ae_status e = 403
               then s\<lparr>lg_status := Revoked, lg_conn := NoConnection\<rparr> else backoff s
           | Inl _ \<Rightarrow> backoff s)"

definition onOpen :: "liveLogs \<Rightarrow> liveLogs" where
  "onOpen s = s\<lparr>lg_status := Live, lg_conn := SocketOpen, lg_sent := lg_sent s @ [lg_watch s]\<rparr>"

definition onMessage :: "(jstring \<Rightarrow> liveFrame option) \<Rightarrow> int \<Rightarrow> jstring \<Rightarrow> liveLogs \<Rightarrow> liveLogs" where
  "onMessage parse now data s =
     (case parse data of
        None \<Rightarrow> s
      | Some frame \<Rightarrow> handleFrame now frame (s\<lparr>lg_attempt := 0, lg_lastWas401 := False\<rparr>))"

definition onClose :: "int \<Rightarrow> liveLogs \<Rightarrow> liveLogs" where
  "onClose code s =
     (let s1 = s\<lparr>lg_conn := NoConnection\<rparr>
      in if lg_stopped s1 then s1
         else if code = CLOSE_FORBIDDEN then s1\<lparr>lg_status := Revoked\<rparr>
         else if code = CLOSE_BAD_FRAME then s1\<lparr>lg_status := Failed\<rparr>
         else if code = CLOSE_UNAUTHORIZED \<and> \<not> lg_lastWas401 s1 then retryIn 0 (s1\<lparr>lg_lastWas401 := True\<rparr>)
         else backoff s1)"

text \<open>
  Unmounting clears the timers. Messages that were on their way may still be called back; a
  socket being closed does not open.
\<close>

definition unmount :: "liveLogs \<Rightarrow> liveLogs" where
  "unmount s =
     s\<lparr>lg_stopped := True, lg_flushTimer := False,
       lg_conn := (case lg_conn s of RetryIn ms \<Rightarrow> NoConnection | c \<Rightarrow> c)\<rparr>"

datatype liveEvent =
    Ticket "thrown + unit"
  | Open
  | Message int jstring
  | Close int
  | RetryTimer
  | FlushTimer
  | SecondTimer
  | Pause bool
  | Clear
  | Watch watch
  | Unmount

fun live_step :: "(jstring \<Rightarrow> liveFrame option) \<Rightarrow> liveLogs \<Rightarrow> liveEvent \<Rightarrow> liveLogs" where
  "live_step parse s (Ticket a) = (if lg_conn s = FetchingTicket then onTicket a s else s)"
| "live_step parse s Open = (if lg_conn s = SocketConnecting \<and> \<not> lg_stopped s then onOpen s else s)"
| "live_step parse s (Message now data) = (if lg_conn s = SocketOpen then onMessage parse now data s else s)"
| "live_step parse s (Close code) =
     (if lg_conn s = SocketConnecting \<or> lg_conn s = SocketOpen then onClose code s else s)"
| "live_step parse s RetryTimer =
     (case lg_conn s of RetryIn ms \<Rightarrow> s\<lparr>lg_conn := FetchingTicket\<rparr> | _ \<Rightarrow> s)"
| "live_step parse s FlushTimer = (if lg_flushTimer s then live_flush s else s)"
| "live_step parse s SecondTimer =
     (if lg_stopped s then s else s\<lparr>lg_rate := lg_requestsThisSecond s, lg_requestsThisSecond := 0\<rparr>)"
| "live_step parse s (Pause b) = setPaused b s"
| "live_step parse s Clear = live_clear s"
| "live_step parse s (Watch w) = setWatch w s"
| "live_step parse s Unmount = unmount s"

section \<open>Invariants\<close>

text \<open>What a tab may hold: at most the cap, its own kinds of lines, with increasing ids.\<close>

definition tab_ok :: "nat \<Rightarrow> logTab \<Rightarrow> liveLine list \<Rightarrow> bool" where
  "tab_ok n tab ls \<longleftrightarrow>
     length ls \<le> LINE_CAP \<and> sorted_wrt (<) (map ln_id ls) \<and>
     list_all (\<lambda>l. ln_id l < n \<and> TAB_OF (ln_log l) = Some tab) ls"

definition buffers_inv :: "liveLogs \<Rightarrow> bool" where
  "buffers_inv s \<longleftrightarrow>
     (\<forall>tab. tab_ok (lg_nextId s) tab (lg_buffers s tab) \<and> tab_ok (lg_nextId s) tab (lg_lines s tab))"

definition terminal :: "liveLogs \<Rightarrow> bool" where
  "terminal s \<longleftrightarrow> lg_status s = Revoked \<or> lg_status s = Failed"

definition conn_inv :: "liveLogs \<Rightarrow> bool" where
  "conn_inv s \<longleftrightarrow>
     (terminal s \<longrightarrow> lg_conn s = NoConnection) \<and>
     (\<not> lg_stopped s \<longrightarrow>
        (case lg_conn s of
           FetchingTicket \<Rightarrow> lg_status s = Connecting \<or> lg_status s = Reconnecting
         | SocketConnecting \<Rightarrow> lg_status s = Connecting \<or> lg_status s = Reconnecting
         | SocketOpen \<Rightarrow> lg_status s = Live \<and> lg_sent s \<noteq> [] \<and> last (lg_sent s) = lg_watch s
         | RetryIn ms \<Rightarrow>
             lg_status s = Reconnecting \<and> (ms = 0 \<and> lg_lastWas401 s \<or> 1000 \<le> ms \<and> ms \<le> 30000)
         | NoConnection \<Rightarrow> terminal s))"

definition shown_inv :: "liveLogs \<Rightarrow> bool" where
  "shown_inv s \<longleftrightarrow> (lg_stopped s \<or> lg_paused s \<or> lg_flushTimer s \<or> lg_lines s = lg_buffers s \<and> lg_pending s = 0)"

lemma tab_ok_mono: "tab_ok n tab ls \<Longrightarrow> n \<le> m \<Longrightarrow> tab_ok m tab ls"
  by (auto simp: tab_ok_def list_all_iff)

lemma appendCapped_snoc:
  "appendCapped xs [y] cap = drop (Suc (length xs) - cap) (xs @ [y])"
  by (simp add: appendCapped_def Let_def)

lemma tab_ok_append:
  assumes "tab_ok n tab ls" and "TAB_OF (ln_log l) = Some tab" and "ln_id l = n"
  shows "tab_ok (Suc n) tab (appendCapped ls [l] LINE_CAP)"
proof -
  have "sorted_wrt (<) (map ln_id (ls @ [l]))"
    using assms by (auto simp: tab_ok_def list_all_iff sorted_wrt_append)
  then have "sorted_wrt (<) (map ln_id (drop k (ls @ [l])))" for k
    by (metis drop_map sorted_wrt_drop)
  moreover have "list_all (\<lambda>x. ln_id x < Suc n \<and> TAB_OF (ln_log x) = Some tab) (drop k (ls @ [l]))" for k
    using assms by (auto simp: tab_ok_def list_all_iff dest!: in_set_dropD)
  moreover have "length (drop (Suc (length ls) - LINE_CAP) (ls @ [l])) \<le> LINE_CAP"
    by (simp add: LINE_CAP_def) 
  ultimately show ?thesis unfolding appendCapped_snoc tab_ok_def by blast
qed

lemma toLine_id: "toLine now f i = Some l \<Longrightarrow> ln_id l = i"
  by (auto simp: toLine_def split: liveFrame.splits)

text \<open>What one frame does: at most one line is filed, under the tab of its kind.\<close>

definition filed_line :: "int \<Rightarrow> liveFrame \<Rightarrow> nat \<Rightarrow> (logTab \<times> liveLine) option" where
  "filed_line now f n =
     (case toLine now f n of
        None \<Rightarrow> None
      | Some l \<Rightarrow> (case TAB_OF (ln_log l) of None \<Rightarrow> None | Some tab \<Rightarrow> Some (tab, l)))"

lemma handleFrame_filed:
  "handleFrame now f s =
     (case filed_line now f (lg_nextId s) of
        Some (tab, l) \<Rightarrow> file_line l tab (s\<lparr>lg_nextId := lg_nextId s + 1\<rparr>)
      | None \<Rightarrow>
          (case f of
             PingFrame \<Rightarrow> s
           | SkippedFrame n \<Rightarrow> s\<lparr>lg_skipped := lg_skipped s + n\<rparr>
           | _ \<Rightarrow> s\<lparr>lg_nextId := lg_nextId s + 1\<rparr>))"
  by (cases f) (simp_all add: handleFrame_def filed_line_def toLine_def Let_def split: option.split)

lemma filed_line_tab: "filed_line now f n = Some (tab, l) \<Longrightarrow> TAB_OF (ln_log l) = Some tab \<and> ln_id l = n"
  by (auto simp: filed_line_def dest: toLine_id split: option.splits)

lemmas live_defs = onTicket_def onOpen_def onMessage_def onClose_def unmount_def setPaused_def live_clear_def
  setWatch_def live_flush_def scheduleFlush_def retryIn_def backoff_def Let_def

lemma handleFrame_keeps [simp]:
  "lg_status (handleFrame now f s) = lg_status s" "lg_conn (handleFrame now f s) = lg_conn s"
  "lg_stopped (handleFrame now f s) = lg_stopped s" "lg_sent (handleFrame now f s) = lg_sent s"
  "lg_watch (handleFrame now f s) = lg_watch s" "lg_attempt (handleFrame now f s) = lg_attempt s"
  "lg_lastWas401 (handleFrame now f s) = lg_lastWas401 s" "lg_lines (handleFrame now f s) = lg_lines s"
  "lg_paused (handleFrame now f s) = lg_paused s" "lg_pending (handleFrame now f s) = lg_pending s"
  by (simp_all add: handleFrame_filed file_line_def scheduleFlush_def split: option.split prod.split liveFrame.split)

lemma tab_ok_Nil [simp]: "tab_ok n tab []"
  by (simp add: tab_ok_def)

lemma buffers_inv_frame: "buffers_inv s \<Longrightarrow> buffers_inv (handleFrame now f s)"
proof (cases "filed_line now f (lg_nextId s)")
  case None
  assume "buffers_inv s"
  with None show ?thesis
    by (auto simp: handleFrame_filed buffers_inv_def intro: tab_ok_mono split: liveFrame.split)
next
  case (Some p)
  obtain tab l where p: "p = (tab, l)" by force
  assume "buffers_inv s"
  with Some p filed_line_tab [of now f "lg_nextId s" tab l] show ?thesis
    by (auto simp: handleFrame_filed buffers_inv_def file_line_def scheduleFlush_def intro: tab_ok_append tab_ok_mono)
qed

lemma buffers_inv_cong:
  "buffers_inv s \<Longrightarrow> lg_nextId t = lg_nextId s \<Longrightarrow> lg_buffers t = lg_buffers s \<Longrightarrow> lg_lines t = lg_lines s \<Longrightarrow> buffers_inv t"
  by (simp add: buffers_inv_def)

lemma buffers_inv_step: "buffers_inv s \<Longrightarrow> buffers_inv (live_step parse s e)"
proof (cases e)
  case (Message now data)
  assume "buffers_inv s"
  then have "buffers_inv (s\<lparr>lg_attempt := 0, lg_lastWas401 := False\<rparr>)" by (rule buffers_inv_cong) simp_all
  with \<open>buffers_inv s\<close> Message show ?thesis
    by (auto simp: onMessage_def intro: buffers_inv_frame split: option.split)
next
  case FlushTimer
  assume "buffers_inv s"
  with FlushTimer show ?thesis by (simp add: live_flush_def Let_def buffers_inv_def)
next
  case Clear
  then show ?thesis by (simp add: live_clear_def buffers_inv_def emptyBuffers_def)
qed (auto simp: live_defs intro: buffers_inv_cong split: sum.split thrown.split conn.split)

lemma conn_inv_step: "conn_inv s \<Longrightarrow> conn_inv (live_step parse s e)"
proof -
  have d: "1000 \<le> live_delay n \<and> live_delay n \<le> 30000" for n
    using live_backoff.delay_bounds by (simp add: BACKOFF_START_MS_def BACKOFF_MAX_MS_def)
  assume "conn_inv s"
  with d show ?thesis
    by (cases e)
      (auto simp: conn_inv_def terminal_def live_defs split: sum.splits thrown.splits conn.splits option.splits)
qed

lemma terminal_step: "conn_inv s \<Longrightarrow> terminal s \<Longrightarrow> terminal (live_step parse s e)"
  by (cases e)
    (auto simp: conn_inv_def terminal_def live_defs split: option.splits)

lemma shown_inv_step: "shown_inv s \<Longrightarrow> shown_inv (live_step parse s e)"
proof (cases e)
  case (Message now data)
  assume "shown_inv s"
  with Message show ?thesis
    by (auto simp: onMessage_def shown_inv_def handleFrame_filed file_line_def scheduleFlush_def
        split: option.splits prod.splits liveFrame.splits)
qed (auto simp: shown_inv_def live_defs split: sum.split thrown.split conn.split)

definition live_inv :: "liveLogs \<Rightarrow> bool" where
  "live_inv s \<longleftrightarrow> buffers_inv s \<and> conn_inv s \<and> shown_inv s"

interpretation live_hook: absorbing "live_step parse" live_inv terminal for parse
proof
  show "live_inv s \<Longrightarrow> live_inv (live_step parse s e)" for s e
    by (simp add: live_inv_def buffers_inv_step conn_inv_step shown_inv_step)
  show "live_inv s \<Longrightarrow> terminal s \<Longrightarrow> terminal (live_step parse s e)" for s e
    by (simp add: live_inv_def terminal_step)
qed

lemma live_inv_start: "live_inv (useLiveLogs w)"
  by (simp add: live_inv_def buffers_inv_def conn_inv_def shown_inv_def terminal_def useLiveLogs_def emptyBuffers_def)

section \<open>The buffers as the newest lines of a log\<close>

text \<open>
  The specification keeps every line since the last clear, per tab, without a bound. The page's
  buffers are the newest lines of that log.
\<close>

type_synonym full_log = "logTab \<Rightarrow> liveLine list"

definition arrives :: "(jstring \<Rightarrow> liveFrame option) \<Rightarrow> liveLogs \<Rightarrow> liveEvent \<Rightarrow> (logTab \<times> liveLine) option" where
  "arrives parse s e =
     (case e of
        Message now data \<Rightarrow>
          if lg_conn s = SocketOpen
          then (case parse data of None \<Rightarrow> None | Some f \<Rightarrow> filed_line now f (lg_nextId s)) else None
      | _ \<Rightarrow> None)"

definition log_step :: "(jstring \<Rightarrow> liveFrame option) \<Rightarrow> liveLogs \<Rightarrow> full_log \<Rightarrow> liveEvent \<Rightarrow> full_log" where
  "log_step parse s L e =
     (if e = Clear then (\<lambda>t. [])
      else case arrives parse s e of None \<Rightarrow> L | Some (tab, l) \<Rightarrow> L(tab := L tab @ [l]))"

fun full_log_of :: "(jstring \<Rightarrow> liveFrame option) \<Rightarrow> liveLogs \<Rightarrow> full_log \<Rightarrow> liveEvent list \<Rightarrow> full_log" where
  "full_log_of parse s L [] = L"
| "full_log_of parse s L (e # es) = full_log_of parse (live_step parse s e) (log_step parse s L e) es"

definition newest :: "nat \<Rightarrow> 'a list \<Rightarrow> 'a list" where
  "newest n xs = drop (length xs - n) xs"

lemma appendCapped_newest: "appendCapped (newest n xs) [y] n = newest n (xs @ [y])"
proof -
  have "length (newest n xs) = min (length xs) n" by (simp add: newest_def min_def)
  then show ?thesis
    by (cases "length xs < n") (auto simp: appendCapped_snoc newest_def min_def Suc_diff_le)
qed

definition log_abs :: "liveLogs \<Rightarrow> full_log \<Rightarrow> bool" where
  "log_abs s L \<longleftrightarrow> (\<forall>tab. lg_buffers s tab = newest LINE_CAP (L tab))"

lemma buffers_handleFrame:
  "lg_buffers (handleFrame now f s) =
     (case filed_line now f (lg_nextId s) of
        None \<Rightarrow> lg_buffers s
      | Some (tab, l) \<Rightarrow> (lg_buffers s)(tab := appendCapped (lg_buffers s tab) [l] LINE_CAP))"
  by (auto simp: handleFrame_filed file_line_def scheduleFlush_def split: option.split liveFrame.split)

lemma log_abs_step: "log_abs s L \<Longrightarrow> log_abs (live_step parse s e) (log_step parse s L e)"
proof (cases e)
  case (Message now data)
  assume "log_abs s L"
  with Message show ?thesis
    by (auto simp: log_abs_def log_step_def arrives_def onMessage_def buffers_handleFrame appendCapped_newest
        split: option.split)
next
  case Clear
  then show ?thesis by (simp add: log_abs_def log_step_def live_clear_def emptyBuffers_def newest_def)
qed (auto simp: log_abs_def log_step_def arrives_def live_defs split: sum.split thrown.split conn.split)

lemma log_abs_run: "log_abs s L \<Longrightarrow> log_abs (foldl (live_step parse) s es) (full_log_of parse s L es)"
  by (induction es arbitrary: s L) (simp_all add: log_abs_step)

section \<open>Properties of the page\<close>


text \<open>
  C33. The lines, under any order of callbacks: each tab keeps exactly the newest 1000 lines of all
  that arrived for it since the last clear, in order of arrival with increasing ids; pausing and
  resuming loses none of them, a paused page does not change what it shows, and once the page is
  neither paused nor about to redraw it shows exactly what it keeps.
\<close>

theorem live_lines_newest:
  "let s = foldl (live_step parse) (useLiveLogs w) es
   in lg_buffers s tab = newest LINE_CAP (full_log_of parse (useLiveLogs w) (\<lambda>t. []) es tab) \<and>
      length (lg_buffers s tab) \<le> 1000 \<and> sorted_wrt (<) (map ln_id (lg_buffers s tab)) \<and>
      list_all (\<lambda>l. TAB_OF (ln_log l) = Some tab) (lg_buffers s tab) \<and>
      (if lg_paused s then lg_lines (live_step parse s FlushTimer) = lg_lines s else True) \<and>
      lg_lines (live_step parse (live_step parse s (Pause False)) FlushTimer) = lg_buffers s \<and>
      (if lg_stopped s \<or> lg_paused s \<or> lg_flushTimer s then True else lg_lines s = lg_buffers s)"
proof -
  let ?s = "foldl (live_step parse) (useLiveLogs w) es"
  have "live_inv ?s" using live_inv_start by (rule live_hook.run_inv)
  then have b: "tab_ok (lg_nextId ?s) tab (lg_buffers ?s tab)" and sh: "shown_inv ?s"
    by (simp_all add: live_inv_def buffers_inv_def)
  have "log_abs (useLiveLogs w) (\<lambda>t. [])" by (simp add: log_abs_def useLiveLogs_def emptyBuffers_def newest_def)
  from log_abs_run [OF this, of parse es]
  have "lg_buffers ?s tab = newest LINE_CAP (full_log_of parse (useLiveLogs w) (\<lambda>t. []) es tab)"
    by (simp add: log_abs_def)
  moreover have "list_all (\<lambda>l. TAB_OF (ln_log l) = Some tab) (lg_buffers ?s tab)"
    using b by (auto simp: tab_ok_def list_all_iff)
  ultimately show ?thesis
    using b sh
    by (auto simp: Let_def tab_ok_def LINE_CAP_def shown_inv_def live_flush_def setPaused_def scheduleFlush_def)
qed

text \<open>The filters: each one left empty lets every line pass.\<close>

lemma matches_conj:
  "matches line filt \<longleftrightarrow>
     matches line \<lparr>lf_node = lf_node filt, lf_status = [], lf_text = []\<rparr> \<and>
     matches line \<lparr>lf_node = [], lf_status = lf_status filt, lf_text = []\<rparr> \<and>
     matches line \<lparr>lf_node = [], lf_status = [], lf_text = lf_text filt\<rparr>"
  by (simp add: matches_def Let_def)

end
