(* ===== verification/Live_View.thy ===== *)
theory Live_View
  imports Live_Logs "HOL-Library.List_Lexorder"
begin

text \<open>
  The live logs page itself (\<^verbatim>\<open>components/live-logs/live-logs-view.tsx\<close> and \<^verbatim>\<open>log-rows.tsx\<close>) on top of the
  hook of \<open>Live_Logs\<close>: which hosts are watched, which lines of a tab show, which of those are put
  in the page, and the cells of a row. The page is composed with the hook: a change of the picked
  hosts or of the tab runs the hook's watch effect. The text of a duration (\<open>seconds\<close>, binary floating
  point) and of a flag (a component of the UI kit) are parameters.
\<close>

section \<open>The hosts to pick from\<close>

definition UNCLAIMED :: jstring where "UNCLAIMED = js ''u''"

definition ALL_LOGS :: jstring where "ALL_LOGS = js ''all''"

definition NGINX_ITSELF :: jstring where "NGINX_ITSELF = js ''n''"

record hostOption =
  ho_key :: jstring
  ho_label :: jstring

definition FIXED_OPTIONS :: "hostOption list" where
  "FIXED_OPTIONS =
     [\<lparr>ho_key = ALL_LOGS, ho_label = js ''All logs (every host + nginx itself)''\<rparr>,
      \<lparr>ho_key = NGINX_ITSELF, ho_label = js ''nginx itself (no host)''\<rparr>]"

text \<open>The four lists are settled one by one: a list that failed adds no options.\<close>

definition host_names :: "string \<Rightarrow> thrown + (int \<times> jstring list) list \<Rightarrow> hostOption list" where
  "host_names pre result =
     (case result of
        Inl e \<Rightarrow> []
      | Inr hosts \<Rightarrow>
          map (\<lambda>(i, domains). \<lparr>ho_key = js pre @ str_int i, ho_label = join (js '', '') domains\<rparr>) hosts)"

definition useHostOptions ::
  "thrown + (int \<times> jstring list) list \<Rightarrow> thrown + (int \<times> jstring list) list \<Rightarrow>
   thrown + (int \<times> jstring list) list \<Rightarrow> thrown + (int \<times> int) list \<Rightarrow> hostOption list" where
  "useHostOptions prox redirect dead strm =
     FIXED_OPTIONS @ host_names ''p'' prox @ host_names ''r'' redirect @ host_names ''d'' dead @
     (case strm of
        Inl e \<Rightarrow> []
      | Inr ss \<Rightarrow> map (\<lambda>(i, port). \<lparr>ho_key = js ''s'' @ str_int i, ho_label = js ''Stream :'' @ str_int port\<rparr>) ss) @
     [\<lparr>ho_key = UNCLAIMED, ho_label = js ''Unclaimed (default site)''\<rparr>]"

definition find_label :: "hostOption list \<Rightarrow> jstring \<Rightarrow> jstring" where
  "find_label options key =
     (case map_of (rev (map (\<lambda>opt. (ho_key opt, ho_label opt)) options)) key of Some l \<Rightarrow> l | None \<Rightarrow> key)"

definition labelOf :: "hostOption list \<Rightarrow> jstring \<Rightarrow> jstring" where
  "labelOf options key = (if key = NGINX_ITSELF then js ''nginx'' else find_label options key)"

section \<open>The page\<close>

record livePage =
  pg_live :: liveLogs
  pg_tab :: logTab
  pg_picked :: "jstring list"
  pg_node :: jstring
  pg_status :: jstring
  pg_text :: jstring
  pg_selectedId :: "nat option"

definition watch_of :: "livePage \<Rightarrow> watch" where
  "watch_of p = \<lparr>wt_hosts = pg_picked p, wt_decisions = (pg_tab p = SecurityTab)\<rparr>"

definition openLivePage :: livePage where
  "openLivePage =
     \<lparr>pg_live = useLiveLogs \<lparr>wt_hosts = [], wt_decisions = False\<rparr>, pg_tab = Requests, pg_picked = [],
      pg_node = [], pg_status = [], pg_text = [], pg_selectedId = None\<rparr>"

text \<open>The effect of the hook on its watch: it runs when the hosts or the decisions flag changed.\<close>

definition sync :: "livePage \<Rightarrow> livePage" where
  "sync p =
     (if watch_of p = lg_watch (pg_live p) then p else p\<lparr>pg_live := setWatch (watch_of p) (pg_live p)\<rparr>)"

definition isStream :: "jstring \<Rightarrow> bool" where
  "isStream key = startsWith key (js ''s'')"

definition onTab :: "logTab \<Rightarrow> jstring \<Rightarrow> bool" where
  "onTab tab key \<longleftrightarrow> key = ALL_LOGS \<or> isStream key = (tab = Streams)"

definition visiblePicked :: "livePage \<Rightarrow> jstring list" where
  "visiblePicked p = filter (onTab (pg_tab p)) (pg_picked p)"

definition addable :: "hostOption list \<Rightarrow> livePage \<Rightarrow> hostOption list" where
  "addable options p =
     filter (\<lambda>opt. ho_key opt \<notin> set (pg_picked p) \<and> onTab (pg_tab p) (ho_key opt)) options"

definition showHost :: "livePage \<Rightarrow> bool" where
  "showHost p \<longleftrightarrow> ALL_LOGS \<in> set (visiblePicked p) \<or> 1 < length (visiblePicked p)"

definition pick :: "jstring \<Rightarrow> jstring list \<Rightarrow> jstring list" where
  "pick key prev =
     (if key = ALL_LOGS then [ALL_LOGS]
      else if key \<in> set prev then prev
      else filter (\<lambda>k. k \<noteq> ALL_LOGS) prev @ [key])"

definition selectLine :: "nat \<Rightarrow> nat option \<Rightarrow> nat option" where
  "selectLine i cur = (if cur = Some i then None else Some i)"

datatype pageEvent =
    Hook liveEvent
  | PickTab logTab
  | PickHost jstring
  | StopWatching jstring
  | ClearShown
  | SetNode jstring
  | SetStatus jstring
  | SetText jstring
  | SelectLine nat
  | CloseLine

text \<open>The hook's own events pass through; its watch is set by the page alone.\<close>

fun page_step :: "(jstring \<Rightarrow> liveFrame option) \<Rightarrow> livePage \<Rightarrow> pageEvent \<Rightarrow> livePage" where
  "page_step parse p (Hook e) =
     (case e of Watch w \<Rightarrow> p | _ \<Rightarrow> p\<lparr>pg_live := live_step parse (pg_live p) e\<rparr>)"
| "page_step parse p (PickTab t) = sync (p\<lparr>pg_tab := t, pg_selectedId := None\<rparr>)"
| "page_step parse p (PickHost key) =
     (if key = [] then p else sync (p\<lparr>pg_picked := pick key (pg_picked p)\<rparr>))"
| "page_step parse p (StopWatching key) = sync (p\<lparr>pg_picked := filter (\<lambda>k. k \<noteq> key) (pg_picked p)\<rparr>)"
| "page_step parse p ClearShown =
     sync (p\<lparr>pg_picked := filter (\<lambda>k. \<not> onTab (pg_tab p) k) (pg_picked p)\<rparr>)"
| "page_step parse p (SetNode n) = p\<lparr>pg_node := n\<rparr>"
| "page_step parse p (SetStatus c) = p\<lparr>pg_status := c\<rparr>"
| "page_step parse p (SetText t) = p\<lparr>pg_text := t\<rparr>"
| "page_step parse p (SelectLine i) = p\<lparr>pg_selectedId := selectLine i (pg_selectedId p)\<rparr>"
| "page_step parse p CloseLine = p\<lparr>pg_selectedId := None\<rparr>"

section \<open>The rows\<close>

definition TABS :: "logTab list" where "TABS = [Requests, Errors, SecurityTab, Streams]"

definition showNode :: "livePage \<Rightarrow> bool" where
  "showNode p =
     list_ex (\<lambda>t. list_ex (\<lambda>line. ln_node line \<noteq> js ''local'') (lg_lines (pg_live p) t)) TABS"

definition nodes :: "livePage \<Rightarrow> jstring list" where
  "nodes p = sort (remdups (concat (map (\<lambda>t. map ln_node (lg_lines (pg_live p) t)) TABS)))"

definition picks :: "jstring list \<Rightarrow> liveLine \<Rightarrow> bool" where
  "picks picked line \<longleftrightarrow> ALL_LOGS \<in> set picked \<or> ln_log line = Decision \<or> ln_host line \<in> set picked"

definition page_filter :: "livePage \<Rightarrow> lineFilter" where
  "page_filter p =
     \<lparr>lf_node = (if showNode p then pg_node p else []),
      lf_status = (if pg_tab p = Requests then pg_status p else []), lf_text = pg_text p\<rparr>"

definition rows :: "livePage \<Rightarrow> liveLine list" where
  "rows p =
     rev (filter (\<lambda>line. picks (pg_picked p) line \<and> matches line (page_filter p))
       (lg_lines (pg_live p) (pg_tab p)))"

definition selected :: "livePage \<Rightarrow> liveLine option" where
  "selected p =
     (case pg_selectedId p of None \<Rightarrow> None | Some i \<Rightarrow> find (\<lambda>line. ln_id line = i) (rows p))"

definition emptyText :: "livePage \<Rightarrow> jstring" where
  "emptyText p =
     (if pg_picked p = [] then js ''Pick a host to start watching.''
      else if pg_picked p = [NGINX_ITSELF] \<and> pg_tab p \<noteq> Errors
      then js ''nginx's own messages show on the Errors tab.''
      else if pg_tab p = SecurityTab \<and> pg_text p = [] then js ''Waiting for security events'' @ [8230]
      else js ''Waiting for traffic'' @ [8230])"

definition connection :: "liveLogs \<Rightarrow> jstring" where
  "connection s =
     (case lg_status s of
        Live \<Rightarrow> js ''Live '' @ [183] @ js '' '' @ str_nat (lg_rate s) @ js '' req/s''
      | Connecting \<Rightarrow> js ''Connecting'' @ [8230]
      | _ \<Rightarrow> js ''Reconnecting'' @ [8230])"

definition filtersOn :: "livePage \<Rightarrow> nat" where
  "filtersOn p =
     (if pg_tab p = Requests \<and> pg_status p \<noteq> [] then 1 else 0) +
     (if showNode p \<and> pg_node p \<noteq> [] then 1 else 0)"

section \<open>The window of rows in the page\<close>

definition OVERSCAN :: int where "OVERSCAN = 10"

definition FALLBACK_VIEW_PX :: int where "FALLBACK_VIEW_PX = 900"

definition ROW_HEIGHT :: int where "ROW_HEIGHT = 32"

definition CARD_HEIGHT :: int where "CARD_HEIGHT = 72"

definition view_height :: "int \<Rightarrow> int" where
  "view_height viewPx = (if viewPx = 0 then FALLBACK_VIEW_PX else viewPx)"

definition window_start :: "int \<Rightarrow> int \<Rightarrow> rat \<Rightarrow> int" where
  "window_start count rowHeight scrollTop =
     min (max 0 (\<lfloor>scrollTop / of_int rowHeight\<rfloor> - OVERSCAN)) count"

definition window_end :: "int \<Rightarrow> int \<Rightarrow> rat \<Rightarrow> int \<Rightarrow> int" where
  "window_end count rowHeight scrollTop viewPx =
     min count (window_start count rowHeight scrollTop +
                \<lceil>of_int (view_height viewPx) / (of_int rowHeight :: rat)\<rceil> + 2 * OVERSCAN)"

section \<open>The cells of a row\<close>

record column =
  co_label :: jstring
  co_width :: jstring

definition HOST :: column where
  "HOST = \<lparr>co_label = js ''Host'', co_width = js ''clamp(6rem,18%,9rem)''\<rparr>"

definition hostColumn :: "logTab \<Rightarrow> bool \<Rightarrow> bool" where
  "hostColumn tab show \<longleftrightarrow> show \<and> (tab = Requests \<or> tab = Streams)"

definition col :: "string \<Rightarrow> string \<Rightarrow> column" where
  "col l width = \<lparr>co_label = js l, co_width = js width\<rparr>"

definition columns :: "logTab \<Rightarrow> bool \<Rightarrow> bool \<Rightarrow> column list" where
  "columns tab show_node show_host =
     (let node = (if show_node then [col ''Node'' ''4.5rem''] else []);
          host = (if show_host then [HOST] else []);
          time = col ''Time'' ''6.5rem''
      in case tab of
           Requests \<Rightarrow>
             [time] @ node @ host @
             [col ''Status'' ''3.5rem'', col ''Method'' ''4rem'',
              \<lparr>co_label = js ''Path '' @ [183] @ js '' client'', co_width = js ''minmax(0,1fr)''\<rparr>,
              col ''Upstream'' ''8rem'', col ''Took'' ''4rem'']
         | Streams \<Rightarrow>
             [time] @ node @ host @
             [col ''Client'' ''minmax(0,1fr)'', col ''Proto'' ''3.5rem'', col ''Status'' ''3.5rem'',
              col ''In / out'' ''8rem'', col ''Duration'' ''5rem'', col ''Upstream'' ''8rem'']
         | _ \<Rightarrow> [time] @ node @ [HOST, col ''Message'' ''minmax(0,1fr)''])"

definition gridFor :: "logTab \<Rightarrow> bool \<Rightarrow> bool \<Rightarrow> jstring" where
  "gridFor tab show_node show_host = join (js '' '') (map co_width (columns tab show_node show_host))"

definition line_bytes :: "jstring option \<Rightarrow> jstring" where
  "line_bytes v =
     (case parseInt (case v of Some s \<Rightarrow> s | None \<Rightarrow> []) of
        NaN \<Rightarrow> [8212]
      | Num n \<Rightarrow>
          if n < 1024 then str_int n @ js '' B''
          else if n < 1024 * 1024 then toFixed1 (nat n) 1024 @ js '' KB''
          else toFixed1 (nat n) (1024 * 1024) @ js '' MB'')"

text \<open>The field of a line as it is rendered: a missing one renders as nothing.\<close>

definition shown_field :: "liveLine \<Rightarrow> string \<Rightarrow> jstring" where
  "shown_field line k = (case line_field line k of Some v \<Rightarrow> v | None \<Rightarrow> [])"

definition or_dash :: "jstring option \<Rightarrow> jstring" where
  "or_dash v = (case v of Some s \<Rightarrow> if s = [] then [8212] else s | None \<Rightarrow> [8212])"

definition client :: "(jstring option \<Rightarrow> jstring) \<Rightarrow> liveLine \<Rightarrow> jstring" where
  "client flag line =
     js '' '' @ [183] @ js '' '' @ (case line_field line ''ip'' of Some v \<Rightarrow> v | None \<Rightarrow> [8212]) @ js '' '' @ flag (ln_cc line)"

definition truncated_badge :: jstring where "truncated_badge = js ''truncated''"

text \<open>
  Either one cell per remaining column, or one cell that spans from a column to the last.
\<close>

datatype rowCells = Cells "jstring list" | Spanning nat jstring

definition cells ::
  "(jstring option \<Rightarrow> jstring) \<Rightarrow> (jstring option \<Rightarrow> jstring) \<Rightarrow> liveLine \<Rightarrow> logTab \<Rightarrow> jstring \<Rightarrow> bool \<Rightarrow> bool \<Rightarrow> rowCells" where
  "cells seconds flag line tab hostLabel show_node show_host =
     (if ln_truncated line \<or> ln_f line = None
      then (let raw = (case ln_raw line of Some s \<Rightarrow> s | None \<Rightarrow> [])
            in if tab = Requests \<or> tab = Streams
               then Spanning (2 + of_bool show_node + of_bool show_host) (truncated_badge @ raw)
               else Cells [hostLabel, (if ln_truncated line then truncated_badge else []) @ raw])
      else if ln_log line = Decision
      then Cells [(case line_field line ''type'' of Some t \<Rightarrow> t | None \<Rightarrow> js ''decision''),
                  shown_field line ''scope'' @ js '' '' @ shown_field line ''value'' @ js '' '' @ [183] @ js '' '' @
                  (if shown_field line ''scenario'' \<noteq> [] then shown_field line ''scenario''
                   else shown_field line ''origin'') @
                  js '' '' @ [183] @ js '' '' @ shown_field line ''duration'' @ flag (ln_cc line)]
      else case tab of
             Requests \<Rightarrow>
               Cells [shown_field line ''st'', shown_field line ''m'',
                      shown_field line ''u'' @ (if line_field line ''cs'' = Some (js ''denied'') then js ''CrowdSec'' else []) @
                      client flag line,
                      or_dash (line_field line ''up''), seconds (line_field line ''rt'')]
           | Streams \<Rightarrow>
               Cells [shown_field line ''ip'' @ client flag line, shown_field line ''pr'', shown_field line ''st'',
                      line_bytes (line_field line ''in'') @ js '' / '' @ line_bytes (line_field line ''out''),
                      seconds (line_field line ''dur''), or_dash (line_field line ''up'')]
           | _ \<Rightarrow> Cells [hostLabel, (case ln_raw line of Some s \<Rightarrow> s | None \<Rightarrow> [])])"

text \<open>A row: the time, the node and the host where they have a column, then the cells of the line.\<close>

definition logRow ::
  "(liveLine \<Rightarrow> jstring) \<Rightarrow> (jstring option \<Rightarrow> jstring) \<Rightarrow> (jstring option \<Rightarrow> jstring) \<Rightarrow> liveLine \<Rightarrow> logTab \<Rightarrow>
   bool \<Rightarrow> bool \<Rightarrow> jstring \<Rightarrow> jstring list \<times> rowCells" where
  "logRow lineTime seconds flag line tab show_node show_host hostLabel =
     (let host = hostColumn tab show_host
      in ([lineTime line] @ (if show_node then [ln_node line] else []) @ (if host then [hostLabel] else []),
          cells seconds flag line tab hostLabel show_node host))"

text \<open>The card of a line on a phone: the top row without the node and the time, and the rows below.\<close>

definition LEVEL :: "jstring list" where
  "LEVEL = map js [''emerg'', ''alert'', ''crit'', ''error'', ''warn'', ''notice'', ''info'', ''debug'']"

definition level_of :: "int \<Rightarrow> jstring option" where
  "level_of sev = (if 0 \<le> sev \<and> nat sev < length LEVEL then Some (LEVEL ! nat sev) else None)"

definition levelClass :: "int \<Rightarrow> jstring" where
  "levelClass sev =
     (if sev \<le> 3 then js ''text-destructive'' else if sev = 4 then js ''text-warning'' else js ''text-muted-foreground'')"

definition cardTop :: "(liveLine \<Rightarrow> jstring) \<Rightarrow> liveLine \<Rightarrow> bool \<Rightarrow> jstring list \<Rightarrow> jstring list" where
  "cardTop lineTime line show_node children =
     children @ (if show_node then [ln_node line] else []) @ [lineTime line]"

definition cardBody ::
  "(liveLine \<Rightarrow> jstring) \<Rightarrow> (jstring option \<Rightarrow> jstring) \<Rightarrow> (jstring option \<Rightarrow> jstring) \<Rightarrow> liveLine \<Rightarrow> logTab \<Rightarrow>
   jstring \<Rightarrow> bool \<Rightarrow> jstring list \<times> jstring list" where
  "cardBody lineTime seconds flag line tab hostLabel show_node =
     (let top = cardTop lineTime line show_node; sep = js '' '' @ [183] @ js '' '';
          ip = (case line_field line ''ip'' of Some v \<Rightarrow> v | None \<Rightarrow> [8212])
      in if ln_truncated line \<or> ln_f line = None
         then (let level = (if tab = Requests \<or> tab = Streams then None else level_of (ln_sev line))
               in (top ((if ln_truncated line then [truncated_badge] else []) @
                        (case level of Some l \<Rightarrow> [l] | None \<Rightarrow> []) @ [hostLabel]),
                   [case ln_raw line of Some s \<Rightarrow> s | None \<Rightarrow> []]))
         else if ln_log line = Decision
         then (top [case line_field line ''type'' of Some t \<Rightarrow> t | None \<Rightarrow> js ''decision''],
               [shown_field line ''scope'' @ js '' '' @ shown_field line ''value'' @ flag (ln_cc line),
                (if shown_field line ''scenario'' \<noteq> [] then shown_field line ''scenario''
                 else shown_field line ''origin'') @ sep @ shown_field line ''duration''])
         else if tab = Streams
         then (top [shown_field line ''st'', shown_field line ''pr'', seconds (line_field line ''dur'')],
               [ip @ flag (ln_cc line),
                hostLabel @ sep @ line_bytes (line_field line ''in'') @ js '' / '' @
                line_bytes (line_field line ''out'') @ sep @ or_dash (line_field line ''up'')])
         else (top ([shown_field line ''st'', shown_field line ''m''] @
                    (if line_field line ''cs'' = Some (js ''denied'') then [js ''CrowdSec''] else []) @
                    [seconds (line_field line ''rt'')]),
               [shown_field line ''u'',
                hostLabel @ sep @ ip @ flag (ln_cc line) @ sep @ or_dash (line_field line ''up'')]))"

definition detail_entries :: "liveLine \<Rightarrow> jstring \<Rightarrow> (jstring \<times> jstring) list" where
  "detail_entries line hostLabel =
     [(js ''Host'', hostLabel), (js ''Node'', ln_node line)] @
     (case ln_f line of Some f \<Rightarrow> own_order f | None \<Rightarrow> []) @
     (case ln_raw line of Some r \<Rightarrow> [(js ''Raw'', r)] | None \<Rightarrow> []) @
     (case ln_cc line of Some c \<Rightarrow> if c \<noteq> [] then [(js ''Country'', c)] else [] | None \<Rightarrow> [])"

section \<open>The page keeps in step with the hook\<close>

definition page_inv :: "livePage \<Rightarrow> bool" where
  "page_inv p \<longleftrightarrow>
     live_inv (pg_live p) \<and> lg_watch (pg_live p) = watch_of p \<and> distinct (pg_picked p) \<and>
     (ALL_LOGS \<in> set (pg_picked p) \<longrightarrow> pg_picked p = [ALL_LOGS])"

lemma lg_watch_step: "(\<And>w. e \<noteq> Watch w) \<Longrightarrow> lg_watch (live_step parse s e) = lg_watch s"
proof (cases e)
  case (Message now data)
  then show ?thesis
    by (auto simp: onMessage_def handleFrame_filed file_line_def scheduleFlush_def split: option.split liveFrame.split)
qed (auto simp: live_defs split: sum.split thrown.split conn.split)

lemma setWatch_inv: "live_inv s \<Longrightarrow> live_inv (setWatch w s)"
  using live_hook.step_inv [of s _ "Watch w"] by simp

lemma sync_inv:
  "live_inv (pg_live p) \<Longrightarrow> distinct (pg_picked p) \<Longrightarrow>
   (ALL_LOGS \<in> set (pg_picked p) \<longrightarrow> pg_picked p = [ALL_LOGS]) \<Longrightarrow> page_inv (sync p)"
  using setWatch_inv [of "pg_live p" "watch_of p"]
  by (auto simp: sync_def page_inv_def) (auto simp: setWatch_def watch_of_def Let_def)

lemma pick_ok:
  "distinct xs \<Longrightarrow> (ALL_LOGS \<in> set xs \<longrightarrow> xs = [ALL_LOGS]) \<Longrightarrow>
   distinct (pick k xs) \<and> (ALL_LOGS \<in> set (pick k xs) \<longrightarrow> pick k xs = [ALL_LOGS]) \<and> k \<in> set (pick k xs)"
  by (auto simp: pick_def)

lemma filter_ok: "(z \<in> set xs \<longrightarrow> xs = [z]) \<Longrightarrow> z \<in> set (filter P xs) \<longrightarrow> filter P xs = [z]"
  by auto

interpretation live_page: machine "page_step parse" page_inv for parse
proof
  fix p e
  assume inv: "page_inv p"
  then have live: "live_inv (pg_live p)" and d: "distinct (pg_picked p)"
    and a: "ALL_LOGS \<in> set (pg_picked p) \<longrightarrow> pg_picked p = [ALL_LOGS]" by (simp_all add: page_inv_def)
  show "page_inv (page_step parse p e)"
  proof (cases e)
    case (Hook h)
    then show ?thesis
    proof (cases "\<exists>w. h = Watch w")
      case False
      then have "lg_watch (live_step parse (pg_live p) h) = lg_watch (pg_live p)" by (simp add: lg_watch_step)
      with False Hook inv live_hook.step_inv [OF live, of parse h] show ?thesis
        by (cases h) (simp_all add: page_inv_def watch_of_def)
    qed (auto simp: inv)
  next
    case (PickHost k)
    then show ?thesis using inv live pick_ok [OF d a, of k] by (auto intro!: sync_inv)
  next
    case (PickTab t)
    then show ?thesis using live d a by (simp add: sync_inv)
  next
    case (StopWatching k)
    then show ?thesis using live d filter_ok [OF a] by (simp add: sync_inv)
  next
    case ClearShown
    then show ?thesis using live d filter_ok [OF a] by (simp add: sync_inv)
  qed (use inv in \<open>simp_all add: page_inv_def watch_of_def\<close>)
qed

lemma openLivePage_inv: "page_inv openLivePage"
  by (simp add: page_inv_def openLivePage_def live_inv_start watch_of_def) (simp add: useLiveLogs_def)

section \<open>The rows of the page\<close>

lemma rows_of_tab:
  assumes "page_inv p"
  shows "list_all (\<lambda>l. TAB_OF (ln_log l) = Some (pg_tab p) \<and> picks (pg_picked p) l \<and> matches l (page_filter p)) (rows p) \<and>
    sorted_wrt (>) (map ln_id (rows p)) \<and> length (rows p) \<le> LINE_CAP"
proof -
  have t: "tab_ok (lg_nextId (pg_live p)) (pg_tab p) (lg_lines (pg_live p) (pg_tab p))"
    using assms by (simp add: page_inv_def live_inv_def buffers_inv_def)
  let ?P = "\<lambda>line. picks (pg_picked p) line \<and> matches line (page_filter p)"
  let ?ls = "lg_lines (pg_live p) (pg_tab p)"
  have "sorted_wrt (\<lambda>a b. ln_id a < ln_id b) ?ls" using t by (simp add: tab_ok_def sorted_wrt_map)
  then have "sorted_wrt (\<lambda>a b. ln_id a < ln_id b) (filter ?P ?ls)" by (rule sorted_wrt_filter)
  then have "sorted_wrt (>) (map ln_id (rows p))" by (simp add: rows_def sorted_wrt_map sorted_wrt_rev)
  moreover have "length (rows p) \<le> LINE_CAP"
    using t length_filter_le [of ?P ?ls] unfolding rows_def tab_ok_def length_rev by linarith
  ultimately show ?thesis using t by (auto simp: rows_def tab_ok_def list_all_iff)
qed

text \<open>A row fills its grid: one cell per column, or a last cell that spans what is left.\<close>

definition aligned :: "nat \<Rightarrow> jstring list \<times> rowCells \<Rightarrow> bool" where
  "aligned cols row =
     (case snd row of
        Cells xs \<Rightarrow> length (fst row) + length xs = cols
      | Spanning k t \<Rightarrow> k = length (fst row) + 1 \<and> k \<le> cols)"

lemma logRow_aligned:
  assumes "TAB_OF (ln_log line) = Some tab"
  shows "aligned (length (columns tab sn (hostColumn tab sh))) (logRow lt seconds flag line tab sn sh hostLabel)"
  using assms
  by (cases tab; cases sn; cases "ln_log line")
    (auto simp: aligned_def logRow_def Let_def columns_def cells_def hostColumn_def TAB_OF_def)

text \<open>A card has at most three rows, the height that the page gives it.\<close>

lemma cardBody_rows: "length (snd (cardBody lt seconds flag line tab hostLabel sn)) \<le> 2"
  by (simp add: cardBody_def Let_def)

section \<open>The window covers the view\<close>

lemma window_covers:
  fixes scrollTop :: rat
  assumes h: "0 < h" and s: "0 \<le> scrollTop" and i: "0 \<le> i" "i < count"
    and top: "scrollTop < of_int ((i + 1) * h)" and bottom: "of_int (i * h) < scrollTop + of_int (view_height v)"
  shows "window_start count h scrollTop \<le> i \<and> i < window_end count h scrollTop v"
proof -
  let ?q = "scrollTop / of_int h" and ?n = "of_int (view_height v) / (of_int h :: rat)"
  have hp: "(0::rat) < of_int h" using h by simp
  have "?q < of_int (i + 1)" using top hp by (simp add: divide_less_eq)
  then have q: "\<lfloor>?q\<rfloor> \<le> i" by (simp add: floor_le_iff)
  have "of_int i < ?q + ?n" using bottom hp by (simp add: less_divide_eq flip: add_divide_distrib)
  then have "(of_int i :: rat) < of_int (\<lfloor>?q\<rfloor> + 1 + \<lceil>?n\<rceil>)"
    using le_of_int_ceiling [of ?n] floor_correct [of ?q] unfolding of_int_add of_int_1 by linarith
  then have n: "i < \<lfloor>?q\<rfloor> + 1 + \<lceil>?n\<rceil>" by (simp only: of_int_less_iff)
  have st: "window_start count h scrollTop \<le> i"
    using q i by (simp add: window_start_def OVERSCAN_def)
  moreover have "\<lfloor>?q\<rfloor> - OVERSCAN \<le> window_start count h scrollTop"
    using st i by (auto simp: window_start_def)
  ultimately show ?thesis
    using n i by (simp add: window_end_def OVERSCAN_def)
qed

text \<open>
  C22. The live logs page, composed with its hook, under any order of events. While the socket is open
  the server has last been told exactly the hosts that are picked, and whether decisions are
  wanted. All logs is picked alone, and no host twice. The rows are lines of the current tab,
  newest first, at most a thousand, each of a picked host (any host with All logs) or a decision,
  and each fills the columns of its grid. Every row that is even partly in view is in the page.
\<close>

theorem live_page_behaviour:
  "let p = foldl (page_step parse) openLivePage es
   in (if lg_conn (pg_live p) = SocketOpen \<and> \<not> lg_stopped (pg_live p)
       then lg_sent (pg_live p) \<noteq> [] \<and>
            last (lg_sent (pg_live p)) = \<lparr>wt_hosts = pg_picked p, wt_decisions = (pg_tab p = SecurityTab)\<rparr>
       else True) \<and>
      distinct (pg_picked p) \<and> (if ALL_LOGS \<in> set (pg_picked p) then pg_picked p = [ALL_LOGS] else True) \<and>
      list_all (\<lambda>l. TAB_OF (ln_log l) = Some (pg_tab p) \<and>
                    (ALL_LOGS \<in> set (pg_picked p) \<or> ln_log l = Decision \<or> ln_host l \<in> set (pg_picked p)) \<and>
                    aligned (length (columns (pg_tab p) (showNode p) (hostColumn (pg_tab p) (showHost p))))
                      (logRow lineTime seconds flag l (pg_tab p) (showNode p) (showHost p) (labelOf options (ln_host l))))
        (rows p) \<and>
      sorted_wrt (>) (map ln_id (rows p)) \<and> length (rows p) \<le> 1000 \<and>
      (if 0 \<le> i \<and> i < int (length (rows p)) \<and> 0 \<le> scrollTop \<and> scrollTop < of_int ((i + 1) * ROW_HEIGHT) \<and>
          of_int (i * ROW_HEIGHT) < scrollTop + of_int (view_height viewPx)
       then window_start (int (length (rows p))) ROW_HEIGHT scrollTop \<le> i \<and>
            i < window_end (int (length (rows p))) ROW_HEIGHT scrollTop viewPx
       else True)"
proof -
  let ?p = "foldl (page_step parse) openLivePage es"
  have inv: "page_inv ?p" using openLivePage_inv by (rule live_page.run_inv)
  then have c: "conn_inv (pg_live ?p)" "lg_watch (pg_live ?p) = watch_of ?p"
    by (simp_all add: page_inv_def live_inv_def)
  have r: "list_all (\<lambda>l. TAB_OF (ln_log l) = Some (pg_tab ?p) \<and> picks (pg_picked ?p) l \<and> matches l (page_filter ?p)) (rows ?p)"
    "sorted_wrt (>) (map ln_id (rows ?p))" "length (rows ?p) \<le> LINE_CAP"
    using rows_of_tab [OF inv] by simp_all
  have w: "0 \<le> scrollTop \<Longrightarrow> 0 \<le> i \<Longrightarrow> i < int (length (rows ?p)) \<Longrightarrow> scrollTop < of_int ((i + 1) * ROW_HEIGHT) \<Longrightarrow>
      of_int (i * ROW_HEIGHT) < scrollTop + of_int (view_height viewPx) \<Longrightarrow>
      window_start (int (length (rows ?p))) ROW_HEIGHT scrollTop \<le> i \<and>
      i < window_end (int (length (rows ?p))) ROW_HEIGHT scrollTop viewPx"
    by (rule window_covers) (simp_all add: ROW_HEIGHT_def)
  show ?thesis
    unfolding Let_def
  proof (intro conjI)
    show "if lg_conn (pg_live ?p) = SocketOpen \<and> \<not> lg_stopped (pg_live ?p)
       then lg_sent (pg_live ?p) \<noteq> [] \<and>
            last (lg_sent (pg_live ?p)) = \<lparr>wt_hosts = pg_picked ?p, wt_decisions = (pg_tab ?p = SecurityTab)\<rparr>
       else True"
      using c by (auto simp: conn_inv_def watch_of_def)
    show "distinct (pg_picked ?p)" "if ALL_LOGS \<in> set (pg_picked ?p) then pg_picked ?p = [ALL_LOGS] else True"
      using inv by (simp_all add: page_inv_def)
    show "sorted_wrt (>) (map ln_id (rows ?p))" "length (rows ?p) \<le> 1000"
      using r by (simp_all add: LINE_CAP_def)
  qed (use r(1) w in \<open>simp_all add: list_all_iff picks_def logRow_aligned\<close>)
qed

end
