(* ===== verification/Custom_Pages.thy ===== *)
theory Custom_Pages
  imports Dialog_Flow "HOL-Library.Monad_Syntax"
begin

text \<open>
  Custom pages: the sizes and the image round trip of \<^verbatim>\<open>components/custom-pages/lib.ts\<close>, the script
  check of \<^verbatim>\<open>script-check.ts\<close> and the handlers of \<^verbatim>\<open>custom-page-editor-view.tsx\<close>. Embedded images are
  swapped for placeholders before a page is sent to a model and put back in its answer. The
  regular expressions match deterministically here (a run of a character class is always
  followed by a character outside it), so a match is the longest run of each class in turn.
\<close>

section \<open>Sizes\<close>

definition htmlByteLength :: "jstring \<Rightarrow> nat" where
  "htmlByteLength html = utf8_length html"

definition isOverPageCap :: "jstring \<Rightarrow> bool" where
  "isOverPageCap html \<longleftrightarrow> MAX_PAGE_BYTES < htmlByteLength html"

definition MAX_ASSIST_BYTES :: nat where "MAX_ASSIST_BYTES = 200 * 1024"

definition isOverAssistCap :: "jstring \<Rightarrow> bool" where
  "isOverAssistCap html \<longleftrightarrow> MAX_ASSIST_BYTES < htmlByteLength html"

definition formatBytes :: "nat \<Rightarrow> jstring" where
  "formatBytes bytes =
     (if bytes < 1024 then str_nat bytes @ js '' B''
      else if bytes < 1024 * 1024 then toFixed1 bytes 1024 @ js '' KB''
      else toFixed1 bytes (1024 * 1024) @ js '' MB'')"

definition IMAGE_WARN_BYTES :: nat where "IMAGE_WARN_BYTES = 256 * 1024"

definition describeImageSize :: "nat \<Rightarrow> jstring option" where
  "describeImageSize bytes =
     (if bytes \<le> IMAGE_WARN_BYTES then None
      else Some (js ''That image is '' @ formatBytes bytes @ js ''. Embedding inflates it to about '' @
                 formatBytes ((bytes * 4 + 2) div 3) @ js '', and it becomes part of the page source '' @ [8212] @
                 js '' consider a smaller or more compressed file.''))"

text \<open>The decoded size of a payload, in quarters of a byte where it is not whole.\<close>

definition base64_marker :: jstring where "base64_marker = js '';base64,''"

definition base64Bytes4 :: "jstring \<Rightarrow> int" where
  "base64Bytes4 dataUri =
     (case split_seq base64_marker dataUri of
        _ # payload # _ \<Rightarrow>
          if payload = [] then 0
          else max 0 (int (length payload) * 3 -
                 4 * (if endsWith payload (js ''=='') then 2 else if endsWith payload (js ''='') then 1 else 0))
      | _ \<Rightarrow> 0)"

fun escapeAttribute :: "jstring \<Rightarrow> jstring" where
  "escapeAttribute [] = []"
| "escapeAttribute (c # s) =
     (if c = 38 then js ''&amp;'' else if c = 34 then js ''&quot;'' else if c = 60 then js ''&lt;''
      else if c = 62 then js ''&gt;'' else [c]) @ escapeAttribute s"

text \<open>The file name without its extension: a dot and what follows, up to the next dot or the end.\<close>

definition without_extension :: "jstring \<Rightarrow> jstring" where
  "without_extension name =
     (let ext = takeWhile (\<lambda>c. c \<noteq> 46) (rev name); rest = dropWhile (\<lambda>c. c \<noteq> 46) (rev name)
      in if ext \<noteq> [] \<and> rest \<noteq> [] then rev (tl rest) else name)"

definition imgTagFor :: "jstring \<Rightarrow> jstring \<Rightarrow> jstring" where
  "imgTagFor filename dataUri =
     js ''<img src='' @ [34] @ dataUri @ [34] @ js '' alt='' @ [34] @
     escapeAttribute (without_extension filename) @ [34] @ js ''>''"

section \<open>Data URIs and placeholders\<close>

definition is_mime :: "nat \<Rightarrow> bool" where
  "is_mime c \<longleftrightarrow> is_word c \<or> c = 46 \<or> c = 43 \<or> c = 45"

definition is_b64 :: "nat \<Rightarrow> bool" where
  "is_b64 c \<longleftrightarrow> is_digit c \<or> is_lower_az c \<or> is_upper_az c \<or> c = 43 \<or> c = 47 \<or> c = 61"

definition data_scheme :: jstring where "data_scheme = js ''data:''"

definition placeholder_name :: jstring where "placeholder_name = js ''MEGOOPM_IMAGE_''"

definition strip_prefix :: "jstring \<Rightarrow> jstring \<Rightarrow> jstring option" where
  "strip_prefix p s = (if startsWith s p then Some (drop (length p) s) else None)"

text \<open>A nonempty run of the characters of a mime type, and what follows it.\<close>

definition mime_run :: "jstring \<Rightarrow> (jstring \<times> jstring) option" where
  "mime_run s = (if takeWhile is_mime s = [] then None else Some (takeWhile is_mime s, dropWhile is_mime s))"

text \<open>What both patterns start with: the scheme, the mime type and the marker.\<close>

definition match_prefix :: "jstring \<Rightarrow> (jstring \<times> jstring) option" where
  "match_prefix s =
     do { r0 \<leftarrow> strip_prefix data_scheme s;
          (m1, r1) \<leftarrow> mime_run r0;
          r2 \<leftarrow> strip_prefix [47] r1;
          (m2, r3) \<leftarrow> mime_run r2;
          r4 \<leftarrow> strip_prefix base64_marker r3;
          Some (m1 @ [47] @ m2, r4) }"

definition match_uri :: "jstring \<Rightarrow> (jstring \<times> jstring \<times> jstring) option" where
  "match_uri s =
     do { (mime, r) \<leftarrow> match_prefix s;
          if takeWhile is_b64 r = [] then None else Some (mime, takeWhile is_b64 r, dropWhile is_b64 r) }"

definition match_placeholder :: "jstring \<Rightarrow> (jstring \<times> jstring \<times> jstring) option" where
  "match_placeholder s =
     do { (mime, r) \<leftarrow> match_prefix s;
          ds \<leftarrow> strip_prefix placeholder_name r;
          if takeWhile is_digit ds = [] then None
          else Some (mime, takeWhile is_digit ds, dropWhile is_digit ds) }"

definition uri_text :: "jstring \<Rightarrow> jstring \<Rightarrow> jstring" where
  "uri_text mime payload = data_scheme @ mime @ base64_marker @ payload"

lemma strip_prefix_Some: "strip_prefix p s = Some r \<longleftrightarrow> s = p @ r"
  by (auto simp: strip_prefix_def startsWith_def) (metis append_take_drop_id)

lemma mime_run_Some:
  "mime_run s = Some (m, r) \<longleftrightarrow> m \<noteq> [] \<and> list_all is_mime m \<and> s = m @ r \<and> (r = [] \<or> \<not> is_mime (hd r))"
proof
  assume "mime_run s = Some (m, r)"
  then have m: "m = takeWhile is_mime s" "r = dropWhile is_mime s" "m \<noteq> []"
    by (auto simp: mime_run_def split: if_splits)
  then have "list_all is_mime m" by (auto simp: list_all_iff dest: set_takeWhileD)
  moreover have "r = [] \<or> \<not> is_mime (hd r)" using m hd_dropWhile [of is_mime s] by auto
  ultimately show "m \<noteq> [] \<and> list_all is_mime m \<and> s = m @ r \<and> (r = [] \<or> \<not> is_mime (hd r))"
    using m by simp
next
  assume a: "m \<noteq> [] \<and> list_all is_mime m \<and> s = m @ r \<and> (r = [] \<or> \<not> is_mime (hd r))"
  then have "takeWhile is_mime s = m" "dropWhile is_mime s = r"
    by (cases r; auto simp: takeWhile_append list_all_iff dropWhile_append)+
  with a show "mime_run s = Some (m, r)" by (simp add: mime_run_def)
qed

text \<open>A mime type: two runs with a slash between them.\<close>

definition mime_ok :: "jstring \<Rightarrow> bool" where
  "mime_ok mime \<longleftrightarrow>
     (\<exists>m1 m2. mime = m1 @ [47] @ m2 \<and> m1 \<noteq> [] \<and> m2 \<noteq> [] \<and> list_all is_mime m1 \<and> list_all is_mime m2)"

lemma not_mime: "\<not> is_mime 47" "\<not> is_mime 59" "\<not> is_mime 58"
  by (simp_all add: is_mime_def char_class_defs)

lemma base64_marker_eq: "base64_marker = [59, 98, 97, 115, 101, 54, 52, 44]"
  by (simp add: base64_marker_def js_def)

lemma match_prefix_Some:
  "match_prefix s = Some (mime, r) \<longleftrightarrow> s = data_scheme @ mime @ base64_marker @ r \<and> mime_ok mime"
proof
  assume "match_prefix s = Some (mime, r)"
  then show "s = data_scheme @ mime @ base64_marker @ r \<and> mime_ok mime"
    by (auto simp: match_prefix_def strip_prefix_Some mime_run_Some mime_ok_def bind_eq_Some_conv split: prod.splits)
next
  assume a: "s = data_scheme @ mime @ base64_marker @ r \<and> mime_ok mime"
  then obtain m1 m2 where m: "mime = m1 @ [47] @ m2" "m1 \<noteq> []" "m2 \<noteq> []" "list_all is_mime m1" "list_all is_mime m2"
    by (auto simp: mime_ok_def)
  have "strip_prefix data_scheme s = Some (m1 @ 47 # m2 @ base64_marker @ r)"
    "strip_prefix [47] (47 # m2 @ base64_marker @ r) = Some (m2 @ base64_marker @ r)"
    "strip_prefix base64_marker (base64_marker @ r) = Some r"
    using a m by (simp_all add: strip_prefix_Some)
  moreover have "mime_run (m1 @ 47 # m2 @ base64_marker @ r) = Some (m1, 47 # m2 @ base64_marker @ r)"
    "mime_run (m2 @ base64_marker @ r) = Some (m2, base64_marker @ r)"
    using m by (simp_all add: mime_run_Some not_mime base64_marker_eq)
  ultimately show "match_prefix s = Some (mime, r)" using m by (simp add: match_prefix_def)
qed

lemma match_uri_length: "match_uri s = Some (mime, payload, rest) \<Longrightarrow> length rest < length s"
proof -
  assume "match_uri s = Some (mime, payload, rest)"
  then obtain r where "match_prefix s = Some (mime, r)" "rest = dropWhile is_b64 r"
    by (auto simp: match_uri_def bind_eq_Some_conv split: if_splits)
  then show ?thesis
    using length_dropWhile_le [of is_b64 r] by (auto simp: match_prefix_Some base64_marker_eq)
qed

lemma match_placeholder_length: "match_placeholder s = Some (mime, ds, rest) \<Longrightarrow> length rest < length s"
proof -
  assume "match_placeholder s = Some (mime, ds, rest)"
  then obtain r d where "match_prefix s = Some (mime, r)" "strip_prefix placeholder_name r = Some d"
    "rest = dropWhile is_digit d"
    by (auto simp: match_placeholder_def bind_eq_Some_conv split: if_splits)
  then show ?thesis
    using length_dropWhile_le [of is_digit d] by (auto simp: match_prefix_Some strip_prefix_Some base64_marker_eq)
qed

section \<open>The image round trip\<close>

function elide :: "nat \<Rightarrow> jstring \<Rightarrow> jstring \<times> jstring list" where
  "elide n [] = ([], [])"
| "elide n (c # s) =
     (case match_uri (c # s) of
        Some (mime, payload, rest) \<Rightarrow>
          (let (html, images) = elide (n + 1) rest
           in (uri_text mime (placeholder_name @ str_nat (n + 1)) @ html, uri_text mime payload # images))
      | None \<Rightarrow> (let (html, images) = elide n s in (c # html, images)))"
  by pat_completeness auto

termination
  by (relation "measure (\<lambda>(n, s). length s)") (auto dest: match_uri_length)

definition elideImages :: "jstring \<Rightarrow> jstring \<times> jstring list" where
  "elideImages html = elide 0 html"

definition lookup_image :: "jstring list \<Rightarrow> nat \<Rightarrow> jstring option" where
  "lookup_image images position =
     (if 1 \<le> position \<and> position \<le> length images then Some (images ! (position - 1)) else None)"

function restore :: "jstring list \<Rightarrow> jstring \<Rightarrow> jstring \<times> nat set \<times> nat" where
  "restore images [] = ([], {}, 0)"
| "restore images (c # s) =
     (case match_placeholder (c # s) of
        Some (mime, ds, rest) \<Rightarrow>
          (let (html, seen, unknown) = restore images rest
           in case lookup_image images (nat_of_digits ds) of
                None \<Rightarrow> (uri_text mime (placeholder_name @ ds) @ html, seen, unknown + 1)
              | Some original \<Rightarrow> (original @ html, insert (nat_of_digits ds) seen, unknown))
      | None \<Rightarrow> (let (html, seen, unknown) = restore images s in (c # html, seen, unknown)))"
  by pat_completeness auto

termination
  by (relation "measure (\<lambda>(images, s). length s)") (auto dest: match_placeholder_length)

definition countImages :: "nat \<Rightarrow> jstring" where
  "countImages n = (if n = 1 then js ''1 image'' else str_nat n @ js '' images'')"

definition restoreImages :: "jstring \<Rightarrow> jstring list \<Rightarrow> jstring \<times> jstring list" where
  "restoreImages html images =
     (let (restored, seen, unknown) = restore images html; dropped = length images - card seen
      in (restored,
          (if 0 < dropped
           then [countImages dropped @ js (if dropped = 1 then '' was'' else '' were'') @ js '' removed from the page.'']
           else []) @
          (if 0 < unknown
           then [js ''The result referenced '' @ countImages unknown @ js '' that isn't in your page.''] else [])))"

text \<open>
  Where no image starts, the elided text goes on character by character; the first character
  never changes. So a literal without the letter d, and a run of mime characters, are matched
  alike in a text and in its elided form, up to the next scheme.
\<close>

abbreviation elided :: "nat \<Rightarrow> jstring \<Rightarrow> jstring" where
  "elided n s \<equiv> fst (elide n s)"

lemma data_scheme_eq: "data_scheme = [100, 97, 116, 97, 58]"
  by (simp add: data_scheme_def js_def)

lemma placeholder_name_eq: "\<exists>p. placeholder_name = 77 # p"
  by (simp add: placeholder_name_def js_def)

lemma match_uri_text: "match_uri s = Some (mime, payload, rest) \<Longrightarrow>
   s = uri_text mime payload @ rest \<and> mime_ok mime \<and> payload \<noteq> [] \<and> is_b64 (hd payload)"
  by (auto simp: match_uri_def bind_eq_Some_conv match_prefix_Some uri_text_def takeWhile_eq_Nil_iff
      split: if_splits) (metis hd_in_set set_takeWhileD takeWhile_eq_Nil_iff)

lemma elided_step: "match_uri (c # s) = None \<Longrightarrow> elide n (c # s) = (c # elided n s, snd (elide n s))"
  by (simp add: elide.simps(2) split: prod.split)

lemma elided_uri:
  "match_uri (c # s) = Some (mime, payload, rest) \<Longrightarrow>
   elide n (c # s) =
     (uri_text mime (placeholder_name @ str_nat (n + 1)) @ elided (n + 1) rest, uri_text mime payload # snd (elide (n + 1) rest))"
  by (simp add: elide.simps(2) split: prod.split)

declare elide.simps(2) [simp del]

lemma match_uri_head: "c \<noteq> 100 \<Longrightarrow> match_uri (c # s) = None"
  by (auto simp: match_uri_def bind_eq_None_conv match_prefix_def strip_prefix_def startsWith_def data_scheme_eq)

lemma hd_elided: "elided n (c # t) = c # tl (elided n (c # t))"
proof (cases "match_uri (c # t)")
  case (Some p)
  obtain mime payload rest where "p = (mime, payload, rest)" by (cases p) auto
  with Some match_uri_text [of "c # t" mime payload rest] elided_uri [of c t mime payload rest n] show ?thesis
    by (auto simp: uri_text_def data_scheme_eq)
qed (simp add: elided_step)

lemma elided_literal:
  "100 \<notin> set p \<Longrightarrow> elided n s = p @ r \<Longrightarrow> \<exists>t. s = p @ t \<and> r = elided n t"
proof (induction p arbitrary: s)
  case (Cons x p)
  then obtain c t where s: "s = c # t" by (cases s) auto
  with hd_elided [of n c t] Cons.prems have "c = x" by (metis append_Cons list.inject)
  with Cons.prems s have "elided n t = p @ r" by (simp add: elided_step match_uri_head)
  with Cons.IH Cons.prems s \<open>c = x\<close> show ?case by simp
qed simp

lemma elided_mime:
  "takeWhile is_mime (elided n s) = takeWhile is_mime s \<and>
   (dropWhile is_mime (elided n s) = elided n (dropWhile is_mime s) \<or>
    (\<exists>u. dropWhile is_mime (elided n s) = 58 # u))"
proof (induction s arbitrary: n)
  case (Cons c s)
  show ?case
  proof (cases "match_uri (c # s)")
    case None
    then show ?thesis using Cons by (cases "is_mime c") (simp_all add: elided_step)
  next
    case (Some p)
    obtain mime payload rest where p: "p = (mime, payload, rest)" by (cases p) auto
    have d: "takeWhile is_mime (data_scheme @ x) = [100, 97, 116, 97] \<and> dropWhile is_mime (data_scheme @ x) = 58 # x" for x
      by (simp add: data_scheme_eq is_mime_def char_class_defs)
    from match_uri_text [OF Some [unfolded p]] elided_uri [OF Some [unfolded p], of n] d show ?thesis
      unfolding uri_text_def by (metis append.assoc fst_conv)
  qed
qed simp

lemma elided_run:
  assumes "elided n s = m @ x # r" "list_all is_mime m" "\<not> is_mime x" "x \<noteq> 58"
  shows "\<exists>t. s = m @ t \<and> x # r = elided n t"
proof -
  have "takeWhile is_mime (m @ x # r) = m" "dropWhile is_mime (m @ x # r) = x # r"
    using assms(2,3) by (auto simp: list_all_iff takeWhile_append dropWhile_append)
  then have "takeWhile is_mime s = m" "x # r = elided n (dropWhile is_mime s)"
    using elided_mime [of n s] assms by auto
  then show ?thesis using takeWhile_dropWhile_id [of is_mime s] by metis
qed

lemma elided_prefix:
  assumes "elided n s = [97, 116, 97, 58] @ mime @ base64_marker @ r" "mime_ok mime"
  shows "\<exists>t. s = [97, 116, 97, 58] @ mime @ base64_marker @ t \<and> r = elided n t"
proof -
  obtain m1 m2 where m: "mime = m1 @ [47] @ m2" "list_all is_mime m1" "list_all is_mime m2"
    using assms(2) by (auto simp: mime_ok_def)
  obtain t1 where t1: "s = [97, 116, 97, 58] @ t1" "elided n t1 = m1 @ 47 # m2 @ base64_marker @ r"
    using elided_literal [OF _ assms(1)] m by auto
  obtain t2 where t2: "t1 = m1 @ t2" "elided n t2 = [47] @ m2 @ base64_marker @ r"
    using elided_run [OF t1(2) m(2)] not_mime by auto
  obtain t3 where t3: "t2 = [47] @ t3" "elided n t3 = m2 @ 59 # tl base64_marker @ r"
    using elided_literal [OF _ t2(2)] by (auto simp: base64_marker_eq)
  obtain t4 where t4: "t3 = m2 @ t4" "elided n t4 = base64_marker @ r"
    using elided_run [OF t3(2) m(3)] not_mime by (auto simp: base64_marker_eq)
  obtain t5 where "t4 = base64_marker @ t5" "r = elided n t5"
    using elided_literal [OF _ t4(2)] by (auto simp: base64_marker_eq)
  with t1 t2 t3 t4 m show ?thesis by auto
qed

text \<open>So an elided text has no placeholder but those put for the images.\<close>

lemma no_new_placeholder:
  assumes "match_uri (c # t) = None"
  shows "match_placeholder (c # elided n t) = None"
proof (rule ccontr)
  assume "match_placeholder (c # elided n t) \<noteq> None"
  then obtain mime r d where r: "match_prefix (c # elided n t) = Some (mime, r)" "strip_prefix placeholder_name r = Some d"
    by (auto simp: match_placeholder_def bind_eq_Some_conv)
  then have "c = 100" "elided n t = [97, 116, 97, 58] @ mime @ base64_marker @ r" and mime: "mime_ok mime"
    by (auto simp: match_prefix_Some data_scheme_eq)
  then obtain u where u: "t = [97, 116, 97, 58] @ mime @ base64_marker @ u" "r = elided n u"
    using elided_prefix by blast
  obtain p where "elided n u = 77 # p" 
    using u(2) r(2) placeholder_name_eq by (metis append_Cons strip_prefix_Some)
  then have "u \<noteq> [] \<and> hd u = 77" using hd_elided [of n "hd u" "tl u"] by (cases u) auto
  then have "takeWhile is_b64 u \<noteq> []" by (cases u) (auto simp: is_b64_def char_class_defs)
  moreover have "match_prefix (c # t) = Some (mime, u)"
    using u mime \<open>c = 100\<close> by (simp add: match_prefix_Some data_scheme_eq)
  ultimately show False using assms by (simp add: match_uri_def)
qed

lemma match_uri_rest:
  "match_uri s = Some (mime, payload, rest) \<Longrightarrow> dropWhile is_digit (elided n rest) = elided n rest \<and> takeWhile is_digit (elided n rest) = []"
proof -
  assume "match_uri s = Some (mime, payload, rest)"
  then obtain r where "rest = dropWhile is_b64 r" by (auto simp: match_uri_def bind_eq_Some_conv split: if_splits)
  then have "rest = [] \<or> \<not> is_digit (hd rest)" using hd_dropWhile [of is_b64 r] by (auto simp: is_b64_def)
  then show ?thesis
  proof (cases rest)
    case (Cons c t)
    with \<open>rest = [] \<or> \<not> is_digit (hd rest)\<close> hd_elided [of n c t] show ?thesis
      by (metis dropWhile.simps(2) list.distinct(1) list.sel(1) takeWhile.simps(2))
  qed simp
qed

lemma match_own_placeholder:
  assumes "mime_ok mime" "takeWhile is_digit r = []" "dropWhile is_digit r = r"
  shows "match_placeholder (uri_text mime (placeholder_name @ str_nat k) @ r) = Some (mime, str_nat k, r)"
proof -
  let ?s = "uri_text mime (placeholder_name @ str_nat k) @ r"
  have "match_prefix ?s = Some (mime, placeholder_name @ str_nat k @ r)"
    using assms(1) by (simp add: match_prefix_Some uri_text_def)
  moreover have "strip_prefix placeholder_name (placeholder_name @ str_nat k @ r) = Some (str_nat k @ r)"
    by (simp add: strip_prefix_Some)
  moreover have "takeWhile is_digit (str_nat k @ r) = str_nat k" "dropWhile is_digit (str_nat k @ r) = r"
    using assms str_nat_digits [of k] by (auto simp: takeWhile_append dropWhile_append list_all_iff)
  ultimately show ?thesis by (simp add: match_placeholder_def)
qed

lemma restore_step: "match_placeholder (c # s) = None \<Longrightarrow>
   restore images (c # s) = (c # fst (restore images s), snd (restore images s))"
  by (simp split: prod.split)

lemma restore_own:
  assumes "match_placeholder s = Some (mime, ds, rest)" "lookup_image images (nat_of_digits ds) = Some original"
    "restore images rest = (html, seen, unknown)"
  shows "restore images s = (original @ html, insert (nat_of_digits ds) seen, unknown)"
proof (cases s)
  case Nil
  with assms show ?thesis by (simp add: match_placeholder_def match_prefix_def strip_prefix_def startsWith_def data_scheme_eq)
next
  case (Cons c t)
  with assms show ?thesis by simp
qed

declare restore.simps(2) [simp del]

lemma restore_elide:
  "length pre = n \<Longrightarrow> elide n s = (html, images) \<Longrightarrow>
   restore (pre @ images) html = (s, {n + 1 .. n + length images}, 0)"
proof (induction n s arbitrary: pre html images rule: elide.induct)
  case (2 n c s)
  show ?case
  proof (cases "match_uri (c # s)")
    case None
    obtain h where h: "html = c # h" "elide n s = (h, images)"
      using 2(4) elided_step [OF None, of n] by (metis prod.collapse prod.inject)
    then show ?thesis
      using 2(1) [OF None 2(3) h(2)] no_new_placeholder [OF None, of n] by (simp add: restore_step)
  next
    case (Some p)
    obtain mime payload rest where p: "p = (mime, payload, rest)" by (cases p) auto
    obtain h imgs where h: "elide (n + 1) rest = (h, imgs)" by fastforce
    let ?o = "uri_text mime payload"
    have e: "html = uri_text mime (placeholder_name @ str_nat (n + 1)) @ h" "images = ?o # imgs"
      using 2(4) elided_uri [OF Some [unfolded p], of n] h by auto
    have m: "match_placeholder html = Some (mime, str_nat (n + 1), h)"
      using match_own_placeholder match_uri_text [OF Some [unfolded p]] match_uri_rest [OF Some [unfolded p], of "n + 1"] h e
      by simp
    have "restore (pre @ images) h = (rest, {n + 2 .. n + 1 + length imgs}, 0)"
      using 2(2) [OF Some p [symmetric] refl _ h, of "pre @ [?o]"] 2(3) e by simp
    moreover have "lookup_image (pre @ images) (nat_of_digits (str_nat (n + 1))) = Some ?o"
      using 2(3) e by (simp add: lookup_image_def nth_append)
    ultimately have "restore (pre @ images) html = (?o @ rest, insert (n + 1) {n + 2 .. n + 1 + length imgs}, 0)"
      using restore_own [OF m] by simp
    moreover have "insert (n + 1) {n + 2 .. n + 1 + length imgs} = {n + 1 .. n + length images}" using e by auto
    ultimately show ?thesis using match_uri_text [OF Some [unfolded p]] by simp
  qed
qed simp

text \<open>
  C39. The image round trip is exact: restoring the images of a page into its elided text gives
  the page back, character for character, and warns about nothing. So an answer of the model
  that keeps the placeholders changes no image.
\<close>

theorem image_roundtrip: "restoreImages (fst (elideImages html)) (snd (elideImages html)) = (html, [])"
  using restore_elide [of "[]" 0 html] by (simp add: restoreImages_def elideImages_def)

end
