(* ===== verification/Page_Editor.thy ===== *)
theory Page_Editor
  imports Custom_Pages Proxy_Hosts
begin

text \<open>
  The custom page editor: the script check of \<^verbatim>\<open>components/custom-pages/script-check.ts\<close> and the
  handlers of \<^verbatim>\<open>custom-page-editor-view.tsx\<close>. The JavaScript parser of the browser
  (\<open>new Function\<close>) is a parameter \<open>compiles\<close>, which gives the message of the error it throws;
  \<open>read_page\<close> and \<open>read_assist\<close> read the fields of an answer of the backend. What other handlers
  do to the state while a request is under way is a parameter \<open>meanwhile\<close> of a handler.
\<close>

section \<open>Inline scripts\<close>

definition ascii_lower :: "nat \<Rightarrow> nat" where
  "ascii_lower c = (if is_upper_az c then c + 32 else c)"

definition starts_ci :: "jstring \<Rightarrow> jstring \<Rightarrow> bool" where
  "starts_ci s p \<longleftrightarrow> map ascii_lower (take (length p) s) = p"

definition script_open :: jstring where "script_open = js ''<script''"

definition script_close :: jstring where "script_close = js ''</script''"

text \<open>What follows the closing tag, where one starts here.\<close>

definition close_tag :: "jstring \<Rightarrow> jstring option" where
  "close_tag s =
     (if starts_ci s script_close
      then (case dropWhile is_ws (drop (length script_close) s) of
              c # rest \<Rightarrow> if c = 62 then Some rest else None
            | [] \<Rightarrow> None)
      else None)"

fun script_body :: "jstring \<Rightarrow> (jstring \<times> jstring) option" where
  "script_body [] = None"
| "script_body (c # s) =
     (case close_tag (c # s) of
        Some rest \<Rightarrow> Some ([], rest)
      | None \<Rightarrow> map_option (apfst ((#) c)) (script_body s))"

text \<open>A whole script element: the name of the tag ends at a word boundary.\<close>

definition match_script :: "jstring \<Rightarrow> (jstring \<times> jstring) option" where
  "match_script s =
     (let r = drop (length script_open) s
      in if starts_ci s script_open \<and> (case r of c # _ \<Rightarrow> \<not> is_word c | [] \<Rightarrow> True)
         then (case dropWhile (\<lambda>c. c \<noteq> 62) r of c # t \<Rightarrow> script_body t | [] \<Rightarrow> None)
         else None)"

lemma close_tag_length: "close_tag s = Some rest \<Longrightarrow> length rest < length s"
  using length_dropWhile_le [of is_ws "drop (length script_close) s"]
  by (auto simp: close_tag_def split: if_splits list.splits)

lemma script_body_length: "script_body s = Some (body, rest) \<Longrightarrow> length body + length rest < length s"
proof (induction s arbitrary: body)
  case (Cons c s)
  then show ?case using close_tag_length [of "c # s" rest] by (force split: option.splits)
qed simp

lemma match_script_length: "match_script s = Some (body, rest) \<Longrightarrow> length body + length rest < length s"
  using length_dropWhile_le [of "\<lambda>c. c \<noteq> 62" "drop (length script_open) s"]
  by (auto simp: match_script_def Let_def dest!: script_body_length split: if_splits list.splits)

function all_scripts :: "jstring \<Rightarrow> jstring list" where
  "all_scripts [] = []"
| "all_scripts (c # s) =
     (case match_script (c # s) of
        Some (body, rest) \<Rightarrow> body # all_scripts rest
      | None \<Rightarrow> all_scripts s)"
  by pat_completeness auto

termination
  by (relation "measure length") (auto dest: match_script_length)

definition extractScripts :: "jstring \<Rightarrow> jstring list" where
  "extractScripts html = filter (\<lambda>body. trim body \<noteq> []) (all_scripts html)"

record scriptProblem =
  sp_index :: nat
  sp_message :: jstring
  sp_source :: jstring

fun problems_from :: "(jstring \<Rightarrow> jstring option) \<Rightarrow> nat \<Rightarrow> jstring list \<Rightarrow> scriptProblem list" where
  "problems_from compiles i [] = []"
| "problems_from compiles i (source # ss) =
     (case compiles source of
        None \<Rightarrow> []
      | Some m \<Rightarrow> [\<lparr>sp_index = i + 1, sp_message = m, sp_source = trim source\<rparr>]) @
     problems_from compiles (i + 1) ss"

definition checkScripts :: "(jstring \<Rightarrow> jstring option) \<Rightarrow> jstring \<Rightarrow> scriptProblem list" where
  "checkScripts compiles html = problems_from compiles 0 (extractScripts html)"

lemma problems_from_Nil: "problems_from compiles i ss = [] \<longleftrightarrow> (\<forall>s \<in> set ss. compiles s = None)"
  by (induction ss arbitrary: i) (auto split: option.splits)

section \<open>The report of the problems\<close>

definition MAX_INSTRUCTION_CHARS :: nat where "MAX_INSTRUCTION_CHARS = 2000"

definition EXCERPT_CHARS :: nat where "EXCERPT_CHARS = 400"

definition excerpt :: "jstring \<Rightarrow> int \<Rightarrow> jstring \<times> bool" where
  "excerpt source budget =
     (let limit = nat (max 80 (min (int EXCERPT_CHARS) budget))
      in if length source \<le> limit then (source, False) else (take limit source, True))"

definition problems_header :: "nat \<Rightarrow> jstring" where
  "problems_header n =
     js ''The page has '' @ str_nat n @ js '' script(s) that will not parse. '' @
     js ''Fix the JavaScript and change nothing else.''"

definition shortened_note :: jstring where
  "shortened_note = 10 # js ''... (shortened; the full script is in the page)''"

definition problem_block :: "scriptProblem \<Rightarrow> int \<Rightarrow> nat \<Rightarrow> jstring option" where
  "problem_block p budget remaining =
     (let head = 10 # js ''Script '' @ str_nat (sp_index p) @ js '' - '' @ sp_message p;
          left = budget - int (length head)
      in if left < 80 then None
         else let (t, shortened) = excerpt (sp_source p) (left div int remaining)
              in Some (head @ [10] @ (if shortened then t @ shortened_note else t)))"

fun problem_blocks :: "scriptProblem list \<Rightarrow> int \<Rightarrow> jstring list" where
  "problem_blocks [] budget = []"
| "problem_blocks (p # ps) budget =
     (case problem_block p budget (length (p # ps)) of
        None \<Rightarrow> problem_blocks ps budget
      | Some block \<Rightarrow> block # problem_blocks ps (budget - int (length block)))"

definition describeScriptProblems :: "scriptProblem list \<Rightarrow> jstring" where
  "describeScriptProblems problems =
     (if problems = [] then []
      else let header = problems_header (length problems)
           in take MAX_INSTRUCTION_CHARS
                (join [10] (header # problem_blocks problems (int MAX_INSTRUCTION_CHARS - int (length header)))))"

lemma describeScriptProblems_bound: "length (describeScriptProblems ps) \<le> MAX_INSTRUCTION_CHARS"
  by (simp add: describeScriptProblems_def Let_def)

section \<open>The editor\<close>

record pageForm =
  pf_title :: jstring
  pf_description :: jstring
  pf_html :: jstring

record pageAssist =
  pa_html :: jstring
  pa_mode :: jstring
  pa_truncated :: "bool option"
  pa_changes :: "jval list option"

record lastEdit =
  ed_mode :: jstring
  ed_truncated :: bool
  ed_changes :: "jval list"

datatype pane = PaneHtml | PaneChanges

record editor =
  ed_form :: pageForm
  ed_savedForm :: pageForm
  ed_loading :: bool
  ed_loadError :: "jstring option"
  ed_error :: "jstring option"
  ed_saving :: bool
  ed_llmEnabled :: bool
  ed_htmlBeforeAi :: "jstring option"
  ed_lastEdit :: "lastEdit option"
  ed_pane :: pane
  ed_assisting :: bool
  ed_route :: "jstring option"
  ed_toasts :: "toast list"

text \<open>
  The form of a new page; \<open>starter\<close> is the text of \<open>STARTER_HTML\<close>. Loading a page asks for the
  settings too, and takes a failure of that as the assistant being off.
\<close>

definition NEW_FORM :: "jstring \<Rightarrow> pageForm" where
  "NEW_FORM starter = \<lparr>pf_title = [], pf_description = [], pf_html = starter\<rparr>"

definition openEditor :: "jstring \<Rightarrow> int option \<Rightarrow> editor" where
  "openEditor starter pageId =
     \<lparr>ed_form = NEW_FORM starter, ed_savedForm = NEW_FORM starter, ed_loading = (pageId \<noteq> None),
      ed_loadError = None, ed_error = None, ed_saving = False, ed_llmEnabled = False,
      ed_htmlBeforeAi = None, ed_lastEdit = None, ed_pane = PaneHtml, ed_assisting = False,
      ed_route = None, ed_toasts = []\<rparr>"

definition llm_enabled_of :: "thrown + jval \<Rightarrow> bool" where
  "llm_enabled_of r =
     (case r of
        Inl e \<Rightarrow> False
      | Inr v \<Rightarrow> (if v = Undef \<or> v = Null then False
                 else case get_prop v (js ''llm_enabled'') of Bool b \<Rightarrow> b | _ \<Rightarrow> False))"

definition loadPage ::
  "'w api_env \<Rightarrow> (jval \<Rightarrow> pageForm) \<Rightarrow> int option \<Rightarrow> editor \<Rightarrow> 'w \<Rightarrow> editor \<times> 'w" where
  "loadPage env read_page pageId st w =
     (case pageId of
        None \<Rightarrow>
          (let (settings, w1) = run_endpoint env (instanceSettings GetSettings) w
           in (st\<lparr>ed_llmEnabled := llm_enabled_of settings\<rparr>, w1))
      | Some i \<Rightarrow>
          (let (page, w1) = run_endpoint env (customPages (PageCrud (Get i))) w;
               (settings, w2) = run_endpoint env (instanceSettings GetSettings) w1
           in case page of
                Inr v \<Rightarrow>
                  (st\<lparr>ed_form := read_page v, ed_savedForm := read_page v, ed_loading := False,
                      ed_llmEnabled := llm_enabled_of settings, ed_loadError := None\<rparr>, w2)
              | Inl err \<Rightarrow>
                  (st\<lparr>ed_loading := False, ed_loadError := Some (de_message (describeError err))\<rparr>, w2)))"

definition patchHtml :: "jstring \<Rightarrow> editor \<Rightarrow> editor" where
  "patchHtml html st = st\<lparr>ed_form := (ed_form st)\<lparr>pf_html := html\<rparr>\<rparr>"

definition page_dirty :: "editor \<Rightarrow> bool" where
  "page_dirty st \<longleftrightarrow>
     pf_title (ed_form st) \<noteq> pf_title (ed_savedForm st) \<or>
     pf_description (ed_form st) \<noteq> pf_description (ed_savedForm st) \<or>
     pf_html (ed_form st) \<noteq> pf_html (ed_savedForm st)"

definition page_fail :: "thrown \<Rightarrow> editor \<Rightarrow> editor" where
  "page_fail err st =
     st\<lparr>ed_error := Some (de_message (describeError err)),
        ed_toasts := ed_toasts st @ [ToastError (de_message (describeError err))]\<rparr>"

definition page_body :: "pageForm \<Rightarrow> jval" where
  "page_body f =
     Obj [(js ''name'', Str (trim (pf_title f))), (js ''description'', Str (pf_description f)),
          (js ''html'', Str (pf_html f))]"

definition page_problem :: "pageForm \<Rightarrow> jstring option" where
  "page_problem f =
     (if trim (pf_title f) = [] then Some (js ''Enter a name for the page.'')
      else if isOverPageCap (pf_html f)
           then Some (js ''The document is '' @ formatBytes (htmlByteLength (pf_html f)) @
                      js ''; the maximum is '' @ formatBytes MAX_PAGE_BYTES @ js ''.'')
      else None)"

definition handlePageSave ::
  "'w api_env \<Rightarrow> (jval \<Rightarrow> pageForm) \<Rightarrow> int option \<Rightarrow> editor \<Rightarrow> 'w \<Rightarrow> editor \<times> 'w" where
  "handlePageSave env read_page pageId st w =
     (case page_problem (ed_form st) of
        Some m \<Rightarrow> (st\<lparr>ed_error := Some m\<rparr>, w)
      | None \<Rightarrow>
          (let st1 = st\<lparr>ed_error := None, ed_saving := False\<rparr>
           in case pageId of
                None \<Rightarrow>
                  (case run_endpoint env (customPages (PageCrud (Create (page_body (ed_form st))))) w of
                     (Inl err, w') \<Rightarrow> (page_fail err st1, w')
                   | (Inr created, w') \<Rightarrow>
                       (let st2 = st1\<lparr>ed_toasts := ed_toasts st @ [ToastSuccess (js ''Page created'')]\<rparr>
                        in case member created (js ''id'') of
                             Inl err \<Rightarrow> (page_fail err st2, w')
                           | Inr i \<Rightarrow> (st2\<lparr>ed_route := Some (js ''/custom-pages/'' @ js_String i)\<rparr>, w')))
              | Some i \<Rightarrow>
                  (case run_endpoint env (customPages (PageCrud (Update i (page_body (ed_form st))))) w of
                     (Inl err, w') \<Rightarrow> (page_fail err st1, w')
                   | (Inr updated, w') \<Rightarrow>
                       (st1\<lparr>ed_savedForm := read_page updated,
                            ed_toasts := ed_toasts st @ [ToastSuccess (js ''Page saved'')]\<rparr>, w'))))"

section \<open>The assistant\<close>

definition assist_body :: "jstring \<Rightarrow> jstring \<Rightarrow> jval" where
  "assist_body instruction html = Obj [(js ''instruction'', Str instruction), (js ''html'', Str html)]"

definition ask_model ::
  "'w api_env \<Rightarrow> (jval \<Rightarrow> pageAssist) \<Rightarrow> jstring \<Rightarrow> jstring \<Rightarrow> ('w, pageAssist) io" where
  "ask_model env read_assist instruction html w =
     (case run_endpoint env (customPages (Assist (assist_body instruction html))) w of
        (Inl err, w') \<Rightarrow> (Inl err, w')
      | (Inr v, w') \<Rightarrow> (Inr (read_assist v), w'))"

definition still_broken :: jstring where
  "still_broken =
     js ''The page still has a script that will not parse '' @ [8212] @ js '' check it before saving.''"

text \<open>
  The two requests of an edit: the edit itself and, where a script of the result does not parse,
  one repair. The result is the restored document with its warnings, the answer it came from and
  the warning toasted on the way.
\<close>

definition assist_rounds ::
  "'w api_env \<Rightarrow> (jval \<Rightarrow> pageAssist) \<Rightarrow> (jstring \<Rightarrow> jstring option) \<Rightarrow> jstring \<Rightarrow> jstring \<Rightarrow>
   ('w, (jstring \<times> jstring list) \<times> pageAssist \<times> toast list) io" where
  "assist_rounds env read_assist compiles instruction html w =
     (let (elided_html, images) = elideImages html
      in case ask_model env read_assist instruction elided_html w of
           (Inl err, w1) \<Rightarrow> (Inl err, w1)
         | (Inr result, w1) \<Rightarrow>
             (let restored = restoreImages (pa_html result) images;
                  problems = checkScripts compiles (fst restored)
              in if problems = [] then (Inr (restored, result, []), w1)
                 else case ask_model env read_assist (describeScriptProblems problems)
                             (fst (elideImages (fst restored))) w1 of
                        (Inl err, w2) \<Rightarrow> (Inl err, w2)
                      | (Inr repair, w2) \<Rightarrow>
                          (let repaired = restoreImages (pa_html repair) images
                           in if checkScripts compiles (fst repaired) = []
                              then (Inr (repaired, repair, []), w2)
                              else (Inr (restored, result, [ToastWarning still_broken]), w2))))"

definition too_large :: "jstring \<Rightarrow> jstring" where
  "too_large elided_html =
     js ''This page is too large for AI editing '' @ [8212] @ js '' '' @ formatBytes (htmlByteLength elided_html) @
     js '' without its images, against a limit of '' @ formatBytes MAX_ASSIST_BYTES @ js ''.''"

definition handleAssist ::
  "'w api_env \<Rightarrow> (jval \<Rightarrow> pageAssist) \<Rightarrow> (jstring \<Rightarrow> jstring option) \<Rightarrow> bool \<Rightarrow> (editor \<Rightarrow> editor) \<Rightarrow>
   jstring \<Rightarrow> editor \<Rightarrow> 'w \<Rightarrow> (bool \<times> editor) \<times> 'w" where
  "handleAssist env read_assist compiles aborted meanwhile instruction st w =
     (let html = pf_html (ed_form st); elided_html = fst (elideImages html)
      in if isOverAssistCap elided_html then ((False, st\<lparr>ed_error := Some (too_large elided_html)\<rparr>), w)
         else
           let st1 = meanwhile (st\<lparr>ed_error := None, ed_assisting := True\<rparr>)
           in case assist_rounds env read_assist compiles instruction html w of
                (Inl err, w') \<Rightarrow>
                  ((False, (if aborted then st1 else page_fail err st1)\<lparr>ed_assisting := False\<rparr>), w')
              | (Inr (restored, edit, toasts), w') \<Rightarrow>
                  ((True,
                    (patchHtml (fst restored) st1)
                      \<lparr>ed_htmlBeforeAi := Some html,
                       ed_lastEdit := Some \<lparr>ed_mode = pa_mode edit,
                                            ed_truncated = or_default (pa_truncated edit) False,
                                            ed_changes = or_default (pa_changes edit) []\<rparr>,
                       ed_pane := PaneChanges, ed_assisting := False,
                       ed_toasts := ed_toasts st1 @ toasts @ map ToastWarning (snd restored) @
                                    [ToastSuccess (js ''Page updated'')]\<rparr>), w'))"

definition handleCancelAssist :: "editor \<Rightarrow> editor" where
  "handleCancelAssist st = st\<lparr>ed_assisting := False\<rparr>"

definition handleRevertAi :: "editor \<Rightarrow> editor" where
  "handleRevertAi st =
     (case ed_htmlBeforeAi st of
        None \<Rightarrow> st
      | Some html \<Rightarrow>
          (patchHtml html st)\<lparr>ed_htmlBeforeAi := None, ed_lastEdit := None, ed_pane := PaneHtml\<rparr>)"

definition dismissChanges :: "editor \<Rightarrow> editor" where
  "dismissChanges st = st\<lparr>ed_lastEdit := None, ed_pane := PaneHtml\<rparr>"

text \<open>
  An image picked from disk: the warning, and the tag that is inserted at the cursor. The file
  reader gives the data URI, or nothing where the file could not be read.
\<close>

definition handlePickImage :: "jstring \<Rightarrow> nat \<Rightarrow> jstring option \<Rightarrow> toast list \<times> jstring option" where
  "handlePickImage name bytes content =
     ((case describeImageSize bytes of None \<Rightarrow> [] | Some m \<Rightarrow> [ToastWarning m]) @
      (if content = None then [ToastError (js ''Couldn't read that file.'')] else []),
      (case content of Some uri \<Rightarrow> if uri = [] then None else Some (imgTagFor name uri) | None \<Rightarrow> None))"

section \<open>What an edit does\<close>

lemma restore_untouched: "restoreImages (fst (elideImages html)) (snd (elideImages html)) = (html, [])"
  using restore_elide [of "[]" 0 html] by (simp add: restoreImages_def elideImages_def)

lemma assist_rounds_scripts:
  "assist_rounds env read_assist compiles instruction html w = (Inr (restored, edit, toasts), w') \<Longrightarrow>
   checkScripts compiles (fst restored) = [] \<or> ToastWarning still_broken \<in> set toasts"
  by (auto simp: assist_rounds_def Let_def split: prod.splits sum.splits if_splits)

lemma assist_rounds_unchanged:
  "ask_model env read_assist instruction (fst (elideImages html)) w = (Inr result, w1) \<Longrightarrow>
   pa_html result = fst (elideImages html) \<Longrightarrow> checkScripts compiles html = [] \<Longrightarrow>
   assist_rounds env read_assist compiles instruction html w = (Inr ((html, []), result, []), w1)"
  using restore_untouched [of html] by (cases "elideImages html") (simp add: assist_rounds_def)

text \<open>
  C40. An edit by the assistant. A page that is too large without its images is refused before
  anything is sent. Otherwise, when the handler reports a change, only the HTML of the form as it
  stands at that moment is replaced, by a page whose scripts all parse or with a warning that one
  does not, and reverting gives the HTML from when the edit was asked for; when it reports none,
  the form is what the operator made of it meanwhile, and a cancelled request shows no error. An
  answer that hands the page back unchanged leaves the HTML as it was, images included.
\<close>

theorem assist_outcome:
  fixes st :: editor and meanwhile :: "editor \<Rightarrow> editor"
  defines "html \<equiv> pf_html (ed_form st)"
  defines "st1 \<equiv> meanwhile (st\<lparr>ed_error := None, ed_assisting := True\<rparr>)"
  shows
  "case handleAssist env read_assist compiles aborted meanwhile instruction st w of
     ((changed, st'), w') \<Rightarrow>
       (if isOverAssistCap (fst (elideImages html))
        then \<not> changed \<and> w' = w \<and> ed_form st' = ed_form st \<and> ed_error st' \<noteq> None
        else
          \<not> ed_assisting st' \<and>
          (if changed
           then ed_form st' = (ed_form st1)\<lparr>pf_html := pf_html (ed_form st')\<rparr> \<and>
                ed_form (handleRevertAi st') = (ed_form st1)\<lparr>pf_html := html\<rparr> \<and>
                (if checkScripts compiles (pf_html (ed_form st')) \<noteq> []
                 then ToastWarning still_broken \<in> set (ed_toasts st') else True)
           else ed_form st' = ed_form st1 \<and> ed_htmlBeforeAi st' = ed_htmlBeforeAi st1 \<and>
                (if aborted then ed_error st' = ed_error st1 else ed_error st' \<noteq> None)) \<and>
          (case ask_model env read_assist instruction (fst (elideImages html)) w of
             (Inr result, w1) \<Rightarrow>
               (if pa_html result = fst (elideImages html) \<and> checkScripts compiles html = []
                then changed \<and> pf_html (ed_form st') = html \<and> w' = w1 else True)
           | (Inl err, w1) \<Rightarrow> \<not> changed \<and> w' = w1))"
proof (cases "isOverAssistCap (fst (elideImages html))")
  case True
  then show ?thesis by (simp add: handleAssist_def html_def Let_def)
next
  case False
  obtain r w2 where r: "assist_rounds env read_assist compiles instruction html w = (r, w2)" by fastforce
  obtain a w1 where a: "ask_model env read_assist instruction (fst (elideImages html)) w = (a, w1)" by fastforce
  show ?thesis
  proof (cases r)
    case (Inl err)
    have "\<not> (\<exists>result. a = Inr result \<and> pa_html result = fst (elideImages html) \<and> checkScripts compiles html = [])"
      using assist_rounds_unchanged [of env read_assist instruction html w _ w1 compiles] a r Inl by auto
    moreover have "a = Inl e \<Longrightarrow> w2 = w1" for e
      using a r Inl by (auto simp: assist_rounds_def Let_def split: prod.splits)
    ultimately show ?thesis
      using False r a Inl
      by (auto simp: handleAssist_def html_def st1_def Let_def page_fail_def split: sum.splits)
  next
    case (Inr x)
    obtain restored edit toasts where x: "x = (restored, edit, toasts)" by (cases x) auto
    have "checkScripts compiles (fst restored) = [] \<or> ToastWarning still_broken \<in> set toasts"
      using assist_rounds_scripts [of env read_assist compiles instruction html w] r Inr x by simp
    moreover have "pa_html result = fst (elideImages html) \<Longrightarrow> checkScripts compiles html = [] \<Longrightarrow>
        a = Inr result \<Longrightarrow> fst restored = html \<and> w2 = w1" for result
      using assist_rounds_unchanged [of env read_assist instruction html w result w1 compiles] a r Inr x by auto
    moreover have "\<exists>result. a = Inr result"
      using a r Inr by (cases a) (auto simp: assist_rounds_def Let_def split: prod.splits)
    ultimately show ?thesis
      using False r a Inr x
      by (auto simp: handleAssist_def html_def st1_def Let_def patchHtml_def handleRevertAi_def split: sum.splits)
  qed
qed

text \<open>
  The repair round numbers the images anew, but restores with the numbering of the first round:
  where the edit dropped the first of two images, a repair that hands its input back unchanged
  puts the dropped image in the place of the one that was kept.
\<close>

lemma repair_swaps_image:
  fixes a b :: jstring
  defines "a \<equiv> js ''data:image/png;base64,AAAA''" and "b \<equiv> js ''data:image/png;base64,BBBB''"
  shows "fst (restoreImages (js ''data:image/png;base64,MEGOOPM_IMAGE_2'') (snd (elideImages (a @ [32] @ b)))) = b"
    and "fst (restoreImages (fst (elideImages b)) (snd (elideImages (a @ [32] @ b)))) = a"
  unfolding a_def b_def by code_simp+

end
