(* ===== verification/Backups.thy ===== *)
theory Backups
  imports Certificates
begin

text \<open>
  Backups: \<^verbatim>\<open>components/backups\<close>. The page loads the list, the settings and the state of a restore
  separately, and shows nothing but the restore while one runs. The schedule card is a component of
  its own: React runs its initial state once, when the card is mounted, so the model keeps the
  card's state with the page and mounts it where the page is rendered with none.
  \<open>read_list\<close>, \<open>read_settings\<close> and \<open>read_status\<close> read the fields of an answer.
\<close>

section \<open>Labels\<close>

text \<open>The unit is the largest whose value is at least one, terabytes at most.\<close>

fun format_units :: "nat \<Rightarrow> nat \<Rightarrow> string \<Rightarrow> string list \<Rightarrow> jstring" where
  "format_units bytes den unit [] = toFixed1 bytes den @ js '' '' @ js unit"
| "format_units bytes den unit (u # us) =
     (if 1024 * den \<le> bytes then format_units bytes (1024 * den) u us
      else if den = 1 then str_nat bytes @ js '' B'' else toFixed1 bytes den @ js '' '' @ js unit)"

definition backupSize :: "nat \<Rightarrow> jstring" where
  "backupSize bytes = format_units bytes 1 ''B'' [''KB'', ''MB'', ''GB'', ''TB'']"

definition triggerLabel :: "jstring \<Rightarrow> jstring" where
  "triggerLabel trigger =
     (if trigger = js ''auto'' then js ''Automatic''
      else if trigger = js ''upload'' then js ''Uploaded'' else js ''Manual'')"

section \<open>The schedule card\<close>

datatype frequency = Off | Daily | Weekly

primrec frequency_name :: "frequency \<Rightarrow> jstring" where
  "frequency_name Off = js ''off''"
| "frequency_name Daily = js ''daily''"
| "frequency_name Weekly = js ''weekly''"

record backupSettings =
  bs_frequency :: frequency
  bs_hour_utc :: int
  bs_weekday :: int
  bs_keep :: int

definition mountSchedule :: "backupSettings option \<Rightarrow> backupSettings" where
  "mountSchedule settings =
     (case settings of
        Some s \<Rightarrow> s
      | None \<Rightarrow> \<lparr>bs_frequency = Off, bs_hour_utc = 3, bs_weekday = 6, bs_keep = 7\<rparr>)"

definition schedule_body :: "backupSettings \<Rightarrow> jval" where
  "schedule_body c =
     Obj [(js ''frequency'', Str (frequency_name (bs_frequency c))), (js ''hour_utc'', Number (bs_hour_utc c)),
          (js ''weekday'', Number (bs_weekday c)), (js ''keep'', Number (bs_keep c))]"

section \<open>The page\<close>

record backup =
  bk_name :: jstring
  bk_key_matches :: bool

record restoreStatus =
  rs_running :: bool
  rs_step :: "jstring option"
  rs_error :: "jstring option"

record backupsView =
  bv_items :: "backup list"
  bv_freeBytes :: "nat option"
  bv_settings :: "backupSettings option"
  bv_restore :: "restoreStatus option"
  bv_loading :: bool
  bv_error :: "jstring option"
  bv_busy :: bool
  bv_pendingDelete :: "backup option"
  bv_pendingRestore :: "backup option"
  bv_schedule :: "backupSettings option"
  bv_toasts :: "toast list"

definition restore_running :: "backupsView \<Rightarrow> bool" where
  "restore_running s = (case bv_restore s of Some r \<Rightarrow> rs_running r | None \<Rightarrow> False)"

text \<open>Rendering: the blocker replaces the page, otherwise the card is mounted where it is not yet.\<close>

definition render :: "backupsView \<Rightarrow> backupsView" where
  "render s =
     s\<lparr>bv_schedule :=
         (if restore_running s then None
          else Some (case bv_schedule s of Some c \<Rightarrow> c | None \<Rightarrow> mountSchedule (bv_settings s)))\<rparr>"

definition openBackups :: backupsView where
  "openBackups =
     render \<lparr>bv_items = [], bv_freeBytes = None, bv_settings = None, bv_restore = None, bv_loading = True,
             bv_error = None, bv_busy = False, bv_pendingDelete = None, bv_pendingRestore = None,
             bv_schedule = None, bv_toasts = []\<rparr>"

text \<open>A client operation; a name that cannot be encoded throws before anything is sent.\<close>

definition run_backups :: "'w api_env \<Rightarrow> backupsOp \<Rightarrow> ('w, jval) io" where
  "run_backups env oper w =
     (case backups oper of
        Some e \<Rightarrow> run_endpoint env e w
      | None \<Rightarrow> (Inl (ThrownError (js ''URI malformed'')), w))"

record wire =
  read_list :: "jval \<Rightarrow> backup list \<times> nat"
  read_settings :: "jval \<Rightarrow> backupSettings"
  read_status :: "jval \<Rightarrow> restoreStatus"

definition settle_load ::
  "wire \<Rightarrow> thrown + jval \<Rightarrow> thrown + jval \<Rightarrow> thrown + jval \<Rightarrow> backupsView \<Rightarrow> backupsView" where
  "settle_load rd listed stored status s =
     (let s1 = (case listed of
                  Inr v \<Rightarrow> s\<lparr>bv_items := fst (read_list rd v), bv_freeBytes := Some (snd (read_list rd v)), bv_error := None\<rparr>
                | Inl e \<Rightarrow> s\<lparr>bv_error := Some (de_message (describeError e))\<rparr>);
          s2 = (case stored of Inr v \<Rightarrow> s1\<lparr>bv_settings := Some (read_settings rd v)\<rparr> | Inl e \<Rightarrow> s1);
          s3 = (case status of Inr v \<Rightarrow> s2\<lparr>bv_restore := Some (read_status rd v)\<rparr> | Inl e \<Rightarrow> s2)
      in s3\<lparr>bv_loading := False\<rparr>)"

definition loadBackups :: "'w api_env \<Rightarrow> wire \<Rightarrow> backupsView \<Rightarrow> 'w \<Rightarrow> backupsView \<times> 'w" where
  "loadBackups env rd s w =
     (let (listed, w1) = run_backups env BackupList w;
          (stored, w2) = run_endpoint env (instanceSettings GetSettings) w1;
          (status, w3) = run_backups env RestoreStatus w2
      in (render (settle_load rd listed stored status s), w3))"

definition toasted :: "toast \<Rightarrow> backupsView \<Rightarrow> backupsView" where
  "toasted t s = s\<lparr>bv_toasts := bv_toasts s @ [t]\<rparr>"

definition takeBackup :: "'w api_env \<Rightarrow> backupsView \<Rightarrow> 'w \<Rightarrow> backupsView \<times> 'w" where
  "takeBackup env s w =
     (case run_backups env BackupCreate w of
        (Inr v, w') \<Rightarrow> (toasted (ToastSuccess (js ''Backup started'')) (s\<lparr>bv_busy := False\<rparr>), w')
      | (Inl e, w') \<Rightarrow> (toasted (ToastError (de_message (describeError e))) (s\<lparr>bv_busy := False\<rparr>), w'))"

definition confirmDelete :: "'w api_env \<Rightarrow> wire \<Rightarrow> backupsView \<Rightarrow> 'w \<Rightarrow> backupsView \<times> 'w" where
  "confirmDelete env rd s w =
     (case bv_pendingDelete s of
        None \<Rightarrow> (s, w)
      | Some target \<Rightarrow>
          (let s1 = s\<lparr>bv_pendingDelete := None\<rparr>
           in case run_backups env (BackupRemove (bk_name target)) w of
                (Inr v, w') \<Rightarrow> loadBackups env rd (toasted (ToastSuccess (js ''Backup deleted'')) s1) w'
              | (Inl e, w') \<Rightarrow> (toasted (ToastError (de_message (describeError e))) s1, w')))"

text \<open>The restore button of a row opens the dialog, whose own button needs the typed host name.\<close>

definition pickRestore :: "backup \<Rightarrow> backupsView \<Rightarrow> backupsView" where
  "pickRestore b s =
     (if \<not> bk_key_matches b \<or> restore_running s then s else s\<lparr>bv_pendingRestore := Some b\<rparr>)"

definition startRestore ::
  "'w api_env \<Rightarrow> wire \<Rightarrow> jstring \<Rightarrow> jstring \<Rightarrow> backupsView \<Rightarrow> 'w \<Rightarrow> backupsView \<times> 'w" where
  "startRestore env rd hostname typed s w =
     (case bv_pendingRestore s of
        None \<Rightarrow> (s, w)
      | Some b \<Rightarrow>
          if trim typed \<noteq> hostname then (s, w)
          else (case run_backups env (Restore (bk_name b)) w of
                  (Inr v, w') \<Rightarrow>
                    loadBackups env rd (toasted (ToastSuccess (js ''Restore started'')) (s\<lparr>bv_pendingRestore := None\<rparr>)) w'
                | (Inl e, w') \<Rightarrow> (toasted (ToastError (de_message (describeError e))) s, w')))"

definition editSchedule :: "(backupSettings \<Rightarrow> backupSettings) \<Rightarrow> backupsView \<Rightarrow> backupsView" where
  "editSchedule g s = s\<lparr>bv_schedule := map_option g (bv_schedule s)\<rparr>"

definition saveSchedule :: "'w api_env \<Rightarrow> wire \<Rightarrow> backupsView \<Rightarrow> 'w \<Rightarrow> backupsView \<times> 'w" where
  "saveSchedule env rd s w =
     (case bv_schedule s of
        None \<Rightarrow> (s, w)
      | Some c \<Rightarrow>
          (case run_endpoint env (instanceSettings (UpdateBackups (schedule_body c))) w of
             (Inr v, w') \<Rightarrow>
               (toasted (ToastSuccess (js ''Backup schedule saved'')) (s\<lparr>bv_settings := Some (read_settings rd v)\<rparr>), w')
           | (Inl e, w') \<Rightarrow> (toasted (ToastError (de_message (describeError e))) s, w')))"

text \<open>While a restore runs the page is replaced, so only the polling and the event stream act on it.\<close>

datatype backupsEvent =
    Reload
  | TakeBackup
  | PickDelete backup
  | CancelDelete
  | ConfirmDelete
  | PickRestore backup
  | CancelRestore
  | StartRestore jstring
  | SetFrequency frequency
  | SetHour int
  | SetWeekday int
  | SetKeep int
  | SaveSchedule

fun backups_step ::
  "'w api_env \<Rightarrow> wire \<Rightarrow> jstring \<Rightarrow> backupsView \<times> 'w \<Rightarrow> backupsEvent \<Rightarrow> backupsView \<times> 'w" where
  "backups_step env rd hostname (s, w) e =
     (if e = Reload then loadBackups env rd s w
      else if restore_running s then (s, w)
      else case e of
             Reload \<Rightarrow> (s, w)
           | TakeBackup \<Rightarrow> takeBackup env s w
           | PickDelete b \<Rightarrow> (s\<lparr>bv_pendingDelete := Some b\<rparr>, w)
           | CancelDelete \<Rightarrow> (s\<lparr>bv_pendingDelete := None\<rparr>, w)
           | ConfirmDelete \<Rightarrow> confirmDelete env rd s w
           | PickRestore b \<Rightarrow> (pickRestore b s, w)
           | CancelRestore \<Rightarrow> (s\<lparr>bv_pendingRestore := None\<rparr>, w)
           | StartRestore typed \<Rightarrow> startRestore env rd hostname typed s w
           | SetFrequency f \<Rightarrow> (editSchedule (\<lambda>c. c\<lparr>bs_frequency := f\<rparr>) s, w)
           | SetHour h \<Rightarrow> (editSchedule (\<lambda>c. c\<lparr>bs_hour_utc := h\<rparr>) s, w)
           | SetWeekday d \<Rightarrow> (editSchedule (\<lambda>c. c\<lparr>bs_weekday := d\<rparr>) s, w)
           | SetKeep k \<Rightarrow> (editSchedule (\<lambda>c. c\<lparr>bs_keep := k\<rparr>) s, w)
           | SaveSchedule \<Rightarrow> saveSchedule env rd s w)"

section \<open>The restore screen\<close>

record restoreBlocker =
  rb_status :: "restoreStatus option"
  rb_wasRunning :: bool

definition openBlocker :: restoreBlocker where
  "openBlocker = \<lparr>rb_status = None, rb_wasRunning = False\<rparr>"

definition pollRestore :: "wire \<Rightarrow> restoreBlocker \<Rightarrow> thrown + jval \<Rightarrow> restoreBlocker" where
  "pollRestore rd s r =
     (case r of
        Inl e \<Rightarrow> s
      | Inr v \<Rightarrow>
          s\<lparr>rb_status := Some (read_status rd v),
            rb_wasRunning := (rb_wasRunning s \<or> rs_running (read_status rd v))\<rparr>)"

definition blocker_running :: "restoreBlocker \<Rightarrow> bool" where
  "blocker_running s = (case rb_status s of Some r \<Rightarrow> rs_running r | None \<Rightarrow> False)"

definition blocker_finished :: "restoreBlocker \<Rightarrow> bool" where
  "blocker_finished s =
     (rb_wasRunning s \<and> (case rb_status s of Some r \<Rightarrow> \<not> rs_running r | None \<Rightarrow> False))"

section \<open>Properties\<close>

definition view_ok :: "backupsView \<Rightarrow> bool" where
  "view_ok s \<longleftrightarrow>
     (bv_schedule s = None \<longleftrightarrow> restore_running s) \<and>
     (case bv_pendingRestore s of Some b \<Rightarrow> bk_key_matches b | None \<Rightarrow> True)"

lemma restore_running_render [simp]: "restore_running (render s) = restore_running s"
  by (simp add: render_def restore_running_def)

text \<open>Loading settles its three parts one by one; an answer that failed leaves its part as it was.\<close>

lemma settle_load_parts:
  "\<not> bv_loading (settle_load rd listed stored status s)"
  "bv_pendingRestore (settle_load rd listed stored status s) = bv_pendingRestore s"
  "bv_schedule (settle_load rd listed stored status s) = bv_schedule s"
  "bv_items (settle_load rd listed stored status s) =
     (case listed of Inr v \<Rightarrow> fst (read_list rd v) | Inl e \<Rightarrow> bv_items s)"
  "bv_settings (settle_load rd listed stored status s) =
     (case stored of Inr v \<Rightarrow> Some (read_settings rd v) | Inl e \<Rightarrow> bv_settings s)"
  "bv_restore (settle_load rd listed stored status s) =
     (case status of Inr v \<Rightarrow> Some (read_status rd v) | Inl e \<Rightarrow> bv_restore s)"
  by (cases listed; cases stored; cases status; simp add: settle_load_def)+

lemma render_parts [simp]:
  "bv_loading (render s) = bv_loading s" "bv_pendingRestore (render s) = bv_pendingRestore s"
  "bv_items (render s) = bv_items s" "bv_settings (render s) = bv_settings s" "bv_restore (render s) = bv_restore s"
  by (simp_all add: render_def)

lemma schedule_render:
  "bv_schedule (render s) =
     (if restore_running s then None
      else Some (case bv_schedule s of Some c \<Rightarrow> c | None \<Rightarrow> mountSchedule (bv_settings s)))"
  by (simp add: render_def)

lemma loadBackups_cases:
  obtains s' where "fst (loadBackups env rd s w) = render s'"
    "bv_pendingRestore s' = bv_pendingRestore s" "bv_schedule s' = bv_schedule s"
proof (rule that)
  let ?l = "run_backups env BackupList w"
  let ?st = "run_endpoint env (instanceSettings GetSettings) (snd ?l)"
  let ?r = "run_backups env RestoreStatus (snd ?st)"
  let ?s = "settle_load rd (fst ?l) (fst ?st) (fst ?r) s"
  show "fst (loadBackups env rd s w) = render ?s"
    by (simp add: loadBackups_def split: prod.split)
  show "bv_pendingRestore ?s = bv_pendingRestore s" "bv_schedule ?s = bv_schedule s"
    by (simp_all add: settle_load_parts)
qed

lemma load_ok: "view_ok s \<Longrightarrow> view_ok (fst (loadBackups env rd s w))"
proof -
  assume "view_ok s"
  obtain s' where "fst (loadBackups env rd s w) = render s'" "bv_pendingRestore s' = bv_pendingRestore s"
    by (rule loadBackups_cases)
  with \<open>view_ok s\<close> show ?thesis by (simp add: view_ok_def) (simp add: render_def)
qed

lemma toasted_ok [simp]: "view_ok (toasted t s) = view_ok s"
  by (simp add: view_ok_def toasted_def restore_running_def)

lemma updates_ok:
  "view_ok s \<Longrightarrow> view_ok (s\<lparr>bv_pendingDelete := p\<rparr>)"
  "view_ok s \<Longrightarrow> view_ok (s\<lparr>bv_pendingRestore := None\<rparr>)"
  "view_ok s \<Longrightarrow> view_ok (s\<lparr>bv_busy := b\<rparr>)"
  "view_ok s \<Longrightarrow> view_ok (s\<lparr>bv_settings := x\<rparr>)"
  "view_ok s \<Longrightarrow> view_ok (editSchedule g s)"
  "view_ok s \<Longrightarrow> view_ok (pickRestore b' s)"
  by (auto simp: view_ok_def restore_running_def editSchedule_def pickRestore_def split: option.splits)

lemma handlers_ok:
  assumes "view_ok s"
  shows "view_ok (fst (takeBackup env s w))" "view_ok (fst (confirmDelete env rd s w))"
    "view_ok (fst (startRestore env rd hostname typed s w))" "view_ok (fst (saveSchedule env rd s w))"
  using assms
  by (simp_all add: takeBackup_def confirmDelete_def startRestore_def saveSchedule_def Let_def updates_ok load_ok
      split: option.split prod.split sum.split)

interpretation backups_page: machine "backups_step env rd hostname" "\<lambda>sw. view_ok (fst sw)" for env rd hostname
proof
  show "view_ok (fst sw) \<Longrightarrow> view_ok (fst (backups_step env rd hostname sw e))" for sw :: "backupsView \<times> 'a" and e
    by (cases sw; cases e) (simp_all add: load_ok updates_ok handlers_ok)
qed

lemma openBackups_ok: "view_ok openBackups"
  by (simp add: view_ok_def openBackups_def) (simp add: render_def restore_running_def)

text \<open>
  C21. The backups page. In every order of events the page is replaced exactly while a restore runs,
  and a restore can be picked only for a backup whose key matches; it is requested only once the
  typed name is that of the host. The parts of a load settle one by one: a list that cannot be
  loaded keeps the rows and still lets the state of a restore through. The schedule card, however,
  is mounted before the settings arrive and never takes them over: after the first load it still
  holds its defaults, and saving it sends them, which turns a stored schedule off.
\<close>

theorem backups_page_behaviour:
  "(case foldl (backups_step env rd hostname) (openBackups, w0) es of
      (s, w) \<Rightarrow>
        (bv_schedule s = None \<longleftrightarrow> restore_running s) \<and>
        (case bv_pendingRestore s of Some b \<Rightarrow> bk_key_matches b | None \<Rightarrow> True) \<and>
        (if trim typed = hostname then True else backups_step env rd hostname (s, w) (StartRestore typed) = (s, w))) \<and>
   (case run_backups env BackupList w of
      (listed, w1) \<Rightarrow>
        (case run_endpoint env (instanceSettings GetSettings) w1 of
           (stored, w2) \<Rightarrow>
             (case run_backups env RestoreStatus w2 of
                (status, w3) \<Rightarrow>
                  (case loadBackups env rd s w of
                     (s', w') \<Rightarrow>
                       w' = w3 \<and> \<not> bv_loading s' \<and>
                       bv_items s' = (case listed of Inr v \<Rightarrow> fst (read_list rd v) | Inl e \<Rightarrow> bv_items s) \<and>
                       bv_settings s' = (case stored of Inr v \<Rightarrow> Some (read_settings rd v) | Inl e \<Rightarrow> bv_settings s) \<and>
                       bv_restore s' = (case status of Inr v \<Rightarrow> Some (read_status rd v) | Inl e \<Rightarrow> bv_restore s))))) \<and>
   (case loadBackups env rd openBackups w of
      (s1, w1) \<Rightarrow>
        (if restore_running s1 then True
         else snd (saveSchedule env rd s1 w1) =
                snd (run_endpoint env (instanceSettings (UpdateBackups
                  (Obj [(js ''frequency'', Str (js ''off'')), (js ''hour_utc'', Number 3),
                        (js ''weekday'', Number 6), (js ''keep'', Number 7)]))) w1)))"
proof (intro conjI)
  let ?run = "foldl (backups_step env rd hostname) (openBackups, w0) es"
  have "view_ok (fst ?run)" by (rule backups_page.run_inv) (simp add: openBackups_ok)
  then show "case ?run of
      (s, w) \<Rightarrow>
        (bv_schedule s = None \<longleftrightarrow> restore_running s) \<and>
        (case bv_pendingRestore s of Some b \<Rightarrow> bk_key_matches b | None \<Rightarrow> True) \<and>
        (if trim typed = hostname then True else backups_step env rd hostname (s, w) (StartRestore typed) = (s, w))"
    by (cases ?run) (simp add: view_ok_def startRestore_def split: option.splits)
  show "case run_backups env BackupList w of
      (listed, w1) \<Rightarrow>
        (case run_endpoint env (instanceSettings GetSettings) w1 of
           (stored, w2) \<Rightarrow>
             (case run_backups env RestoreStatus w2 of
                (status, w3) \<Rightarrow>
                  (case loadBackups env rd s w of
                     (s', w') \<Rightarrow>
                       w' = w3 \<and> \<not> bv_loading s' \<and>
                       bv_items s' = (case listed of Inr v \<Rightarrow> fst (read_list rd v) | Inl e \<Rightarrow> bv_items s) \<and>
                       bv_settings s' = (case stored of Inr v \<Rightarrow> Some (read_settings rd v) | Inl e \<Rightarrow> bv_settings s) \<and>
                       bv_restore s' = (case status of Inr v \<Rightarrow> Some (read_status rd v) | Inl e \<Rightarrow> bv_restore s))))"
    by (simp add: loadBackups_def settle_load_parts split: prod.split)
  obtain s1 where "fst (loadBackups env rd openBackups w) = render s1" "bv_schedule s1 = bv_schedule openBackups"
    by (rule loadBackups_cases)
  moreover have "bv_schedule openBackups = Some (mountSchedule None)"
    by (simp add: openBackups_def render_def restore_running_def)
  ultimately show "case loadBackups env rd openBackups w of
      (s1, w1) \<Rightarrow>
        (if restore_running s1 then True
         else snd (saveSchedule env rd s1 w1) =
                snd (run_endpoint env (instanceSettings (UpdateBackups
                  (Obj [(js ''frequency'', Str (js ''off'')), (js ''hour_utc'', Number 3),
                        (js ''weekday'', Number 6), (js ''keep'', Number 7)]))) w1))"
    by (cases "loadBackups env rd openBackups w")
      (auto simp: saveSchedule_def schedule_render mountSchedule_def schedule_body_def split: prod.splits sum.splits)
qed

end
