(* ===== verification/Whitelists.thy ===== *)
theory Whitelists
  imports Security Dialog_Flow
begin

text \<open>
  What an operator changes on the security page: manual decisions (\<^verbatim>\<open>ban-dialog.tsx\<close>,
  \<^verbatim>\<open>unban-dialog.tsx\<close>) and whitelists (\<^verbatim>\<open>whitelist-dialog.tsx\<close>, \<^verbatim>\<open>whitelists-table.tsx\<close>,
  \<^verbatim>\<open>whitelist-status-banner.tsx\<close> and the handlers of \<^verbatim>\<open>security-view.tsx\<close>). The preview of a whitelist is
  a machine of effects, timers and answers; a rejection that no handler catches is recorded as such.
\<close>

section \<open>Manual decisions\<close>

datatype decisionScope = ScopeIp | ScopeRange

datatype decisionType = Ban | Captcha | Throttle

primrec scope_name :: "decisionScope \<Rightarrow> jstring" where
  "scope_name ScopeIp = js ''Ip''"
| "scope_name ScopeRange = js ''Range''"

primrec type_name :: "decisionType \<Rightarrow> jstring" where
  "type_name Ban = js ''ban''"
| "type_name Captcha = js ''captcha''"
| "type_name Throttle = js ''throttle''"

primrec DECISION_TYPE_LABELS :: "decisionType \<Rightarrow> jstring" where
  "DECISION_TYPE_LABELS Ban = js ''Ban''"
| "DECISION_TYPE_LABELS Captcha = js ''Captcha''"
| "DECISION_TYPE_LABELS Throttle = js ''Throttle''"

definition DECISION_DURATIONS :: "(jstring \<times> jstring) list" where
  "DECISION_DURATIONS =
     map (\<lambda>(a, b). (js a, js b))
       [(''1h'', ''1 hour''), (''4h'', ''4 hours''), (''24h'', ''1 day''), (''168h'', ''1 week''), (''720h'', ''30 days'')]"

definition DEFAULT_DURATION :: jstring where "DEFAULT_DURATION = js ''4h''"

record decisionForm =
  bn_value :: jstring
  bn_scope :: decisionScope
  bn_type :: decisionType
  bn_duration :: jstring
  bn_reason :: jstring

definition openBan :: "(jstring \<times> decisionScope) option \<Rightarrow> decisionForm" where
  "openBan seed =
     (let (v, sc) = (case seed of Some p \<Rightarrow> p | None \<Rightarrow> ([], ScopeIp))
      in \<lparr>bn_value = v, bn_scope = sc, bn_type = Ban, bn_duration = DEFAULT_DURATION, bn_reason = []\<rparr>)"

definition ban_problem :: "decisionForm \<Rightarrow> jstring option" where
  "ban_problem f =
     (let target = trim (bn_value f)
      in if target = []
         then Some (if bn_scope f = ScopeRange then js ''Enter a CIDR range to ban.'' else js ''Enter an IP address to ban.'')
         else if list_ex is_ws target then Some (js ''The value must not contain spaces.'')
         else if bn_scope f = ScopeRange \<and> \<not> js_includes target (js ''/'')
         then Some (js ''A range must be in CIDR notation, e.g. 10.0.0.0/24.'')
         else None)"

definition ban_body :: "decisionForm \<Rightarrow> jval" where
  "ban_body f =
     Obj [(js ''value'', Str (trim (bn_value f))), (js ''scope'', Str (scope_name (bn_scope f))),
          (js ''type'', Str (type_name (bn_type f))), (js ''duration'', Str (bn_duration f)),
          (js ''reason'', if trim (bn_reason f) = [] then Null else Str (trim (bn_reason f)))]"

definition ban_ok_text :: "decisionForm \<Rightarrow> jstring" where
  "ban_ok_text f = DECISION_TYPE_LABELS (bn_type f) @ js '' added for '' @ trim (bn_value f)"

definition submitBan :: "'w api_env \<Rightarrow> decisionForm \<Rightarrow> dialog_ui \<Rightarrow> 'w \<Rightarrow> dialog_ui \<times> 'w" where
  "submitBan env f ui w =
     (case ban_problem f of
        Some m \<Rightarrow> (ui\<lparr>ui_error := Some m\<rparr>, w)
      | None \<Rightarrow>
          save_flow (ban_ok_text f) (run_endpoint env (crowdsec (AddDecision (ban_body f)))) (ui\<lparr>ui_error := None\<rparr>) w)"

interpretation ban_dialog: submit_dialog ban_problem "\<lambda>f. run_endpoint env (crowdsec (AddDecision (ban_body f)))"
  ban_ok_text "submitBan env" for env
  by unfold_locales (simp_all add: submitBan_def refuse_def)

text \<open>Lifting a decision; one without an id cannot be lifted.\<close>

definition confirmUnban :: "'w api_env \<Rightarrow> jstring \<Rightarrow> decision \<Rightarrow> dialog_ui \<Rightarrow> 'w \<Rightarrow> dialog_ui \<times> 'w" where
  "confirmUnban env d_type d ui w =
     (case dn_id d of
        None \<Rightarrow>
          (ui\<lparr>ui_toasts := ui_toasts ui @ [ToastError (js ''This decision has no id and can't be lifted from here.'')]\<rparr>, w)
      | Some i \<Rightarrow>
          confirm_flow (js ''Lifted '' @ d_type @ js '' on '' @ dn_value d)
            (run_endpoint env (crowdsec (DeleteDecision i))) ui w)"

section \<open>Checking the entries of a whitelist\<close>

definition toEntries :: "jstring \<Rightarrow> jstring list" where
  "toEntries txt = filter (\<lambda>l. l \<noteq> []) (map trim (split_on 10 txt))"

definition IPV4 :: "jstring \<Rightarrow> bool" where
  "IPV4 v =
     (let ps = split_on 46 v
      in length ps = 4 \<and> list_all (\<lambda>p. 1 \<le> length p \<and> length p \<le> 3 \<and> list_all is_digit p) ps)"

primrec exceeds :: "jsreal \<Rightarrow> int \<Rightarrow> bool" where
  "exceeds RNaN k = False"
| "exceeds RInf k = True"
| "exceeds RNegInf k = False"
| "exceeds (RFin q) k = (of_int k < q)"

definition badIp :: "jstring \<Rightarrow> bool" where
  "badIp v =
     (if js_includes v (js '':'') then False
      else if \<not> IPV4 v then True
      else list_ex (\<lambda>octet. exceeds (js_Number octet) 255) (split_on 46 v))"

definition badCidr :: "jstring \<Rightarrow> bool" where
  "badCidr v =
     (case split_on 47 v of
        [addr, bits] \<Rightarrow>
          if addr = [] then True
          else (let most = (if js_includes addr (js '':'') then 128 else 32)
                in if bits = [] \<or> \<not> list_all is_digit bits then True
                   else (case as_integer (js_Number bits) of
                           None \<Rightarrow> True
                         | Some n \<Rightarrow> if n < 0 \<or> most < n then True else badIp addr))
      | _ \<Rightarrow> True)"

section \<open>The whitelist dialog\<close>

datatype whitelistKind = IpCidr | Expression

primrec kind_name :: "whitelistKind \<Rightarrow> jstring" where
  "kind_name IpCidr = js ''ip_cidr''"
| "kind_name Expression = js ''expression''"

primrec WHITELIST_KIND_LABELS :: "whitelistKind \<Rightarrow> jstring" where
  "WHITELIST_KIND_LABELS IpCidr = js ''IP / CIDR''"
| "WHITELIST_KIND_LABELS Expression = js ''Expression''"

text \<open>The fields that are sent; a stored row adds its id.\<close>

record whitelistCreate =
  wl_name :: jstring
  wl_kind :: whitelistKind
  wl_reason :: jstring
  wl_description :: jstring
  wl_enabled :: bool
  wl_ips :: "jstring list"
  wl_cidrs :: "jstring list"
  wl_filter :: "jstring option"
  wl_expressions :: "jstring list"

record whitelist = whitelistCreate +
  wl_id :: int

definition whitelist_json :: "'a whitelistCreate_scheme \<Rightarrow> jval" where
  "whitelist_json b =
     Obj [(js ''name'', Str (wl_name b)), (js ''kind'', Str (kind_name (wl_kind b))),
          (js ''reason'', Str (wl_reason b)), (js ''description'', Str (wl_description b)),
          (js ''enabled'', Bool (wl_enabled b)), (js ''ips'', Arr (map Str (wl_ips b))),
          (js ''cidrs'', Arr (map Str (wl_cidrs b))),
          (js ''filter'', case wl_filter b of Some t \<Rightarrow> Str t | None \<Rightarrow> Null),
          (js ''expressions'', Arr (map Str (wl_expressions b)))]"

record whitelistDialog =
  wd_row :: "whitelist option"
  wd_kind :: whitelistKind
  wd_name :: jstring
  wd_reason :: jstring
  wd_description :: jstring
  wd_ipsText :: jstring
  wd_cidrsText :: jstring
  wd_filter :: jstring
  wd_expressionsText :: jstring

definition openWhitelist :: "whitelist option \<Rightarrow> whitelistDialog" where
  "openWhitelist row =
     (case row of
        None \<Rightarrow>
          \<lparr>wd_row = None, wd_kind = IpCidr, wd_name = [], wd_reason = [], wd_description = [], wd_ipsText = [],
           wd_cidrsText = [], wd_filter = [], wd_expressionsText = []\<rparr>
      | Some r \<Rightarrow>
          \<lparr>wd_row = Some r, wd_kind = wl_kind r, wd_name = wl_name r, wd_reason = wl_reason r,
           wd_description = wl_description r, wd_ipsText = join [10] (wl_ips r),
           wd_cidrsText = join [10] (wl_cidrs r),
           wd_filter = (case wl_filter r of Some t \<Rightarrow> t | None \<Rightarrow> []),
           wd_expressionsText = join [10] (wl_expressions r)\<rparr>)"

text \<open>Only the fields of the active kind are sent.\<close>

definition whitelist_payload :: "bool \<Rightarrow> whitelistDialog \<Rightarrow> whitelistCreate" where
  "whitelist_payload enabled d =
     (if wd_kind d = Expression
      then \<lparr>wl_name = wd_name d, wl_kind = wd_kind d, wl_reason = wd_reason d, wl_description = wd_description d,
            wl_enabled = enabled, wl_ips = [], wl_cidrs = [],
            wl_filter = (if wd_filter d = [] then None else Some (wd_filter d)),
            wl_expressions = toEntries (wd_expressionsText d)\<rparr>
      else \<lparr>wl_name = wd_name d, wl_kind = wd_kind d, wl_reason = wd_reason d, wl_description = wd_description d,
            wl_enabled = enabled, wl_ips = toEntries (wd_ipsText d), wl_cidrs = toEntries (wd_cidrsText d),
            wl_filter = None, wl_expressions = []\<rparr>)"

definition hasContent :: "whitelistDialog \<Rightarrow> bool" where
  "hasContent d =
     (if wd_kind d = Expression then toEntries (wd_expressionsText d) \<noteq> []
      else 0 < length (toEntries (wd_ipsText d)) + length (toEntries (wd_cidrsText d)))"

definition canPreview :: "whitelistDialog \<Rightarrow> bool" where
  "canPreview d \<longleftrightarrow> wd_name d \<noteq> [] \<and> wd_reason d \<noteq> [] \<and> hasContent d"

definition bad_entry :: "jstring \<Rightarrow> string \<Rightarrow> jstring" where
  "bad_entry v m = [39] @ v @ [39] @ js m"

definition whitelist_problem :: "whitelistDialog \<Rightarrow> jstring option" where
  "whitelist_problem d =
     (if wd_kind d = Expression
      then (if toEntries (wd_expressionsText d) = []
            then Some (js ''An expression whitelist needs at least one expression.'') else None)
      else case find badIp (toEntries (wd_ipsText d)) of
             Some v \<Rightarrow> Some (bad_entry v '' is not a valid IP address.'')
           | None \<Rightarrow>
               (case find badCidr (toEntries (wd_cidrsText d)) of
                  Some v \<Rightarrow> Some (bad_entry v '' is not a valid CIDR range.'')
                | None \<Rightarrow>
                    if toEntries (wd_ipsText d) = [] \<and> toEntries (wd_cidrsText d) = []
                    then Some (js ''A whitelist needs at least one IP address or CIDR range.'')
                    else None))"

section \<open>The preview\<close>

text \<open>
  The effect of the preview: it runs after every render, since the lists it depends on are new
  each time; the run before it is cancelled, and its timer with it. \<open>pv_for\<close> is the payload whose
  answer is shown.
\<close>

record preview =
  pv_form :: whitelistDialog
  pv_yaml :: jstring
  pv_effect :: nat
  pv_armed :: bool
  pv_asked :: "(nat \<times> whitelistCreate) list"
  pv_for :: "whitelistCreate option"

definition run_effect :: "preview \<Rightarrow> preview" where
  "run_effect s = s\<lparr>pv_effect := pv_effect s + 1, pv_armed := canPreview (pv_form s)\<rparr>"

definition openPreview :: "whitelistDialog \<Rightarrow> preview" where
  "openPreview d =
     run_effect \<lparr>pv_form = d, pv_yaml = [], pv_effect = 0, pv_armed = False, pv_asked = [], pv_for = None\<rparr>"

definition previewAnswer :: "nat \<Rightarrow> thrown + jstring \<Rightarrow> preview \<Rightarrow> preview" where
  "previewAnswer i r s =
     (case map_of (pv_asked s) i of
        None \<Rightarrow> s
      | Some p \<Rightarrow>
          (let s1 = s\<lparr>pv_asked := filter (\<lambda>q. fst q \<noteq> i) (pv_asked s)\<rparr>
           in if i \<noteq> pv_effect s then s1
              else (let y = (case r of Inr y \<Rightarrow> y | Inl e \<Rightarrow> []);
                        s2 = s1\<lparr>pv_yaml := y, pv_for := (case r of Inr _ \<Rightarrow> Some p | Inl e \<Rightarrow> None)\<rparr>
                    in if y = pv_yaml s then s2 else run_effect s2)))"

datatype previewEvent =
    EditWhitelist whitelistDialog
  | Rerender
  | PreviewTimer
  | PreviewAnswer nat "thrown + jstring"

primrec preview_step :: "preview \<Rightarrow> previewEvent \<Rightarrow> preview" where
  "preview_step s (EditWhitelist d) = run_effect (s\<lparr>pv_form := d\<rparr>)"
| "preview_step s Rerender = run_effect s"
| "preview_step s PreviewTimer =
     (if pv_armed s
      then s\<lparr>pv_armed := False, pv_asked := pv_asked s @ [(pv_effect s, whitelist_payload True (pv_form s))]\<rparr>
      else s)"
| "preview_step s (PreviewAnswer i r) = previewAnswer i r s"

definition preview_idle :: "preview \<Rightarrow> bool" where
  "preview_idle s \<longleftrightarrow> \<not> pv_armed s \<and> pv_effect s \<notin> fst ` set (pv_asked s)"

definition preview_inv :: "preview \<Rightarrow> bool" where
  "preview_inv s \<longleftrightarrow>
     list_all (\<lambda>(i, p). i \<le> pv_effect s \<and> (i = pv_effect s \<longrightarrow> \<not> pv_armed s \<and> p = whitelist_payload True (pv_form s)))
       (pv_asked s) \<and>
     (preview_idle s \<and> canPreview (pv_form s) \<and> pv_yaml s \<noteq> [] \<longrightarrow>
        pv_for s = Some (whitelist_payload True (pv_form s)))"

section \<open>The whitelists of the page\<close>

record applyStatus =
  ap_reload_configured :: bool
  ap_ok :: bool
  ap_error :: "jstring option"

definition banner :: "applyStatus \<Rightarrow> jstring option" where
  "banner st =
     (if ap_reload_configured st \<and> ap_ok st then None
      else if \<not> ap_reload_configured st
      then Some (js ''Whitelists are saved but never applied: CROWDSEC_CONTROL_NODE_ID is not set, so no node is designated to restart CrowdSec.'')
      else Some (case ap_error st of Some m \<Rightarrow> m | None \<Rightarrow> js ''The last whitelist apply failed.''))"

definition plural :: "nat \<Rightarrow> string \<Rightarrow> jstring" where
  "plural n word = str_nat n @ js '' '' @ js word @ (if n = 1 then [] else js ''s'')"

definition coverage :: "whitelist \<Rightarrow> jstring" where
  "coverage r =
     (if wl_kind r = Expression then plural (length (wl_expressions r)) ''expression''
      else join (js '', '')
             ((if wl_ips r \<noteq> [] then [plural (length (wl_ips r)) ''IP''] else []) @
              (if wl_cidrs r \<noteq> [] then [plural (length (wl_cidrs r)) ''CIDR''] else [])))"

record whitelistEditor =
  we_form :: whitelistDialog
  we_error :: "jstring option"

record whitelistPage =
  wp_rows :: "whitelist list"
  wp_status :: "applyStatus option"
  wp_dialog :: "whitelistEditor option"
  wp_uncaught :: "thrown list"

record whitelistWire =
  rd_whitelists :: "jval \<Rightarrow> whitelist list"
  rd_applyStatus :: "jval \<Rightarrow> applyStatus"

definition loadWhitelists ::
  "'w api_env \<Rightarrow> whitelistWire \<Rightarrow> whitelistPage \<Rightarrow> 'w \<Rightarrow> whitelistPage \<times> 'w" where
  "loadWhitelists env rd s w =
     (let (listed, w1) = run_endpoint env (crowdsec ListWhitelists) w;
          (status, w2) = run_endpoint env (crowdsec WhitelistStatus) w1
      in case (listed, status) of
           (Inr r, Inr st) \<Rightarrow> (s\<lparr>wp_rows := rd_whitelists rd r, wp_status := Some (rd_applyStatus rd st)\<rparr>, w2)
         | _ \<Rightarrow> (s\<lparr>wp_status := None\<rparr>, w2))"

text \<open>A request followed by a reload of the list; its failure is rethrown.\<close>

definition then_load ::
  "'w api_env \<Rightarrow> whitelistWire \<Rightarrow> endpoint \<Rightarrow> (whitelistPage \<Rightarrow> whitelistPage) \<Rightarrow> whitelistPage \<Rightarrow> 'w \<Rightarrow>
   thrown option \<times> whitelistPage \<times> 'w" where
  "then_load env rd e after s w =
     (case run_endpoint env e w of
        (Inr v, w') \<Rightarrow> (None, loadWhitelists env rd (after s) w')
      | (Inl err, w') \<Rightarrow> (Some err, s, w'))"

definition uncaught :: "thrown option \<times> whitelistPage \<times> 'w \<Rightarrow> whitelistPage \<times> 'w" where
  "uncaught res =
     (case res of
        (None, s, w) \<Rightarrow> (s, w)
      | (Some err, s, w) \<Rightarrow> (s\<lparr>wp_uncaught := wp_uncaught s @ [err]\<rparr>, w))"

definition saveWhitelist ::
  "'w api_env \<Rightarrow> whitelistWire \<Rightarrow> whitelistCreate \<Rightarrow> whitelistPage \<Rightarrow> 'w \<Rightarrow> thrown option \<times> whitelistPage \<times> 'w" where
  "saveWhitelist env rd body s w =
     (let editing = (case wp_dialog s of Some d \<Rightarrow> wd_row (we_form d) | None \<Rightarrow> None)
      in then_load env rd
           (crowdsec (case editing of
                        Some r \<Rightarrow> UpdateWhitelist (wl_id r) (whitelist_json body)
                      | None \<Rightarrow> CreateWhitelist (whitelist_json body)))
           (\<lambda>p. p\<lparr>wp_dialog := None\<rparr>) s w)"

definition handleSaveWhitelist ::
  "'w api_env \<Rightarrow> whitelistWire \<Rightarrow> whitelistPage \<Rightarrow> 'w \<Rightarrow> whitelistPage \<times> 'w" where
  "handleSaveWhitelist env rd s w =
     (case wp_dialog s of
        None \<Rightarrow> (s, w)
      | Some d \<Rightarrow>
          (case whitelist_problem (we_form d) of
             Some m \<Rightarrow> (s\<lparr>wp_dialog := Some (d\<lparr>we_error := Some m\<rparr>)\<rparr>, w)
           | None \<Rightarrow>
               uncaught (saveWhitelist env rd
                 (whitelist_payload (case wd_row (we_form d) of Some r \<Rightarrow> wl_enabled r | None \<Rightarrow> True) (we_form d))
                 (s\<lparr>wp_dialog := Some (d\<lparr>we_error := None\<rparr>)\<rparr>) w)))"

text \<open>The switch of a row sends the whole row; the row's toggle swallows a failure.\<close>

definition toggle_json :: "bool \<Rightarrow> whitelist \<Rightarrow> jval" where
  "toggle_json nxt row =
     (case whitelist_json row of
        Obj kvs \<Rightarrow> Obj (filter (\<lambda>kv. fst kv \<noteq> js ''enabled'') kvs @ [(js ''enabled'', Bool nxt)])
      | v \<Rightarrow> v)"

definition toggleWhitelist ::
  "'w api_env \<Rightarrow> whitelistWire \<Rightarrow> whitelist \<Rightarrow> bool \<Rightarrow> whitelistPage \<Rightarrow> 'w \<Rightarrow> whitelistPage \<times> 'w" where
  "toggleWhitelist env rd row nxt s w =
     snd (then_load env rd (crowdsec (UpdateWhitelist (wl_id row) (toggle_json nxt row))) (\<lambda>p. p) s w)"

definition deleteWhitelist ::
  "'w api_env \<Rightarrow> whitelistWire \<Rightarrow> whitelist \<Rightarrow> whitelistPage \<Rightarrow> 'w \<Rightarrow> whitelistPage \<times> 'w" where
  "deleteWhitelist env rd row s w =
     uncaught (then_load env rd (crowdsec (DeleteWhitelist (wl_id row))) (\<lambda>p. p) s w)"

definition retryWhitelistApply :: "'w api_env \<Rightarrow> whitelistWire \<Rightarrow> whitelistPage \<Rightarrow> 'w \<Rightarrow> whitelistPage \<times> 'w" where
  "retryWhitelistApply env rd s w = uncaught (then_load env rd (crowdsec ApplyWhitelists) (\<lambda>p. p) s w)"

section \<open>What the checks accept\<close>

lemma includes_char: "js_includes v [c] \<longleftrightarrow> c \<in> set v"
  by (induction v) (auto simp: startsWith_def)

definition octet :: "jstring \<Rightarrow> bool" where
  "octet p \<longleftrightarrow> 1 \<le> length p \<and> length p \<le> 3 \<and> list_all is_digit p \<and> nat_of_digits p \<le> 255"

lemma exceeds_digits:
  "p \<noteq> [] \<Longrightarrow> list_all is_digit p \<Longrightarrow> exceeds (js_Number p) 255 \<longleftrightarrow> 255 < nat_of_digits p"
  by (simp add: js_Number_digits)

text \<open>An accepted address has a colon, or it is four octets with dots between them.\<close>

lemma badIp_iff: "\<not> badIp v \<longleftrightarrow> 58 \<in> set v \<or> length (split_on 46 v) = 4 \<and> list_all octet (split_on 46 v)"
proof -
  have "list_ex (\<lambda>p. exceeds (js_Number p) 255) ps \<longleftrightarrow> \<not> list_all (\<lambda>p. nat_of_digits p \<le> 255) ps"
    if "list_all (\<lambda>p. 1 \<le> length p \<and> length p \<le> 3 \<and> list_all is_digit p) ps" for ps
    using that
  proof (induction ps)
    case (Cons p ps)
    then have "p \<noteq> []" "list_all is_digit p" by auto
    with Cons show ?case by (auto simp: exceeds_digits)
  qed simp
  then show ?thesis
    by (auto simp: badIp_def includes_char IPV4_def Let_def js_def octet_def list_all_iff)
qed

definition cidr_of :: "jstring \<Rightarrow> jstring \<Rightarrow> bool" where
  "cidr_of addr bits \<longleftrightarrow>
     47 \<notin> set addr \<and> 47 \<notin> set bits \<and> addr \<noteq> [] \<and> \<not> badIp addr \<and> bits \<noteq> [] \<and> list_all is_digit bits \<and>
     nat_of_digits bits \<le> (if 58 \<in> set addr then 128 else 32)"

lemma badCidr_iff: "\<not> badCidr v \<longleftrightarrow> (\<exists>addr bits. v = addr @ 47 # bits \<and> cidr_of addr bits)"
proof
  assume ok: "\<not> badCidr v"
  then obtain addr bits where s: "split_on 47 v = [addr, bits]"
    by (auto simp: badCidr_def split: list.splits)
  from s have "v = join [47] [addr, bits]" by (metis join_split_on)
  moreover have "47 \<notin> set addr" "47 \<notin> set bits" using s split_on_pieces [of _ 47 v] by auto
  ultimately have "v = addr @ 47 # bits \<and> cidr_of addr bits"
    using ok s
    by (auto simp: badCidr_def cidr_of_def includes_char js_def js_Number_digits Let_def split: if_splits)
  then show "\<exists>addr bits. v = addr @ 47 # bits \<and> cidr_of addr bits" by blast
next
  assume "\<exists>addr bits. v = addr @ 47 # bits \<and> cidr_of addr bits"
  then show "\<not> badCidr v"
    by (auto simp: badCidr_def cidr_of_def includes_char js_def js_Number_digits Let_def split_on_append_sep
        split_on_no_sep split: if_splits)
qed

lemma find_Some_ex: "find P xs = Some x \<Longrightarrow> P x \<and> x \<in> set xs"
  by (auto simp: find_Some_iff)

lemma whitelist_problem_None:
  "whitelist_problem d = None \<longleftrightarrow>
   hasContent d \<and>
   (wd_kind d = IpCidr \<longrightarrow>
      list_all (\<lambda>v. \<not> badIp v) (toEntries (wd_ipsText d)) \<and> list_all (\<lambda>v. \<not> badCidr v) (toEntries (wd_cidrsText d)))"
  by (cases "wd_kind d")
    (auto simp: whitelist_problem_def hasContent_def find_None_iff list_all_iff dest!: find_Some_ex split: option.splits)

section \<open>Round trip of a stored whitelist\<close>

definition entry_ok :: "jstring \<Rightarrow> bool" where
  "entry_ok v \<longleftrightarrow> v \<noteq> [] \<and> trim v = v \<and> 10 \<notin> set v"

lemma toEntries_ok: "list_all entry_ok (toEntries txt)"
proof -
  have "10 \<notin> set (trim p)" if "p \<in> set (split_on 10 txt)" for p
    using split_on_pieces [OF that] set_trim [of p] by blast
  then show ?thesis by (auto simp: toEntries_def entry_ok_def list_all_iff)
qed

lemma toEntries_join: "list_all entry_ok xs \<Longrightarrow> toEntries (join [10] xs) = xs"
proof (cases "xs = []")
  case False
  assume ok: "list_all entry_ok xs"
  then have "split_on 10 (join [10] xs) = xs"
    using False by (intro split_on_join) (auto simp: list_all_iff entry_ok_def)
  moreover have "map trim xs = xs" using ok by (auto simp: list_all_iff entry_ok_def intro: map_idI)
  moreover have "filter (\<lambda>l. l \<noteq> []) xs = xs" using ok by (auto simp: list_all_iff entry_ok_def intro: filter_True)
  ultimately show ?thesis by (simp add: toEntries_def)
qed (simp add: toEntries_def)

text \<open>A row as the service stores it: clean entries, and nothing of the other kind.\<close>

definition stored_whitelist :: "whitelist \<Rightarrow> bool" where
  "stored_whitelist r \<longleftrightarrow>
     list_all entry_ok (wl_ips r @ wl_cidrs r @ wl_expressions r) \<and> wl_filter r \<noteq> Some [] \<and>
     (case wl_kind r of
        Expression \<Rightarrow> wl_ips r = [] \<and> wl_cidrs r = [] \<and> wl_expressions r \<noteq> []
      | IpCidr \<Rightarrow> wl_expressions r = [] \<and> wl_filter r = None \<and> wl_ips r @ wl_cidrs r \<noteq> [] \<and>
          list_all (\<lambda>v. \<not> badIp v) (wl_ips r) \<and> list_all (\<lambda>v. \<not> badCidr v) (wl_cidrs r))"

lemma payload_of_stored:
  assumes "stored_whitelist r"
  shows "whitelist_problem (openWhitelist (Some r)) = None"
    and "whitelist_payload (wl_enabled r) (openWhitelist (Some r)) = whitelistCreate.truncate r"
  using assms
  by (cases "wl_kind r";
      auto simp: whitelist_problem_None hasContent_def openWhitelist_def whitelist_payload_def stored_whitelist_def
        toEntries_join whitelistCreate.truncate_def split: option.split)+

lemma truncate_json: "whitelist_json (whitelistCreate.truncate r) = whitelist_json r"
  by (simp add: whitelist_json_def whitelistCreate.truncate_def)

section \<open>The preview is of what is on screen\<close>

lemma run_effect_inv:
  "list_all (\<lambda>(i, p). i \<le> pv_effect s) (pv_asked s) \<Longrightarrow> preview_inv (run_effect s)"
  by (fastforce simp: run_effect_def preview_inv_def preview_idle_def list_all_iff)

lemma asked_le: "preview_inv s \<Longrightarrow> list_all (\<lambda>(i, p). i \<le> pv_effect s) (pv_asked s)"
  by (auto simp: preview_inv_def list_all_iff)

lemma asked_current: "preview_inv s \<Longrightarrow> (pv_effect s, p) \<in> set (pv_asked s) \<Longrightarrow> p = whitelist_payload True (pv_form s)"
  by (auto simp: preview_inv_def list_all_iff)

lemma previewAnswer_inv:
  assumes inv: "preview_inv s"
  shows "preview_inv (previewAnswer i r s)"
proof (cases "map_of (pv_asked s) i")
  case None
  then show ?thesis using inv by (simp add: previewAnswer_def)
next
  case (Some p)
  let ?left = "filter (\<lambda>q. fst q \<noteq> i) (pv_asked s)"
  have le: "list_all (\<lambda>(i, p). i \<le> pv_effect s) ?left"
    using asked_le [OF inv] by (auto simp: list_all_iff)
  show ?thesis
  proof (cases "i = pv_effect s")
    case False
    then have "pv_effect s \<in> fst ` set ?left \<longleftrightarrow> pv_effect s \<in> fst ` set (pv_asked s)" by force
    with inv Some False show ?thesis
      by (auto simp: previewAnswer_def preview_inv_def preview_idle_def list_all_iff)
  next
    case True
    have p: "p = whitelist_payload True (pv_form s)"
      using asked_current [OF inv] map_of_SomeD [OF Some] True by simp
    have "preview_inv (s\<lparr>pv_asked := ?left, pv_for := Some p\<rparr>)"
         "pv_yaml s = [] \<Longrightarrow> preview_inv (s\<lparr>pv_asked := ?left, pv_for := None\<rparr>)"
      using le True p by (auto simp: preview_inv_def list_all_iff)
    moreover have "preview_inv (run_effect (s\<lparr>pv_asked := ?left, pv_yaml := y, pv_for := q\<rparr>))" for y q
      using le by (intro run_effect_inv) simp
    ultimately show ?thesis using Some True by (auto simp: previewAnswer_def Let_def split: sum.split)
  qed
qed

interpretation whitelist_preview: machine preview_step preview_inv
proof
  fix s e
  assume inv: "preview_inv s"
  show "preview_inv (preview_step s e)"
  proof (cases e)
    case PreviewTimer
    with inv show ?thesis by (auto simp: preview_inv_def preview_idle_def list_all_iff)
  qed (simp_all add: run_effect_inv asked_le inv previewAnswer_inv)
qed

lemma openPreview_inv: "preview_inv (openPreview d)"
  by (simp add: openPreview_def run_effect_def preview_inv_def preview_idle_def)

section \<open>The editor of whitelists\<close>

lemma whitelistCreate_enabled: "wl_enabled (whitelistCreate.truncate r) = wl_enabled r"
  by (simp add: whitelistCreate.truncate_def)

lemma save_stored:
  assumes "stored_whitelist r" and d: "d = \<lparr>we_form = openWhitelist (Some r), we_error = None\<rparr>"
  shows "handleSaveWhitelist env rd (s\<lparr>wp_dialog := Some d\<rparr>) w =
    (case run_endpoint env (crowdsec (UpdateWhitelist (wl_id r) (whitelist_json r))) w of
       (Inr v, w') \<Rightarrow> loadWhitelists env rd (s\<lparr>wp_dialog := None\<rparr>) w'
     | (Inl e, w') \<Rightarrow> (s\<lparr>wp_dialog := Some d, wp_uncaught := wp_uncaught s @ [e]\<rparr>, w'))"
proof -
  have "wd_row (openWhitelist (Some r)) = Some r" by (simp add: openWhitelist_def)
  then show ?thesis
    using payload_of_stored [OF assms(1)]
    by (simp add: d handleSaveWhitelist_def saveWhitelist_def then_load_def uncaught_def truncate_json
        split: prod.split sum.split)
qed

text \<open>
  C23. The editor of whitelists. A form is accepted exactly when it has an entry and, for the address
  kind, each address has a colon or is four octets of one to three digits up to 255, and each range
  is such an address, a slash and a length of at most 32 (128 with a colon). What is sent carries
  nothing of the other kind. A stored whitelist that is opened and saved unchanged goes back with
  every field as stored; if that request fails the dialog stays open with no message, and the
  rejection reaches no handler. Whenever the preview is at rest it shows the service's rendering of
  what the form would send, whatever edits, timers and answers came before.
\<close>

theorem whitelist_editor:
  assumes "stored_whitelist r"
  shows "(whitelist_problem d = None \<longleftrightarrow>
      hasContent d \<and>
      (case wd_kind d of
         Expression \<Rightarrow> True
       | IpCidr \<Rightarrow>
           list_all (\<lambda>v. 58 \<in> set v \<or> length (split_on 46 v) = 4 \<and> list_all octet (split_on 46 v)) (toEntries (wd_ipsText d)) \<and>
           list_all (\<lambda>v. \<exists>addr bits. v = addr @ 47 # bits \<and> cidr_of addr bits) (toEntries (wd_cidrsText d)))) \<and>
    (case wl_kind (whitelist_payload b d) of
       Expression \<Rightarrow> wl_ips (whitelist_payload b d) = [] \<and> wl_cidrs (whitelist_payload b d) = []
     | IpCidr \<Rightarrow> wl_filter (whitelist_payload b d) = None \<and> wl_expressions (whitelist_payload b d) = []) \<and>
    handleSaveWhitelist env rd (s\<lparr>wp_dialog := Some \<lparr>we_form = openWhitelist (Some r), we_error = None\<rparr>\<rparr>) w =
      (case run_endpoint env (crowdsec (UpdateWhitelist (wl_id r) (whitelist_json r))) w of
         (Inr v, w') \<Rightarrow> loadWhitelists env rd (s\<lparr>wp_dialog := None\<rparr>) w'
       | (Inl e, w') \<Rightarrow>
           (s\<lparr>wp_dialog := Some \<lparr>we_form = openWhitelist (Some r), we_error = None\<rparr>,
              wp_uncaught := wp_uncaught s @ [e]\<rparr>, w')) \<and>
    (let p = foldl preview_step (openPreview d) es
     in if preview_idle p \<and> canPreview (pv_form p) \<and> pv_yaml p \<noteq> []
        then pv_for p = Some (whitelist_payload True (pv_form p)) else True)"
proof (intro conjI)
  show "whitelist_problem d = None \<longleftrightarrow>
      hasContent d \<and>
      (case wd_kind d of
         Expression \<Rightarrow> True
       | IpCidr \<Rightarrow>
           list_all (\<lambda>v. 58 \<in> set v \<or> length (split_on 46 v) = 4 \<and> list_all octet (split_on 46 v)) (toEntries (wd_ipsText d)) \<and>
           list_all (\<lambda>v. \<exists>addr bits. v = addr @ 47 # bits \<and> cidr_of addr bits) (toEntries (wd_cidrsText d)))"
    by (cases "wd_kind d") (simp_all add: whitelist_problem_None badIp_iff badCidr_iff)
  show "case wl_kind (whitelist_payload b d) of
       Expression \<Rightarrow> wl_ips (whitelist_payload b d) = [] \<and> wl_cidrs (whitelist_payload b d) = []
     | IpCidr \<Rightarrow> wl_filter (whitelist_payload b d) = None \<and> wl_expressions (whitelist_payload b d) = []"
    by (cases "wd_kind d") (simp_all add: whitelist_payload_def)
  show "let p = foldl preview_step (openPreview d) es
     in if preview_idle p \<and> canPreview (pv_form p) \<and> pv_yaml p \<noteq> []
        then pv_for p = Some (whitelist_payload True (pv_form p)) else True"
    using whitelist_preview.run_inv [OF openPreview_inv, of d es] by (simp add: Let_def preview_inv_def)
qed (rule save_stored [OF assms refl])

definition demo_whitelist :: whitelist where
  "demo_whitelist =
     \<lparr>wl_name = js ''office'', wl_kind = IpCidr, wl_reason = js ''ours'', wl_description = [], wl_enabled = False,
      wl_ips = [js ''10.0.0.7''], wl_cidrs = [js ''10.1.0.0/16''], wl_filter = None, wl_expressions = [], wl_id = 3\<rparr>"

lemma demo_whitelist_stored: "stored_whitelist demo_whitelist"
proof -
  have e: "entry_ok (js ''10.0.0.7'')" "entry_ok (js ''10.1.0.0/16'')"
    by (simp_all add: entry_ok_def js_def trim_no_ws is_ws_def)
  have i: "\<not> badIp (js ''10.0.0.7'')"
    unfolding badIp_iff by (simp add: js_def octet_def is_digit_def nat_of_digits_def digit_val_def)
  have "\<not> badIp (js ''10.1.0.0'')"
    unfolding badIp_iff by (simp add: js_def octet_def is_digit_def nat_of_digits_def digit_val_def)
  then have "cidr_of (js ''10.1.0.0'') (js ''16'')"
    by (simp add: cidr_of_def js_def is_digit_def nat_of_digits_def digit_val_def)
  moreover have "js ''10.1.0.0/16'' = js ''10.1.0.0'' @ 47 # js ''16''" by (simp add: js_def)
  ultimately have "\<not> badCidr (js ''10.1.0.0/16'')" unfolding badCidr_iff by blast
  with e i show ?thesis by (simp add: stored_whitelist_def demo_whitelist_def)
qed

text \<open>On a network that is down, saving that whitelist leaves the dialog open and no message in it.\<close>

theorem whitelist_editor_witness:
  "handleSaveWhitelist offline_env \<lparr>rd_whitelists = \<lambda>v. [], rd_applyStatus = \<lambda>v. \<lparr>ap_reload_configured = True, ap_ok = True, ap_error = None\<rparr>\<rparr>
     \<lparr>wp_rows = [], wp_status = None,
      wp_dialog = Some \<lparr>we_form = openWhitelist (Some demo_whitelist), we_error = None\<rparr>, wp_uncaught = []\<rparr> () =
   (\<lparr>wp_rows = [], wp_status = None,
     wp_dialog = Some \<lparr>we_form = openWhitelist (Some demo_whitelist), we_error = None\<rparr>,
     wp_uncaught = [ThrownError (js ''Failed to fetch'')]\<rparr>, ())"
  using whitelist_editor [OF demo_whitelist_stored, of "openWhitelist None" True offline_env
      "\<lparr>rd_whitelists = \<lambda>v. [], rd_applyStatus = \<lambda>v. \<lparr>ap_reload_configured = True, ap_ok = True, ap_error = None\<rparr>\<rparr>"
      "\<lparr>wp_rows = [], wp_status = None, wp_dialog = None, wp_uncaught = []\<rparr>" "()" "[]"]
  by (simp add: run_endpoint_offline)

end
