(* ===== verification/Crowdsec_Cards.thy ===== *)
theory Crowdsec_Cards
  imports Security Dialog_Flow
begin

text \<open>
  The maintenance of CrowdSec: the schedule of the detection rules (\<^verbatim>\<open>hub-updates-card.tsx\<close>), the
  community blocklist (\<^verbatim>\<open>blocklist-card.tsx\<close>), the body limit of the WAF (\<^verbatim>\<open>waf-settings-card.tsx\<close>) and the
  two tabs that load them and poll while a job runs (\<^verbatim>\<open>updates-tab.tsx\<close>, \<^verbatim>\<open>settings-tab.tsx\<close>). The
  tabs are machines of answers over time. \<open>tz\<close> is what \<open>getTimezoneOffset\<close> returns.
\<close>

section \<open>The schedule of the detection rules\<close>

datatype hubFrequency = HubDaily | HubWeekly

primrec hub_frequency_name :: "hubFrequency \<Rightarrow> jstring" where
  "hub_frequency_name HubDaily = js ''daily''"
| "hub_frequency_name HubWeekly = js ''weekly''"

record hubSettings =
  hs_auto :: bool
  hs_frequency :: hubFrequency
  hs_weekday :: int
  hs_hour_utc :: int
  hs_capi_enabled :: bool

record hubCard =
  hc_settings :: hubSettings
  hc_auto :: bool
  hc_frequency :: hubFrequency
  hc_weekday :: int
  hc_hourLocal :: int
  hc_toasts :: "toast list"

definition pad :: "int \<Rightarrow> jstring" where
  "pad h = (let t = str_int h in (if length t < 2 then replicate (2 - length t) 48 @ t else t) @ js '':00'')"

definition openHub :: "int \<Rightarrow> hubSettings \<Rightarrow> hubCard" where
  "openHub tz s =
     \<lparr>hc_settings = s, hc_auto = hs_auto s, hc_frequency = hs_frequency s, hc_weekday = hs_weekday s,
      hc_hourLocal = utcHourToLocal (hs_hour_utc s) tz, hc_toasts = []\<rparr>"

definition hourUtc :: "int \<Rightarrow> hubCard \<Rightarrow> int" where
  "hourUtc tz c = localHourToUtc (hc_hourLocal c) tz"

definition hub_dirty :: "int \<Rightarrow> hubCard \<Rightarrow> bool" where
  "hub_dirty tz c \<longleftrightarrow>
     hc_auto c \<noteq> hs_auto (hc_settings c) \<or> hc_frequency c \<noteq> hs_frequency (hc_settings c) \<or>
     hc_weekday c \<noteq> hs_weekday (hc_settings c) \<or> hourUtc tz c \<noteq> hs_hour_utc (hc_settings c)"

definition hub_body :: "int \<Rightarrow> hubCard \<Rightarrow> jval" where
  "hub_body tz c =
     Obj [(js ''auto_update'', Bool (hc_auto c)), (js ''frequency'', Str (hub_frequency_name (hc_frequency c))),
          (js ''weekday'', Number (hc_weekday c)), (js ''hour_utc'', Number (hourUtc tz c))]"

text \<open>The save button is disabled while nothing changed; a saved schedule becomes the settings of the tab.\<close>

definition saveHub ::
  "'w api_env \<Rightarrow> (jval \<Rightarrow> hubSettings) \<Rightarrow> int \<Rightarrow> hubCard \<Rightarrow> 'w \<Rightarrow> hubCard \<times> 'w" where
  "saveHub env rd tz c w =
     (if \<not> hub_dirty tz c then (c, w)
      else case run_endpoint env (instanceSettings (UpdateCrowdSecHub (hub_body tz c))) w of
             (Inr v, w') \<Rightarrow>
               (c\<lparr>hc_settings := rd v, hc_toasts := hc_toasts c @ [ToastSuccess (js ''Schedule saved'')]\<rparr>, w')
           | (Inl e, w') \<Rightarrow> (c\<lparr>hc_toasts := hc_toasts c @ [ToastError (de_message (describeError e))]\<rparr>, w'))"

definition detail_string :: "jobRun option \<Rightarrow> string \<Rightarrow> jstring option" where
  "detail_string run k = (case run of None \<Rightarrow> None | Some r \<Rightarrow> as_string (get_prop (jr_detail r) (js k)))"

definition agent_line :: "jobRun option \<Rightarrow> jstring option" where
  "agent_line run =
     (case detail_string run ''agent_version'' of
        None \<Rightarrow> None
      | Some agent \<Rightarrow>
          if agent = [] then None
          else Some (js ''CrowdSec '' @ agent @
                 (case detail_string run ''latest_agent_version'' of
                    Some latest \<Rightarrow>
                      if latest \<noteq> [] \<and> latest \<noteq> agent
                      then js '' '' @ em_dash @ js '' '' @ latest @
                           js '' is available; rules that need it are skipped until the image is updated.''
                      else []
                  | None \<Rightarrow> [])))"

definition updateNow :: "'w api_env \<Rightarrow> bool \<Rightarrow> bool \<Rightarrow> dialog_ui \<Rightarrow> 'w \<Rightarrow> dialog_ui \<times> 'w" where
  "updateNow env running reloadConfigured ui w =
     (if running \<or> \<not> reloadConfigured then (ui, w)
      else confirm_flow (js ''Update queued'') (run_endpoint env (crowdsec HubUpdateNow)) ui w)"

section \<open>The community blocklist\<close>

record capiCredentials =
  cc_ok :: "bool option"
  cc_blocked :: bool
  cc_detail :: "jstring option"

definition refused :: "bool \<Rightarrow> capiCredentials \<Rightarrow> bool" where
  "refused desired cr \<longleftrightarrow> desired \<and> cc_ok cr = Some False"

definition capi_blocked :: "bool \<Rightarrow> capiCredentials \<Rightarrow> bool" where
  "capi_blocked desired cr \<longleftrightarrow> refused desired cr \<and> cc_blocked cr"

record blocklistCard =
  bl_pending :: "bool option"
  bl_toasts :: "toast list"
  bl_changed :: nat

definition apply_capi :: "'w api_env \<Rightarrow> bool \<Rightarrow> ('w, jval) io" where
  "apply_capi env enabled =
     run_endpoint env (instanceSettings (UpdateCrowdSecCapi (Obj [(js ''enabled'', Bool enabled)])))"

definition flipBlocklist :: "bool \<Rightarrow> bool \<Rightarrow> bool \<Rightarrow> blocklistCard \<Rightarrow> blocklistCard" where
  "flipBlocklist running reloadConfigured v c =
     (if running \<or> \<not> reloadConfigured then c else c\<lparr>bl_pending := Some v\<rparr>)"

text \<open>The retry and the repair: a toast either way, and a reload after success.\<close>

definition run_toasting :: "jstring \<Rightarrow> ('w, 'a) io \<Rightarrow> blocklistCard \<Rightarrow> 'w \<Rightarrow> blocklistCard \<times> 'w" where
  "run_toasting ok_text action c w =
     (case action w of
        (Inr v, w') \<Rightarrow> (c\<lparr>bl_toasts := bl_toasts c @ [ToastSuccess ok_text], bl_changed := bl_changed c + 1\<rparr>, w')
      | (Inl e, w') \<Rightarrow> (c\<lparr>bl_toasts := bl_toasts c @ [ToastError (de_message (describeError e))]\<rparr>, w'))"

definition retryBlocklist ::
  "'w api_env \<Rightarrow> bool \<Rightarrow> jobRun option \<Rightarrow> bool \<Rightarrow> blocklistCard \<Rightarrow> 'w \<Rightarrow> blocklistCard \<times> 'w" where
  "retryBlocklist env desired run running c w =
     (if \<not> sl_failed (describeCapiRun desired run running) then (c, w)
      else run_toasting (js ''Retrying'' @ ellipsis) (apply_capi env desired) c w)"

definition reRegister ::
  "'w api_env \<Rightarrow> bool \<Rightarrow> capiCredentials \<Rightarrow> bool \<Rightarrow> bool \<Rightarrow> blocklistCard \<Rightarrow> 'w \<Rightarrow> blocklistCard \<times> 'w" where
  "reRegister env desired cr running reloadConfigured c w =
     (if \<not> refused desired cr \<or> capi_blocked desired cr \<or> running \<or> \<not> reloadConfigured then (c, w)
      else run_toasting (js ''Re-registering'' @ ellipsis) (run_endpoint env (crowdsec CapiRegister)) c w)"

text \<open>Confirming the switch; the confirmation is open while a change is pending.\<close>

definition confirmBlocklist :: "'w api_env \<Rightarrow> blocklistCard \<Rightarrow> 'w \<Rightarrow> blocklistCard \<times> 'w" where
  "confirmBlocklist env c w =
     (case bl_pending c of
        None \<Rightarrow> (c, w)
      | Some v \<Rightarrow>
          (case apply_capi env v w of
             (Inr x, w') \<Rightarrow>
               (c\<lparr>bl_pending := None, bl_changed := bl_changed c + 1,
                  bl_toasts := bl_toasts c @ [ToastSuccess (js ''Applying'' @ ellipsis)]\<rparr>, w')
           | (Inl e, w') \<Rightarrow> (c\<lparr>bl_toasts := bl_toasts c @ [ToastError (de_message (describeError e))]\<rparr>, w')))"

section \<open>The updates tab\<close>

record maintenance =
  mt_hub :: "jobRun option"
  mt_capi :: "jobRun option"
  mt_running_hub :: bool
  mt_running_capi :: bool
  mt_reload_configured :: bool
  mt_credentials :: capiCredentials

record updatesTab =
  ut_settings :: "hubSettings option"
  ut_maint :: "maintenance option"
  ut_error :: "jstring option"

definition openUpdates :: updatesTab where
  "openUpdates = \<lparr>ut_settings = None, ut_maint = None, ut_error = None\<rparr>"

definition job_open :: "jobRun option \<Rightarrow> bool" where
  "job_open run = (case run of Some r \<Rightarrow> unfinished r | None \<Rightarrow> False)"

definition updates_busy :: "updatesTab \<Rightarrow> bool" where
  "updates_busy s =
     (case ut_maint s of
        None \<Rightarrow> False
      | Some m \<Rightarrow> mt_running_hub m \<or> mt_running_capi m \<or> job_open (mt_hub m) \<or> job_open (mt_capi m))"

datatype updatesEvent =
    UpdatesLoaded "thrown + hubSettings \<times> maintenance"
  | HubSaved hubSettings

primrec updates_step :: "updatesTab \<Rightarrow> updatesEvent \<Rightarrow> updatesTab" where
  "updates_step s (UpdatesLoaded r) =
     (case r of
        Inr (st, m) \<Rightarrow> s\<lparr>ut_settings := Some st, ut_maint := Some m, ut_error := None\<rparr>
      | Inl e \<Rightarrow> s\<lparr>ut_error := Some (de_message (describeError e))\<rparr>)"
| "updates_step s (HubSaved st) = s\<lparr>ut_settings := Some st\<rparr>"

datatype tabView = ErrorOnly jstring | LoadingTab | Cards

definition updates_view :: "updatesTab \<Rightarrow> tabView" where
  "updates_view s =
     (case ut_error s of
        Some m \<Rightarrow> ErrorOnly m
      | None \<Rightarrow> if ut_settings s = None \<or> ut_maint s = None then LoadingTab else Cards)"

section \<open>The body limit of the WAF\<close>

record wafCard =
  wf_value :: jstring
  wf_action :: bodyAction
  wf_confirming :: bool

definition openWaf :: "wafStatus \<Rightarrow> wafCard" where
  "openWaf st = \<lparr>wf_value = str_int (ws_max_body_mb st), wf_action = ws_action st, wf_confirming = False\<rparr>"

definition waf_body :: "int \<Rightarrow> bodyAction \<Rightarrow> jval" where
  "waf_body mb action =
     Obj [(js ''max_body_mb'', Number mb), (js ''body_exceeded_action'', Str (action_name action))]"

definition askWaf :: "wafStatus \<Rightarrow> bool \<Rightarrow> wafCard \<Rightarrow> wafCard" where
  "askWaf st reloadConfigured c =
     (if toMb (wf_value c) = None \<or> ws_running st \<or> \<not> reloadConfigured then c else c\<lparr>wf_confirming := True\<rparr>)"

text \<open>Confirming: without a valid size there is no request, yet the dialog reports success.\<close>

definition confirmWaf :: "'w api_env \<Rightarrow> wafCard \<Rightarrow> dialog_ui \<Rightarrow> 'w \<Rightarrow> (wafCard \<times> dialog_ui) \<times> 'w" where
  "confirmWaf env c ui w =
     (let action = (\<lambda>w0. case toMb (wf_value c) of
                       None \<Rightarrow> (Inr Undef, w0)
                     | Some mb \<Rightarrow> run_endpoint env (instanceSettings (UpdateCrowdSecWaf (waf_body mb (wf_action c)))) w0);
          (ui', w') = confirm_flow (js ''Applying'' @ ellipsis) action ui w
      in ((if ui_open ui' then c else c\<lparr>wf_confirming := False\<rparr>, ui'), w'))"

section \<open>The settings tab\<close>

definition POLL_MS :: int where "POLL_MS = 5000"

definition WATCH_MS :: int where "WATCH_MS = 60000"

record settingsTab =
  st_status :: "wafStatus option"
  st_error :: "jstring option"
  st_savedAt :: "int option"
  st_awaiting :: bool

definition openSettingsTab :: settingsTab where
  "openSettingsTab = \<lparr>st_status = None, st_error = None, st_savedAt = None, st_awaiting = False\<rparr>"

definition pickedUp :: "date_env \<Rightarrow> int \<Rightarrow> wafStatus \<Rightarrow> bool" where
  "pickedUp de since st =
     (case ws_run st of
        None \<Rightarrow> False
      | Some r \<Rightarrow>
          \<not> unfinished r \<and> (case date_parse de (jr_started_at r) of Some t \<Rightarrow> since \<le> t | None \<Rightarrow> False))"

definition wafLoaded :: "date_env \<Rightarrow> int \<Rightarrow> thrown + wafStatus \<Rightarrow> settingsTab \<Rightarrow> settingsTab" where
  "wafLoaded de now r s =
     (case r of
        Inl e \<Rightarrow> s\<lparr>st_error := Some (de_message (describeError e))\<rparr>
      | Inr st \<Rightarrow>
          (let s1 = s\<lparr>st_status := Some st, st_error := None\<rparr>
           in case st_savedAt s of
                None \<Rightarrow> s1
              | Some since \<Rightarrow>
                  if pickedUp de since st \<or> since + WATCH_MS \<le> now
                  then s1\<lparr>st_savedAt := None, st_awaiting := False\<rparr> else s1))"

definition wafSaved :: "int \<Rightarrow> settingsTab \<Rightarrow> settingsTab" where
  "wafSaved now s = s\<lparr>st_savedAt := Some now, st_awaiting := True\<rparr>"

definition settings_busy :: "settingsTab \<Rightarrow> bool" where
  "settings_busy s =
     (case st_status s of
        None \<Rightarrow> False
      | Some st \<Rightarrow> ws_running st \<or> job_open (ws_run st) \<or> st_awaiting s)"

datatype settingsEvent = WafLoaded int "thrown + wafStatus" | WafSaved int

primrec settings_step :: "date_env \<Rightarrow> settingsTab \<Rightarrow> settingsEvent \<Rightarrow> settingsTab" where
  "settings_step de s (WafLoaded now r) = wafLoaded de now r s"
| "settings_step de s (WafSaved now) = wafSaved now s"

section \<open>Properties\<close>

lemma hourUtc_range: "0 \<le> hourUtc tz c \<and> hourUtc tz c < 24"
  by (simp add: hourUtc_def localHourToUtc_def js_rem_mod)

lemma open_not_dirty: "0 \<le> hs_hour_utc st \<Longrightarrow> hs_hour_utc st < 24 \<Longrightarrow> \<not> hub_dirty tz (openHub tz st)"
  by (simp add: hub_dirty_def openHub_def hourUtc_def hours_roundtrip)

text \<open>
  Hours of the week, in local time: the hour that is sent is right, the day it is sent with is that
  of the local schedule.
\<close>

lemma week_slot:
  fixes d h k :: int
  assumes "0 \<le> h" and "h < 24" and "- 24 \<le> k" and "k \<le> 24"
  shows "(d * 24 + (h - k) mod 24 + k) mod 168 = (d * 24 + h) mod 168 \<longleftrightarrow> 0 \<le> h - k \<and> h - k < 24"
proof -
  define q where "q = (h - k) div 24"
  have m: "(h - k) mod 24 = h - k - 24 * q" by (simp add: q_def minus_mult_div_eq_mod [symmetric])
  have q: "- 2 \<le> q" "q \<le> 1" using assms by (simp_all add: q_def)
  have "(d * 24 + (h - k) mod 24 + k) mod 168 = (d * 24 + h) mod 168 \<longleftrightarrow> 168 dvd 24 * q"
    unfolding m mod_eq_dvd_iff by (simp add: algebra_simps)
  also have "\<dots> \<longleftrightarrow> q = 0" using q by presburger
  also have "\<dots> \<longleftrightarrow> 0 \<le> h - k \<and> h - k < 24" unfolding q_def by presburger
  finally show ?thesis .
qed

definition tab_inv :: "settingsTab \<Rightarrow> bool" where
  "tab_inv s \<longleftrightarrow> (st_awaiting s \<longleftrightarrow> st_savedAt s \<noteq> None)"

interpretation settings_tab: machine "settings_step de" tab_inv for de
proof
  show "tab_inv s \<Longrightarrow> tab_inv (settings_step de s e)" for s e
    by (cases e) (auto simp: tab_inv_def wafLoaded_def wafSaved_def Let_def split: sum.split option.split)
qed

lemma openSettingsTab_inv: "tab_inv openSettingsTab"
  by (simp add: tab_inv_def openSettingsTab_def)

lemma loaded_watch:
  assumes "tab_inv s" and "st_savedAt s = Some since"
  shows "if pickedUp de since st \<or> since + 60000 \<le> now
    then \<not> st_awaiting (wafLoaded de now (Inr st) s) \<and>
         (settings_busy (wafLoaded de now (Inr st) s) \<longleftrightarrow> ws_running st \<or> job_open (ws_run st))
    else settings_busy (wafLoaded de now (Inr st) s)"
  using assms by (auto simp: tab_inv_def wafLoaded_def settings_busy_def WATCH_MS_def)

lemma openWaf_mb:
  assumes "1 \<le> ws_max_body_mb st" and "ws_max_body_mb st \<le> 100"
  shows "toMb (wf_value (openWaf st)) = Some (ws_max_body_mb st)"
proof -
  have "str_int (ws_max_body_mb st) = str_nat (nat (ws_max_body_mb st))" using assms(1) by (simp add: str_int_def)
  then have "js_Number (str_int (ws_max_body_mb st)) = RFin (of_int (ws_max_body_mb st))" using assms(1) by simp
  with assms show ?thesis by (simp add: openWaf_def toMb_def MIN_MB_def MAX_MB_def Let_def)
qed

lemma confirmWaf_sends:
  "confirmWaf env c ui w =
     (case toMb (wf_value c) of
        None \<Rightarrow> ((c\<lparr>wf_confirming := False\<rparr>, fst (confirm_flow (js ''Applying'' @ ellipsis) (\<lambda>w0. (Inr Undef, w0)) ui w)), w)
      | Some mb \<Rightarrow>
          (case confirm_flow (js ''Applying'' @ ellipsis)
                  (run_endpoint env (instanceSettings (UpdateCrowdSecWaf (waf_body mb (wf_action c))))) ui w of
             (ui', w') \<Rightarrow> ((if ui_open ui' then c else c\<lparr>wf_confirming := False\<rparr>, ui'), w')))"
  by (simp add: confirmWaf_def Let_def confirm_flow_def split: option.split prod.split sum.split)



end
