(* ===== verification/List_View.thy ===== *)
theory List_View
  imports Dialog_Flow
begin

text \<open>
  What the list pages share: the search box (\<^verbatim>\<open>lib/search.ts\<close>), the state of a page with its rows, its
  reload, its optimistic switches and its delete confirmation
  (\<^verbatim>\<open>components/proxy-hosts/confirm-delete-dialog.tsx\<close>), and a machine that composes a page with the
  service it reads from: patches and reloads are under way for a while, and the service handles and
  answers them in any order. \<open>List_Pages\<close> instantiates it.
\<close>

section \<open>Search\<close>

definition field_matches :: "jstring \<Rightarrow> jstring option \<Rightarrow> bool" where
  "field_matches needle field = (case field of None \<Rightarrow> False | Some s \<Rightarrow> js_includes (toLowerCase s) needle)"

definition filterBySearch :: "'r list \<Rightarrow> jstring \<Rightarrow> ('r \<Rightarrow> jstring option list) \<Rightarrow> 'r list" where
  "filterBySearch items query search_fields =
     (let needle = toLowerCase (trim query)
      in if needle = [] then items
         else filter (\<lambda>item. list_ex (field_matches needle) (search_fields item)) items)"

lemma filterBySearch_blank: "list_all is_ws q \<Longrightarrow> filterBySearch items q search_fields = items"
  by (simp add: filterBySearch_def Let_def trim_eq_Nil_iff [THEN iffD2])

lemma filterBySearch_case: "filterBySearch items (toLowerCase (trim q)) search_fields = filterBySearch items q search_fields"
  by (simp add: filterBySearch_def Let_def toLowerCase_trim)

text \<open>Typing more never brings a row back: the query of the longer text contains the shorter one.\<close>

lemma sublist_field:
  "sublist (toLowerCase (trim q)) (toLowerCase (trim q')) \<Longrightarrow> field_matches (toLowerCase (trim q')) f \<Longrightarrow>
   field_matches (toLowerCase (trim q)) f"
  by (auto simp: field_matches_def includes_iff_sublist split: option.splits intro: sublist_order.order_trans)

lemma filterBySearch_narrows:
  assumes "sublist (toLowerCase (trim q)) (toLowerCase (trim q'))"
  shows "set (filterBySearch items q' search_fields) \<subseteq> set (filterBySearch items q search_fields)"
proof (cases "toLowerCase (trim q') = []")
  case True
  with assms have "toLowerCase (trim q) = []" by simp
  with True show ?thesis by (simp add: filterBySearch_def)
next
  case False
  then show ?thesis
    using sublist_field [OF assms] by (auto simp: filterBySearch_def Let_def list_ex_iff)
qed

lemma trimEnd_append: "\<exists>r. trimEnd (x @ t) = trimEnd x @ r"
proof (cases "\<forall>c \<in> set t. is_ws c")
  case True
  then have "trimEnd (x @ t) = trimEnd x" by (simp add: trimEnd_def dropWhile_append)
  then show ?thesis by simp
next
  case False
  then obtain c where "c \<in> set (rev t)" "\<not> is_ws c" by auto
  then have "trimEnd (x @ t) = x @ trimEnd t" by (simp add: trimEnd_def dropWhile_append1)
  then show ?thesis using trimEnd_prefix [of x] by (metis append.assoc)
qed

lemma trim_append: "sublist (trim q) (trim (q @ t))"
proof (cases "trimStart q = []")
  case True
  then show ?thesis by (simp add: trim_def trimEnd_def)
next
  case False
  then obtain c where "c \<in> set q" "\<not> is_ws c" by (auto simp: trimStart_def dropWhile_eq_Nil_conv)
  then have "trimStart (q @ t) = trimStart q @ t" by (simp add: trimStart_def dropWhile_append1)
  then obtain r where "trim (q @ t) = trim q @ r" using trimEnd_append [of "trimStart q" t] by (auto simp: trim_def)
  then show ?thesis by simp
qed

lemma toLowerCase_sublist: "sublist s t \<Longrightarrow> sublist (toLowerCase s) (toLowerCase t)"
  by (auto simp: sublist_def toLowerCase_append) blast

lemma typing_narrows: "set (filterBySearch items (q @ t) search_fields) \<subseteq> set (filterBySearch items q search_fields)"
  by (rule filterBySearch_narrows [OF toLowerCase_sublist [OF trim_append]])

section \<open>The page\<close>

record 'r listView = "'r view_ui" +
  vw_query :: jstring
  vw_target :: "'r option"

definition openView :: "'r listView" where
  "openView =
     \<lparr>vw_rows = [], vw_loading = True, vw_loadError = None, vw_toasts = [], vw_query = [], vw_target = None\<rparr>"

text \<open>\<open>refresh\<close> shows the skeleton and starts a load; the answer of a load ends it either way.\<close>

definition refresh_view :: "'r listView \<Rightarrow> 'r listView" where
  "refresh_view v = v\<lparr>vw_loading := True\<rparr>"

definition loadAnswered :: "thrown + 'r list \<Rightarrow> 'r listView \<Rightarrow> 'r listView" where
  "loadAnswered r v =
     (case r of
        Inr rows \<Rightarrow> v\<lparr>vw_rows := rows, vw_loadError := None, vw_loading := False\<rparr>
      | Inl e \<Rightarrow> v\<lparr>vw_loadError := Some (de_message (describeError e)), vw_loading := False\<rparr>)"

definition flip_start :: "('r \<Rightarrow> int) \<Rightarrow> (bool \<Rightarrow> 'r \<Rightarrow> 'r) \<Rightarrow> int \<Rightarrow> bool \<Rightarrow> 'r listView \<Rightarrow> 'r listView" where
  "flip_start row_id put i b v = v\<lparr>vw_rows := flip row_id put i b (vw_rows v)\<rparr>"

definition flip_failed ::
  "('r \<Rightarrow> int) \<Rightarrow> (bool \<Rightarrow> 'r \<Rightarrow> 'r) \<Rightarrow> int \<Rightarrow> bool \<Rightarrow> thrown \<Rightarrow> 'r listView \<Rightarrow> 'r listView" where
  "flip_failed row_id put i b e v =
     v\<lparr>vw_rows := flip row_id put i (\<not> b) (vw_rows v),
       vw_toasts := vw_toasts v @ [ToastError (de_message (describeError e))]\<rparr>"

text \<open>The confirmation is open while a row is its target; a delete that worked reloads the page.\<close>

definition confirmTarget :: "('r \<Rightarrow> ('w, jval) io) \<Rightarrow> 'r listView \<Rightarrow> 'w \<Rightarrow> 'r listView \<times> 'w" where
  "confirmTarget remove v w =
     (case vw_target v of
        None \<Rightarrow> (v, w)
      | Some r \<Rightarrow>
          (case remove r w of
             (Inr x, w') \<Rightarrow>
               (refresh_view (v\<lparr>vw_target := None, vw_toasts := vw_toasts v @ [ToastSuccess (js ''Deleted'')]\<rparr>), w')
           | (Inl e, w') \<Rightarrow> (v\<lparr>vw_toasts := vw_toasts v @ [ToastError (de_message (describeError e))]\<rparr>, w')))"

datatype 'r tableBody = Skeleton | NoMatch jstring | NoRows | TableRows "'r list"

definition table_body :: "('r \<Rightarrow> jstring option list) \<Rightarrow> 'r listView \<Rightarrow> 'r tableBody" where
  "table_body search_fields v =
     (let shown = filterBySearch (vw_rows v) (vw_query v) search_fields
      in if vw_loading v then Skeleton
         else if shown \<noteq> [] then TableRows shown
         else if trim (vw_query v) \<noteq> [] then NoMatch (trim (vw_query v)) else NoRows)"

section \<open>The page and the service\<close>

text \<open>
  \<open>nt_patches\<close>: the switches under way, with what the service did so far; \<open>nt_loads\<close>: the reloads under
  way, with the rows the service read so far. The guards of the code: switches show only while the
  page is not loading, and a switch sends nothing while its last change is under way. The guards of
  the model: a reload and a switch, or two reloads, are not under way at once, and an answer tells
  what the service did.
\<close>

record 'r net =
  nt_store :: "'r list"
  nt_view :: "'r listView"
  nt_patches :: "(int \<times> bool \<times> bool option) list"
  nt_loads :: "'r list option list"

datatype 'r netEvent =
    Flip int bool
  | PatchServed int bool
  | PatchAnswered int thrown
  | RefreshStarts
  | LoadServed
  | LoadAnswered "thrown option"
  | Saved "'r list"
  | SetQuery jstring

definition at_rest :: "'r net \<Rightarrow> bool" where
  "at_rest s \<longleftrightarrow> nt_patches s = [] \<and> nt_loads s = []"

definition start_load :: "'r net \<Rightarrow> 'r net" where
  "start_load s = s\<lparr>nt_view := refresh_view (nt_view s), nt_loads := nt_loads s @ [None]\<rparr>"

definition open_net :: "'r list \<Rightarrow> 'r net" where
  "open_net store = \<lparr>nt_store = store, nt_view = openView, nt_patches = [], nt_loads = [None]\<rparr>"

fun net_step ::
  "('r \<Rightarrow> int) \<Rightarrow> (bool \<Rightarrow> 'r \<Rightarrow> 'r) \<Rightarrow> ('r \<Rightarrow> bool option) \<Rightarrow> 'r net \<Rightarrow> 'r netEvent \<Rightarrow> 'r net" where
  "net_step row_id put get s (Flip i b) =
     (if vw_loading (nt_view s) \<or> nt_loads s \<noteq> [] \<or> i \<in> fst ` set (nt_patches s) \<or>
         \<not> list_ex (\<lambda>r. row_id r = i \<and> get r = Some (\<not> b)) (vw_rows (nt_view s))
      then s
      else s\<lparr>nt_view := flip_start row_id put i b (nt_view s), nt_patches := nt_patches s @ [(i, b, None)]\<rparr>)"
| "net_step row_id put get s (PatchServed i ok) =
     (case map_of (nt_patches s) i of
        Some (b, None) \<Rightarrow>
          s\<lparr>nt_store := (if ok then flip row_id put i b (nt_store s) else nt_store s),
            nt_patches := map (\<lambda>p. if fst p = i then (i, b, Some ok) else p) (nt_patches s)\<rparr>
      | _ \<Rightarrow> s)"
| "net_step row_id put get s (PatchAnswered i e) =
     (case map_of (nt_patches s) i of
        Some (b, Some ok) \<Rightarrow>
          s\<lparr>nt_view := (if ok then nt_view s else flip_failed row_id put i b e (nt_view s)),
            nt_patches := filter (\<lambda>p. fst p \<noteq> i) (nt_patches s)\<rparr>
      | _ \<Rightarrow> s)"
| "net_step row_id put get s RefreshStarts = (if at_rest s then start_load s else s)"
| "net_step row_id put get s LoadServed = s\<lparr>nt_loads := map (\<lambda>x. Some (nt_store s)) (nt_loads s)\<rparr>"
| "net_step row_id put get s (LoadAnswered r) =
     (case nt_loads s of
        [] \<Rightarrow> s
      | x # xs \<Rightarrow>
          (case (r, x) of
             (Some e, _) \<Rightarrow> s\<lparr>nt_view := loadAnswered (Inl e) (nt_view s), nt_loads := xs\<rparr>
           | (None, Some rows) \<Rightarrow> s\<lparr>nt_view := loadAnswered (Inr rows) (nt_view s), nt_loads := xs\<rparr>
           | _ \<Rightarrow> s))"
| "net_step row_id put get s (Saved rows) =
     (if at_rest s \<and> distinct (map row_id rows) then start_load (s\<lparr>nt_store := rows\<rparr>) else s)"
| "net_step row_id put get s (SetQuery q) = s\<lparr>nt_view := (nt_view s)\<lparr>vw_query := q\<rparr>\<rparr>"

text \<open>What the page shows of the stored rows: the switches under way are shown as if they were done.\<close>

definition overlay :: "('r \<Rightarrow> int) \<Rightarrow> (bool \<Rightarrow> 'r \<Rightarrow> 'r) \<Rightarrow> (int \<times> bool \<times> bool option) list \<Rightarrow> 'r \<Rightarrow> 'r" where
  "overlay row_id put patches r =
     (case map_of patches (row_id r) of None \<Rightarrow> r | Some (b, sv) \<Rightarrow> put b r)"

definition net_inv ::
  "('r \<Rightarrow> int) \<Rightarrow> (bool \<Rightarrow> 'r \<Rightarrow> 'r) \<Rightarrow> ('r \<Rightarrow> bool option) \<Rightarrow> 'r net \<Rightarrow> bool" where
  "net_inv row_id put get s \<longleftrightarrow>
     distinct (map row_id (nt_store s)) \<and> distinct (map fst (nt_patches s)) \<and>
     (nt_loads s = [] \<longleftrightarrow> \<not> vw_loading (nt_view s)) \<and>
     (nt_loads s \<noteq> [] \<longrightarrow> nt_patches s = [] \<and> (nt_loads s = [None] \<or> nt_loads s = [Some (nt_store s)])) \<and>
     (nt_loads s = [] \<and> vw_loadError (nt_view s) = None \<longrightarrow>
        vw_rows (nt_view s) = map (overlay row_id put (nt_patches s)) (nt_store s) \<and>
        list_all (\<lambda>r. case map_of (nt_patches s) (row_id r) of
                        None \<Rightarrow> True
                      | Some (b, sv) \<Rightarrow> get r = Some (if sv = Some True then b else \<not> b)) (nt_store s))"

section \<open>The page shows what is stored\<close>

text \<open>
  The skeleton shows exactly while a reload is under way. Otherwise, unless the last load failed,
  the rows are those that are stored, and equal to them once no switch is under way.
\<close>

definition consistent_net :: "('r \<Rightarrow> int) \<Rightarrow> 'r net \<Rightarrow> bool" where
  "consistent_net key s \<longleftrightarrow>
     (vw_loading (nt_view s) \<longleftrightarrow> nt_loads s \<noteq> []) \<and>
     (nt_loads s = [] \<and> vw_loadError (nt_view s) = None \<longrightarrow>
        map key (vw_rows (nt_view s)) = map key (nt_store s) \<and>
        (nt_patches s = [] \<longrightarrow> vw_rows (nt_view s) = nt_store s))"

locale list_page = row_switch
begin

lemma overlay_id [simp]: "row_id (overlay row_id put ps r) = row_id r"
  by (simp add: overlay_def put_id split: option.split)

lemma overlay_none: "map_of ps (row_id r) = None \<Longrightarrow> overlay row_id put ps r = r"
  by (simp add: overlay_def)

lemma flip_overlay:
  "map_of ps i = None \<Longrightarrow>
   flip row_id put i b (map (overlay row_id put ps) rs) = map (overlay row_id put (ps @ [(i, b, sv)])) rs"
  by (auto simp: flip_def overlay_def map_add_def put_id split: option.split)

lemma map_of_served:
  "map_of (map (\<lambda>p. if fst p = i then (i, b, sv) else p) ps) j =
     (if j = i \<and> map_of ps i \<noteq> None then Some (b, sv) else map_of ps j)"
  by (induction ps) auto

lemma map_of_remove: "map_of (filter (\<lambda>p. fst p \<noteq> i) ps) j = (if j = i then None else map_of ps j)"
  by (induction ps) auto

lemma fst_served: "map fst (map (\<lambda>p. if fst p = i then (i, b, sv) else p) ps) = map fst ps"
  by simp

lemma same_row: "distinct (map row_id rs) \<Longrightarrow> r \<in> set rs \<Longrightarrow> r' \<in> set rs \<Longrightarrow> row_id r = row_id r' \<Longrightarrow> r = r'"
  by (meson distinct_map inj_onD)

lemma idle_inv:
  assumes "distinct (map row_id (nt_store s))" and "distinct (map fst (nt_patches s))"
    and "nt_loads s = []" and "\<not> vw_loading (nt_view s)"
    and "vw_loadError (nt_view s) = None \<Longrightarrow>
      vw_rows (nt_view s) = map (overlay row_id put (nt_patches s)) (nt_store s) \<and>
      (\<forall>r \<in> set (nt_store s). case map_of (nt_patches s) (row_id r) of
          None \<Rightarrow> True | Some (b, sv) \<Rightarrow> get r = Some (if sv = Some True then b else \<not> b))"
  shows "net_inv row_id put get s"
  using assms unfolding net_inv_def list_all_iff by simp

lemma inv_parts:
  assumes "net_inv row_id put get s"
  shows "distinct (map row_id (nt_store s))" "distinct (map fst (nt_patches s))"
    "nt_loads s = [] \<longleftrightarrow> \<not> vw_loading (nt_view s)"
    "nt_loads s \<noteq> [] \<Longrightarrow> nt_patches s = []"
    "nt_loads s \<noteq> [] \<Longrightarrow> nt_loads s = [None] \<or> nt_loads s = [Some (nt_store s)]"
  using assms unfolding net_inv_def by simp_all

lemma busy_inv:
  assumes "distinct (map row_id (nt_store s))" and "nt_patches s = []" and "vw_loading (nt_view s)"
    and "nt_loads s = [None] \<or> nt_loads s = [Some (nt_store s)]"
  shows "net_inv row_id put get s"
  using assms unfolding net_inv_def by auto

lemma overlay_nil [simp]: "overlay row_id put [] = (\<lambda>r. r)"
  by (rule ext) (simp add: overlay_def)

lemma shown_inv:
  assumes "net_inv row_id put get s" and "nt_loads s = []" and "vw_loadError (nt_view s) = None"
  shows "vw_rows (nt_view s) = map (overlay row_id put (nt_patches s)) (nt_store s)"
    and "r \<in> set (nt_store s) \<Longrightarrow> map_of (nt_patches s) (row_id r) = Some (b, sv) \<Longrightarrow>
      get r = Some (if sv = Some True then b else \<not> b)"
  using assms unfolding net_inv_def list_all_iff by fastforce+

lemma Flip_inv:
  assumes inv: "net_inv row_id put get s"
  shows "net_inv row_id put get (net_step row_id put get s (Flip i b))"
proof (cases "vw_loading (nt_view s) \<or> nt_loads s \<noteq> [] \<or> i \<in> fst ` set (nt_patches s) \<or>
         \<not> list_ex (\<lambda>r. row_id r = i \<and> get r = Some (\<not> b)) (vw_rows (nt_view s))")
  case False
  then have fresh: "map_of (nt_patches s) i = None" by (simp add: map_of_eq_None_iff)
  have store: "\<forall>r \<in> set (nt_store s). row_id r = i \<longrightarrow> get r = Some (\<not> b)"
    if shown: "vw_rows (nt_view s) = map (overlay row_id put (nt_patches s)) (nt_store s)"
  proof (intro ballI impI)
    fix r
    assume r: "r \<in> set (nt_store s)" "row_id r = i"
    obtain r0 where "r0 \<in> set (nt_store s)" "row_id r0 = i" "get (overlay row_id put (nt_patches s) r0) = Some (\<not> b)"
      using False shown by (auto simp: list_ex_iff)
    moreover have "r0 = r" using calculation r inv same_row [of "nt_store s" r0 r] by (simp add: net_inv_def)
    ultimately show "get r = Some (\<not> b)" using fresh by (simp add: overlay_none)
  qed
  with False inv fresh show ?thesis
    by (auto simp: net_inv_def flip_start_def flip_overlay map_add_def list_all_iff split: option.splits)
next
  case True
  then have "net_step row_id put get s (Flip i b) = s" by (simp only: net_step.simps if_True)
  with inv show ?thesis by simp
qed

lemma overlay_served:
  assumes "map_of ps i = Some (b, sv)"
  shows "overlay row_id put (map (\<lambda>p. if fst p = i then (i, b, sv') else p) ps) r = overlay row_id put ps r"
  using assms by (simp add: overlay_def map_of_served)

lemma overlay_flip:
  assumes "map_of ps i = Some (b, sv)"
  shows "map (overlay row_id put ps) (flip row_id put i b rs) = map (overlay row_id put ps) rs"
  using assms by (simp add: flip_def overlay_def put_id put_put)

lemma PatchServed_inv:
  assumes inv: "net_inv row_id put get s"
  shows "net_inv row_id put get (net_step row_id put get s (PatchServed i ok))"
proof (cases "\<exists>b. map_of (nt_patches s) i = Some (b, None)")
  case True
  then obtain b where b: "map_of (nt_patches s) i = Some (b, None)" by blast
  then have l: "nt_loads s = []" using inv_parts(4) [OF inv] by fastforce
  let ?ps = "map (\<lambda>p. if fst p = i then (i, b, Some ok) else p) (nt_patches s)"
  let ?st = "if ok then flip row_id put i b (nt_store s) else nt_store s"
  have shown: "map (overlay row_id put ?ps) ?st = map (overlay row_id put (nt_patches s)) (nt_store s)"
    unfolding overlay_served [OF b] by (simp add: overlay_flip [OF b])
  have "net_inv row_id put get (s\<lparr>nt_store := ?st, nt_patches := ?ps\<rparr>)"
  proof (rule idle_inv, goal_cases)
    case 1
    show ?case using inv_parts(1) [OF inv] by (simp add: flip_ids del: map_map)
  next
    case 2
    show ?case using inv_parts(2) [OF inv] by (simp add: fst_served del: map_map)
  next
    case 4
    show ?case using inv_parts(3) [OF inv] l by simp
  next
    case 5
    then have e: "vw_loadError (nt_view s) = None" by simp
    have "get r = Some (if sv = Some True then c else \<not> c)"
      if r: "r \<in> set ?st" and m: "map_of ?ps (row_id r) = Some (c, sv)" for r c sv
    proof (cases "row_id r = i")
      case True
      with m b have "c = b" "sv = Some ok" by (simp_all add: map_of_served)
      then show ?thesis
        using r b True shown_inv(2) [OF inv l e] by (fastforce simp: flip_def get_put split: if_splits)
    next
      case False
      then have "r \<in> set (nt_store s)" using r by (auto simp: flip_def put_id split: if_splits)
      with False m show ?thesis using shown_inv(2) [OF inv l e] by (simp add: map_of_served)
    qed
    then show ?case using shown_inv(1) [OF inv l e] shown by (simp split: option.split)
  qed (use l in simp)
  then show ?thesis using b by simp
next
  case False
  then have "net_step row_id put get s (PatchServed i ok) = s" by (auto split: option.splits prod.splits)
  with inv show ?thesis by simp
qed

lemma PatchAnswered_inv:
  assumes inv: "net_inv row_id put get s"
  shows "net_inv row_id put get (net_step row_id put get s (PatchAnswered i e))"
proof (cases "\<exists>b ok. map_of (nt_patches s) i = Some (b, Some ok)")
  case True
  then obtain b ok where b: "map_of (nt_patches s) i = Some (b, Some ok)" by blast
  then have "nt_patches s \<noteq> []" by auto
  then have l: "nt_loads s = []" using inv by (auto simp: net_inv_def)
  have d: "distinct (map fst (filter (\<lambda>p. fst p \<noteq> i) (nt_patches s)))"
    using inv by (simp add: net_inv_def distinct_map_filter)
  show ?thesis
    using inv b l d
    by (auto simp: net_inv_def flip_def flip_failed_def overlay_def map_of_remove put_id put_put put_get list_all_iff
        split: option.splits if_splits)
next
  case False
  then have "net_step row_id put get s (PatchAnswered i e) = s" by (auto split: option.splits prod.splits)
  with inv show ?thesis by simp
qed

lemma start_load_inv:
  "at_rest s \<Longrightarrow> distinct (map row_id (nt_store s)) \<Longrightarrow> net_inv row_id put get (start_load s)"
  by (rule busy_inv) (simp_all add: start_load_def refresh_view_def at_rest_def)

lemma LoadServed_inv:
  assumes inv: "net_inv row_id put get s"
  shows "net_inv row_id put get (net_step row_id put get s LoadServed)"
proof (cases "nt_loads s = []")
  case False
  show ?thesis
    by (rule busy_inv) (use inv_parts [OF inv] False in auto)
next
  case True
  then have "net_step row_id put get s LoadServed = s" by simp
  with inv show ?thesis by simp
qed

lemma LoadAnswered_inv:
  assumes inv: "net_inv row_id put get s"
  shows "net_inv row_id put get (net_step row_id put get s (LoadAnswered r))"
proof (cases "nt_loads s = []")
  case False
  note p = inv_parts [OF inv] inv_parts(4,5) [OF inv False]
  have failed: "net_inv row_id put get (s\<lparr>nt_view := loadAnswered (Inl e) (nt_view s), nt_loads := []\<rparr>)" for e
    by (rule idle_inv) (use p in \<open>simp_all add: loadAnswered_def\<close>)
  have loaded: "net_inv row_id put get (s\<lparr>nt_view := loadAnswered (Inr (nt_store s)) (nt_view s), nt_loads := []\<rparr>)"
    by (rule idle_inv) (use p in \<open>simp_all add: loadAnswered_def\<close>)
  show ?thesis using p(7) failed loaded inv by (auto split: option.split)
qed (use inv in simp)

lemma SetQuery_inv: "net_inv row_id put get s \<Longrightarrow> net_inv row_id put get (net_step row_id put get s (SetQuery q))"
  by (simp add: net_inv_def)

end

sublocale list_page \<subseteq> net: machine "net_step row_id put get" "net_inv row_id put get"
proof
  show "net_inv row_id put get s \<Longrightarrow> net_inv row_id put get (net_step row_id put get s e)" for s e
    by (cases e)
      (simp_all only: Flip_inv PatchServed_inv PatchAnswered_inv LoadServed_inv LoadAnswered_inv SetQuery_inv,
       simp_all add: start_load_inv inv_parts(1) at_rest_def)
qed

context list_page
begin

lemma open_net_inv: "distinct (map row_id store) \<Longrightarrow> net_inv row_id put get (open_net store)"
  by (simp add: net_inv_def open_net_def openView_def)

lemma shows_store:
  assumes "distinct (map row_id store)"
  shows "consistent_net row_id (foldl (net_step row_id put get) (open_net store) es)"
proof -
  let ?s = "foldl (net_step row_id put get) (open_net store) es"
  have inv: "net_inv row_id put get ?s" by (rule net.run_inv [OF open_net_inv [OF assms]])
  then show ?thesis
    using shown_inv(1) [OF inv] inv_parts(3) [OF inv] by (auto simp: consistent_net_def comp_def)
qed

end

end
