(* ===== verification/Layouts.thy ===== *)
theory Layouts
  imports List_View "HOL-Library.AList"
begin

text \<open>
  What a page renders, as data: texts, badges, links and controls, each control with its accessible
  name, whether it is disabled, and the act it performs. \<^verbatim>\<open>components/ui/row-cards.tsx\<close> and the table
  of a list page are two arrangements of such nodes, chosen by the width of the window
  (\<^verbatim>\<open>hooks/use-mobile.ts\<close>). Style is left out; the variant of a badge is kept.
\<close>

section \<open>Nodes\<close>

datatype 'a node =
    TextN jstring
  | BadgeN jstring jstring
  | LinkN jstring jstring
  | TitledN jstring jstring
  | ButtonN jstring bool 'a
  | SwitchN jstring bool bool "bool \<Rightarrow> 'a"
  | FieldN jstring jstring bool "jstring \<Rightarrow> 'a"
  | PickerN jstring "(jstring \<times> jstring) list" jstring "jstring list" bool "jstring \<Rightarrow> 'a"
  | TagsN jstring "jstring list" bool "jstring list \<Rightarrow> 'a"

fun is_control :: "'a node \<Rightarrow> bool" where
  "is_control (ButtonN l d a) = True"
| "is_control (SwitchN l c d f) = True"
| "is_control (FieldN l v d f) = True"
| "is_control (PickerN l xs v off d f) = True"
| "is_control (TagsN l ts d f) = True"
| "is_control _ = False"

definition controls :: "'a node list \<Rightarrow> 'a node list" where
  "controls ns = filter is_control ns"

fun node_name :: "'a node \<Rightarrow> jstring" where
  "node_name (TextN t) = t"
| "node_name (BadgeN v t) = t"
| "node_name (LinkN h t) = t"
| "node_name (TitledN tt t) = t"
| "node_name (ButtonN l d a) = l"
| "node_name (SwitchN l c d f) = l"
| "node_name (FieldN l v d f) = l"
| "node_name (PickerN l xs v off d f) = l"
| "node_name (TagsN l ts d f) = l"

fun node_disabled :: "'a node \<Rightarrow> bool" where
  "node_disabled (ButtonN l d a) = d"
| "node_disabled (SwitchN l c d f) = d"
| "node_disabled (FieldN l v d f) = d"
| "node_disabled (PickerN l xs v off d f) = d"
| "node_disabled (TagsN l ts d f) = d"
| "node_disabled _ = True"

text \<open>The acts a node can lead to now: none where it is disabled.\<close>

fun node_acts :: "'a node \<Rightarrow> 'a set" where
  "node_acts (ButtonN l d a) = (if d then {} else {a})"
| "node_acts (SwitchN l c d f) = (if d then {} else {f (\<not> c)})"
| "node_acts (FieldN l v d f) = (if d then {} else range f)"
| "node_acts (PickerN l xs v off d f) = (if d then {} else f ` (fst ` set xs - set off))"
| "node_acts (TagsN l ts d f) = (if d then {} else range f)"
| "node_acts _ = {}"

definition acts :: "'a node list \<Rightarrow> 'a set" where
  "acts ns = (\<Union>n \<in> set ns. node_acts n)"

lemma controls_Nil [simp]: "controls [] = []"
  by (simp add: controls_def)

lemma controls_Cons [simp]: "controls (n # ns) = (if is_control n then n # controls ns else controls ns)"
  by (simp add: controls_def)

lemma controls_append [simp]: "controls (ns @ ms) = controls ns @ controls ms"
  by (simp add: controls_def)

lemma controls_idem [simp]: "controls (controls ns) = controls ns"
  by (simp add: controls_def)

lemma acts_controls: "acts (controls ns) = acts ns"
proof -
  have "node_acts n = {}" if "\<not> is_control n" for n :: "'a node" using that by (cases n) simp_all
  then show ?thesis by (auto simp: acts_def controls_def)
qed

lemma acts_simps [simp]: "acts [] = {}" "acts (n # ns) = node_acts n \<union> acts ns" "acts (ns @ ms) = acts ns \<union> acts ms"
  by (auto simp: acts_def)

section \<open>Values\<close>

text \<open>What a control shows, the act of putting a value into it where it allows that, and what a form shows by name.\<close>

datatype ctlValue = TextValue jstring | BoolValue bool | TagsValue "jstring list"

fun entered :: "'a node \<Rightarrow> ctlValue \<Rightarrow> 'a option" where
  "entered (SwitchN l c d f) (BoolValue b) = (if d \<or> b = c then None else Some (f b))"
| "entered (FieldN l v d f) (TextValue x) = (if d then None else Some (f x))"
| "entered (PickerN l xs v off d f) (TextValue x) = (if d \<or> x \<notin> fst ` set xs \<or> x \<in> set off then None else Some (f x))"
| "entered (TagsN l ts d f) (TagsValue us) = (if d then None else Some (f us))"
| "entered _ _ = None"

fun shown :: "'a node \<Rightarrow> ctlValue option" where
  "shown (SwitchN l c d f) = Some (BoolValue c)"
| "shown (FieldN l v d f) = Some (TextValue v)"
| "shown (PickerN l xs v off d f) = Some (TextValue v)"
| "shown (TagsN l ts d f) = Some (TagsValue ts)"
| "shown _ = None"

primrec form_values :: "'a node list \<Rightarrow> jstring \<Rightarrow> ctlValue option" where
  "form_values [] l = None"
| "form_values (n # ns) l = (if node_name n = l \<and> shown n \<noteq> None then shown n else form_values ns l)"

definition shows_value :: "'a node list \<Rightarrow> jstring \<Rightarrow> ctlValue \<Rightarrow> bool" where
  "shows_value ns l x \<longleftrightarrow> (\<exists>n \<in> set ns. node_name n = l \<and> shown n = Some x)"

lemma form_values_append:
  "form_values (ns @ ms) l = (case form_values ns l of Some v \<Rightarrow> Some v | None \<Rightarrow> form_values ms l)"
  by (induction ns) (auto split: option.splits)

section \<open>Pickers\<close>

text \<open>
  \<open>Object.entries(Object.fromEntries(l))\<close>: a key stands where it came first with the value it came with
  last, and the keys that are array indices come first, ascending.
\<close>

definition from_entries :: "(jstring \<times> 'v) list \<Rightarrow> (jstring \<times> 'v) list" where
  "from_entries l = fold (\<lambda>(k, v) acc. AList.update k v acc) l []"

definition array_index :: "jstring \<Rightarrow> int option" where
  "array_index k =
     (case parseInt k of
        Num n \<Rightarrow> if 0 \<le> n \<and> n < 2 ^ 32 - 1 \<and> str_int n = k then Some n else None
      | NaN \<Rightarrow> None)"

definition object_entries :: "(jstring \<times> 'v) list \<Rightarrow> (jstring \<times> 'v) list" where
  "object_entries es =
     sort_key (\<lambda>e. the (array_index (fst e))) (filter (\<lambda>e. array_index (fst e) \<noteq> None) es) @
     filter (\<lambda>e. array_index (fst e) = None) es"

text \<open>
  \<^verbatim>\<open>components/ui/searchable-select.tsx\<close>: the text it shows is the label of the option with its value, or
  the placeholder; taking an option passes its value on. The values in \<open>disabledValues\<close> are listed but
  cannot be taken.
\<close>

definition searchableSelect ::
  "jstring \<Rightarrow> (jstring \<times> jstring) list \<Rightarrow> jstring \<Rightarrow> jstring \<Rightarrow> jstring list \<Rightarrow> bool \<Rightarrow> (jstring \<Rightarrow> 'a) \<Rightarrow> 'a node list" where
  "searchableSelect label items sel placeholder disabledValues disabled onValueChange =
     (let options = object_entries items
      in [TextN (case map_of options sel of Some l \<Rightarrow> l | None \<Rightarrow> placeholder),
          PickerN label options sel disabledValues disabled onValueChange])"

lemma from_entries_map: "map_of (from_entries l) = map_of (rev l)"
proof -
  have "map_of (fold (\<lambda>(k, v) acc. AList.update k v acc) l acc) = map_of (rev l @ acc)" for acc
    by (induction l arbitrary: acc) (auto simp: update_conv' map_add_def fun_eq_iff split: option.splits)
  then show ?thesis by (simp add: from_entries_def)
qed

lemma from_entries_distinct: "distinct (map fst (from_entries l))"
proof -
  have "distinct (map fst acc) \<Longrightarrow> distinct (map fst (fold (\<lambda>(k, v) acc. AList.update k v acc) l acc))" for acc
    by (induction l arbitrary: acc) (auto intro: distinct_update)
  then show ?thesis by (simp add: from_entries_def)
qed

lemma object_entries_set [simp]: "set (object_entries es) = set es"
  by (auto simp: object_entries_def)

lemma object_entries_distinct: "distinct (map fst es) \<Longrightarrow> distinct (map fst (object_entries es))"
  by (auto simp: object_entries_def distinct_map inj_on_def dest: distinct_filter)

lemma object_entries_map: "distinct (map fst es) \<Longrightarrow> map_of (object_entries es) = map_of es"
  by (metis (no_types, lifting) map_of_inject_set object_entries_distinct object_entries_set)

text \<open>What a picker shows: the label that its last item with the value has.\<close>

lemma searchable_shows:
  "searchableSelect label (from_entries items) sel ph off dis f =
     [TextN (case map_of (rev items) sel of Some l \<Rightarrow> l | None \<Rightarrow> ph),
      PickerN label (object_entries (from_entries items)) sel off dis f]"
  by (simp add: searchableSelect_def Let_def object_entries_map from_entries_distinct from_entries_map)

section \<open>Cards\<close>

text \<open>
  The value of a fact: \<open>null\<close>, a plain string, or an element. The first, and a string that is empty,
  render as an em dash.
\<close>

datatype 'a factValue = NullFact | StringFact jstring | ElementFact "'a node list"

definition fact_nodes :: "'a factValue \<Rightarrow> 'a node list" where
  "fact_nodes v =
     (case v of
        NullFact \<Rightarrow> [TextN [8212]]
      | StringFact s \<Rightarrow> [TextN (if s = [] then [8212] else s)]
      | ElementFact ns \<Rightarrow> ns)"

record 'a rowCard =
  rc_title :: "'a node list"
  rc_meta :: "'a node list option"
  rc_facts :: "(jstring \<times> 'a factValue) list"
  rc_actions :: "'a node list option"
  rc_onPress :: "'a option"

definition mkCard :: "'a node list \<Rightarrow> 'a node list option \<Rightarrow> (jstring \<times> 'a factValue) list \<Rightarrow> 'a node list option \<Rightarrow> 'a rowCard" where
  "mkCard t m fs xs = \<lparr>rc_title = t, rc_meta = m, rc_facts = fs, rc_actions = xs, rc_onPress = None\<rparr>"

definition node_text :: "'a node list \<Rightarrow> jstring" where
  "node_text ns = concat (map node_name ns)"

definition opt_nodes :: "'a node list option \<Rightarrow> 'a node list" where
  "opt_nodes x = (case x of Some ns \<Rightarrow> ns | None \<Rightarrow> [])"

definition renderCard :: "'a rowCard \<Rightarrow> 'a node list" where
  "renderCard c =
     (case rc_onPress c of Some a \<Rightarrow> [ButtonN (node_text (rc_title c)) False a] | None \<Rightarrow> rc_title c) @
     opt_nodes (rc_meta c) @
     concat (map (\<lambda>(label, v). TextN label # fact_nodes v) (rc_facts c)) @
     opt_nodes (rc_actions c)"

datatype 'a cardsView = CardsSkeleton | CardsEmpty "'a node list" | CardsList "'a rowCard list"

definition rowCards :: "bool \<Rightarrow> bool \<Rightarrow> 'a node list \<Rightarrow> 'a rowCard list \<Rightarrow> 'a cardsView" where
  "rowCards loading isEmpty nothing cs =
     (if loading then CardsSkeleton else if isEmpty then CardsEmpty nothing else CardsList cs)"

section \<open>Tables\<close>

text \<open>
  A row of a table: skeleton cells while loading, one cell over all columns for the empty state, or
  the cells of an entry. \<open>EntryRow\<close> has what a click on the row itself does, if anything.
\<close>

datatype 'a tableRow = SkeletonRow nat | SpanRow nat "'a node list" | EntryRow "'a option" "'a node list list"

definition loadingRows :: "nat \<Rightarrow> 'a tableRow list" where
  "loadingRows cols = map (\<lambda>i. SkeletonRow cols) [0, 1, 2 :: nat]"

record 'a tableView =
  tv_head :: "jstring list"
  tv_body :: "'a tableRow list"

fun row_nodes :: "'a tableRow \<Rightarrow> 'a node list" where
  "row_nodes (SkeletonRow n) = []"
| "row_nodes (SpanRow n ns) = ns"
| "row_nodes (EntryRow p cells) = concat cells"

fun row_width :: "'a tableRow \<Rightarrow> nat" where
  "row_width (SkeletonRow n) = n"
| "row_width (SpanRow n ns) = n"
| "row_width (EntryRow p cells) = length cells"

definition tableBody_of ::
  "bool \<Rightarrow> nat \<Rightarrow> nat \<Rightarrow> 'a node list \<Rightarrow> ('r \<Rightarrow> 'a tableRow) \<Rightarrow> 'r list \<Rightarrow> 'a tableRow list" where
  "tableBody_of loading cols wide nothing row rows =
     (if loading then loadingRows cols else if rows = [] then [SpanRow wide nothing] else map row rows)"

text \<open>The part of a list page that shows the rows, in either layout.\<close>

datatype 'a listBody = CardsBody "'a cardsView" | TableBody "'a tableView"

fun body_nodes :: "'a listBody \<Rightarrow> 'a node list" where
  "body_nodes (CardsBody CardsSkeleton) = []"
| "body_nodes (CardsBody (CardsEmpty ns)) = ns"
| "body_nodes (CardsBody (CardsList cs)) = concat (map renderCard cs)"
| "body_nodes (TableBody t) = concat (map row_nodes (tv_body t))"

definition MOBILE_BREAKPOINT :: int where "MOBILE_BREAKPOINT = 768"

definition useIsMobile :: "int \<Rightarrow> bool" where
  "useIsMobile width \<longleftrightarrow> width \<le> MOBILE_BREAKPOINT - 1"

section \<open>The two layouts of a list page\<close>

text \<open>
  What the pages agree on: \<open>head\<close> are the columns, the last of them the actions. A column is kept by a
  card when its cell is the title (perhaps after a word), the element at its side, or the fact of the
  same label.
\<close>

definition column_kept :: "'a rowCard \<Rightarrow> jstring \<times> 'a node list \<Rightarrow> bool" where
  "column_kept c col \<longleftrightarrow>
     suffix (snd col) (rc_title c) \<or> rc_meta c = Some (snd col) \<or>
     list_ex (\<lambda>(label, v). label = fst col \<and> fact_nodes v = snd col) (rc_facts c)"

definition same_row :: "jstring list \<Rightarrow> 'a rowCard \<Rightarrow> 'a tableRow \<Rightarrow> bool" where
  "same_row head c r \<longleftrightarrow>
     controls (renderCard c) = controls (row_nodes r) \<and> distinct (map node_name (controls (renderCard c))) \<and>
     (case r of
        EntryRow p cells \<Rightarrow>
          length cells = length head \<and> last cells = opt_nodes (rc_actions c) \<and>
          list_all (column_kept c) (butlast (zip head cells))
      | _ \<Rightarrow> False)"

text \<open>The layouts of a page: below the breakpoint cards, otherwise a table.\<close>

definition list_body ::
  "bool \<Rightarrow> jstring list \<Rightarrow> nat \<Rightarrow> nat \<Rightarrow> 'a node list \<Rightarrow> ('r \<Rightarrow> 'a rowCard) \<Rightarrow> ('r \<Rightarrow> 'a tableRow) \<Rightarrow>
   bool \<Rightarrow> 'r list \<Rightarrow> 'a listBody" where
  "list_body isMobile head cols wide nothing crd row loading rows =
     (if isMobile then CardsBody (rowCards loading (rows = []) nothing (map crd rows))
      else TableBody \<lparr>tv_head = head, tv_body = tableBody_of loading cols wide nothing row rows\<rparr>)"

text \<open>
  A page with two layouts: its columns, what it shows for no row, and how it shows a row either way.
\<close>

locale two_layouts =
  fixes head :: "jstring list" and crd :: "'r \<Rightarrow> 'a rowCard" and row :: "'r \<Rightarrow> 'a tableRow"
  assumes same: "same_row head (crd r) (row r)"
begin

lemma row_controls: "controls (renderCard (crd r)) = controls (row_nodes (row r))"
  using same by (simp add: same_row_def)

lemma rows_controls: "controls (concat (map renderCard (map crd rs))) = controls (concat (map row_nodes (map row rs)))"
  by (induction rs) (simp_all add: row_controls)

theorem layouts_agree:
  "controls (body_nodes (list_body True head cols wide nothing crd row loading rows)) =
   controls (body_nodes (list_body False head cols wide nothing crd row loading rows))"
  using rows_controls by (simp add: list_body_def rowCards_def tableBody_of_def loadingRows_def)

lemma row_acts: "acts (renderCard (crd r)) = acts (row_nodes (row r))"
  by (metis acts_controls row_controls)

lemma body_acts:
  assumes rows: "\<And>r. acts (row_nodes (row r)) \<subseteq> S" and none: "acts nothing \<subseteq> S"
  shows "acts (body_nodes (list_body isMobile head cols wide nothing crd row loading rs)) \<subseteq> S"
proof -
  have "acts (concat (map row_nodes (map row rs))) \<subseteq> S" for rs
    using rows by (induction rs) auto
  moreover have "acts (concat (map renderCard (map crd rs))) = acts (concat (map row_nodes (map row rs)))" for rs
    by (metis acts_controls rows_controls)
  ultimately show ?thesis
    using none by (simp add: list_body_def rowCards_def tableBody_of_def loadingRows_def)
qed

lemma row_fits: "row_width (row r) = length head"
  using same [of r] by (cases "row r") (simp_all add: same_row_def)

text \<open>Every row of the table has as many cells as there are columns, where the two constants are right.\<close>

lemma table_fits:
  "cols = length head \<Longrightarrow> wide = length head \<Longrightarrow>
   list_all (\<lambda>r. row_width r = length head) (tableBody_of loading cols wide nothing row rows)"
  by (auto simp: tableBody_of_def loadingRows_def list_all_iff row_fits)

end

end
