(* ===== verification/Upstreams.thy ===== *)
theory Upstreams
  imports Dialog_Flow "HOL-Library.AList" "HOL-Library.Multiset"
begin

text \<open>
  Upstream pools: the dialog of \<^verbatim>\<open>components/upstreams/upstream-dialog.tsx\<close>, from the rows it
  edits to the sequence of requests by which saving an existing pool reconciles its backends.
  \<open>apply_op\<close> states what the requests on the backends of a pool mean (remove, patch, add), and
  the main property is that the requests sent turn the stored backends into the rows.
\<close>

section \<open>Data\<close>

datatype lbMethod = Round_robin | Least_conn | Ip_hash | Hash | Random

datatype upstreamContext = HttpContext | StreamContext | BothContexts

definition LB_METHODS :: "lbMethod list" where
  "LB_METHODS = [Round_robin, Least_conn, Ip_hash, Hash, Random]"

record backendRow =
  br_key :: jstring
  br_id :: "int option"
  br_host :: jstring
  br_port :: jstring
  br_weight :: jstring
  br_max_fails :: jstring
  br_fail_timeout :: jstring
  br_backup :: bool
  br_down :: bool
  br_enabled :: bool

record backend =
  b_id :: int
  b_host :: jstring
  b_port :: int
  b_weight :: "int option"
  b_max_fails :: "int option"
  b_fail_timeout :: "int option"
  b_backup :: "bool option"
  b_down :: "bool option"
  b_enabled :: "bool option"

record upstream =
  u_id :: int
  u_name :: jstring
  u_description :: "jstring option"
  u_lb_method :: "lbMethod option"
  u_context :: "upstreamContext option"
  u_enabled :: "bool option"
  u_backends :: "backend list option"

record backendCreate =
  bc_host :: jstring
  bc_port :: jsnum
  bc_weight :: jsnum
  bc_max_fails :: jsnum
  bc_fail_timeout :: jsnum
  bc_backup :: bool
  bc_down :: bool
  bc_enabled :: bool

record backendUpdate =
  bu_host :: "jstring option"
  bu_port :: "jsnum option"
  bu_weight :: "jsnum option"
  bu_max_fails :: "jsnum option"
  bu_fail_timeout :: "jsnum option"
  bu_backup :: "bool option"
  bu_down :: "bool option"
  bu_enabled :: "bool option"

definition dflt :: "'a \<Rightarrow> 'a option \<Rightarrow> 'a" where
  "dflt d x = (case x of Some v \<Rightarrow> v | None \<Rightarrow> d)"

section \<open>Rows\<close>

definition newRow :: "nat \<Rightarrow> backendRow \<times> nat" where
  "newRow rowSeq =
     (let n = rowSeq + 1
      in (\<lparr>br_key = js ''new-'' @ str_nat n, br_id = None, br_host = [], br_port = js ''80'',
           br_weight = js ''1'', br_max_fails = js ''1'', br_fail_timeout = js ''10'',
           br_backup = False, br_down = False, br_enabled = True\<rparr>, n))"

definition rowFromBackend :: "backend \<Rightarrow> backendRow" where
  "rowFromBackend b =
     \<lparr>br_key = js ''existing-'' @ str_int (b_id b), br_id = Some (b_id b), br_host = b_host b,
      br_port = str_int (b_port b), br_weight = str_int (dflt 1 (b_weight b)),
      br_max_fails = str_int (dflt 1 (b_max_fails b)),
      br_fail_timeout = str_int (dflt 10 (b_fail_timeout b)),
      br_backup = dflt False (b_backup b), br_down = dflt False (b_down b),
      br_enabled = dflt True (b_enabled b)\<rparr>"

definition toNumber :: "jstring \<Rightarrow> jsnum" where
  "toNumber v = parseInt v"

definition rowToCreate :: "backendRow \<Rightarrow> backendCreate" where
  "rowToCreate row =
     \<lparr>bc_host = trim (br_host row), bc_port = toNumber (br_port row),
      bc_weight = toNumber (br_weight row), bc_max_fails = toNumber (br_max_fails row),
      bc_fail_timeout = toNumber (br_fail_timeout row), bc_backup = br_backup row,
      bc_down = br_down row, bc_enabled = br_enabled row\<rparr>"

definition changed :: "'a \<Rightarrow> 'a \<Rightarrow> 'a option" where
  "changed new old = (if new \<noteq> old then Some new else None)"

definition backendDiff :: "backend \<Rightarrow> backendRow \<Rightarrow> backendUpdate" where
  "backendDiff original row =
     (let nxt = rowToCreate row
      in \<lparr>bu_host = changed (bc_host nxt) (b_host original),
          bu_port = changed (bc_port nxt) (Num (b_port original)),
          bu_weight = changed (bc_weight nxt) (Num (dflt 1 (b_weight original))),
          bu_max_fails = changed (bc_max_fails nxt) (Num (dflt 1 (b_max_fails original))),
          bu_fail_timeout = changed (bc_fail_timeout nxt) (Num (dflt 10 (b_fail_timeout original))),
          bu_backup = changed (bc_backup nxt) (dflt False (b_backup original)),
          bu_down = changed (bc_down nxt) (dflt False (b_down original)),
          bu_enabled = changed (bc_enabled nxt) (dflt True (b_enabled original))\<rparr>)"

definition no_changes :: backendUpdate where
  "no_changes = \<lparr>bu_host = None, bu_port = None, bu_weight = None, bu_max_fails = None,
     bu_fail_timeout = None, bu_backup = None, bu_down = None, bu_enabled = None\<rparr>"

definition not_natural :: "jstring \<Rightarrow> bool" where
  "not_natural s = (case toNumber s of Num n \<Rightarrow> n < 0 | NaN \<Rightarrow> True)"

definition validateRow :: "backendRow \<Rightarrow> jstring option" where
  "validateRow row =
     (let host = trim (br_host row)
      in if host = [] then Some (js ''Backend host is required.'')
         else if list_ex is_ws host then Some (js ''Backend host must not contain spaces.'')
         else if (case toNumber (br_port row) of Num port \<Rightarrow> port < 1 \<or> 65535 < port | NaN \<Rightarrow> True)
         then Some (js ''Port for '' @ host @ js '' must be between 1 and 65535.'')
         else if not_natural (br_weight row) then Some (js ''Weight for '' @ host @ js '' must be 0 or greater.'')
         else if not_natural (br_max_fails row)
         then Some (js ''Max fails for '' @ host @ js '' must be 0 or greater.'')
         else if not_natural (br_fail_timeout row)
         then Some (js ''Fail timeout for '' @ host @ js '' must be 0 or greater.'')
         else None)"

section \<open>The dialog\<close>

record poolForm =
  pf_upstream :: "upstream option"
  pf_name :: jstring
  pf_description :: jstring
  pf_lbMethod :: lbMethod
  pf_context :: upstreamContext
  pf_enabled :: bool
  pf_rows :: "backendRow list"
  pf_rowSeq :: nat

definition openPool :: "upstream option \<Rightarrow> nat \<Rightarrow> poolForm" where
  "openPool up seq =
     (let backends = (case up of Some u \<Rightarrow> dflt [] (u_backends u) | None \<Rightarrow> [])
      in \<lparr>pf_upstream = up,
          pf_name = (case up of Some u \<Rightarrow> u_name u | None \<Rightarrow> []),
          pf_description = (case up of Some u \<Rightarrow> dflt [] (u_description u) | None \<Rightarrow> []),
          pf_lbMethod = (case up of Some u \<Rightarrow> dflt Round_robin (u_lb_method u) | None \<Rightarrow> Round_robin),
          pf_context = (case up of Some u \<Rightarrow> dflt HttpContext (u_context u) | None \<Rightarrow> HttpContext),
          pf_enabled = (case up of Some u \<Rightarrow> dflt True (u_enabled u) | None \<Rightarrow> True),
          pf_rows = (if backends \<noteq> [] then map rowFromBackend backends else [fst (newRow seq)]),
          pf_rowSeq = (if backends \<noteq> [] then seq else snd (newRow seq))\<rparr>)"

text \<open>The methods offered: IP hash exists only in the http context.\<close>

definition methods_for :: "upstreamContext \<Rightarrow> lbMethod list" where
  "methods_for context =
     (if context = HttpContext then LB_METHODS else filter (\<lambda>m. m \<noteq> Ip_hash) LB_METHODS)"

definition changeContext :: "upstreamContext \<Rightarrow> poolForm \<Rightarrow> poolForm" where
  "changeContext nxt f =
     (let f1 = f\<lparr>pf_context := nxt\<rparr>
      in if nxt \<noteq> HttpContext \<and> pf_lbMethod f = Ip_hash then f1\<lparr>pf_lbMethod := Round_robin\<rparr> else f1)"

datatype rowPatch =
    RowHost jstring | RowPort jstring | RowWeight jstring | RowMaxFails jstring
  | RowFailTimeout jstring | RowBackup bool | RowDown bool | RowEnabled bool

primrec patch_row :: "rowPatch \<Rightarrow> backendRow \<Rightarrow> backendRow" where
  "patch_row (RowHost v) r = r\<lparr>br_host := v\<rparr>"
| "patch_row (RowPort v) r = r\<lparr>br_port := v\<rparr>"
| "patch_row (RowWeight v) r = r\<lparr>br_weight := v\<rparr>"
| "patch_row (RowMaxFails v) r = r\<lparr>br_max_fails := v\<rparr>"
| "patch_row (RowFailTimeout v) r = r\<lparr>br_fail_timeout := v\<rparr>"
| "patch_row (RowBackup b) r = r\<lparr>br_backup := b\<rparr>"
| "patch_row (RowDown b) r = r\<lparr>br_down := b\<rparr>"
| "patch_row (RowEnabled b) r = r\<lparr>br_enabled := b\<rparr>"

datatype poolEvent =
    SetName jstring | SetDescription jstring | SetPoolEnabled bool
  | PickMethod lbMethod | ChangeContext upstreamContext
  | UpdateRow jstring rowPatch | RemoveRow jstring | AddRow

definition add_row :: "poolForm \<Rightarrow> poolForm" where
  "add_row f =
     (let (row, n) = newRow (pf_rowSeq f) in f\<lparr>pf_rows := pf_rows f @ [row], pf_rowSeq := n\<rparr>)"

text \<open>A method can be picked only from those offered.\<close>

primrec pool_step :: "poolForm \<Rightarrow> poolEvent \<Rightarrow> poolForm" where
  "pool_step f (SetName v) = f\<lparr>pf_name := v\<rparr>"
| "pool_step f (SetDescription v) = f\<lparr>pf_description := v\<rparr>"
| "pool_step f (SetPoolEnabled b) = f\<lparr>pf_enabled := b\<rparr>"
| "pool_step f (PickMethod m) =
     (if m \<in> set (methods_for (pf_context f)) then f\<lparr>pf_lbMethod := m\<rparr> else f)"
| "pool_step f (ChangeContext c) = changeContext c f"
| "pool_step f (UpdateRow key p) =
     f\<lparr>pf_rows := map (\<lambda>r. if br_key r = key then patch_row p r else r) (pf_rows f)\<rparr>"
| "pool_step f (RemoveRow key) = f\<lparr>pf_rows := filter (\<lambda>r. br_key r \<noteq> key) (pf_rows f)\<rparr>"
| "pool_step f AddRow = add_row f"

section \<open>Saving\<close>

primrec lb_name :: "lbMethod \<Rightarrow> jstring" where
  "lb_name Round_robin = js ''round_robin''"
| "lb_name Least_conn = js ''least_conn''"
| "lb_name Ip_hash = js ''ip_hash''"
| "lb_name Hash = js ''hash''"
| "lb_name Random = js ''random''"

primrec context_name :: "upstreamContext \<Rightarrow> jstring" where
  "context_name HttpContext = js ''http''"
| "context_name StreamContext = js ''stream''"
| "context_name BothContexts = js ''both''"

primrec jsnum_json :: "jsnum \<Rightarrow> jval" where
  "jsnum_json NaN = Null"
| "jsnum_json (Num i) = Number i"

definition create_json :: "backendCreate \<Rightarrow> jval" where
  "create_json b =
     Obj [(js ''host'', Str (bc_host b)), (js ''port'', jsnum_json (bc_port b)),
          (js ''weight'', jsnum_json (bc_weight b)), (js ''max_fails'', jsnum_json (bc_max_fails b)),
          (js ''fail_timeout_seconds'', jsnum_json (bc_fail_timeout b)),
          (js ''backup'', Bool (bc_backup b)), (js ''down'', Bool (bc_down b)),
          (js ''enabled'', Bool (bc_enabled b))]"

definition opt_field :: "string \<Rightarrow> ('a \<Rightarrow> jval) \<Rightarrow> 'a option \<Rightarrow> (jstring \<times> jval) list" where
  "opt_field k f x = (case x of Some v \<Rightarrow> [(js k, f v)] | None \<Rightarrow> [])"

definition update_json :: "backendUpdate \<Rightarrow> jval" where
  "update_json c =
     Obj (opt_field ''host'' Str (bu_host c) @ opt_field ''port'' jsnum_json (bu_port c) @
          opt_field ''weight'' jsnum_json (bu_weight c) @
          opt_field ''max_fails'' jsnum_json (bu_max_fails c) @
          opt_field ''fail_timeout_seconds'' jsnum_json (bu_fail_timeout c) @
          opt_field ''backup'' Bool (bu_backup c) @ opt_field ''down'' Bool (bu_down c) @
          opt_field ''enabled'' Bool (bu_enabled c))"

definition pool_fields :: "poolForm \<Rightarrow> (jstring \<times> jval) list" where
  "pool_fields f =
     [(js ''name'', Str (trim (pf_name f))), (js ''description'', Str (trim (pf_description f))),
      (js ''lb_method'', Str (lb_name (pf_lbMethod f))), (js ''context'', Str (context_name (pf_context f))),
      (js ''enabled'', Bool (pf_enabled f))]"

definition pool_problem :: "poolForm \<Rightarrow> jstring option" where
  "pool_problem f =
     (if trim (pf_name f) = [] then Some (js ''Pool name is required.'')
      else if pf_rows f = [] then Some (js ''Add at least one backend server.'')
      else (case List.map_filter validateRow (pf_rows f) of
              rowError # _ \<Rightarrow> Some rowError
            | [] \<Rightarrow> None))"

text \<open>\<open>r.id\<close> is truthy.\<close>

definition row_id :: "backendRow \<Rightarrow> int option" where
  "row_id r = (case br_id r of Some i \<Rightarrow> if i \<noteq> 0 then Some i else None | None \<Rightarrow> None)"

definition originalBackends :: "backend list \<Rightarrow> (int \<times> backend) list" where
  "originalBackends bs = fold (\<lambda>b m. AList.update (b_id b) b m) bs []"

text \<open>One request on a backend of the pool, with what it carries.\<close>

datatype backendOp = BRemove int | BUpdate int backendUpdate | BAdd backendCreate

definition row_op :: "(int \<times> backend) list \<Rightarrow> backendRow \<Rightarrow> backendOp list" where
  "row_op originals row =
     (case row_id row of
        Some i \<Rightarrow>
          (let changes = (case map_of originals i of Some b \<Rightarrow> backendDiff b row | None \<Rightarrow> no_changes)
           in if changes \<noteq> no_changes then [BUpdate i changes] else [])
      | None \<Rightarrow> [BAdd (rowToCreate row)])"

definition reconcile :: "backend list \<Rightarrow> backendRow list \<Rightarrow> backendOp list" where
  "reconcile bs rows =
     (let originals = originalBackends bs; keptIds = List.map_filter row_id rows
      in map BRemove (filter (\<lambda>i. i \<notin> set keptIds) (map fst originals)) @
         concat (map (row_op originals) rows))"

primrec backend_endpoint :: "int \<Rightarrow> backendOp \<Rightarrow> endpoint" where
  "backend_endpoint u (BRemove i) = upstreams (RemoveBackend u i)"
| "backend_endpoint u (BUpdate i c) = upstreams (UpdateBackend u i (update_json c))"
| "backend_endpoint u (BAdd b) = upstreams (AddBackend u (create_json b))"

text \<open>Awaiting the requests one after another: the first failure ends the loop.\<close>

fun run_all :: "'w api_env \<Rightarrow> endpoint list \<Rightarrow> ('w, unit) io" where
  "run_all env [] = ret_io ()"
| "run_all env (e # es) = bind_io (run_endpoint env e) (\<lambda>_. run_all env es)"

definition pool_requests :: "poolForm \<Rightarrow> endpoint list" where
  "pool_requests f =
     (case pf_upstream f of
        None \<Rightarrow>
          [upstreams (UpCrud (Create (Obj (pool_fields f @
             [(js ''backends'', Arr (map (\<lambda>r. create_json (rowToCreate r)) (pf_rows f)))]))))]
      | Some u \<Rightarrow>
          upstreams (UpCrud (Update (u_id u) (Obj (pool_fields f)))) #
          map (backend_endpoint (u_id u)) (reconcile (dflt [] (u_backends u)) (pf_rows f)))"

definition save_pool :: "'w api_env \<Rightarrow> poolForm \<Rightarrow> ('w, unit) io" where
  "save_pool env f = run_all env (pool_requests f)"

definition pool_ok_text :: "poolForm \<Rightarrow> jstring" where
  "pool_ok_text f =
     (if pf_upstream f \<noteq> None then js ''Upstream pool updated'' else js ''Upstream pool created'')"

definition handlePoolSubmit :: "'w api_env \<Rightarrow> poolForm \<Rightarrow> dialog_ui \<Rightarrow> 'w \<Rightarrow> dialog_ui \<times> 'w" where
  "handlePoolSubmit env f ui w =
     (let ui1 = ui\<lparr>ui_error := None\<rparr>
      in case pool_problem f of
           Some m \<Rightarrow> (refuse m ui1, w)
         | None \<Rightarrow> save_flow (pool_ok_text f) (save_pool env f) (ui1\<lparr>ui_saving := True\<rparr>) w)"

interpretation pool_dialog: submit_dialog pool_problem "save_pool env" pool_ok_text "handlePoolSubmit env"
  for env
  by unfold_locales
    (auto simp: handlePoolSubmit_def refuse_def save_flow_def split: prod.splits sum.splits)

section \<open>What the requests mean\<close>

text \<open>The backends a pool stores, by id, with the defaults of the schema filled in.\<close>

type_synonym pool_store = "(int \<times> backendCreate) list"

definition data_of :: "backend \<Rightarrow> backendCreate" where
  "data_of b =
     \<lparr>bc_host = b_host b, bc_port = Num (b_port b), bc_weight = Num (dflt 1 (b_weight b)),
      bc_max_fails = Num (dflt 1 (b_max_fails b)), bc_fail_timeout = Num (dflt 10 (b_fail_timeout b)),
      bc_backup = dflt False (b_backup b), bc_down = dflt False (b_down b),
      bc_enabled = dflt True (b_enabled b)\<rparr>"

definition apply_changes :: "backendUpdate \<Rightarrow> backendCreate \<Rightarrow> backendCreate" where
  "apply_changes c d =
     \<lparr>bc_host = dflt (bc_host d) (bu_host c), bc_port = dflt (bc_port d) (bu_port c),
      bc_weight = dflt (bc_weight d) (bu_weight c), bc_max_fails = dflt (bc_max_fails d) (bu_max_fails c),
      bc_fail_timeout = dflt (bc_fail_timeout d) (bu_fail_timeout c),
      bc_backup = dflt (bc_backup d) (bu_backup c), bc_down = dflt (bc_down d) (bu_down c),
      bc_enabled = dflt (bc_enabled d) (bu_enabled c)\<rparr>"

definition fresh_id :: "pool_store \<Rightarrow> int" where
  "fresh_id s = 1 + fold max (map fst s) 0"

primrec apply_op :: "pool_store \<Rightarrow> backendOp \<Rightarrow> pool_store" where
  "apply_op s (BRemove i) = filter (\<lambda>e. fst e \<noteq> i) s"
| "apply_op s (BUpdate i c) = map (\<lambda>(j, d). (j, if j = i then apply_changes c d else d)) s"
| "apply_op s (BAdd d) = s @ [(fresh_id s, d)]"

lemma fresh_id_fresh: "fresh_id s \<notin> fst ` set s"
proof
  assume "fresh_id s \<in> fst ` set s"
  then have "fresh_id s \<le> fold max (map fst s) 0" using fold_max_ge(2) [of "fresh_id s" "map fst s" 0] by simp
  then show False by (simp add: fresh_id_def)
qed

text \<open>A patch carries the difference: applied to the stored backend it gives the row.\<close>

lemma apply_diff: "apply_changes (backendDiff b row) (data_of b) = rowToCreate row"
  by (simp add: apply_changes_def backendDiff_def data_of_def changed_def dflt_def Let_def rowToCreate_def)

lemma apply_no_changes: "apply_changes no_changes d = d"
  by (simp add: apply_changes_def no_changes_def dflt_def)

lemma update_fresh: "k \<notin> fst ` set ps \<Longrightarrow> AList.update k v ps = ps @ [(k, v)]"
  by (induction ps) auto

lemma originalBackends_distinct:
  "distinct (map b_id bs) \<Longrightarrow> originalBackends bs = map (\<lambda>b. (b_id b, b)) bs"
proof (induction bs rule: rev_induct)
  case (snoc b bs)
  then have "AList.update (b_id b) b (map (\<lambda>b. (b_id b, b)) bs) = map (\<lambda>b. (b_id b, b)) bs @ [(b_id b, b)]"
    by (intro update_fresh) auto
  with snoc show ?case by (simp add: originalBackends_def)
qed (simp add: originalBackends_def)

text \<open>The row that holds a stored backend, and what the backend should become.\<close>

definition row_for :: "backendRow list \<Rightarrow> int \<times> backendCreate \<Rightarrow> backendCreate" where
  "row_for rows e =
     (case find (\<lambda>r. row_id r = Some (fst e)) rows of Some r \<Rightarrow> rowToCreate r | None \<Rightarrow> snd e)"

abbreviation row_ids :: "backendRow list \<Rightarrow> int list" where
  "row_ids rows \<equiv> List.map_filter row_id rows"

lemma row_ids_iff: "i \<in> set (row_ids rows) \<longleftrightarrow> (\<exists>r \<in> set rows. row_id r = Some i)"
  by (force simp: List.map_filter_def)

lemma row_for_absent: "fst e \<notin> set (row_ids rows) \<Longrightarrow> row_for rows e = snd e"
  by (auto simp: row_for_def row_ids_iff find_Some_iff split: option.splits)

lemma foldl_apply_row:
  assumes "row_id row = Some i" and "map_of originals i = Some b" and "(i, data_of b) \<in> set s" and "distinct (map fst s)"
  shows "foldl apply_op s (row_op originals row) =
    map (\<lambda>(j, d). (j, if j = i then rowToCreate row else d)) s"
proof -
  have "(j, d) \<in> set s \<Longrightarrow> j = i \<Longrightarrow> d = data_of b" for j d
    using assms(3,4) by (metis eq_key_imp_eq_value)
  then have eq: "map (\<lambda>(j, d). (j, if j = i then apply_changes c d else d)) s =
      map (\<lambda>(j, d). (j, if j = i then rowToCreate row else d)) s"
    if "apply_changes c (data_of b) = rowToCreate row" for c
    using that by auto
  show ?thesis
  proof (cases "backendDiff b row = no_changes")
    case True
    then have "rowToCreate row = data_of b" using apply_diff [of b row] by (simp add: apply_no_changes)
    then have "map (\<lambda>(j, d). (j, if j = i then rowToCreate row else d)) s = s"
      using \<open>\<And>j d. (j, d) \<in> set s \<Longrightarrow> j = i \<Longrightarrow> d = data_of b\<close> by (intro map_idI) auto
    with True assms show ?thesis by (simp add: row_op_def)
  next
    case False
    with assms eq [OF apply_diff] show ?thesis by (simp add: row_op_def Let_def)
  qed
qed

text \<open>The loop over the rows, from a store in which every kept backend is still the original.\<close>

lemma foldl_rows:
  assumes "distinct (row_ids rows)" and "distinct (map fst s)"
    and "\<And>i. i \<in> set (row_ids rows) \<Longrightarrow> \<exists>b. map_of originals i = Some b \<and> (i, data_of b) \<in> set s"
  shows "\<exists>t. foldl apply_op s (concat (map (row_op originals) rows)) =
      map (\<lambda>e. (fst e, row_for rows e)) s @ t \<and>
    map snd t = map rowToCreate (filter (\<lambda>r. row_id r = None) rows)"
  using assms
proof (induction rows arbitrary: s)
  case Nil
  then show ?case by (simp add: row_for_def)
next
  case (Cons row rows)
  show ?case
  proof (cases "row_id row")
    case None
    let ?s = "s @ [(fresh_id s, rowToCreate row)]"
    have ids: "row_ids (row # rows) = row_ids rows" using None by (simp add: List.map_filter_def)
    have d: "distinct (map fst ?s)" using Cons.prems(2) fresh_id_fresh [of s] by auto
    have inv: "\<exists>b. map_of originals i = Some b \<and> (i, data_of b) \<in> set ?s" if "i \<in> set (row_ids rows)" for i
      using Cons.prems(3) [of i] that ids by auto
    from Cons.IH [of ?s, OF _ d inv] Cons.prems(1) ids obtain t where
      t: "foldl apply_op ?s (concat (map (row_op originals) rows)) = map (\<lambda>e. (fst e, row_for rows e)) ?s @ t"
        "map snd t = map rowToCreate (filter (\<lambda>r. row_id r = None) rows)" by auto
    have "fresh_id s \<notin> set (row_ids rows)"
      using Cons.prems(3) ids fresh_id_fresh [of s] by force
    then have n: "row_for rows (fresh_id s, rowToCreate row) = rowToCreate row"
      by (simp add: row_for_absent)
    have "row_for (row # rows) e = row_for rows e" for e using None by (simp add: row_for_def)
    moreover have "row_op originals row = [BAdd (rowToCreate row)]" using None by (simp add: row_op_def)
    ultimately show ?thesis
      using t n None by (intro exI [of _ "(fresh_id s, rowToCreate row) # t"]) simp
  next
    case (Some i)
    let ?s = "map (\<lambda>(j, d). (j, if j = i then rowToCreate row else d)) s"
    have ids: "row_ids (row # rows) = i # row_ids rows" using Some by (simp add: List.map_filter_def)
    from Cons.prems(3) [of i] ids obtain b where b: "map_of originals i = Some b" "(i, data_of b) \<in> set s" by auto
    have step: "foldl apply_op s (row_op originals row) = ?s"
      by (rule foldl_apply_row [OF Some b Cons.prems(2)])
    have keys: "map fst ?s = map fst s" by (auto simp: comp_def case_prod_beta)
    have ni: "i \<notin> set (row_ids rows)" using Cons.prems(1) ids by simp
    have inv: "\<exists>b. map_of originals k = Some b \<and> (k, data_of b) \<in> set ?s" if "k \<in> set (row_ids rows)" for k
      using Cons.prems(3) [of k] that ids ni by force
    have di: "distinct (row_ids rows)" "distinct (map fst ?s)"
      using Cons.prems(1,2) ids unfolding keys by simp_all
    from Cons.IH [OF di inv] obtain t where
      t: "foldl apply_op ?s (concat (map (row_op originals) rows)) = map (\<lambda>e. (fst e, row_for rows e)) ?s @ t"
        "map snd t = map rowToCreate (filter (\<lambda>r. row_id r = None) rows)" by auto
    have "row_for rows (j, if j = i then rowToCreate row else d) = row_for (row # rows) (j, d)" for j d
      using Some ni by (auto simp: row_for_def row_ids_iff find_None_iff find_Some_iff split: option.splits)
    then have "map (\<lambda>e. (fst e, row_for rows e)) ?s = map (\<lambda>e. (fst e, row_for (row # rows) e)) s"
      by (auto simp: case_prod_beta)
    with t step Some show ?thesis by (intro exI [of _ t]) simp
  qed
qed

lemma foldl_removes:
  "foldl apply_op s (map BRemove removed) = filter (\<lambda>e. fst e \<notin> set removed) s"
  by (induction removed arbitrary: s) (auto intro: filter_cong)

text \<open>The rows an editing session of the dialog can hold, for the backends it started from.\<close>

definition rows_ok :: "backend list \<Rightarrow> backendRow list \<Rightarrow> bool" where
  "rows_ok bs rows \<longleftrightarrow> distinct (row_ids rows) \<and> set (row_ids rows) \<subseteq> b_id ` set bs"

lemma reconcile_store:
  assumes "distinct (map b_id bs)" and "rows_ok bs rows"
  defines "kept \<equiv> filter (\<lambda>e. fst e \<in> set (row_ids rows)) (map (\<lambda>b. (b_id b, data_of b)) bs)"
  shows "\<exists>t. foldl apply_op (map (\<lambda>b. (b_id b, data_of b)) bs) (reconcile bs rows) =
      map (\<lambda>e. (fst e, row_for rows e)) kept @ t \<and>
    map snd t = map rowToCreate (filter (\<lambda>r. row_id r = None) rows)"
proof -
  let ?orig = "map (\<lambda>b. (b_id b, b)) bs" and ?s = "map (\<lambda>b. (b_id b, data_of b)) bs"
  let ?removed = "filter (\<lambda>i. i \<notin> set (row_ids rows)) (map fst ?orig)"
  have r: "reconcile bs rows = map BRemove ?removed @ concat (map (row_op ?orig) rows)"
    using originalBackends_distinct [OF assms(1)] by (simp add: reconcile_def Let_def)
  have k: "foldl apply_op ?s (map BRemove ?removed) = kept"
    unfolding foldl_removes kept_def by (rule filter_cong) auto
  have d: "distinct (map fst kept)"
    using assms(1) by (simp add: kept_def distinct_map_filter comp_def)
  have inv: "\<exists>b. map_of ?orig i = Some b \<and> (i, data_of b) \<in> set kept" if i: "i \<in> set (row_ids rows)" for i
  proof -
    from i assms(2) obtain b where b: "b \<in> set bs" "b_id b = i" by (auto simp: rows_ok_def)
    have "map_of ?orig i = Some b" using b assms(1) by (intro map_of_is_SomeI) (auto simp: comp_def)
    moreover have "(i, data_of b) \<in> set kept" using b i by (auto simp: kept_def)
    ultimately show ?thesis by blast
  qed
  have "distinct (row_ids rows)" using assms(2) by (simp add: rows_ok_def)
  from foldl_rows [OF this d inv] show ?thesis unfolding r foldl_append k .
qed

lemma mset_row_split:
  "mset (map rowToCreate rows) =
     mset (map rowToCreate (filter (\<lambda>r. row_id r \<noteq> None) rows)) +
     mset (map rowToCreate (filter (\<lambda>r. row_id r = None) rows))"
  by (induction rows) auto

lemma mset_kept:
  assumes "distinct (map fst kept)" and "distinct (row_ids rows)" and "fst ` set kept = set (row_ids rows)"
  shows "mset (map (row_for rows) kept) = mset (map rowToCreate (filter (\<lambda>r. row_id r \<noteq> None) rows))"
proof -
  let ?f = "\<lambda>i. row_for rows (i, undefined)"
  have eq: "row_for rows e = ?f (fst e)" if "e \<in> set kept" for e
  proof -
    from that assms(3) have "fst e \<in> set (row_ids rows)" by blast
    then obtain r where "find (\<lambda>r. row_id r = Some (fst e)) rows = Some r"
      by (auto simp: row_ids_iff) (metis (mono_tags, lifting) find_None_iff not_None_eq)
    then show ?thesis by (simp add: row_for_def)
  qed
  have "mset (map fst kept) = mset (row_ids rows)"
    using assms by (intro set_eq_iff_mset_eq_distinct [THEN iffD1]) auto
  then have m: "mset (map ?f (map fst kept)) = mset (map ?f (row_ids rows))" by (metis mset_map)
  have own: "?f i = rowToCreate r" if "distinct (row_ids rows)" "r \<in> set rows" "row_id r = Some i" for r i
    using that
  proof (induction rows)
    case (Cons a rows)
    then show ?case
      by (cases "row_id a") (auto simp: row_for_def row_ids_iff)
  qed simp
  have "map ?f (row_ids rows) = map rowToCreate (filter (\<lambda>r. row_id r \<noteq> None) rows)"
    using own [OF assms(2)] by (auto simp: List.map_filter_def comp_def)
  with m eq show ?thesis by (simp add: comp_def cong: map_cong)
qed

lemma reconcile_correct:
  assumes "distinct (map b_id bs)" and "rows_ok bs rows"
  defines "final \<equiv> foldl apply_op (map (\<lambda>b. (b_id b, data_of b)) bs) (reconcile bs rows)"
  shows "mset (map snd final) = mset (map rowToCreate rows)"
    and "r \<in> set rows \<Longrightarrow> row_id r = Some i \<Longrightarrow> (i, rowToCreate r) \<in> set final"
proof -
  let ?kept = "filter (\<lambda>e. fst e \<in> set (row_ids rows)) (map (\<lambda>b. (b_id b, data_of b)) bs)"
  obtain t where t: "final = map (\<lambda>e. (fst e, row_for rows e)) ?kept @ t"
      "map snd t = map rowToCreate (filter (\<lambda>r. row_id r = None) rows)"
    using reconcile_store [OF assms(1,2)] unfolding final_def by blast
  have d: "distinct (map fst ?kept)" using assms(1) by (simp add: distinct_map_filter comp_def)
  have "fst ` set ?kept = b_id ` set bs \<inter> set (row_ids rows)" by force
  then have k: "fst ` set ?kept = set (row_ids rows)" using assms(2) unfolding rows_ok_def by blast
  have di: "distinct (row_ids rows)" using assms(2) by (simp add: rows_ok_def)
  have m: "map snd final = map (row_for rows) ?kept @ map rowToCreate (filter (\<lambda>r. row_id r = None) rows)"
    using t by (simp add: comp_def)
  show "mset (map snd final) = mset (map rowToCreate rows)"
    unfolding m mset_append mset_kept [OF d di k] by (rule mset_row_split [symmetric])
  show "(i, rowToCreate r) \<in> set final" if r: "r \<in> set rows" "row_id r = Some i"
  proof -
    from r have "i \<in> set (row_ids rows)" by (auto simp: row_ids_iff)
    then have "i \<in> fst ` set ?kept" unfolding k .
    then obtain e where e: "e \<in> set ?kept" "fst e = i" by blast
    have "row_for rows e = rowToCreate r"
      using di r e(2)
    proof (induction rows)
      case (Cons a rows)
      then show ?case by (cases "row_id a") (auto simp: row_for_def row_ids_iff)
    qed simp
    then have "(i, rowToCreate r) = (fst e, row_for rows e)" using e(2) by simp
    with e(1) show ?thesis unfolding t(1) set_append set_map by blast
  qed
qed

section \<open>The dialog as a machine\<close>

definition pool_inv :: "upstream \<Rightarrow> poolForm \<Rightarrow> bool" where
  "pool_inv u f \<longleftrightarrow>
     pf_upstream f = Some u \<and> rows_ok (dflt [] (u_backends u)) (pf_rows f) \<and>
     pf_lbMethod f \<in> set (methods_for (pf_context f))"

lemma patch_row_id [simp]: "row_id (patch_row p r) = row_id r" "br_key (patch_row p r) = br_key r"
  by (cases p; simp add: row_id_def)+

lemma row_ids_map: "(\<And>r. row_id (g r) = row_id r) \<Longrightarrow> row_ids (map g rows) = row_ids rows"
  by (induction rows) (auto split: option.splits)

lemma rows_ok_filter [form_invs]: "rows_ok bs rows \<Longrightarrow> rows_ok bs (filter P rows)"
proof -
  have "distinct (row_ids rows) \<Longrightarrow> distinct (row_ids (filter P rows))"
    by (induction rows) (auto simp: row_ids_iff split: option.splits)
  moreover have "set (row_ids (filter P rows)) \<subseteq> set (row_ids rows)" by (auto simp: row_ids_iff)
  ultimately show "rows_ok bs rows \<Longrightarrow> rows_ok bs (filter P rows)" by (auto simp: rows_ok_def)
qed

lemma row_ids_append: "row_ids (xs @ ys) = row_ids xs @ row_ids ys"
  by (simp add: List.map_filter_def)

lemma pool_step_inv [form_invs]: "pool_inv u f \<Longrightarrow> pool_inv u (pool_step f e)"
proof (cases e)
  case (UpdateRow key p)
  have "row_ids (map (\<lambda>r. if br_key r = key then patch_row p r else r) (pf_rows f)) = row_ids (pf_rows f)"
    by (rule row_ids_map) simp
  with UpdateRow show "pool_inv u f \<Longrightarrow> ?thesis" by (simp add: pool_inv_def rows_ok_def)
next
  case (RemoveRow key)
  then show "pool_inv u f \<Longrightarrow> ?thesis" by (simp add: pool_inv_def rows_ok_filter)
next
  case AddRow
  then show "pool_inv u f \<Longrightarrow> ?thesis"
    by (simp add: pool_inv_def add_row_def newRow_def rows_ok_def row_ids_append row_id_def Let_def)
next
  case (ChangeContext c)
  then show "pool_inv u f \<Longrightarrow> ?thesis"
    by (cases "pf_lbMethod f"; cases c)
      (auto simp: pool_inv_def changeContext_def methods_for_def LB_METHODS_def Let_def)
qed (auto simp: pool_inv_def)

interpretation pool_form: machine pool_step "pool_inv u" for u
  by unfold_locales (rule pool_step_inv)

text \<open>A pool as the backend stores it: distinct ids other than zero, a method its context allows.\<close>

definition pool_stored :: "upstream \<Rightarrow> bool" where
  "pool_stored u \<longleftrightarrow>
     distinct (map b_id (dflt [] (u_backends u))) \<and> list_all (\<lambda>b. b_id b \<noteq> 0) (dflt [] (u_backends u)) \<and>
     dflt Round_robin (u_lb_method u) \<in> set (methods_for (dflt HttpContext (u_context u)))"

lemma row_ids_from: "list_all (\<lambda>b. b_id b \<noteq> 0) bs \<Longrightarrow> row_ids (map rowFromBackend bs) = map b_id bs"
  by (induction bs) (auto simp: row_id_def rowFromBackend_def)

lemma openPool_inv: "pool_stored u \<Longrightarrow> pool_inv u (openPool (Some u) seq)"
  by (auto simp: pool_inv_def openPool_def pool_stored_def rows_ok_def row_ids_from newRow_def
      row_id_def Let_def)

section \<open>Properties\<close>

text \<open>
  Editing an existing pool: whatever rows are changed, removed and added in the dialog, the
  requests that saving sends turn the stored backends into exactly the rows (as a multiset of
  backend settings), every row that came from a stored backend keeps that backend's id, and the
  load-balancing method is one the context allows.
\<close>

theorem pool_reconcile:
  assumes "pool_stored u"
  shows "let f = foldl pool_step (openPool (Some u) seq) events;
             bs = dflt [] (u_backends u);
             ops = reconcile bs (pf_rows f);
             final = foldl apply_op (map (\<lambda>b. (b_id b, data_of b)) bs) ops
         in pool_requests f =
              upstreams (UpCrud (Update (u_id u) (Obj (pool_fields f)))) # map (backend_endpoint (u_id u)) ops \<and>
            mset (map snd final) = mset (map rowToCreate (pf_rows f)) \<and>
            (\<forall>r i. r \<in> set (pf_rows f) \<and> row_id r = Some i \<longrightarrow> (i, rowToCreate r) \<in> set final) \<and>
            (pf_context f \<noteq> HttpContext \<longrightarrow> pf_lbMethod f \<noteq> Ip_hash)"
proof -
  let ?f = "foldl pool_step (openPool (Some u) seq) events"
  have inv: "pool_inv u ?f" by (rule pool_form.run_inv [OF openPool_inv [OF assms]])
  then have ok: "rows_ok (dflt [] (u_backends u)) (pf_rows ?f)" "pf_upstream ?f = Some u"
    by (simp_all add: pool_inv_def)
  have d: "distinct (map b_id (dflt [] (u_backends u)))" using assms by (simp add: pool_stored_def)
  have lb: "pf_context ?f \<noteq> HttpContext \<longrightarrow> pf_lbMethod ?f \<noteq> Ip_hash"
    using inv by (auto simp: pool_inv_def methods_for_def)
  show ?thesis
    using reconcile_correct [OF d ok(1)] ok(2) lb by (simp add: Let_def pool_requests_def)
qed

definition demo_pool :: upstream where
  "demo_pool =
     \<lparr>u_id = 9, u_name = js ''pool'', u_description = None, u_lb_method = Some Ip_hash, u_context = None,
      u_enabled = None, u_backends = Some [\<lparr>b_id = 1, b_host = js ''a'', b_port = 80, b_weight = None,
        b_max_fails = None, b_fail_timeout = None, b_backup = None, b_down = None, b_enabled = None\<rparr>]\<rparr>"

theorem pool_reconcile_witness:
  "mset (map snd (foldl apply_op (map (\<lambda>b. (b_id b, data_of b)) (dflt [] (u_backends demo_pool)))
      (reconcile (dflt [] (u_backends demo_pool))
         (pf_rows (foldl pool_step (openPool (Some demo_pool) 0)
            [ChangeContext StreamContext, AddRow, RemoveRow (js ''existing-1'')]))))) =
   mset (map rowToCreate (pf_rows (foldl pool_step (openPool (Some demo_pool) 0)
            [ChangeContext StreamContext, AddRow, RemoveRow (js ''existing-1'')])))"
proof -
  have "pool_stored demo_pool"
    by (simp add: pool_stored_def demo_pool_def dflt_def methods_for_def LB_METHODS_def)
  from pool_reconcile [OF this, of 0 "[ChangeContext StreamContext, AddRow, RemoveRow (js ''existing-1'')]"]
  show ?thesis by (simp only: Let_def)
qed

text \<open>A backend in the ranges the backend accepts.\<close>

definition backend_valid :: "backendCreate \<Rightarrow> bool" where
  "backend_valid b \<longleftrightarrow>
     bc_host b \<noteq> [] \<and> list_all (\<lambda>c. \<not> is_ws c) (bc_host b) \<and>
     (case bc_port b of Num p \<Rightarrow> 1 \<le> p \<and> p \<le> 65535 | NaN \<Rightarrow> False) \<and>
     (case bc_weight b of Num n \<Rightarrow> 0 \<le> n | NaN \<Rightarrow> False) \<and>
     (case bc_max_fails b of Num n \<Rightarrow> 0 \<le> n | NaN \<Rightarrow> False) \<and>
     (case bc_fail_timeout b of Num n \<Rightarrow> 0 \<le> n | NaN \<Rightarrow> False)"

lemma validateRow_None: "validateRow row = None \<longleftrightarrow> backend_valid (rowToCreate row)"
  by (auto simp: validateRow_def backend_valid_def rowToCreate_def not_natural_def Let_def
      list_all_iff list_ex_iff split: jsnum.splits)

lemma map_filter_Nil: "List.map_filter f xs = [] \<longleftrightarrow> list_all (\<lambda>x. f x = None) xs"
  by (induction xs) (auto split: option.splits)

lemma pool_problem_None:
  "pool_problem f = None \<longleftrightarrow>
     trim (pf_name f) \<noteq> [] \<and> pf_rows f \<noteq> [] \<and> list_all (\<lambda>r. validateRow r = None) (pf_rows f)"
  using map_filter_Nil [of validateRow "pf_rows f"]
  by (auto simp: pool_problem_def split: list.splits)

lemma row_op_unchanged:
  assumes "map_of originals (b_id b) = Some b" and "trim (b_host b) = b_host b" and "b_id b \<noteq> 0"
  shows "row_op originals (rowFromBackend b) = []"
proof -
  have "backendDiff b (rowFromBackend b) = no_changes"
    using assms(2) by (simp add: backendDiff_def rowFromBackend_def rowToCreate_def toNumber_def
        changed_def no_changes_def Let_def)
  with assms show ?thesis by (simp add: row_op_def row_id_def) (simp add: rowFromBackend_def row_id_def)
qed

lemma reconcile_unchanged:
  assumes "distinct (map b_id bs)" and "list_all (\<lambda>b. b_id b \<noteq> 0 \<and> trim (b_host b) = b_host b) bs"
  shows "reconcile bs (map rowFromBackend bs) = []"
proof -
  have ids: "row_ids (map rowFromBackend bs) = map b_id bs"
    using assms(2) by (intro row_ids_from) (auto simp: list_all_iff)
  have "row_op (map (\<lambda>b. (b_id b, b)) bs) (rowFromBackend b) = []" if "b \<in> set bs" for b
    using that assms by (intro row_op_unchanged map_of_is_SomeI) (auto simp: list_all_iff comp_def)
  then show ?thesis
    using originalBackends_distinct [OF assms(1)] by (simp add: reconcile_def Let_def ids)
qed

text \<open>
  The form is accepted exactly when the pool has a name, at least one backend and every
  backend it would send is in range (a host without white space, a port from 1 to 65535,
  numbers that are not negative); so no request ever carries NaN. Opening a stored pool and
  saving it unchanged patches the pool and touches none of its backends.
\<close>

theorem pool_validation:
  assumes "pool_stored u" and "list_all (\<lambda>b. trim (b_host b) = b_host b) (dflt [] (u_backends u))"
    and "dflt [] (u_backends u) \<noteq> []"
  shows "(pool_problem f = None \<longleftrightarrow>
      trim (pf_name f) \<noteq> [] \<and> pf_rows f \<noteq> [] \<and> list_all (\<lambda>r. backend_valid (rowToCreate r)) (pf_rows f)) \<and>
    pool_requests (openPool (Some u) seq) =
      [upstreams (UpCrud (Update (u_id u) (Obj (pool_fields (openPool (Some u) seq)))))]"
proof -
  have "reconcile (dflt [] (u_backends u)) (map rowFromBackend (dflt [] (u_backends u))) = []"
    using assms by (intro reconcile_unchanged) (auto simp: pool_stored_def list_all_iff)
  then show ?thesis
    using assms(3) by (simp add: pool_requests_def openPool_def Let_def pool_problem_None validateRow_None)
qed

theorem pool_validation_witness:
  "pool_requests (openPool (Some demo_pool) 0) =
     [upstreams (UpCrud (Update 9 (Obj (pool_fields (openPool (Some demo_pool) 0)))))]"
proof -
  have "pool_stored demo_pool"
    by (simp add: pool_stored_def demo_pool_def dflt_def methods_for_def LB_METHODS_def)
  moreover have "list_all (\<lambda>b. trim (b_host b) = b_host b) (dflt [] (u_backends demo_pool))"
    by (simp add: demo_pool_def dflt_def trim_no_ws js_def is_ws_def)
  moreover have "dflt [] (u_backends demo_pool) \<noteq> []" "u_id demo_pool = 9"
    by (simp_all add: demo_pool_def dflt_def)
  ultimately show ?thesis using pool_validation [of demo_pool _ 0] by simp
qed

end
