(* ===== verification/Access_Lists.thy ===== *)
theory Access_Lists
  imports Dialog_Flow
begin

text \<open>
  Access lists: the form state of \<^verbatim>\<open>components/access-lists/lib.ts\<close> and the dialog of
  \<^verbatim>\<open>access-list-dialog.tsx\<close>, which edits the users and the rules of a list and saves both
  collections in one request.
\<close>

section \<open>The form\<close>

datatype directive = Allow | Deny

datatype accessListTab = Details | Authorization | Access

record authUserRow =
  au_id :: "int option"
  au_username :: jstring
  au_password :: jstring

record clientRow =
  cr_id :: "int option"
  cr_address :: jstring
  cr_directive :: directive

record accessListForm =
  al_name :: jstring
  al_satisfyAny :: bool
  al_passAuth :: bool
  al_users :: "authUserRow list"
  al_clients :: "clientRow list"

record accessList =
  ar_id :: int
  ar_name :: jstring
  ar_satisfy_any :: "bool option"
  ar_pass_auth :: "bool option"
  ar_auth_users :: "(int \<times> jstring) list option"
  ar_client_rules :: "(int \<times> jstring \<times> directive) list option"

definition satisfyLabel :: "bool \<Rightarrow> jstring" where
  "satisfyLabel satisfyAny = (if satisfyAny then js ''Any'' else js ''All'')"

definition satisfyDescription :: "bool \<Rightarrow> jstring" where
  "satisfyDescription satisfyAny =
     (if satisfyAny then js ''A request passes if it satisfies EITHER basic-auth OR an allow rule.''
      else js ''A request must satisfy BOTH basic-auth AND the IP rules.'')"

definition normalizeAddress :: "jstring \<Rightarrow> jstring" where
  "normalizeAddress input =
     (let trimmed = trim input in if toLowerCase trimmed = js ''all'' then js ''all'' else trimmed)"

definition blankUserRow :: authUserRow where
  "blankUserRow = \<lparr>au_id = None, au_username = [], au_password = []\<rparr>"

definition blankClientRow :: clientRow where
  "blankClientRow = \<lparr>cr_id = None, cr_address = [], cr_directive = Allow\<rparr>"

definition emptyFormState :: accessListForm where
  "emptyFormState =
     \<lparr>al_name = [], al_satisfyAny = False, al_passAuth = False, al_users = [blankUserRow],
      al_clients = [blankClientRow]\<rparr>"

definition stateFromList :: "accessList option \<Rightarrow> accessListForm" where
  "stateFromList lst =
     (case lst of
        None \<Rightarrow> emptyFormState
      | Some l \<Rightarrow>
          \<lparr>al_name = ar_name l,
           al_satisfyAny = (case ar_satisfy_any l of Some b \<Rightarrow> b | None \<Rightarrow> False),
           al_passAuth = (case ar_pass_auth l of Some b \<Rightarrow> b | None \<Rightarrow> False),
           al_users = map (\<lambda>(i, n). \<lparr>au_id = Some i, au_username = n, au_password = []\<rparr>)
             (case ar_auth_users l of Some us \<Rightarrow> us | None \<Rightarrow> []),
           al_clients = map (\<lambda>(i, a, d). \<lparr>cr_id = Some i, cr_address = a, cr_directive = d\<rparr>)
             (case ar_client_rules l of Some cs \<Rightarrow> cs | None \<Rightarrow> [])\<rparr>)"

definition isBlankUser :: "authUserRow \<Rightarrow> bool" where
  "isBlankUser row \<longleftrightarrow> au_id row = None \<and> trim (au_username row) = [] \<and> au_password row = []"

definition isBlankClient :: "clientRow \<Rightarrow> bool" where
  "isBlankClient row \<longleftrightarrow> cr_id row = None \<and> trim (cr_address row) = [] \<and> cr_directive row = Allow"

definition submittableUsers :: "accessListForm \<Rightarrow> authUserRow list" where
  "submittableUsers state = filter (\<lambda>u. \<not> isBlankUser u) (al_users state)"

definition submittableClients :: "accessListForm \<Rightarrow> clientRow list" where
  "submittableClients state = filter (\<lambda>c. \<not> isBlankClient c) (al_clients state)"

text \<open>The typographic quotes of the messages.\<close>

definition quoted :: "jstring \<Rightarrow> jstring" where
  "quoted s = [8220] @ s @ [8221]"

fun users_problem :: "jstring set \<Rightarrow> authUserRow list \<Rightarrow> jstring option" where
  "users_problem seen [] = None"
| "users_problem seen (user # rest) =
     (let username = trim (au_username user)
      in if username = [] then Some (js ''Enter a username for every user.'')
         else if au_id user = None \<and> au_password user = []
         then Some (js ''Enter a password for '' @ quoted username @ js ''.'')
         else if username \<in> seen
         then Some (quoted username @ js '' is listed twice '' @ [8212] @ js '' usernames must be unique.'')
         else users_problem (insert username seen) rest)"

definition validateAccessListForm :: "accessListForm \<Rightarrow> (accessListTab \<times> jstring) option" where
  "validateAccessListForm state =
     (if trim (al_name state) = [] then Some (Details, js ''Enter a name for the access list.'')
      else case users_problem {} (submittableUsers state) of
             Some m \<Rightarrow> Some (Authorization, m)
           | None \<Rightarrow>
               if list_ex (\<lambda>r. normalizeAddress (cr_address r) = []) (submittableClients state)
               then Some (Access, js ''Enter an IP, CIDR, or '' @ quoted (js ''all'') @ js '' for every rule.'')
               else None)"

section \<open>Payloads\<close>

record accessListPayload =
  ap_name :: jstring
  ap_satisfy_any :: bool
  ap_pass_auth :: bool
  ap_auth_users :: "(jstring \<times> jstring option) list"
  ap_clients :: "(jstring \<times> directive) list"

definition clientPayload :: "accessListForm \<Rightarrow> (jstring \<times> directive) list" where
  "clientPayload state = map (\<lambda>c. (normalizeAddress (cr_address c), cr_directive c)) (submittableClients state)"

definition buildCreatePayload :: "accessListForm \<Rightarrow> accessListPayload" where
  "buildCreatePayload state =
     \<lparr>ap_name = trim (al_name state), ap_satisfy_any = al_satisfyAny state, ap_pass_auth = al_passAuth state,
      ap_auth_users = map (\<lambda>u. (trim (au_username u), Some (au_password u))) (submittableUsers state),
      ap_clients = clientPayload state\<rparr>"

definition buildUpdatePayload :: "accessListForm \<Rightarrow> accessListPayload" where
  "buildUpdatePayload state =
     \<lparr>ap_name = trim (al_name state), ap_satisfy_any = al_satisfyAny state, ap_pass_auth = al_passAuth state,
      ap_auth_users = map (\<lambda>u. (trim (au_username u), if au_password u \<noteq> [] then Some (au_password u) else None))
        (submittableUsers state),
      ap_clients = clientPayload state\<rparr>"

definition list_json :: "accessListPayload \<Rightarrow> jval" where
  "list_json p =
     Obj [(js ''name'', Str (ap_name p)), (js ''satisfy_any'', Bool (ap_satisfy_any p)),
          (js ''pass_auth'', Bool (ap_pass_auth p)),
          (js ''auth_users'', Arr (map (\<lambda>(n, pw). Obj ((js ''username'', Str n) #
             (case pw of Some s \<Rightarrow> [(js ''password'', Str s)] | None \<Rightarrow> []))) (ap_auth_users p))),
          (js ''clients'', Arr (map (\<lambda>(a, d). Obj [(js ''address'', Str a),
             (js ''directive'', Str (case d of Allow \<Rightarrow> js ''allow'' | Deny \<Rightarrow> js ''deny''))])
             (ap_clients p)))]"

section \<open>The dialog\<close>

record accessListDialog =
  ad_list :: "accessList option"
  ad_form :: accessListForm
  ad_tab :: accessListTab

text \<open>The two panels edit a row by its index, remove it, or add a blank one.\<close>

definition updateUser :: "nat \<Rightarrow> (authUserRow \<Rightarrow> authUserRow) \<Rightarrow> authUserRow list \<Rightarrow> authUserRow list" where
  "updateUser i change rows = (if i < length rows then rows[i := change (rows ! i)] else rows)"

definition updateClient :: "nat \<Rightarrow> (clientRow \<Rightarrow> clientRow) \<Rightarrow> clientRow list \<Rightarrow> clientRow list" where
  "updateClient i change rows = (if i < length rows then rows[i := change (rows ! i)] else rows)"

definition remove_index :: "nat \<Rightarrow> 'a list \<Rightarrow> 'a list" where
  "remove_index i rows = take i rows @ drop (Suc i) rows"

definition list_problem :: "accessListDialog \<Rightarrow> jstring option" where
  "list_problem d = map_option snd (validateAccessListForm (ad_form d))"

definition save_list :: "'w api_env \<Rightarrow> accessListDialog \<Rightarrow> ('w, jval) io" where
  "save_list env d =
     run_endpoint env (accessLists (AlCrud
       (case ad_list d of
          Some l \<Rightarrow> Update (ar_id l) (list_json (buildUpdatePayload (ad_form d)))
        | None \<Rightarrow> Create (list_json (buildCreatePayload (ad_form d))))))"

definition list_ok_text :: "accessListDialog \<Rightarrow> jstring" where
  "list_ok_text d = (if ad_list d \<noteq> None then js ''Access list saved'' else js ''Access list created'')"

definition handleListSubmit ::
  "'w api_env \<Rightarrow> accessListDialog \<Rightarrow> dialog_ui \<Rightarrow> 'w \<Rightarrow> (accessListDialog \<times> dialog_ui) \<times> 'w" where
  "handleListSubmit env d ui w =
     (case validateAccessListForm (ad_form d) of
        Some (tab, message) \<Rightarrow> ((d\<lparr>ad_tab := tab\<rparr>, refuse message ui), w)
      | None \<Rightarrow>
          (case save_flow (list_ok_text d) (save_list env d) (ui\<lparr>ui_error := None, ui_saving := True\<rparr>) w of
             (ui', w') \<Rightarrow> ((d, ui'), w')))"

interpretation list_dialog: submit_dialog list_problem "save_list env" list_ok_text
  "\<lambda>d ui w. case handleListSubmit env d ui w of ((_, ui'), w') \<Rightarrow> (ui', w')" for env
  by unfold_locales
    (auto simp: list_problem_def handleListSubmit_def save_flow_def split: prod.splits sum.splits option.splits)

section \<open>Properties\<close>

lemma ball_not_insert:
  "(\<forall>v \<in> set rest. f v \<notin> insert (f u) seen) \<longleftrightarrow>
   f u \<notin> f ` set rest \<and> (\<forall>v \<in> set rest. f v \<notin> seen)"
  by (metis (no_types, lifting) image_iff insert_iff)

lemma users_problem_None:
  "users_problem seen rows = None \<longleftrightarrow>
     list_all (\<lambda>u. trim (au_username u) \<noteq> [] \<and> (au_id u = None \<longrightarrow> au_password u \<noteq> [])) rows \<and>
     distinct (map (\<lambda>u. trim (au_username u)) rows) \<and>
     (\<forall>u \<in> set rows. trim (au_username u) \<notin> seen)"
proof (induction rows arbitrary: seen)
  case (Cons u rest)
  note image_seen = ball_not_insert [of rest "\<lambda>u. trim (au_username u)" u seen]
  have "users_problem seen (u # rest) = None \<longleftrightarrow>
      trim (au_username u) \<noteq> [] \<and> trim (au_username u) \<notin> seen \<and>
      (au_id u = None \<longrightarrow> au_password u \<noteq> []) \<and>
      users_problem (insert (trim (au_username u)) seen) rest = None"
    by (cases "au_id u") (simp_all add: Let_def)
  also have "\<dots> \<longleftrightarrow> trim (au_username u) \<noteq> [] \<and> trim (au_username u) \<notin> seen \<and>
      (au_id u = None \<longrightarrow> au_password u \<noteq> []) \<and>
      list_all (\<lambda>u. trim (au_username u) \<noteq> [] \<and> (au_id u = None \<longrightarrow> au_password u \<noteq> [])) rest \<and>
      distinct (map (\<lambda>u. trim (au_username u)) rest) \<and>
      trim (au_username u) \<notin> (\<lambda>u. trim (au_username u)) ` set rest \<and>
      (\<forall>v \<in> set rest. trim (au_username v) \<notin> seen)"
    unfolding Cons.IH image_seen ..
  finally show ?case by (simp only: list.pred_inject list.map distinct.simps list.set set_map) blast
qed simp

lemma normalizeAddress_Nil: "normalizeAddress s = [] \<longleftrightarrow> trim s = []"
  by (auto simp: normalizeAddress_def Let_def)

lemma normalizeAddress_idem [simp]: "normalizeAddress (normalizeAddress s) = normalizeAddress s"
proof -
  have "trim (js ''all'') = js ''all''" by (intro trim_no_ws) (simp add: js_def is_ws_def)
  then show ?thesis by (simp add: normalizeAddress_def Let_def)
qed

text \<open>
  A valid form is sent whole: every user row that is not an untouched blank one is sent,
  with a non-blank name, no name twice, and a password for every new user; an existing user's
  password is sent exactly when one was typed. Every rule the operator engaged with is sent
  with its directive, each deny rule included, and never with an empty address.
\<close>

theorem access_list_payload:
  assumes "validateAccessListForm state = None"
  shows "let p = buildUpdatePayload state; c = buildCreatePayload state
         in distinct (map fst (ap_auth_users p)) \<and> list_all (\<lambda>(n, pw). n \<noteq> []) (ap_auth_users p) \<and>
            (\<forall>u \<in> set (al_users state). \<not> isBlankUser u \<longrightarrow>
               (trim (au_username u), if au_password u = [] then None else Some (au_password u))
                 \<in> set (ap_auth_users p) \<and>
               (au_id u = None \<longrightarrow> au_password u \<noteq> [])) \<and>
            (\<forall>r \<in> set (al_clients state). cr_directive r = Deny \<longrightarrow>
               (normalizeAddress (cr_address r), Deny) \<in> set (ap_clients p)) \<and>
            list_all (\<lambda>(a, d). a \<noteq> [] \<and> normalizeAddress a = a) (ap_clients p) \<and>
            ap_clients c = ap_clients p \<and> map fst (ap_auth_users c) = map fst (ap_auth_users p)"
proof -
  from assms have u: "users_problem {} (submittableUsers state) = None"
    and r: "\<not> list_ex (\<lambda>r. normalizeAddress (cr_address r) = []) (submittableClients state)"
    by (auto simp: validateAccessListForm_def split: if_splits option.splits)
  have addresses: "list_all (\<lambda>(a, d). a \<noteq> [] \<and> normalizeAddress a = a) (clientPayload state)"
    using r by (auto simp: clientPayload_def list_all_iff list_ex_iff)
  have deny: "(normalizeAddress (cr_address r), Deny) \<in> set (clientPayload state)"
    if "r \<in> set (al_clients state)" "cr_directive r = Deny" for r
    using that by (force simp: clientPayload_def submittableClients_def isBlankClient_def)
  show ?thesis
    using u [unfolded users_problem_None] addresses deny
    by (auto simp: buildUpdatePayload_def buildCreatePayload_def Let_def comp_def list_all_iff
        submittableUsers_def image_iff)
qed

definition demo_list_form :: accessListForm where
  "demo_list_form =
     emptyFormState\<lparr>al_name := js ''office'',
       al_users := [\<lparr>au_id = Some 1, au_username = js ''alice'', au_password = []\<rparr>, blankUserRow],
       al_clients := [\<lparr>cr_id = None, cr_address = js ''ALL'', cr_directive = Deny\<rparr>]\<rparr>"

theorem access_list_payload_witness:
  "(js ''all'', Deny) \<in> set (ap_clients (buildUpdatePayload demo_list_form))"
proof -
  have ev: "trim (js ''office'') = js ''office''" "trim (js ''alice'') = js ''alice''" "trim (js ''ALL'') = js ''ALL''"
    by (intro trim_no_ws; simp add: js_def is_ws_def)+
  have all: "normalizeAddress (js ''ALL'') = js ''all''"
    by (simp add: normalizeAddress_def ev)
      (simp add: js_def toLowerCase_def lower_unit_def lower_shift_def is_upper_az_def)
  have "validateAccessListForm demo_list_form = None"
    by (simp add: validateAccessListForm_def demo_list_form_def submittableUsers_def submittableClients_def
        isBlankUser_def isBlankClient_def blankUserRow_def emptyFormState_def ev all)
  from access_list_payload [OF this] show ?thesis
    using all by (simp add: Let_def demo_list_form_def)
qed

end
