(* ===== verification/Accounts.thy ===== *)
theory Accounts
  imports Auth_Context Dialog_Flow
begin

text \<open>
  Accounts: the helpers of \<^verbatim>\<open>components/users/lib.ts\<close>, the dialogs of the users page, the three forms of
  \<^verbatim>\<open>components/auth\<close> that an emailed link leads to, and the password and two-factor cards of the
  profile. These dialogs show a failure in place and do not toast it.
\<close>

section \<open>Helpers\<close>

record account =
  ac_id :: int
  ac_email :: jstring
  ac_full_name :: jstring
  ac_role :: userRole
  ac_is_active :: bool

definition MIN_PASSWORD_LENGTH :: nat where "MIN_PASSWORD_LENGTH = 8"

definition displayName :: "account \<Rightarrow> jstring" where
  "displayName u = (let name = trim (ac_full_name u) in if 0 < length name then name else ac_email u)"

definition isSelf :: "account \<Rightarrow> account option \<Rightarrow> bool" where
  "isSelf u current = (case current of None \<Rightarrow> False | Some c \<Rightarrow> ac_id c = ac_id u)"

text \<open>The words of a text: the nonempty runs between white space.\<close>

fun ws_split :: "jstring \<Rightarrow> jstring list" where
  "ws_split [] = [[]]"
| "ws_split (c # s) =
     (if is_ws c then [] # ws_split s
      else case ws_split s of [] \<Rightarrow> [[c]] | v # vs \<Rightarrow> (c # v) # vs)"

definition words :: "jstring \<Rightarrow> jstring list" where
  "words s = filter (\<lambda>v. v \<noteq> []) (ws_split s)"

definition initials :: "account option \<Rightarrow> jstring" where
  "initials user =
     (case user of
        None \<Rightarrow> js ''?''
      | Some u \<Rightarrow>
          (case words (ac_full_name u) of
             [] \<Rightarrow> if trim (ac_email u) \<noteq> [] then toUpperCase [hd (trim (ac_email u))] else js ''?''
           | [v] \<Rightarrow> toUpperCase [hd v]
           | v # vs \<Rightarrow> toUpperCase [hd v, hd (last vs)]))"

definition password_too_short :: jstring where
  "password_too_short = js ''Password must be at least '' @ str_nat MIN_PASSWORD_LENGTH @ js '' characters.''"

definition validateNewPassword :: "jstring \<Rightarrow> jstring \<Rightarrow> jstring option" where
  "validateNewPassword password confirm =
     (if length password < MIN_PASSWORD_LENGTH then Some password_too_short
      else if password \<noteq> confirm then Some (js ''Passwords do not match.'')
      else None)"

lemma validateNewPassword_None:
  "validateNewPassword password confirm = None \<longleftrightarrow> 8 \<le> length password \<and> confirm = password"
  by (auto simp: validateNewPassword_def MIN_PASSWORD_LENGTH_def)

section \<open>The dialogs of the users page\<close>

text \<open>The save flow of these dialogs: as \<open>save_flow\<close>, without a toast on failure.\<close>

definition quiet_flow :: "jstring \<Rightarrow> ('w, 'a) io \<Rightarrow> dialog_ui \<Rightarrow> 'w \<Rightarrow> dialog_ui \<times> 'w" where
  "quiet_flow ok_text save ui w =
     (case save w of
        (Inr x, w') \<Rightarrow>
          (ui\<lparr>ui_open := False, ui_saving := False, ui_saved := ui_saved ui + 1,
              ui_toasts := ui_toasts ui @ [ToastSuccess ok_text]\<rparr>, w')
      | (Inl err, w') \<Rightarrow>
          (ui\<lparr>ui_error := Some (de_message (describeError err)), ui_saving := False\<rparr>, w'))"

record userDialog =
  ud_user :: "account option"
  ud_currentUser :: "account option"
  ud_email :: jstring
  ud_fullName :: jstring
  ud_role :: userRole
  ud_isActive :: bool
  ud_password :: jstring

definition openUserDialog :: "account option \<Rightarrow> account option \<Rightarrow> userDialog" where
  "openUserDialog user current =
     (case user of
        None \<Rightarrow> \<lparr>ud_user = None, ud_currentUser = current, ud_email = [], ud_fullName = [], ud_role = Member,
                 ud_isActive = True, ud_password = []\<rparr>
      | Some u \<Rightarrow> \<lparr>ud_user = Some u, ud_currentUser = current, ud_email = ac_email u,
                   ud_fullName = ac_full_name u, ud_role = ac_role u, ud_isActive = ac_is_active u,
                   ud_password = []\<rparr>)"

definition role_json :: "userRole \<Rightarrow> jval" where
  "role_json r = Str (case r of Admin \<Rightarrow> js ''admin'' | Member \<Rightarrow> js ''member'')"

definition user_problem :: "userDialog \<Rightarrow> jstring option" where
  "user_problem d =
     (if ud_user d \<noteq> None then None
      else if trim (ud_email d) = [] then Some (js ''Enter an email address.'')
      else if length (ud_password d) < MIN_PASSWORD_LENGTH then Some password_too_short
      else None)"

definition user_body :: "userDialog \<Rightarrow> jval" where
  "user_body d =
     (case ud_user d of
        Some u \<Rightarrow>
          Obj ((js ''full_name'', Str (trim (ud_fullName d))) #
               (if isSelf u (ud_currentUser d) then []
                else [(js ''role'', role_json (ud_role d)), (js ''is_active'', Bool (ud_isActive d))]))
      | None \<Rightarrow>
          Obj [(js ''email'', Str (trim (ud_email d))), (js ''password'', Str (ud_password d)),
               (js ''full_name'', Str (trim (ud_fullName d))), (js ''role'', role_json (ud_role d)),
               (js ''is_active'', Bool (ud_isActive d))])"

definition user_endpoint :: "userDialog \<Rightarrow> endpoint" where
  "user_endpoint d =
     (case ud_user d of
        Some u \<Rightarrow> users (UserUpdate (ac_id u) (user_body d))
      | None \<Rightarrow> users (UserCreate (user_body d)))"

definition submitUser :: "'w api_env \<Rightarrow> userDialog \<Rightarrow> dialog_ui \<Rightarrow> 'w \<Rightarrow> dialog_ui \<times> 'w" where
  "submitUser env d ui w =
     (case user_problem d of
        Some m \<Rightarrow> (ui\<lparr>ui_error := Some m\<rparr>, w)
      | None \<Rightarrow>
          quiet_flow (if ud_user d \<noteq> None then js ''User updated'' else js ''User created'')
            (run_endpoint env (user_endpoint d)) (ui\<lparr>ui_error := None\<rparr>) w)"

definition submitInvite ::
  "'w api_env \<Rightarrow> jstring \<Rightarrow> jstring \<Rightarrow> userRole \<Rightarrow> dialog_ui \<Rightarrow> 'w \<Rightarrow> dialog_ui \<times> 'w" where
  "submitInvite env email fullName role ui w =
     (if trim email = [] then (ui\<lparr>ui_error := Some (js ''Enter an email address.'')\<rparr>, w)
      else quiet_flow (js ''Invitation sent'')
             (run_endpoint env (users (Invite (Obj [(js ''email'', Str (trim email)),
                (js ''full_name'', Str (trim fullName)), (js ''role'', role_json role)]))))
             (ui\<lparr>ui_error := None\<rparr>) w)"

definition submitReset ::
  "'w api_env \<Rightarrow> account option \<Rightarrow> jstring \<Rightarrow> jstring \<Rightarrow> dialog_ui \<Rightarrow> 'w \<Rightarrow> dialog_ui \<times> 'w" where
  "submitReset env user password confirm ui w =
     (case user of
        None \<Rightarrow> (ui, w)
      | Some u \<Rightarrow>
          (case validateNewPassword password confirm of
             Some m \<Rightarrow> (ui\<lparr>ui_error := Some m\<rparr>, w)
           | None \<Rightarrow>
               quiet_flow (js ''Password reset for '' @ displayName u)
                 (run_endpoint env (users (ResetPassword (ac_id u) (body1 ''password'' (Str password)))))
                 (ui\<lparr>ui_error := None\<rparr>) w))"

definition resendInvite :: "'w api_env \<Rightarrow> account \<Rightarrow> 'w \<Rightarrow> toast \<times> 'w" where
  "resendInvite env u w =
     (case run_endpoint env (users (ResendInvite (ac_id u))) w of
        (Inr v, w') \<Rightarrow> (ToastSuccess (js ''Invitation resent to '' @ ac_email u), w')
      | (Inl err, w') \<Rightarrow> (ToastError (de_message (describeError err)), w'))"

section \<open>The pages behind an emailed link\<close>

record linkForm =
  lf_fullName :: jstring
  lf_password :: jstring
  lf_confirm :: jstring
  lf_done :: bool
  lf_error :: "jstring option"
  lf_refused :: bool
  lf_submitting :: bool

definition openLinkForm :: linkForm where
  "openLinkForm =
     \<lparr>lf_fullName = [], lf_password = [], lf_confirm = [], lf_done = False, lf_error = None,
      lf_refused = False, lf_submitting = False\<rparr>"

definition too_many_attempts :: jstring where
  "too_many_attempts = js ''Too many attempts. Please wait a while and try again.''"

definition try_again :: jstring where
  "try_again = js ''Something went wrong. Please try again.''"

text \<open>Both forms stop without a token or with a password that is not valid.\<close>

definition submit_link ::
  "('w, jval) io \<Rightarrow> (thrown \<Rightarrow> linkForm \<Rightarrow> linkForm) \<Rightarrow> linkForm \<Rightarrow> 'w \<Rightarrow> linkForm \<times> 'w" where
  "submit_link request on_error f w =
     (case validateNewPassword (lf_password f) (lf_confirm f) of
        Some m \<Rightarrow> (f\<lparr>lf_error := Some m\<rparr>, w)
      | None \<Rightarrow>
          (let f1 = f\<lparr>lf_error := None, lf_submitting := False\<rparr>
           in case request w of
                (Inr v, w') \<Rightarrow> (f1\<lparr>lf_done := True\<rparr>, w')
              | (Inl err, w') \<Rightarrow> (on_error err f1, w')))"

definition reset_refused :: "thrown \<Rightarrow> linkForm \<Rightarrow> linkForm" where
  "reset_refused err f =
     (case err of
        ThrownApi e \<Rightarrow>
          (if ae_status e = 400 then f\<lparr>lf_refused := True, lf_error := Some (detail e)\<rparr>
           else if ae_status e = 429 then f\<lparr>lf_error := Some too_many_attempts\<rparr>
           else f\<lparr>lf_error := Some try_again\<rparr>)
      | _ \<Rightarrow> f\<lparr>lf_error := Some try_again\<rparr>)"

definition invite_refused :: "thrown \<Rightarrow> linkForm \<Rightarrow> linkForm" where
  "invite_refused err f =
     (case err of
        ThrownApi e \<Rightarrow>
          (if ae_status e = 400
           then f\<lparr>lf_error := Some (detail e @ js '' Ask an administrator to send you a new invitation.'')\<rparr>
           else if ae_status e = 429 then f\<lparr>lf_error := Some too_many_attempts\<rparr>
           else f\<lparr>lf_error := Some try_again\<rparr>)
      | _ \<Rightarrow> f\<lparr>lf_error := Some try_again\<rparr>)"

definition has_token :: "jstring option \<Rightarrow> bool" where
  "has_token token = (case token of Some t \<Rightarrow> t \<noteq> [] | None \<Rightarrow> False)"

definition submitResetForm :: "'w api_env \<Rightarrow> jstring option \<Rightarrow> linkForm \<Rightarrow> 'w \<Rightarrow> linkForm \<times> 'w" where
  "submitResetForm env token f w =
     (if has_token token
      then submit_link (resetPassword env (the token) (lf_password f)) reset_refused f w
      else (f, w))"

definition submitAcceptInvite :: "'w api_env \<Rightarrow> jstring option \<Rightarrow> linkForm \<Rightarrow> 'w \<Rightarrow> linkForm \<times> 'w" where
  "submitAcceptInvite env token f w =
     (if has_token token
      then submit_link (acceptInvite env (the token) (trim (lf_fullName f)) (lf_password f)) invite_refused f w
      else (f, w))"

definition submitForgot ::
  "'w api_env \<Rightarrow> jstring \<Rightarrow> bool \<times> jstring option \<Rightarrow> 'w \<Rightarrow> (bool \<times> jstring option) \<times> 'w" where
  "submitForgot env email f w =
     (case requestPasswordReset env email w of
        (Inr v, w') \<Rightarrow> ((True, None), w')
      | (Inl err, w') \<Rightarrow>
          ((fst f,
            Some (case err of
                    ThrownApi e \<Rightarrow>
                      (if ae_status e = 429 then js ''Too many requests. Please wait a while and try again.''
                       else detail e)
                  | _ \<Rightarrow> try_again)), w'))"

section \<open>The profile\<close>

record passwordCard =
  pc_next :: jstring
  pc_confirm :: jstring
  pc_error :: "jstring option"
  pc_toasts :: "toast list"

definition changePassword :: "'w api_env \<Rightarrow> passwordCard \<Rightarrow> 'w \<Rightarrow> passwordCard \<times> 'w" where
  "changePassword env c w =
     (case validateNewPassword (pc_next c) (pc_confirm c) of
        Some m \<Rightarrow> (c\<lparr>pc_error := Some m\<rparr>, w)
      | None \<Rightarrow>
          (case run_endpoint env (users (ChangeMyPassword (body1 ''new_password'' (Str (pc_next c))))) w of
             (Inr v, w') \<Rightarrow>
               (c\<lparr>pc_next := [], pc_confirm := [], pc_error := None,
                  pc_toasts := pc_toasts c @ [ToastSuccess (js ''Password changed'')]\<rparr>, w')
           | (Inl err, w') \<Rightarrow> (c\<lparr>pc_error := Some (de_message (describeError err))\<rparr>, w')))"

datatype codesReason = CodesEnabled | CodesRegenerated

datatype totpAsk = AskDisable | AskRegenerate

datatype totpMode = TotpIdle | TotpSetupMode jval | TotpCodes jval codesReason | TotpAsk totpAsk

record totpCard =
  tc_mode :: totpMode
  tc_code :: jstring
  tc_acknowledged :: bool
  tc_error :: "jstring option"
  tc_busy :: bool
  tc_changed :: nat
  tc_toasts :: "toast list"

definition totpReset :: "totpCard \<Rightarrow> totpCard" where
  "totpReset c = c\<lparr>tc_mode := TotpIdle, tc_code := [], tc_acknowledged := False, tc_error := None\<rparr>"

text \<open>Every flow of the card: the error cleared, the request, the card usable again at the end.\<close>

definition totp_run ::
  "('w, jval) io \<Rightarrow> (jval \<Rightarrow> thrown + (totpCard \<Rightarrow> totpCard)) \<Rightarrow> totpCard \<Rightarrow> 'w \<Rightarrow> totpCard \<times> 'w" where
  "totp_run request body c w =
     (let c1 = c\<lparr>tc_error := None, tc_busy := False\<rparr>;
          failed = (\<lambda>err. c1\<lparr>tc_error := Some (de_message (describeError err))\<rparr>)
      in case request w of
           (Inl err, w') \<Rightarrow> (failed err, w')
         | (Inr v, w') \<Rightarrow> (case body v of Inl err \<Rightarrow> failed err | Inr g \<Rightarrow> g c1, w'))"

definition totpStart :: "'w api_env \<Rightarrow> totpCard \<Rightarrow> 'w \<Rightarrow> totpCard \<times> 'w" where
  "totpStart env =
     totp_run (run_endpoint env (users TotpSetup)) (\<lambda>v. Inr (\<lambda>c. c\<lparr>tc_mode := TotpSetupMode v\<rparr>))"

definition show_codes :: "codesReason \<Rightarrow> jval \<Rightarrow> thrown + (totpCard \<Rightarrow> totpCard)" where
  "show_codes reason v =
     (case member v (js ''codes'') of
        Inl err \<Rightarrow> Inl err
      | Inr codes \<Rightarrow>
          Inr (\<lambda>c. c\<lparr>tc_code := [], tc_mode := TotpCodes codes reason,
                     tc_changed := tc_changed c + (if reason = CodesEnabled then 1 else 0)\<rparr>))"

definition totpConfirm :: "'w api_env \<Rightarrow> totpCard \<Rightarrow> 'w \<Rightarrow> totpCard \<times> 'w" where
  "totpConfirm env c = totp_run (run_endpoint env (users (TotpEnable (tc_code c)))) (show_codes CodesEnabled) c"

definition totpDisable :: "'w api_env \<Rightarrow> totpCard \<Rightarrow> 'w \<Rightarrow> totpCard \<times> 'w" where
  "totpDisable env c =
     totp_run (run_endpoint env (users (TotpDisable (tc_code c))))
       (\<lambda>v. Inr (\<lambda>c. (totpReset (c\<lparr>tc_toasts := tc_toasts c @
                          [ToastSuccess (js ''Two-factor authentication turned off'')]\<rparr>))
                       \<lparr>tc_changed := tc_changed c + 1\<rparr>)) c"

definition totpRegenerate :: "'w api_env \<Rightarrow> totpCard \<Rightarrow> 'w \<Rightarrow> totpCard \<times> 'w" where
  "totpRegenerate env c =
     totp_run (run_endpoint env (users (TotpRegenerate (tc_code c)))) (show_codes CodesRegenerated) c"

section \<open>What is sent\<close>

lemma quiet_flow_outcome:
  "quiet_flow ok_text save ui w = (ui', w') \<Longrightarrow>
   w' = snd (save w) \<and>
   (case fst (save w) of
      Inr x \<Rightarrow> \<not> ui_open ui' \<and> ui_saved ui' = ui_saved ui + 1 \<and> ui_error ui' = ui_error ui
    | Inl err \<Rightarrow> ui_open ui' = ui_open ui \<and> ui_saved ui' = ui_saved ui \<and>
                 ui_error ui' = Some (de_message (describeError err)) \<and> ui_toasts ui' = ui_toasts ui)"
  by (auto simp: quiet_flow_def split: prod.splits sum.splits)

lemma own_role_kept:
  "ud_user d = Some u \<Longrightarrow> isSelf u (ud_currentUser d) \<Longrightarrow>
   get_prop (user_body d) (js ''role'') = Undef \<and> get_prop (user_body d) (js ''is_active'') = Undef"
  by (simp add: user_body_def)

lemma submit_link_outcome:
  assumes "\<And>err f. lf_done (on_error err f) = lf_done f \<and> lf_error (on_error err f) \<noteq> None"
  shows "case submit_link request on_error f w of
           (f', w') \<Rightarrow>
             (if 8 \<le> length (lf_password f) \<and> lf_confirm f = lf_password f
              then w' = snd (request w) \<and>
                   (case fst (request w) of
                      Inr v \<Rightarrow> lf_done f' \<and> lf_error f' = None
                    | Inl err \<Rightarrow> lf_done f' = lf_done f \<and> lf_error f' \<noteq> None)
              else w' = w \<and> lf_done f' = lf_done f \<and> lf_error f' \<noteq> None)"
proof (cases "validateNewPassword (lf_password f) (lf_confirm f)")
  case None
  obtain r w1 where r: "request w = (r, w1)" by fastforce
  have v: "8 \<le> length (lf_password f) \<and> lf_confirm f = lf_password f"
    using None validateNewPassword_None by blast
  show ?thesis using None v assms r by (cases r) (simp_all add: submit_link_def Let_def)
next
  case (Some m)
  then have "\<not> (8 \<le> length (lf_password f) \<and> lf_confirm f = lf_password f)"
    by (metis option.distinct(1) validateNewPassword_None)
  with Some show ?thesis by (auto simp: submit_link_def)
qed

lemma reset_refused_shown: "lf_done (reset_refused err f) = lf_done f \<and> lf_error (reset_refused err f) \<noteq> None"
  by (simp add: reset_refused_def split: thrown.split)

lemma invite_refused_shown: "lf_done (invite_refused err f) = lf_done f \<and> lf_error (invite_refused err f) \<noteq> None"
  by (simp add: invite_refused_def split: thrown.split)

text \<open>
  C16. Passwords and accounts. No dialog, card or page sends a password shorter than eight characters,
  and where a confirmation is asked for, none that differs from it: nothing is sent then, and the
  reason is shown. A page behind an emailed link sends nothing without its token, and reports
  success exactly when the service accepted the password. An administrator who edits the own
  account sends neither a role nor the active flag. A changed password is cleared from the card.
\<close>

theorem password_forms:
  "(case submitUser env d fresh_ui w of
      (ui', w') \<Rightarrow>
        (if ud_user d = None \<and> (trim (ud_email d) = [] \<or> length (ud_password d) < 8)
         then w' = w \<and> ui_open ui' \<and> ui_error ui' \<noteq> None
         else w' = snd (run_endpoint env (user_endpoint d) w) \<and>
              (ui_open ui' \<longleftrightarrow> isl (fst (run_endpoint env (user_endpoint d) w))))) \<and>
   (case ud_user d of
      Some u \<Rightarrow>
        (if isSelf u (ud_currentUser d)
         then get_prop (user_body d) (js ''role'') = Undef \<and> get_prop (user_body d) (js ''is_active'') = Undef
         else get_prop (user_body d) (js ''role'') = role_json (ud_role d))
    | None \<Rightarrow> get_prop (user_body d) (js ''password'') = Str (ud_password d)) \<and>
   (case submitReset env (Some u) password confirm fresh_ui w of
      (ui', w') \<Rightarrow>
        (if 8 \<le> length password \<and> confirm = password
         then w' = snd (run_endpoint env (users (ResetPassword (ac_id u) (body1 ''password'' (Str password)))) w)
         else w' = w \<and> ui_open ui' \<and> ui_error ui' \<noteq> None)) \<and>
   (case submitResetForm env token f w of
      (f', w') \<Rightarrow>
        (if has_token token \<and> 8 \<le> length (lf_password f) \<and> lf_confirm f = lf_password f
         then w' = snd (resetPassword env (the token) (lf_password f) w) \<and>
              (case fst (resetPassword env (the token) (lf_password f) w) of
                 Inr v \<Rightarrow> lf_done f' \<and> lf_error f' = None
               | Inl err \<Rightarrow> lf_done f' = lf_done f \<and> lf_error f' \<noteq> None)
         else w' = w \<and> lf_done f' = lf_done f)) \<and>
   (case submitAcceptInvite env token f w of
      (f', w') \<Rightarrow>
        (if has_token token \<and> 8 \<le> length (lf_password f) \<and> lf_confirm f = lf_password f
         then w' = snd (acceptInvite env (the token) (trim (lf_fullName f)) (lf_password f) w) \<and>
              (case fst (acceptInvite env (the token) (trim (lf_fullName f)) (lf_password f) w) of
                 Inr v \<Rightarrow> lf_done f' \<and> lf_error f' = None
               | Inl err \<Rightarrow> lf_done f' = lf_done f \<and> lf_error f' \<noteq> None)
         else w' = w \<and> lf_done f' = lf_done f)) \<and>
   (case changePassword env c w of
      (c', w') \<Rightarrow>
        (if 8 \<le> length (pc_next c) \<and> pc_confirm c = pc_next c
         then (case run_endpoint env (users (ChangeMyPassword (body1 ''new_password'' (Str (pc_next c))))) w of
                 (Inr v, w1) \<Rightarrow> w' = w1 \<and> pc_next c' = [] \<and> pc_confirm c' = [] \<and> pc_error c' = None
               | (Inl err, w1) \<Rightarrow> w' = w1 \<and> pc_next c' = pc_next c \<and> pc_error c' \<noteq> None)
         else w' = w \<and> pc_next c' = pc_next c \<and> pc_error c' \<noteq> None))"
proof (intro conjI)
  show "case submitUser env d fresh_ui w of
      (ui', w') \<Rightarrow>
        (if ud_user d = None \<and> (trim (ud_email d) = [] \<or> length (ud_password d) < 8)
         then w' = w \<and> ui_open ui' \<and> ui_error ui' \<noteq> None
         else w' = snd (run_endpoint env (user_endpoint d) w) \<and>
              (ui_open ui' \<longleftrightarrow> isl (fst (run_endpoint env (user_endpoint d) w))))"
    by (auto simp: submitUser_def user_problem_def MIN_PASSWORD_LENGTH_def fresh_ui_def
        dest!: quiet_flow_outcome split: option.splits prod.splits sum.splits if_splits)
  show "case ud_user d of
      Some u \<Rightarrow>
        (if isSelf u (ud_currentUser d)
         then get_prop (user_body d) (js ''role'') = Undef \<and> get_prop (user_body d) (js ''is_active'') = Undef
         else get_prop (user_body d) (js ''role'') = role_json (ud_role d))
    | None \<Rightarrow> get_prop (user_body d) (js ''password'') = Str (ud_password d)"
    using own_role_kept by (auto simp: user_body_def split: option.splits)
  show "case submitReset env (Some u) password confirm fresh_ui w of
      (ui', w') \<Rightarrow>
        (if 8 \<le> length password \<and> confirm = password
         then w' = snd (run_endpoint env (users (ResetPassword (ac_id u) (body1 ''password'' (Str password)))) w)
         else w' = w \<and> ui_open ui' \<and> ui_error ui' \<noteq> None)"
    using validateNewPassword_None [of password confirm]
    by (cases "validateNewPassword password confirm")
      (auto simp: submitReset_def fresh_ui_def dest!: quiet_flow_outcome split: prod.splits)
  show "case submitResetForm env token f w of
      (f', w') \<Rightarrow>
        (if has_token token \<and> 8 \<le> length (lf_password f) \<and> lf_confirm f = lf_password f
         then w' = snd (resetPassword env (the token) (lf_password f) w) \<and>
              (case fst (resetPassword env (the token) (lf_password f) w) of
                 Inr v \<Rightarrow> lf_done f' \<and> lf_error f' = None
               | Inl err \<Rightarrow> lf_done f' = lf_done f \<and> lf_error f' \<noteq> None)
         else w' = w \<and> lf_done f' = lf_done f)"
    using submit_link_outcome [where on_error = reset_refused, OF reset_refused_shown,
        where request = "resetPassword env (the token) (lf_password f)" and f = f and w = w]
    by (auto simp: submitResetForm_def split: prod.splits if_splits)
  show "case submitAcceptInvite env token f w of
      (f', w') \<Rightarrow>
        (if has_token token \<and> 8 \<le> length (lf_password f) \<and> lf_confirm f = lf_password f
         then w' = snd (acceptInvite env (the token) (trim (lf_fullName f)) (lf_password f) w) \<and>
              (case fst (acceptInvite env (the token) (trim (lf_fullName f)) (lf_password f) w) of
                 Inr v \<Rightarrow> lf_done f' \<and> lf_error f' = None
               | Inl err \<Rightarrow> lf_done f' = lf_done f \<and> lf_error f' \<noteq> None)
         else w' = w \<and> lf_done f' = lf_done f)"
    using submit_link_outcome [where on_error = invite_refused, OF invite_refused_shown,
        where request = "acceptInvite env (the token) (trim (lf_fullName f)) (lf_password f)" and f = f and w = w]
    by (auto simp: submitAcceptInvite_def split: prod.splits if_splits)
  show "case changePassword env c w of
      (c', w') \<Rightarrow>
        (if 8 \<le> length (pc_next c) \<and> pc_confirm c = pc_next c
         then (case run_endpoint env (users (ChangeMyPassword (body1 ''new_password'' (Str (pc_next c))))) w of
                 (Inr v, w1) \<Rightarrow> w' = w1 \<and> pc_next c' = [] \<and> pc_confirm c' = [] \<and> pc_error c' = None
               | (Inl err, w1) \<Rightarrow> w' = w1 \<and> pc_next c' = pc_next c \<and> pc_error c' \<noteq> None)
         else w' = w \<and> pc_next c' = pc_next c \<and> pc_error c' \<noteq> None)"
    using validateNewPassword_None [of "pc_next c" "pc_confirm c"]
    by (cases "validateNewPassword (pc_next c) (pc_confirm c)")
      (auto simp: changePassword_def split: prod.splits sum.splits)
qed

end
