(* ===== verification/List_Pages.thy ===== *)
theory List_Pages
  imports List_View Other_Hosts Upstreams Access_Lists Certificates Custom_Pages Accounts Event_Stream
begin

text \<open>
  The list pages of the application: proxy hosts, redirections, 404 hosts, streams, upstream pools,
  access lists, certificates, custom pages, DNS credentials and users. For each, what it loads,
  what its search looks at, what its delete confirmation says and sends, and the cells that are not
  a field as it is. The certificates page also follows the tasks that issue and renew.
\<close>

section \<open>Loading\<close>

text \<open>
  \<open>Promise.all\<close>: every request is made; the first to fail fails the load. The lists besides the rows
  (\<open>'x\<close>) are replaced together with them. \<open>rd\<close> reads the answers.
\<close>

primrec fetch_all :: "'w api_env \<Rightarrow> endpoint list \<Rightarrow> ('w, jval list) io" where
  "fetch_all env [] w = (Inr [], w)"
| "fetch_all env (e # es) w =
     (let (r, w1) = run_endpoint env e w; (rs, w2) = fetch_all env es w1
      in (case r of Inl err \<Rightarrow> Inl err | Inr v \<Rightarrow> (case rs of Inl err \<Rightarrow> Inl err | Inr vs \<Rightarrow> Inr (v # vs)), w2))"

definition load_page ::
  "endpoint list \<Rightarrow> 'w api_env \<Rightarrow> (jval list \<Rightarrow> 'r list \<times> 'x) \<Rightarrow> 'r listView \<times> 'x \<Rightarrow> 'w \<Rightarrow> ('r listView \<times> 'x) \<times> 'w" where
  "load_page sources env rd p w =
     (case fetch_all env sources w of
        (Inr vs, w') \<Rightarrow> ((loadAnswered (Inr (fst (rd vs))) (fst p), snd (rd vs)), w')
      | (Inl e, w') \<Rightarrow> ((loadAnswered (Inl e) (fst p), snd p), w'))"

definition remove_with :: "'w api_env \<Rightarrow> ('r \<Rightarrow> endpoint) \<Rightarrow> 'r listView \<Rightarrow> 'w \<Rightarrow> 'r listView \<times> 'w" where
  "remove_with env e = confirmTarget (\<lambda>r. run_endpoint env (e r))"

definition quote_name :: "jstring \<Rightarrow> jstring" where
  "quote_name n = [8220] @ n @ [8221]"

section \<open>Proxy hosts\<close>

definition proxyHosts_sources :: "endpoint list" where
  "proxyHosts_sources =
     [proxyHosts List, upstreams (UpCrud List), accessLists (AlCrud List), certificates CertList, customPages (PageCrud List)]"

definition proxyHosts_fields :: "proxyHost \<Rightarrow> jstring option list" where
  "proxyHosts_fields h = map Some (ph_domain_names h) @ [ph_forward_host h]"

definition proxyHosts_deleteText :: "proxyHost \<Rightarrow> jstring" where
  "proxyHosts_deleteText h =
     js ''This removes '' @ join (js '', '') (ph_domain_names h) @ js '' and regenerates the nginx config.''"

definition proxyHosts_confirm :: "'w api_env \<Rightarrow> proxyHost listView \<Rightarrow> 'w \<Rightarrow> proxyHost listView \<times> 'w" where
  "proxyHosts_confirm env = remove_with env (\<lambda>h. proxyHosts (Remove (ph_id h)))"

text \<open>\<open>new Map\<close> of a list by id: the last row with an id wins.\<close>

definition by_id :: "('r \<Rightarrow> int) \<Rightarrow> 'r list \<Rightarrow> int \<Rightarrow> 'r option" where
  "by_id key rows i = map_of (rev (map (\<lambda>r. (key r, r)) rows)) i"

definition rendered_opt :: "('a \<Rightarrow> jstring) \<Rightarrow> 'a option \<Rightarrow> jstring" where
  "rendered_opt f x = (case x of Some v \<Rightarrow> f v | None \<Rightarrow> [])"

definition upstream_cell :: "upstream list \<Rightarrow> proxyHost \<Rightarrow> jstring" where
  "upstream_cell pools h =
     (case ph_upstream_id h of
        None \<Rightarrow> rendered_opt (\<lambda>t. t) (ph_forward_host h) @ js '':'' @ rendered_opt str_int (ph_forward_port h)
      | Some i \<Rightarrow> (case by_id u_id pools i of Some p \<Rightarrow> u_name p | None \<Rightarrow> js ''#'' @ str_int i))"

definition access_list_cell :: "accessList list \<Rightarrow> proxyHost \<Rightarrow> jstring option" where
  "access_list_cell als h =
     (case ph_access_list_id h of
        None \<Rightarrow> None
      | Some i \<Rightarrow> Some (case by_id ar_id als i of Some l \<Rightarrow> ar_name l | None \<Rightarrow> js ''#'' @ str_int i))"

section \<open>Redirections and 404 hosts\<close>

definition redirectionHosts_sources :: "endpoint list" where
  "redirectionHosts_sources = [redirectionHosts List, certificates CertList]"

definition redirectionHosts_fields :: "redirectionHost \<Rightarrow> jstring option list" where
  "redirectionHosts_fields h = map Some (rh_domain_names h) @ [Some (rh_forward_domain_name h)]"

definition redirectionHosts_deleteText :: "redirectionHost \<Rightarrow> jstring" where
  "redirectionHosts_deleteText h =
     js ''This removes '' @ join (js '', '') (rh_domain_names h) @ js '' and regenerates the nginx config.''"

definition redirectionHosts_confirm :: "'w api_env \<Rightarrow> redirectionHost listView \<Rightarrow> 'w \<Rightarrow> redirectionHost listView \<times> 'w" where
  "redirectionHosts_confirm env = remove_with env (\<lambda>h. redirectionHosts (Remove (rh_id h)))"

definition linkScheme :: "redirectScheme \<Rightarrow> jstring" where
  "linkScheme sc = (if sc = HttpScheme then js ''http'' else js ''https'')"

definition schemePrefix :: "redirectScheme \<Rightarrow> jstring" where
  "schemePrefix sc = (if sc = AutoScheme then [] else redirect_scheme_name sc @ js ''://'')"

definition redirect_href :: "redirectionHost \<Rightarrow> jstring" where
  "redirect_href h = linkScheme (rh_forward_scheme h) @ js ''://'' @ rh_forward_domain_name h"

definition deadHosts_sources :: "endpoint list" where
  "deadHosts_sources = [deadHosts List, certificates CertList]"

definition deadHosts_fields :: "deadHost \<Rightarrow> jstring option list" where
  "deadHosts_fields h = map Some (dh_domain_names h)"

definition deadHosts_deleteText :: "deadHost \<Rightarrow> jstring" where
  "deadHosts_deleteText h =
     js ''This removes '' @ join (js '', '') (dh_domain_names h) @ js '' and regenerates the nginx config.''"

definition deadHosts_confirm :: "'w api_env \<Rightarrow> deadHost listView \<Rightarrow> 'w \<Rightarrow> deadHost listView \<times> 'w" where
  "deadHosts_confirm env = remove_with env (\<lambda>h. deadHosts (Remove (dh_id h)))"

section \<open>Streams\<close>

definition streams_sources :: "endpoint list" where
  "streams_sources = [streams List, certificates CertList, upstreams (UpCrud List)]"

definition streams_fields :: "stream \<Rightarrow> jstring option list" where
  "streams_fields s = [Some (str_int (sr_incoming_port s)), sr_forward_host s]"

definition streams_deleteText :: "stream \<Rightarrow> jstring" where
  "streams_deleteText s =
     js ''This removes the stream on port '' @ str_int (sr_incoming_port s) @ js '' and regenerates the nginx config.''"

definition streams_confirm :: "'w api_env \<Rightarrow> stream listView \<Rightarrow> 'w \<Rightarrow> stream listView \<times> 'w" where
  "streams_confirm env = remove_with env (\<lambda>s. streams (Remove (sr_id s)))"

definition forward_cell :: "stream \<Rightarrow> jstring" where
  "forward_cell s =
     rendered_opt (\<lambda>t. t) (sr_forward_host s) @ js '':'' @ rendered_opt str_int (sr_forward_port s)"

definition protocolBadges :: "bool \<Rightarrow> bool \<Rightarrow> jstring list" where
  "protocolBadges tcp udp = (if tcp then [js ''TCP''] else []) @ (if udp then [js ''UDP''] else [])"

section \<open>Upstream pools and access lists\<close>

definition upstreams_sources :: "endpoint list" where
  "upstreams_sources = [upstreams (UpCrud List)]"

definition upstreams_fields :: "upstream \<Rightarrow> jstring option list" where
  "upstreams_fields p =
     Some (u_name p) # map (\<lambda>b. Some (b_host b)) (case u_backends p of Some bs \<Rightarrow> bs | None \<Rightarrow> [])"

definition upstreams_deleteText :: "upstream \<Rightarrow> jstring" where
  "upstreams_deleteText p =
     js ''This deletes '' @ u_name p @ js '' and its backends. Pools still referenced by a host cannot be deleted.''"

definition upstreams_confirm :: "'w api_env \<Rightarrow> upstream listView \<Rightarrow> 'w \<Rightarrow> upstream listView \<times> 'w" where
  "upstreams_confirm env = remove_with env (\<lambda>p. upstreams (UpCrud (Remove (u_id p))))"

definition put_pool_enabled :: "bool \<Rightarrow> upstream \<Rightarrow> upstream" where
  "put_pool_enabled b p = p\<lparr>u_enabled := Some b\<rparr>"

definition setPoolEnabled ::
  "'w api_env \<Rightarrow> int \<Rightarrow> bool \<Rightarrow> upstream view_ui \<Rightarrow> 'w \<Rightarrow> upstream view_ui \<times> 'w" where
  "setPoolEnabled env =
     toggle_row u_id put_pool_enabled (\<lambda>i b. run_endpoint env (upstreams (UpCrud (Update i (body1 ''enabled'' (Bool b))))))"

definition backends_up :: "upstream \<Rightarrow> nat \<times> nat" where
  "backends_up p =
     (let bs = (case u_backends p of Some bs \<Rightarrow> bs | None \<Rightarrow> [])
      in (length (filter (\<lambda>b. (case b_enabled b of Some x \<Rightarrow> x | None \<Rightarrow> True) \<and>
                              \<not> (case b_down b of Some x \<Rightarrow> x | None \<Rightarrow> False)) bs), length bs))"

definition accessLists_sources :: "endpoint list" where
  "accessLists_sources = [accessLists (AlCrud List)]"

definition accessLists_fields :: "accessList \<Rightarrow> jstring option list" where
  "accessLists_fields l = [Some (ar_name l)]"

definition accessLists_deleteText :: "accessList \<Rightarrow> jstring" where
  "accessLists_deleteText l =
     js ''This removes '' @ quote_name (ar_name l) @ js '' and its users and IP rules. Hosts using it will no longer be gated.''"

definition accessLists_confirm :: "'w api_env \<Rightarrow> accessList listView \<Rightarrow> 'w \<Rightarrow> accessList listView \<times> 'w" where
  "accessLists_confirm env = remove_with env (\<lambda>l. accessLists (AlCrud (Remove (ar_id l))))"

section \<open>Custom pages and DNS credentials\<close>

record pageSummary =
  ps_id :: int
  ps_name :: jstring
  ps_description :: "jstring option"
  ps_size_bytes :: nat
  ps_updated_at :: jstring

definition customPages_sources :: "endpoint list" where
  "customPages_sources = [customPages (PageCrud List)]"

definition customPages_fields :: "pageSummary \<Rightarrow> jstring option list" where
  "customPages_fields p = [Some (ps_name p), ps_description p]"

definition customPages_deleteText :: "pageSummary \<Rightarrow> jstring" where
  "customPages_deleteText p = js ''This permanently removes '' @ quote_name (ps_name p) @ js ''.''"

definition customPages_confirm :: "'w api_env \<Rightarrow> pageSummary listView \<Rightarrow> 'w \<Rightarrow> pageSummary listView \<times> 'w" where
  "customPages_confirm env = remove_with env (\<lambda>p. customPages (PageCrud (Remove (ps_id p))))"

definition dnsCredentials_sources :: "endpoint list" where
  "dnsCredentials_sources = [dnsCredentials DnsList, dnsProviders_catalog]"

definition dnsCredentials_deleteText :: "dnsCredential option \<Rightarrow> jstring" where
  "dnsCredentials_deleteText target =
     (case target of
        None \<Rightarrow> []
      | Some c \<Rightarrow> js ''Delete '' @ quote_name (dc_name c) @
                  js ''? Certificates that still use it must be deleted or re-pointed first.'')"

definition dnsCredentials_confirm :: "'w api_env \<Rightarrow> dnsCredential listView \<Rightarrow> 'w \<Rightarrow> dnsCredential listView \<times> 'w" where
  "dnsCredentials_confirm env = remove_with env (\<lambda>c. dnsCredentials (DnsRemove (dc_id c)))"

text \<open>A new credential needs the catalog of providers.\<close>

definition newCredential_disabled :: "dnsProviderInfo list \<Rightarrow> bool" where
  "newCredential_disabled catalog \<longleftrightarrow> length catalog = 0"

section \<open>Certificates\<close>

record certificate =
  ct_id :: int
  ct_name :: jstring
  ct_domain_names :: "jstring list"
  ct_provider :: jstring
  ct_status :: jstring
  ct_expires_on :: "jstring option"
  ct_challenge :: "acmeChallenge option"
  ct_dns_provider_label :: "jstring option"

definition STATUS_META :: "jstring \<Rightarrow> jstring \<times> jstring" where
  "STATUS_META status =
     (if status = js ''active'' then (js ''Active'', js ''success'')
      else if status = js ''pending'' then (js ''Pending'', js ''secondary'')
      else if status = js ''failed'' then (js ''Failed'', js ''destructive'')
      else if status = js ''expired'' then (js ''Expired'', js ''muted'')
      else (status, js ''muted''))"

definition certificates_sources :: "endpoint list" where
  "certificates_sources = [certificates CertList]"

definition certificates_fields :: "certificate \<Rightarrow> jstring option list" where
  "certificates_fields c = Some (ct_name c) # map Some (ct_domain_names c)"

definition certificates_deleteText :: "certificate \<Rightarrow> jstring" where
  "certificates_deleteText c =
     js ''This removes '' @ quote_name (ct_name c) @
     js '' and its on-disk key material. Hosts using it will fall back to the default certificate.''"

definition certificates_confirm :: "'w api_env \<Rightarrow> certificate listView \<Rightarrow> 'w \<Rightarrow> certificate listView \<times> 'w" where
  "certificates_confirm env = remove_with env (\<lambda>c. certificates (CertRemove (ct_id c)))"

definition flagged :: "date_env \<Rightarrow> int \<Rightarrow> certificate \<Rightarrow> bool" where
  "flagged de now c \<longleftrightarrow>
     ei_level (expiryInfo_of de (ct_expires_on c) now) = ExpiryWarning \<or>
     ei_level (expiryInfo_of de (ct_expires_on c) now) = Expired"

definition warningCount :: "date_env \<Rightarrow> int \<Rightarrow> certificate list \<Rightarrow> nat" where
  "warningCount de now certs = length (filter (flagged de now) certs)"

text \<open>
  The tasks under way and the row whose renewal is being requested. \<open>cp_loads\<close> counts the reloads
  that were started in the background.
\<close>

record certificatesPage =
  cp_view :: "certificate listView"
  cp_pending :: "pendingTask list"
  cp_renewingId :: "int option"
  cp_loads :: nat

definition page_toast :: "toast \<Rightarrow> certificatesPage \<Rightarrow> certificatesPage" where
  "page_toast t p = p\<lparr>cp_view := (cp_view p)\<lparr>vw_toasts := vw_toasts (cp_view p) @ [t]\<rparr>\<rparr>"

definition trackStart :: "pendingTask \<Rightarrow> certificatesPage \<Rightarrow> certificatesPage" where
  "trackStart t p = p\<lparr>cp_pending := cp_pending p @ [t]\<rparr>"

text \<open>What is said of a finished poll; an aborted one (the page was left) is silent.\<close>

definition task_toast :: "jstring \<Rightarrow> thrown + jval \<Rightarrow> toast option" where
  "task_toast label r =
     (case r of
        Inl e \<Rightarrow> if e = abort_error then None else Some (ToastError (de_message (describeError e)))
      | Inr v \<Rightarrow>
          if truthy (get_prop v (js ''error'')) \<or> get_prop v (js ''status'') = Str (js ''FAILURE'')
          then Some (ToastError (label @ js '' failed: '' @
                 (case get_prop v (js ''error'') of Null \<Rightarrow> js ''unknown error'' | Undef \<Rightarrow> js ''unknown error''
                  | x \<Rightarrow> js_String x)))
          else if truthy (get_prop v (js ''ready'')) then Some (ToastSuccess (label @ js '' '' @ em_dash @ js '' done''))
          else Some (ToastMessage (label @ js '' is still running; refresh shortly.'')))"

definition trackEnd :: "pendingTask \<Rightarrow> thrown + jval \<Rightarrow> certificatesPage \<Rightarrow> certificatesPage" where
  "trackEnd t r p =
     (let p1 = (case task_toast (pt_label t) r of Some x \<Rightarrow> page_toast x p | None \<Rightarrow> p)
      in p1\<lparr>cp_pending := filter (\<lambda>q. pt_taskId q \<noteq> pt_taskId t) (cp_pending p1), cp_loads := cp_loads p1 + 1\<rparr>)"

text \<open>The whole of \<open>trackTask\<close> where nothing else happens meanwhile; \<open>None\<close>: the poll needs more rounds.\<close>

definition trackTask ::
  "nat \<Rightarrow> 'w poll_env \<Rightarrow> 'w api_env \<Rightarrow> int \<Rightarrow> int \<Rightarrow> pendingTask \<Rightarrow> certificatesPage \<Rightarrow> 'w \<Rightarrow> (certificatesPage \<times> 'w) option" where
  "trackTask fuel pe env intervalMs timeoutMs t p w =
     map_option (\<lambda>(r, w'). (trackEnd t r (trackStart t p), w'))
       (pollTask fuel pe env (js_String (pt_taskId t)) intervalMs timeoutMs w)"

definition handleRenew :: "'w api_env \<Rightarrow> certificate \<Rightarrow> certificatesPage \<Rightarrow> 'w \<Rightarrow> certificatesPage \<times> 'w" where
  "handleRenew env c p w =
     (case run_endpoint env (certificates (Renew (ct_id c))) w of
        (Inl e, w') \<Rightarrow> (page_toast (ToastError (de_message (describeError e))) (p\<lparr>cp_renewingId := None\<rparr>), w')
      | (Inr v, w') \<Rightarrow>
          (let p1 = page_toast (ToastSuccess (js ''Renewal requested'')) (p\<lparr>cp_renewingId := None\<rparr>)
           in case member v (js ''task_id'') of
                Inl e \<Rightarrow> (page_toast (ToastError (de_message (describeError e))) p1, w')
              | Inr i \<Rightarrow>
                  (trackStart \<lparr>pt_taskId = i, pt_label = js ''Renewing '' @ quote_name (ct_name c)\<rparr> p1, w')))"

section \<open>Users\<close>

record userRow = account +
  ac_invited_at :: "jstring option"
  ac_totp_enabled :: bool
  ac_created_at :: jstring

definition invited :: "userRow \<Rightarrow> bool" where
  "invited u \<longleftrightarrow> (case ac_invited_at u of Some t \<Rightarrow> t \<noteq> [] | None \<Rightarrow> False)"

definition user_account :: "userRow \<Rightarrow> account" where
  "user_account u = account.truncate u"

definition status_badge :: "userRow \<Rightarrow> jstring" where
  "status_badge u = (if invited u then js ''Invited'' else if ac_is_active u then js ''Active'' else js ''Inactive'')"

definition users_sources :: "endpoint list" where
  "users_sources = [users UserList]"

definition users_deleteTitle :: "userRow option \<Rightarrow> jstring" where
  "users_deleteTitle target =
     (case target of
        Some u \<Rightarrow> if invited u then js ''Withdraw invitation'' else js ''Delete user''
      | None \<Rightarrow> js ''Delete user'')"

definition users_deleteText :: "userRow option \<Rightarrow> jstring" where
  "users_deleteText target =
     (case target of
        None \<Rightarrow> []
      | Some u \<Rightarrow>
          if invited u
          then js ''Withdraw the invitation to '' @ ac_email u @
               js ''? Their link will stop working. You can invite them again later.''
          else js ''Delete '' @ displayName (user_account u) @ js '' ('' @ ac_email u @
               js '')? They will be signed out immediately. This cannot be undone.'')"

text \<open>The delete button of the own row is disabled; the two-factor one shows only where it is on.\<close>

definition users_pickDelete :: "account option \<Rightarrow> userRow \<Rightarrow> userRow listView \<Rightarrow> userRow listView" where
  "users_pickDelete current u v = (if isSelf (user_account u) current then v else v\<lparr>vw_target := Some u\<rparr>)"

definition users_confirm :: "'w api_env \<Rightarrow> userRow listView \<Rightarrow> 'w \<Rightarrow> userRow listView \<times> 'w" where
  "users_confirm env = remove_with env (\<lambda>u. users (UserRemove (ac_id u)))"

definition totp_pick :: "userRow \<Rightarrow> userRow option \<Rightarrow> userRow option" where
  "totp_pick u target = (if ac_totp_enabled u then Some u else target)"

definition totp_text :: "userRow option \<Rightarrow> jstring" where
  "totp_text target =
     (case target of
        None \<Rightarrow> []
      | Some u \<Rightarrow>
          js ''Turn off two-factor authentication for '' @ displayName (user_account u) @ js '' ('' @ ac_email u @
          js '')? They will be signed out everywhere and emailed that you did this. Use this only when they have lost their authenticator and their recovery codes.'')"

definition totp_confirm :: "'w api_env \<Rightarrow> userRow listView \<Rightarrow> 'w \<Rightarrow> userRow listView \<times> 'w" where
  "totp_confirm env = remove_with env (\<lambda>u. users (AdminTotpDisable (ac_id u)))"

text \<open>The invite button shows once the backend says that mail can be sent.\<close>

definition canInvite :: "thrown + jval \<Rightarrow> bool" where
  "canInvite caps = (case caps of Inr v \<Rightarrow> truthy (get_prop v (js ''password_reset'')) | Inl e \<Rightarrow> False)"

section \<open>The pages keep to the stored rows\<close>

interpretation pool_switch: row_switch u_id put_pool_enabled u_enabled
  by unfold_locales (simp_all add: put_pool_enabled_def)

interpretation streams_page: list_page sr_id put_stream_enabled "\<lambda>s. Some (sr_enabled s)"
  by (rule list_page.intro) (rule stream_switch.row_switch_axioms)

interpretation redirections_page: list_page rh_id put_redirection_enabled "\<lambda>h. Some (rh_enabled h)"
  by (rule list_page.intro) (rule redirection_switch.row_switch_axioms)

interpretation dead_page: list_page dh_id put_dead_enabled "\<lambda>h. Some (dh_enabled h)"
  by (rule list_page.intro) (rule dead_switch.row_switch_axioms)

interpretation hosts_page: list_page ph_id put_enabled ph_enabled
  by (rule list_page.intro) (rule enabled_switch.row_switch_axioms)

interpretation pools_page: list_page u_id put_pool_enabled u_enabled
  by (rule list_page.intro) (rule pool_switch.row_switch_axioms)

lemma fetch_all_length: "fetch_all env es w = (Inr vs, w') \<Longrightarrow> length vs = length es"
  by (induction es arbitrary: w vs w') (auto simp: Let_def split: prod.splits sum.splits)

text \<open>A reload that the service read before a switch and answers after it puts the old position back.\<close>

lemma overlapping_reload:
  "vw_rows (loadAnswered (Inr rows) (flip_start key put i b v)) = rows"
  by (simp add: loadAnswered_def)

lemma trackEnd_pending:
  "cp_pending (trackEnd t r p) = filter (\<lambda>q. pt_taskId q \<noteq> pt_taskId t) (cp_pending p)"
  by (simp add: trackEnd_def Let_def page_toast_def split: option.split)

lemma trackEnd_toasts:
  "vw_toasts (cp_view (trackEnd t r p)) =
     vw_toasts (cp_view p) @ (case task_toast (pt_label t) r of Some x \<Rightarrow> [x] | None \<Rightarrow> [])"
  by (simp add: trackEnd_def Let_def page_toast_def split: option.split)


text \<open>A stream is loaded and switched off; once the service has answered, the page shows it as stored.\<close>

definition demo_run :: "stream net" where
  "demo_run =
     foldl (net_step sr_id put_stream_enabled (\<lambda>s. Some (sr_enabled s)))
       (open_net [\<lparr>sr_id = 4, sr_upstream_id = None, sr_incoming_port = 25, sr_forward_host = Some (js ''mail''),
                   sr_forward_port = Some 2525, sr_tcp = True, sr_udp = False, sr_certificate_id = None, sr_enabled = True\<rparr>])
       [LoadServed, LoadAnswered None, Flip 4 False, PatchServed 4 True, PatchAnswered 4 (ThrownError [])]"


end
