(* ===== verification/Page_Layouts.thy ===== *)
theory Page_Layouts
  imports Layouts List_Pages
begin

text \<open>
  What the list pages render. Each has a table and, below the breakpoint, cards; the code writes the
  two down separately, so both are translated, and shown to give the same controls and to drop no
  column. The controls carry acts of \<open>listAct\<close>; \<open>perform\<close> says what an act does to the page.
\<close>

section \<open>Acts\<close>

datatype 'r listAct =
    ClearSearch
  | TypeQuery jstring
  | RetryLoad
  | NewRow
  | OpenInvite
  | EditRow 'r
  | DeleteRow 'r
  | FlipEnabled 'r bool
  | FlipMaintenance 'r bool
  | PreviewRow 'r
  | GoTo jstring
  | RenewRow 'r
  | VerifyRow 'r
  | ResetPassword 'r
  | DisableTotp 'r
  | ResendInvite 'r

text \<open>
  The rest of the state of a page: \<open>dialog.open\<close> with the row it edits (\<open>None\<close>: a new one), the rows whose
  preview, verification, password reset or two-factor confirmation is open, the invitation dialog with
  the key that remounts it, the row whose renewal is being requested, and where the router was sent.
  \<open>perform\<close> is the synchronous part of the handlers; what follows the answer of a request is in
  \<open>List_View\<close>, \<open>List_Pages\<close> and \<open>Accounts\<close>.
\<close>

record 'r pageState = "'r listView" +
  lp_dialog :: "'r option option"
  lp_preview :: "'r option"
  lp_verify :: "'r option"
  lp_reset :: "'r option"
  lp_totp :: "'r option"
  lp_invite :: "bool \<times> nat"
  lp_renewing :: "int option"
  lp_route :: "jstring option"

fun perform :: "('r \<Rightarrow> int) \<Rightarrow> (bool \<Rightarrow> 'r \<Rightarrow> 'r) \<Rightarrow> (bool \<Rightarrow> 'r \<Rightarrow> 'r) \<Rightarrow> 'r listAct \<Rightarrow> 'r pageState \<Rightarrow> 'r pageState" where
  "perform key pe pm ClearSearch p = p\<lparr>vw_query := []\<rparr>"
| "perform key pe pm (TypeQuery q) p = p\<lparr>vw_query := q\<rparr>"
| "perform key pe pm RetryLoad p = p\<lparr>vw_loading := True\<rparr>"
| "perform key pe pm NewRow p = p\<lparr>lp_dialog := Some None\<rparr>"
| "perform key pe pm OpenInvite p = p\<lparr>lp_invite := (True, snd (lp_invite p) + 1)\<rparr>"
| "perform key pe pm (EditRow r) p = p\<lparr>lp_dialog := Some (Some r)\<rparr>"
| "perform key pe pm (DeleteRow r) p = p\<lparr>vw_target := Some r\<rparr>"
| "perform key pe pm (FlipEnabled r b) p = p\<lparr>vw_rows := flip key pe (key r) b (vw_rows p)\<rparr>"
| "perform key pe pm (FlipMaintenance r b) p = p\<lparr>vw_rows := flip key pm (key r) b (vw_rows p)\<rparr>"
| "perform key pe pm (PreviewRow r) p = p\<lparr>lp_preview := Some r\<rparr>"
| "perform key pe pm (GoTo path) p = p\<lparr>lp_route := Some path\<rparr>"
| "perform key pe pm (RenewRow r) p = p\<lparr>lp_renewing := Some (key r)\<rparr>"
| "perform key pe pm (VerifyRow r) p = p\<lparr>lp_verify := Some r\<rparr>"
| "perform key pe pm (ResetPassword r) p = p\<lparr>lp_reset := Some r\<rparr>"
| "perform key pe pm (DisableTotp r) p = p\<lparr>lp_totp := Some r\<rparr>"
| "perform key pe pm (ResendInvite r) p = p"

section \<open>Parts the pages share\<close>

definition searchInput :: "jstring \<Rightarrow> jstring \<Rightarrow> 'r listAct node list" where
  "searchInput label query =
     FieldN label query False TypeQuery #
     (if query \<noteq> [] then [ButtonN (js ''Clear '' @ toLowerCase label) False ClearSearch] else [])"

definition load_alert :: "jstring \<Rightarrow> jstring option \<Rightarrow> 'r listAct node list" where
  "load_alert intro err =
     (case err of
        None \<Rightarrow> []
      | Some m \<Rightarrow> if m = [] then [] else [TextN (intro @ m), ButtonN (js ''Retry'') False RetryLoad])"

definition new_button :: "bool \<Rightarrow> jstring \<Rightarrow> 'r listAct \<Rightarrow> 'r listAct node list" where
  "new_button canWrite label act =
     (if canWrite then [ButtonN label False act]
      else [TextN (js ''Read-only '' @ em_dash @ js '' ask an admin to make changes.'')])"

definition empty_state :: "jstring \<Rightarrow> jstring \<Rightarrow> jstring \<Rightarrow> 'r listAct node list" where
  "empty_state noun noRows query =
     (if trim query \<noteq> []
      then [TextN (js ''No '' @ noun @ js '' match '' @ quote_name (trim query) @ js ''. ''),
            ButtonN (js ''Clear search'') False ClearSearch]
      else [TextN noRows])"

definition heading :: "string \<Rightarrow> string \<Rightarrow> 'r listAct node list" where
  "heading t d = [TextN (js t), TextN (js d)]"

definition first_name :: "jstring list \<Rightarrow> jstring" where
  "first_name ds = (case ds of [] \<Rightarrow> js ''undefined'' | d # _ \<Rightarrow> d)"

definition domain_nodes :: "jstring list \<Rightarrow> bool \<Rightarrow> 'a node list" where
  "domain_nodes ds secure =
     map (\<lambda>c. case c of PlainDomain d \<Rightarrow> TextN d | DomainLink d href \<Rightarrow> LinkN href d) (domainLinks secure ds)"

definition enabledToggle :: "bool \<Rightarrow> jstring \<Rightarrow> (bool \<Rightarrow> 'a) \<Rightarrow> bool \<Rightarrow> jstring option \<Rightarrow> 'a node" where
  "enabledToggle checked name onToggle disabled label =
     SwitchN (case label of Some l \<Rightarrow> l | None \<Rightarrow> js ''Enable '' @ name) checked disabled onToggle"

definition tls_cell :: "int option \<Rightarrow> 'a node list" where
  "tls_cell c = (if c \<noteq> None then [TextN (js ''TLS'')] else [TextN em_dash])"

definition tls_fact :: "int option \<Rightarrow> 'a factValue" where
  "tls_fact c = (if c \<noteq> None then ElementFact [TextN (js ''TLS'')] else NullFact)"

lemma heading_simps [simp]: "controls (heading t d) = []" "acts (heading t d) = {}"
  by (simp_all add: heading_def)

lemma controls_texts:
  "controls (domain_nodes ds s) = []" "controls (tls_cell c) = []" "controls (fact_nodes (tls_fact c)) = []"
  by (simp_all add: domain_nodes_def domainLinks_def controls_def filter_empty_conv tls_cell_def tls_fact_def fact_nodes_def)

lemma tls_column: "fact_nodes (tls_fact c) = tls_cell c"
  by (simp add: tls_cell_def tls_fact_def fact_nodes_def em_dash_def)

section \<open>Proxy hosts\<close>

definition proxyHosts_head :: "jstring list" where
  "proxyHosts_head =
     map js [''ID'', ''Domains'', ''Upstream'', ''Access list'', ''Scheme'', ''Status'', ''Maintenance'', ''Actions'']"

definition maintenance_on :: "proxyHost \<Rightarrow> bool" where
  "maintenance_on h = or_default (ph_toggle h Maintenance_enabled) False"

definition scheme_text :: "httpScheme option \<Rightarrow> jstring" where
  "scheme_text x = rendered_opt (\<lambda>s. case s of Http \<Rightarrow> js ''http'' | Https \<Rightarrow> js ''https'') x"

definition host_actions :: "bool \<Rightarrow> jstring \<Rightarrow> 'r \<Rightarrow> 'r listAct node list" where
  "host_actions canWrite name r =
     (if canWrite
      then [ButtonN (js ''Edit '' @ name) False (EditRow r), ButtonN (js ''Delete '' @ name) False (DeleteRow r)]
      else [])"

definition host_actions_slot :: "bool \<Rightarrow> jstring \<Rightarrow> 'r \<Rightarrow> 'r listAct node list option" where
  "host_actions_slot canWrite name r =
     (if canWrite
      then Some [ButtonN (js ''Edit '' @ name) False (EditRow r), ButtonN (js ''Delete '' @ name) False (DeleteRow r)]
      else None)"

definition proxyHosts_card ::
  "bool \<Rightarrow> upstream list \<Rightarrow> accessList list \<Rightarrow> proxyHost \<Rightarrow> proxyHost listAct rowCard" where
  "proxyHosts_card canWrite pools als h =
     mkCard
       (domain_nodes (ph_domain_names h) (ph_certificate_id h \<noteq> None) @
        (if maintenance_on h then [BadgeN (js ''outline'') (js ''Maintenance'')] else []))
       (Some [enabledToggle (or_default (ph_enabled h) True) (first_name (ph_domain_names h)) (FlipEnabled h) (\<not> canWrite) None])
       [(js ''ID'', ElementFact [TextN (str_int (ph_id h))]),
        (js ''Upstream'', ElementFact [TextN (upstream_cell pools h)]),
        (js ''Access list'', case access_list_cell als h of Some t \<Rightarrow> ElementFact [TextN t] | None \<Rightarrow> NullFact),
        (js ''Scheme'', ElementFact [BadgeN (js ''outline'') (scheme_text (ph_forward_scheme h))]),
        (js ''Maintenance'',
         ElementFact [enabledToggle (maintenance_on h) (first_name (ph_domain_names h)) (FlipMaintenance h) (\<not> canWrite)
                        (Some (js ''Maintenance for '' @ first_name (ph_domain_names h)))])]
       (host_actions_slot canWrite (first_name (ph_domain_names h)) h)"

definition proxyHosts_row ::
  "bool \<Rightarrow> upstream list \<Rightarrow> accessList list \<Rightarrow> proxyHost \<Rightarrow> proxyHost listAct tableRow" where
  "proxyHosts_row canWrite pools als h =
     EntryRow None
       [[TextN (str_int (ph_id h))],
        domain_nodes (ph_domain_names h) (ph_certificate_id h \<noteq> None) @
          (if maintenance_on h then [BadgeN (js ''outline'') (js ''Maintenance'')] else []),
        [TextN (upstream_cell pools h)],
        [TextN (case access_list_cell als h of Some t \<Rightarrow> t | None \<Rightarrow> em_dash)],
        [BadgeN (js ''outline'') (scheme_text (ph_forward_scheme h))],
        [enabledToggle (or_default (ph_enabled h) True) (first_name (ph_domain_names h)) (FlipEnabled h) (\<not> canWrite) None],
        [enabledToggle (maintenance_on h) (first_name (ph_domain_names h)) (FlipMaintenance h) (\<not> canWrite)
           (Some (js ''Maintenance for '' @ first_name (ph_domain_names h)))],
        host_actions canWrite (first_name (ph_domain_names h)) h]"

definition proxyHosts_page ::
  "bool \<Rightarrow> bool \<Rightarrow> upstream list \<Rightarrow> accessList list \<Rightarrow> proxyHost pageState \<Rightarrow> proxyHost listAct node list" where
  "proxyHosts_page isMobile canWrite pools als p =
     (let visible = filterBySearch (vw_rows p) (vw_query p) proxyHosts_fields
      in heading ''Proxy Hosts''
           ''Reverse-proxy hosts forwarding traffic to upstream pools.'' @
         load_alert (js ''Couldn'' @ [8217] @ js ''t load data: '') (vw_loadError p) @
         searchInput (js ''Search proxy hosts'') (vw_query p) @
         new_button canWrite (js ''New proxy host'') NewRow @
         body_nodes (list_body isMobile proxyHosts_head 8 8
           (empty_state (js ''proxy hosts'')
              (js ''No proxy hosts yet. Create a pool, then add a host that forwards to it.'') (vw_query p))
           (proxyHosts_card canWrite pools als) (proxyHosts_row canWrite pools als) (vw_loading p) visible))"

lemmas page_defs =
  same_row_def column_kept_def renderCard_def mkCard_def opt_nodes_def fact_nodes_def enabledToggle_def host_actions_def
  host_actions_slot_def

lemma host_labels_distinct:
  "js ''Edit '' @ n \<noteq> js ''Delete '' @ n" "js ''Enable '' @ n \<noteq> js ''Edit '' @ n" "js ''Enable '' @ n \<noteq> js ''Delete '' @ n"
  "js ''Maintenance for '' @ n \<noteq> js ''Edit '' @ n" "js ''Maintenance for '' @ n \<noteq> js ''Delete '' @ n"
  "js ''Enable '' @ n \<noteq> js ''Maintenance for '' @ n"
  by (simp_all add: js_def)

lemma proxyHosts_same: "same_row proxyHosts_head (proxyHosts_card cw pools als h) (proxyHosts_row cw pools als h)"
  by (cases "access_list_cell als h")
    (simp_all add: page_defs proxyHosts_card_def proxyHosts_row_def proxyHosts_head_def controls_texts host_labels_distinct em_dash_def)

interpretation proxyHosts_two: two_layouts proxyHosts_head "proxyHosts_card cw pools als" "proxyHosts_row cw pools als"
  by unfold_locales (rule proxyHosts_same)

section \<open>Redirections and 404 hosts\<close>

definition redirectionHosts_head :: "jstring list" where
  "redirectionHosts_head = map js [''ID'', ''Domains'', ''Redirects to'', ''Code'', ''TLS'', ''Status'', ''Actions'']"

definition redirect_nodes :: "redirectionHost \<Rightarrow> 'a node list" where
  "redirect_nodes h =
     (let shown = schemePrefix (rh_forward_scheme h) @ rh_forward_domain_name h
      in if js_includes (rh_forward_domain_name h) (js ''*'') then [TextN shown] else [LinkN (redirect_href h) shown])"

definition redirectionHosts_card :: "bool \<Rightarrow> redirectionHost \<Rightarrow> redirectionHost listAct rowCard" where
  "redirectionHosts_card canWrite h =
     mkCard
       (domain_nodes (rh_domain_names h) (rh_certificate_id h \<noteq> None))
       (Some [enabledToggle (rh_enabled h) (first_name (rh_domain_names h)) (FlipEnabled h) (\<not> canWrite) None])
       [(js ''ID'', ElementFact [TextN (str_int (rh_id h))]),
        (js ''Redirects to'', ElementFact (redirect_nodes h)),
        (js ''Code'', ElementFact [BadgeN (js ''outline'') (str_int (rh_forward_http_code h))]),
        (js ''TLS'', tls_fact (rh_certificate_id h))]
       (host_actions_slot canWrite (first_name (rh_domain_names h)) h)"

definition redirectionHosts_row :: "bool \<Rightarrow> redirectionHost \<Rightarrow> redirectionHost listAct tableRow" where
  "redirectionHosts_row canWrite h =
     EntryRow None
       [[TextN (str_int (rh_id h))],
        domain_nodes (rh_domain_names h) (rh_certificate_id h \<noteq> None),
        redirect_nodes h,
        [BadgeN (js ''outline'') (str_int (rh_forward_http_code h))],
        tls_cell (rh_certificate_id h),
        [enabledToggle (rh_enabled h) (first_name (rh_domain_names h)) (FlipEnabled h) (\<not> canWrite) None],
        host_actions canWrite (first_name (rh_domain_names h)) h]"

definition redirectionHosts_page ::
  "bool \<Rightarrow> bool \<Rightarrow> redirectionHost pageState \<Rightarrow> redirectionHost listAct node list" where
  "redirectionHosts_page isMobile canWrite p =
     (let visible = filterBySearch (vw_rows p) (vw_query p) redirectionHosts_fields
      in heading ''Redirection Hosts''
           ''Redirect a set of domains to another domain with a chosen status code.'' @
         load_alert (js ''Couldn'' @ [8217] @ js ''t load redirection hosts: '') (vw_loadError p) @
         searchInput (js ''Search redirection hosts'') (vw_query p) @
         new_button canWrite (js ''New redirection host'') NewRow @
         body_nodes (list_body isMobile redirectionHosts_head 7 7
           (empty_state (js ''redirection hosts'')
              (js ''No redirection hosts yet. Create one to redirect domains elsewhere.'') (vw_query p))
           (redirectionHosts_card canWrite) (redirectionHosts_row canWrite) (vw_loading p) visible))"

lemma redirect_nodes_controls [simp]: "controls (redirect_nodes h) = []"
  by (simp add: redirect_nodes_def Let_def)

lemma redirectionHosts_same: "same_row redirectionHosts_head (redirectionHosts_card cw h) (redirectionHosts_row cw h)"
  by (simp add: page_defs redirectionHosts_card_def redirectionHosts_row_def redirectionHosts_head_def controls_texts
      tls_column [unfolded fact_nodes_def] host_labels_distinct)

interpretation redirectionHosts_two:
  two_layouts redirectionHosts_head "redirectionHosts_card cw" "redirectionHosts_row cw"
  by unfold_locales (rule redirectionHosts_same)

definition deadHosts_head :: "jstring list" where
  "deadHosts_head = map js [''ID'', ''Domains'', ''TLS'', ''Status'', ''Actions'']"

definition deadHosts_card :: "bool \<Rightarrow> deadHost \<Rightarrow> deadHost listAct rowCard" where
  "deadHosts_card canWrite h =
     mkCard
       (domain_nodes (dh_domain_names h) (dh_certificate_id h \<noteq> None))
       (Some [enabledToggle (dh_enabled h) (first_name (dh_domain_names h)) (FlipEnabled h) (\<not> canWrite) None])
       [(js ''ID'', ElementFact [TextN (str_int (dh_id h))]),
        (js ''TLS'', tls_fact (dh_certificate_id h))]
       (host_actions_slot canWrite (first_name (dh_domain_names h)) h)"

definition deadHosts_row :: "bool \<Rightarrow> deadHost \<Rightarrow> deadHost listAct tableRow" where
  "deadHosts_row canWrite h =
     EntryRow None
       [[TextN (str_int (dh_id h))],
        domain_nodes (dh_domain_names h) (dh_certificate_id h \<noteq> None),
        tls_cell (dh_certificate_id h),
        [enabledToggle (dh_enabled h) (first_name (dh_domain_names h)) (FlipEnabled h) (\<not> canWrite) None],
        host_actions canWrite (first_name (dh_domain_names h)) h]"

definition deadHosts_page :: "bool \<Rightarrow> bool \<Rightarrow> deadHost pageState \<Rightarrow> deadHost listAct node list" where
  "deadHosts_page isMobile canWrite p =
     (let visible = filterBySearch (vw_rows p) (vw_query p) deadHosts_fields
      in heading ''404 Hosts''
           ''Park domains and return a 404 for every request.'' @
         load_alert (js ''Couldn'' @ [8217] @ js ''t load 404 hosts: '') (vw_loadError p) @
         searchInput (js ''Search 404 hosts'') (vw_query p) @
         new_button canWrite (js ''New 404 host'') NewRow @
         body_nodes (list_body isMobile deadHosts_head 5 5
           (empty_state (js ''404 hosts'') (js ''No 404 hosts yet. Create one to park a domain.'') (vw_query p))
           (deadHosts_card canWrite) (deadHosts_row canWrite) (vw_loading p) visible))"

lemma deadHosts_same: "same_row deadHosts_head (deadHosts_card cw h) (deadHosts_row cw h)"
  by (simp add: page_defs deadHosts_card_def deadHosts_row_def deadHosts_head_def controls_texts
      tls_column [unfolded fact_nodes_def] host_labels_distinct)

interpretation deadHosts_two: two_layouts deadHosts_head "deadHosts_card cw" "deadHosts_row cw"
  by unfold_locales (rule deadHosts_same)

section \<open>Streams\<close>

definition streams_head :: "jstring list" where
  "streams_head = map js [''ID'', ''Incoming port'', ''Forward to'', ''Protocols'', ''TLS'', ''Status'', ''Actions'']"

definition stream_actions :: "stream \<Rightarrow> stream listAct node list" where
  "stream_actions s =
     [ButtonN (js ''Edit stream on port '' @ str_int (sr_incoming_port s)) False (EditRow s),
      ButtonN (js ''Delete stream on port '' @ str_int (sr_incoming_port s)) False (DeleteRow s)]"

definition protocol_nodes :: "bool \<Rightarrow> bool \<Rightarrow> 'a node list" where
  "protocol_nodes tcp udp = map (BadgeN (js ''secondary'')) (protocolBadges tcp udp)"

definition streams_card :: "bool \<Rightarrow> stream \<Rightarrow> stream listAct rowCard" where
  "streams_card canWrite s =
     mkCard
       [TextN (js ''Port ''), TextN (str_int (sr_incoming_port s))]
       (Some [enabledToggle (sr_enabled s) (str_int (sr_incoming_port s)) (FlipEnabled s) (\<not> canWrite) None])
       [(js ''ID'', ElementFact [TextN (str_int (sr_id s))]),
        (js ''Forward to'', ElementFact [TextN (forward_cell s)]),
        (js ''Protocols'', ElementFact (protocol_nodes (sr_tcp s) (sr_udp s))),
        (js ''TLS'', tls_fact (sr_certificate_id s))]
       (if canWrite then Some (stream_actions s) else None)"

definition streams_row :: "bool \<Rightarrow> stream \<Rightarrow> stream listAct tableRow" where
  "streams_row canWrite s =
     EntryRow None
       [[TextN (str_int (sr_id s))],
        [TextN (str_int (sr_incoming_port s))],
        [TextN (forward_cell s)],
        protocol_nodes (sr_tcp s) (sr_udp s),
        tls_cell (sr_certificate_id s),
        [enabledToggle (sr_enabled s) (str_int (sr_incoming_port s)) (FlipEnabled s) (\<not> canWrite) None],
        if canWrite then stream_actions s else []]"

definition streams_page :: "bool \<Rightarrow> bool \<Rightarrow> stream pageState \<Rightarrow> stream listAct node list" where
  "streams_page isMobile canWrite p =
     (let visible = filterBySearch (vw_rows p) (vw_query p) streams_fields
      in heading ''Streams''
           ''Raw TCP/UDP port forwarding to a backend host.'' @
         load_alert (js ''Couldn'' @ [8217] @ js ''t load streams: '') (vw_loadError p) @
         searchInput (js ''Search streams'') (vw_query p) @
         new_button canWrite (js ''New stream'') NewRow @
         body_nodes (list_body isMobile streams_head 7 7
           (empty_state (js ''streams'') (js ''No streams yet. Create one to forward a TCP/UDP port to a backend.'')
              (vw_query p))
           (streams_card canWrite) (streams_row canWrite) (vw_loading p) visible))"

lemma protocol_controls [simp]: "controls (protocol_nodes a b) = []"
  by (simp add: protocol_nodes_def protocolBadges_def)

lemma streams_same: "same_row streams_head (streams_card cw s) (streams_row cw s)"
  by (simp add: page_defs streams_card_def streams_row_def streams_head_def controls_texts stream_actions_def
      tls_column [unfolded fact_nodes_def] suffix_def)

interpretation streams_two: two_layouts streams_head "streams_card cw" "streams_row cw"
  by unfold_locales (rule streams_same)

section \<open>Upstream pools and access lists\<close>

primrec LB_METHOD_LABELS :: "lbMethod \<Rightarrow> jstring" where
  "LB_METHOD_LABELS Round_robin = js ''Round robin''"
| "LB_METHOD_LABELS Least_conn = js ''Least connections''"
| "LB_METHOD_LABELS Ip_hash = js ''IP hash''"
| "LB_METHOD_LABELS Hash = js ''Hash''"
| "LB_METHOD_LABELS Random = js ''Random''"

primrec CONTEXT_SHORT_LABELS :: "upstreamContext \<Rightarrow> jstring" where
  "CONTEXT_SHORT_LABELS HttpContext = js ''HTTP''"
| "CONTEXT_SHORT_LABELS StreamContext = js ''Streams''"
| "CONTEXT_SHORT_LABELS BothContexts = js ''Both''"

definition upstreams_head :: "jstring list" where
  "upstreams_head = map js [''ID'', ''Name'', ''LB method'', ''Context'', ''Backends'', ''Status'', ''Actions'']"

definition described :: "jstring \<Rightarrow> jstring option \<Rightarrow> 'a node list" where
  "described name d = TextN name # (case d of Some t \<Rightarrow> if t = [] then [] else [TextN t] | None \<Rightarrow> [])"

definition up_text :: "upstream \<Rightarrow> jstring" where
  "up_text u = str_nat (fst (backends_up u)) @ js ''/'' @ str_nat (snd (backends_up u)) @ js '' up''"

definition upstreams_card :: "bool \<Rightarrow> upstream \<Rightarrow> upstream listAct rowCard" where
  "upstreams_card canWrite u =
     mkCard
       (described (u_name u) (u_description u))
       (Some [enabledToggle (or_default (u_enabled u) True) (u_name u) (FlipEnabled u) (\<not> canWrite) None])
       [(js ''ID'', ElementFact [TextN (str_int (u_id u))]),
        (js ''LB method'', ElementFact [BadgeN (js ''secondary'') (rendered_opt LB_METHOD_LABELS (u_lb_method u))]),
        (js ''Context'', ElementFact [BadgeN (js ''outline'') (rendered_opt CONTEXT_SHORT_LABELS (u_context u))]),
        (js ''Backends'', ElementFact [TextN (up_text u)])]
       (host_actions_slot canWrite (u_name u) u)"

definition upstreams_row :: "bool \<Rightarrow> upstream \<Rightarrow> upstream listAct tableRow" where
  "upstreams_row canWrite u =
     EntryRow None
       [[TextN (str_int (u_id u))],
        described (u_name u) (u_description u),
        [BadgeN (js ''secondary'') (rendered_opt LB_METHOD_LABELS (u_lb_method u))],
        [BadgeN (js ''outline'') (rendered_opt CONTEXT_SHORT_LABELS (u_context u))],
        [TextN (up_text u)],
        [enabledToggle (or_default (u_enabled u) True) (u_name u) (FlipEnabled u) (\<not> canWrite) None],
        host_actions canWrite (u_name u) u]"

definition upstreams_page :: "bool \<Rightarrow> bool \<Rightarrow> upstream pageState \<Rightarrow> upstream listAct node list" where
  "upstreams_page isMobile canWrite p =
     (let visible = filterBySearch (vw_rows p) (vw_query p) upstreams_fields
      in heading ''Upstream Pools''
           ''Backend server pools that proxy hosts and streams forward to.'' @
         load_alert (js ''Couldn'' @ [8217] @ js ''t load upstream pools: '') (vw_loadError p) @
         searchInput (js ''Search upstream pools'') (vw_query p) @
         new_button canWrite (js ''New upstream pool'') NewRow @
         body_nodes (list_body isMobile upstreams_head 7 7
           (empty_state (js ''upstream pools'')
              (js ''No upstream pools yet. Create one to define a load-balanced backend set.'') (vw_query p))
           (upstreams_card canWrite) (upstreams_row canWrite) (vw_loading p) visible))"

lemma described_controls [simp]: "controls (described n d) = []"
  by (simp add: described_def split: option.split)

lemma upstreams_same: "same_row upstreams_head (upstreams_card cw u) (upstreams_row cw u)"
  by (simp add: page_defs upstreams_card_def upstreams_row_def upstreams_head_def host_labels_distinct)

interpretation upstreams_two: two_layouts upstreams_head "upstreams_card cw" "upstreams_row cw"
  by unfold_locales (rule upstreams_same)

definition accessLists_head :: "jstring list" where
  "accessLists_head = map js [''ID'', ''Name'', ''Satisfy'', ''Pass auth'', ''Users'', ''IP rules'', ''Actions'']"

definition on_off :: "jstring \<Rightarrow> bool \<Rightarrow> 'a node" where
  "on_off on b = BadgeN (if b then on else js ''muted'') (if b then js ''On'' else js ''Off'')"

definition count_text :: "'b list option \<Rightarrow> jstring" where
  "count_text xs = str_nat (case xs of Some ys \<Rightarrow> length ys | None \<Rightarrow> 0)"

definition accessLists_card :: "bool \<Rightarrow> accessList \<Rightarrow> accessList listAct rowCard" where
  "accessLists_card canWrite l =
     mkCard [TextN (ar_name l)] None
       [(js ''ID'', ElementFact [TextN (str_int (ar_id l))]),
        (js ''Satisfy'', ElementFact [BadgeN (js ''secondary'') (satisfyLabel (or_default (ar_satisfy_any l) False))]),
        (js ''Pass auth'', ElementFact [on_off (js ''outline'') (or_default (ar_pass_auth l) False)]),
        (js ''Users'', ElementFact [TextN (count_text (ar_auth_users l))]),
        (js ''IP rules'', ElementFact [TextN (count_text (ar_client_rules l))])]
       (host_actions_slot canWrite (ar_name l) l)"

definition accessLists_row :: "bool \<Rightarrow> accessList \<Rightarrow> accessList listAct tableRow" where
  "accessLists_row canWrite l =
     EntryRow None
       [[TextN (str_int (ar_id l))],
        [TextN (ar_name l)],
        [BadgeN (js ''secondary'') (satisfyLabel (or_default (ar_satisfy_any l) False))],
        [on_off (js ''outline'') (or_default (ar_pass_auth l) False)],
        [TextN (count_text (ar_auth_users l))],
        [TextN (count_text (ar_client_rules l))],
        host_actions canWrite (ar_name l) l]"

definition accessLists_page :: "bool \<Rightarrow> bool \<Rightarrow> accessList pageState \<Rightarrow> accessList listAct node list" where
  "accessLists_page isMobile canWrite p =
     (let visible = filterBySearch (vw_rows p) (vw_query p) accessLists_fields
      in heading ''Access Lists''
           ''Basic-auth users and allow/deny IP rules you can attach to a proxy host.'' @
         new_button canWrite (js ''New access list'') NewRow @
         load_alert (js ''Couldn't load access lists: '') (vw_loadError p) @
         searchInput (js ''Search access lists'') (vw_query p) @
         body_nodes (list_body isMobile accessLists_head 7 7
           (empty_state (js ''access lists'')
              (js ''No access lists yet. Create one, then attach it to a proxy host to gate access.'') (vw_query p))
           (accessLists_card canWrite) (accessLists_row canWrite) (vw_loading p) visible))"

lemma accessLists_same: "same_row accessLists_head (accessLists_card cw l) (accessLists_row cw l)"
  by (simp add: page_defs accessLists_card_def accessLists_row_def accessLists_head_def host_labels_distinct on_off_def)

interpretation accessLists_two: two_layouts accessLists_head "accessLists_card cw" "accessLists_row cw"
  by unfold_locales (rule accessLists_same)

section \<open>Custom pages and DNS credentials\<close>

text \<open>
  \<open>fmt\<close> writes a date in the locale of the browser. A click on a row of the table opens the preview, as
  its name button does, which does not let the click through to the row.
\<close>

definition customPages_head :: "jstring list" where
  "customPages_head = map js [''ID'', ''Name'', ''Description'', ''Size'', ''Updated'', ''Actions'']"

definition page_actions :: "pageSummary \<Rightarrow> pageSummary listAct node list" where
  "page_actions c =
     [ButtonN (js ''Edit '' @ ps_name c) False (GoTo (js ''/custom-pages/'' @ str_int (ps_id c))),
      ButtonN (js ''Delete '' @ ps_name c) False (DeleteRow c)]"

definition customPages_card :: "(jstring \<Rightarrow> jstring) \<Rightarrow> bool \<Rightarrow> pageSummary \<Rightarrow> pageSummary listAct rowCard" where
  "customPages_card fmt canWrite c =
     mkCard
       [ButtonN (js ''Preview '' @ ps_name c) False (PreviewRow c)]
       (Some [TextN (fmt (ps_updated_at c))])
       [(js ''ID'', ElementFact [TextN (str_int (ps_id c))]),
        (js ''Description'', case ps_description c of
                               Some d \<Rightarrow> if d = [] then NullFact else StringFact d
                             | None \<Rightarrow> NullFact),
        (js ''Size'', ElementFact [TextN (formatBytes (ps_size_bytes c))])]
       (if canWrite then Some (page_actions c) else None)"

definition customPages_row :: "(jstring \<Rightarrow> jstring) \<Rightarrow> bool \<Rightarrow> pageSummary \<Rightarrow> pageSummary listAct tableRow" where
  "customPages_row fmt canWrite c =
     EntryRow (Some (PreviewRow c))
       [[TextN (str_int (ps_id c))],
        [ButtonN (js ''Preview '' @ ps_name c) False (PreviewRow c)],
        [TextN (case ps_description c of Some d \<Rightarrow> if d = [] then em_dash else d | None \<Rightarrow> em_dash)],
        [TextN (formatBytes (ps_size_bytes c))],
        [TextN (fmt (ps_updated_at c))],
        if canWrite then page_actions c else []]"

definition customPages_page ::
  "(jstring \<Rightarrow> jstring) \<Rightarrow> bool \<Rightarrow> bool \<Rightarrow> pageSummary pageState \<Rightarrow> pageSummary listAct node list" where
  "customPages_page fmt isMobile canWrite p =
     (let visible = filterBySearch (vw_rows p) (vw_query p) customPages_fields
      in heading ''Custom Pages''
           ''HTML pages you author here and reference elsewhere. Images are embedded in the document, so a page is a single self-contained file.'' @
         new_button canWrite (js ''New page'') (GoTo (js ''/custom-pages/new'')) @
         load_alert (js ''Couldn't load custom pages: '') (vw_loadError p) @
         searchInput (js ''Search custom pages'') (vw_query p) @
         body_nodes (list_body isMobile customPages_head 6 6
           (empty_state (js ''custom pages'')
              (js ''No custom pages yet. Create one to design a page you can point a host at.'') (vw_query p))
           (customPages_card fmt canWrite) (customPages_row fmt canWrite) (vw_loading p) visible))"

lemma page_labels_distinct:
  "js ''Preview '' @ n \<noteq> js ''Edit '' @ n" "js ''Preview '' @ n \<noteq> js ''Delete '' @ n"
  "js ''Edit '' @ n \<noteq> js ''Verify '' @ n" "js ''Verify '' @ n \<noteq> js ''Delete '' @ n"
  "js ''Renew '' @ n \<noteq> js ''Delete '' @ n"
  by (simp_all add: js_def)

lemma customPages_same: "same_row customPages_head (customPages_card fmt cw c) (customPages_row fmt cw c)"
  by (cases "ps_description c")
    (simp_all add: page_defs customPages_card_def customPages_row_def customPages_head_def host_labels_distinct
      page_labels_distinct page_actions_def em_dash_def)

interpretation customPages_two: two_layouts customPages_head "customPages_card fmt cw" "customPages_row fmt cw"
  by unfold_locales (rule customPages_same)

definition dnsCredentials_head :: "jstring list" where
  "dnsCredentials_head = map js [''Name'', ''Provider'', ''Credentials set'', ''Used by'', ''Actions'']"

definition credential_actions :: "dnsCredential \<Rightarrow> dnsCredential listAct node list" where
  "credential_actions c =
     [ButtonN (js ''Edit '' @ dc_name c) False (EditRow c), ButtonN (js ''Verify '' @ dc_name c) False (VerifyRow c),
      ButtonN (js ''Delete '' @ dc_name c) False (DeleteRow c)]"

definition used_by :: "dnsCredential \<Rightarrow> 'a node" where
  "used_by c = TitledN (join (js '', '') (dc_in_use_by c)) (str_nat (length (dc_in_use_by c)))"

definition dnsCredentials_card :: "dnsCredential \<Rightarrow> dnsCredential listAct rowCard" where
  "dnsCredentials_card c =
     mkCard [TextN (dc_name c)] (Some [BadgeN (js ''outline'') (dc_provider_label c)])
       [(js ''Credentials set'', ElementFact (map (BadgeN (js ''muted'')) (dc_secret_fields c))),
        (js ''Used by'', ElementFact [used_by c])]
       (Some (credential_actions c))"

definition dnsCredentials_row :: "dnsCredential \<Rightarrow> dnsCredential listAct tableRow" where
  "dnsCredentials_row c =
     EntryRow None
       [[TextN (dc_name c)], [BadgeN (js ''outline'') (dc_provider_label c)],
        map (BadgeN (js ''muted'')) (dc_secret_fields c), [used_by c], credential_actions c]"

definition dnsCredentials_page ::
  "bool \<Rightarrow> dnsProviderInfo list \<Rightarrow> dnsCredential pageState \<Rightarrow> dnsCredential listAct node list" where
  "dnsCredentials_page isMobile catalog p =
     [TextN (js ''Saved provider credentials for DNS-01 challenges (wildcards and hosts not reachable on port 80). Secrets are encrypted at rest and never shown again.'')] @
     load_alert (js ''Couldn'' @ [8217] @ js ''t load DNS credentials: '') (vw_loadError p) @
     [ButtonN (js ''New credentials'') (newCredential_disabled catalog) NewRow] @
     body_nodes (list_body isMobile dnsCredentials_head 5 5
       [TextN (js ''No DNS credentials yet. Add one to request DNS-01 (wildcard) certificates.'')]
       dnsCredentials_card dnsCredentials_row (vw_loading p) (vw_rows p))"

lemma badges_controls [simp]: "controls (map (BadgeN v) ts) = []"
  by (simp add: controls_def filter_empty_conv)

lemma dnsCredentials_same: "same_row dnsCredentials_head (dnsCredentials_card c) (dnsCredentials_row c)"
  by (simp add: page_defs dnsCredentials_card_def dnsCredentials_row_def dnsCredentials_head_def host_labels_distinct
      page_labels_distinct credential_actions_def used_by_def)

interpretation dnsCredentials_two: two_layouts dnsCredentials_head dnsCredentials_card dnsCredentials_row
  by unfold_locales (rule dnsCredentials_same)

section \<open>Certificates\<close>

definition CERT_PROVIDER_LABELS :: "jstring \<Rightarrow> jstring" where
  "CERT_PROVIDER_LABELS provider =
     (if provider = js ''letsencrypt'' then js ''Let's Encrypt''
      else if provider = js ''custom'' then js ''Custom''
      else if provider = js ''self_signed'' then js ''Self-signed'' else provider)"

definition certificates_head :: "jstring list" where
  "certificates_head =
     map js [''ID'', ''Name'', ''Domains'', ''Provider'', ''Challenge'', ''Status'', ''Expiry'', ''Actions'']"

definition status_node :: "certificate \<Rightarrow> 'a node" where
  "status_node c = BadgeN (snd (STATUS_META (ct_status c))) (fst (STATUS_META (ct_status c)))"

definition expiryCell :: "date_env \<Rightarrow> int \<Rightarrow> certificate \<Rightarrow> 'a node list" where
  "expiryCell de now c =
     (let info = expiryInfo_of de (ct_expires_on c) now
      in TextN (formatDate de (ct_expires_on c)) #
         (if ei_level info \<noteq> ExpiryNone then [TextN (js ''('' @ ei_label info @ js '')'')] else []))"

definition challenge_text :: "certificate \<Rightarrow> jstring" where
  "challenge_text c =
     challengeLabel (if ct_provider c = js ''letsencrypt'' then LetsEncrypt else CustomCert) (ct_challenge c)
       (ct_dns_provider_label c)"

definition cert_actions :: "int option \<Rightarrow> certificate \<Rightarrow> certificate listAct node list" where
  "cert_actions renewingId c =
     (if ct_provider c = js ''letsencrypt''
      then [ButtonN (js ''Renew '' @ ct_name c) (renewingId = Some (ct_id c)) (RenewRow c)] else []) @
     [ButtonN (js ''Delete '' @ ct_name c) False (DeleteRow c)]"

definition certificates_card ::
  "date_env \<Rightarrow> int \<Rightarrow> bool \<Rightarrow> int option \<Rightarrow> certificate \<Rightarrow> certificate listAct rowCard" where
  "certificates_card de now canWrite renewingId c =
     mkCard [TextN (ct_name c)] (Some [status_node c])
       [(js ''ID'', ElementFact [TextN (str_int (ct_id c))]),
        (js ''Domains'', if length (ct_domain_names c) \<noteq> 0 then ElementFact (map TextN (ct_domain_names c)) else NullFact),
        (js ''Provider'', ElementFact [BadgeN (js ''outline'') (CERT_PROVIDER_LABELS (ct_provider c))]),
        (js ''Challenge'', ElementFact [TextN (challenge_text c)]),
        (js ''Expiry'', ElementFact (expiryCell de now c))]
       (if canWrite then Some (cert_actions renewingId c) else None)"

definition certificates_row ::
  "date_env \<Rightarrow> int \<Rightarrow> bool \<Rightarrow> int option \<Rightarrow> certificate \<Rightarrow> certificate listAct tableRow" where
  "certificates_row de now canWrite renewingId c =
     EntryRow None
       [[TextN (str_int (ct_id c))], [TextN (ct_name c)],
        if length (ct_domain_names c) \<noteq> 0 then map TextN (ct_domain_names c) else [TextN em_dash],
        [BadgeN (js ''outline'') (CERT_PROVIDER_LABELS (ct_provider c))], [TextN (challenge_text c)], [status_node c],
        expiryCell de now c, if canWrite then cert_actions renewingId c else []]"

definition cert_banner :: "nat \<Rightarrow> 'a node list" where
  "cert_banner warning =
     (if warning > 0
      then [TextN (str_nat warning @ js '' certificate'' @ (if warning = 1 then [] else js ''s'') @
              js '' near expiry or expired '' @ em_dash @ js '' renew soon to avoid an outage.'')]
      else [])"

definition pending_notes :: "pendingTask list \<Rightarrow> 'a node list" where
  "pending_notes pending = map (\<lambda>t. TextN (pt_label t @ [8230])) pending"

text \<open>The certificates tab. The tab of the DNS credentials is there only with write permission.\<close>

definition certificates_page ::
  "date_env \<Rightarrow> int \<Rightarrow> pendingTask list \<Rightarrow> bool \<Rightarrow> bool \<Rightarrow> certificate pageState \<Rightarrow> certificate listAct node list" where
  "certificates_page de now pending isMobile canWrite p =
     (let visible = filterBySearch (vw_rows p) (vw_query p) certificates_fields
      in heading ''Certificates''
           ''TLS certificates from Let's Encrypt or your own PEM material.'' @
         new_button canWrite (js ''New certificate'') NewRow @
         cert_banner (warningCount de now (vw_rows p)) @ pending_notes pending @
         load_alert (js ''Couldn't load certificates: '') (vw_loadError p) @
         searchInput (js ''Search certificates'') (vw_query p) @
         body_nodes (list_body isMobile certificates_head 8 8
           (empty_state (js ''certificates'')
              (js ''No certificates yet. Request one from Let'' @ [8217] @ js ''s Encrypt or upload your own.'') (vw_query p))
           (certificates_card de now canWrite (lp_renewing p)) (certificates_row de now canWrite (lp_renewing p))
           (vw_loading p) visible))"

definition certificates_tabs :: "bool \<Rightarrow> jstring list" where
  "certificates_tabs canWrite = js ''Certificates'' # (if canWrite then [js ''DNS providers''] else [])"

lemma texts_controls [simp]: "controls (map TextN ts) = []"
  by (simp add: controls_def filter_empty_conv)

lemma expiryCell_controls [simp]: "controls (expiryCell de now c) = []"
  by (simp add: expiryCell_def Let_def)

lemma certificates_same:
  "same_row certificates_head (certificates_card de now cw ren c) (certificates_row de now cw ren c)"
  by (simp add: page_defs certificates_card_def certificates_row_def certificates_head_def page_labels_distinct
      cert_actions_def status_node_def em_dash_def)

interpretation certificates_two:
  two_layouts certificates_head "certificates_card de now cw ren" "certificates_row de now cw ren"
  by unfold_locales (rule certificates_same)

section \<open>Users\<close>

text \<open>The page of the administrators: its buttons do not ask for write permission. \<open>fmt\<close> as above.\<close>

primrec USER_ROLE_LABELS :: "userRole \<Rightarrow> jstring" where
  "USER_ROLE_LABELS Admin = js ''Admin''"
| "USER_ROLE_LABELS Member = js ''Member''"

definition users_head :: "jstring list" where
  "users_head = map js [''Name'', ''Email'', ''Role'', ''Status'', ''2FA'', ''Created'', ''Actions'']"

definition user_name_nodes :: "account option \<Rightarrow> userRow \<Rightarrow> 'a node list" where
  "user_name_nodes current u =
     TextN (displayName (user_account u)) #
     (if isSelf (user_account u) current then [BadgeN (js ''outline'') (js ''You'')] else [])"

definition user_status_node :: "userRow \<Rightarrow> 'a node" where
  "user_status_node u =
     BadgeN (if invited u then js ''outline'' else if ac_is_active u then js ''success'' else js ''muted'') (status_badge u)"

definition role_node :: "userRow \<Rightarrow> 'a node" where
  "role_node u = BadgeN (if ac_role u = Admin then js ''default'' else js ''muted'') (USER_ROLE_LABELS (ac_role u))"

definition user_actions :: "account option \<Rightarrow> userRow \<Rightarrow> userRow listAct node list" where
  "user_actions current u =
     (if ac_totp_enabled u then [ButtonN (js ''Disable 2FA for '' @ ac_email u) False (DisableTotp u)] else []) @
     (if invited u then [ButtonN (js ''Resend invitation to '' @ ac_email u) False (ResendInvite u)] else []) @
     [ButtonN (js ''Edit '' @ ac_email u) False (EditRow u),
      ButtonN (js ''Reset password for '' @ ac_email u) False (ResetPassword u),
      ButtonN (js ''Delete '' @ ac_email u) (isSelf (user_account u) current) (DeleteRow u)]"

definition users_card :: "(jstring \<Rightarrow> jstring) \<Rightarrow> account option \<Rightarrow> userRow \<Rightarrow> userRow listAct rowCard" where
  "users_card fmt current u =
     mkCard (user_name_nodes current u) (Some [user_status_node u])
       [(js ''Email'', ElementFact [TextN (ac_email u)]), (js ''Role'', ElementFact [role_node u]),
        (js ''2FA'', ElementFact [on_off (js ''success'') (ac_totp_enabled u)]),
        (js ''Created'', ElementFact [TextN (fmt (ac_created_at u))])]
       (Some (user_actions current u))"

definition users_row :: "(jstring \<Rightarrow> jstring) \<Rightarrow> account option \<Rightarrow> userRow \<Rightarrow> userRow listAct tableRow" where
  "users_row fmt current u =
     EntryRow None
       [user_name_nodes current u, [TextN (ac_email u)], [role_node u], [user_status_node u],
        [on_off (js ''success'') (ac_totp_enabled u)], [TextN (fmt (ac_created_at u))], user_actions current u]"

definition users_page ::
  "(jstring \<Rightarrow> jstring) \<Rightarrow> account option \<Rightarrow> bool \<Rightarrow> bool \<Rightarrow> userRow pageState \<Rightarrow> userRow listAct node list" where
  "users_page fmt current canInv isMobile p =
     heading ''Users''
       ''Accounts and roles for people who sign in to MegooPM.'' @
     load_alert (js ''Couldn'' @ [8217] @ js ''t load users: '') (vw_loadError p) @
     (if canInv then [ButtonN (js ''Invite user'') False OpenInvite] else []) @
     [ButtonN (js ''New user'') False NewRow] @
     body_nodes (list_body isMobile users_head 6 7 [TextN (js ''No users yet.'')]
       (users_card fmt current) (users_row fmt current) (vw_loading p) (vw_rows p))"

lemma user_labels_distinct:
  "js ''Disable 2FA for '' @ n \<noteq> js ''Resend invitation to '' @ n" "js ''Disable 2FA for '' @ n \<noteq> js ''Edit '' @ n"
  "js ''Disable 2FA for '' @ n \<noteq> js ''Reset password for '' @ n" "js ''Disable 2FA for '' @ n \<noteq> js ''Delete '' @ n"
  "js ''Resend invitation to '' @ n \<noteq> js ''Edit '' @ n" "js ''Resend invitation to '' @ n \<noteq> js ''Reset password for '' @ n"
  "js ''Resend invitation to '' @ n \<noteq> js ''Delete '' @ n" "js ''Edit '' @ n \<noteq> js ''Reset password for '' @ n"
  "js ''Reset password for '' @ n \<noteq> js ''Delete '' @ n"
  by (simp_all add: js_def)

lemma user_name_controls [simp]: "controls (user_name_nodes current u) = []"
  by (simp add: user_name_nodes_def)

lemma users_same: "same_row users_head (users_card fmt current u) (users_row fmt current u)"
  by (simp add: page_defs users_card_def users_row_def users_head_def user_labels_distinct host_labels_distinct
      user_actions_def user_status_node_def role_node_def on_off_def)

interpretation users_two: two_layouts users_head "users_card fmt current" "users_row fmt current"
  by unfold_locales (rule users_same)

section \<open>The pages in both layouts\<close>

lemmas page_layouts =
  proxyHosts_two.layouts_agree redirectionHosts_two.layouts_agree deadHosts_two.layouts_agree streams_two.layouts_agree
  upstreams_two.layouts_agree accessLists_two.layouts_agree customPages_two.layouts_agree
  dnsCredentials_two.layouts_agree certificates_two.layouts_agree users_two.layouts_agree

text \<open>
  C11. The layouts of the ten list pages. A row as a card has the controls of the row of the table, in the same
  order and with the same effects, each under a name of its own, and no column of the table is missing
  from the card; and so the whole page offers the same controls whatever the width, in every state.
\<close>

theorem list_pages_responsive:
  "same_row proxyHosts_head (proxyHosts_card cw pools als h) (proxyHosts_row cw pools als h) \<and>
   same_row redirectionHosts_head (redirectionHosts_card cw r) (redirectionHosts_row cw r) \<and>
   same_row deadHosts_head (deadHosts_card cw d) (deadHosts_row cw d) \<and>
   same_row streams_head (streams_card cw s) (streams_row cw s) \<and>
   same_row upstreams_head (upstreams_card cw u) (upstreams_row cw u) \<and>
   same_row accessLists_head (accessLists_card cw l) (accessLists_row cw l) \<and>
   same_row customPages_head (customPages_card fmt cw c) (customPages_row fmt cw c) \<and>
   same_row dnsCredentials_head (dnsCredentials_card k) (dnsCredentials_row k) \<and>
   same_row certificates_head (certificates_card de now cw ren t) (certificates_row de now cw ren t) \<and>
   same_row users_head (users_card fmt me a) (users_row fmt me a) \<and>
   controls (proxyHosts_page True cw pools als p1) = controls (proxyHosts_page False cw pools als p1) \<and>
   controls (redirectionHosts_page True cw p2) = controls (redirectionHosts_page False cw p2) \<and>
   controls (deadHosts_page True cw p3) = controls (deadHosts_page False cw p3) \<and>
   controls (streams_page True cw p4) = controls (streams_page False cw p4) \<and>
   controls (upstreams_page True cw p5) = controls (upstreams_page False cw p5) \<and>
   controls (accessLists_page True cw p6) = controls (accessLists_page False cw p6) \<and>
   controls (customPages_page fmt True cw p7) = controls (customPages_page fmt False cw p7) \<and>
   controls (dnsCredentials_page True cat p8) = controls (dnsCredentials_page False cat p8) \<and>
   controls (certificates_page de now tasks True cw p9) = controls (certificates_page de now tasks False cw p9) \<and>
   controls (users_page fmt me ci True p10) = controls (users_page fmt me ci False p10)"
  by (intro conjI proxyHosts_same redirectionHosts_same deadHosts_same streams_same upstreams_same accessLists_same
      customPages_same dnsCredentials_same certificates_same users_same)
    (simp_all add: page_layouts proxyHosts_page_def redirectionHosts_page_def deadHosts_page_def streams_page_def
      upstreams_page_def accessLists_page_def customPages_page_def dnsCredentials_page_def certificates_page_def
      users_page_def Let_def)

section \<open>Without write permission\<close>

text \<open>What does not change anything: searching, reloading, looking at a custom page.\<close>

definition reading_acts :: "'r listAct set" where
  "reading_acts = {ClearSearch, RetryLoad} \<union> range TypeQuery \<union> range PreviewRow"

lemma frame_acts:
  "acts (searchInput l q) \<subseteq> reading_acts" "acts (load_alert t e) \<subseteq> reading_acts" "acts (empty_state n m q) \<subseteq> reading_acts"
  "acts (new_button False l a) \<subseteq> reading_acts"
  by (auto simp: searchInput_def load_alert_def empty_state_def new_button_def reading_acts_def split: option.splits)

lemma no_acts: "controls ns = [] \<Longrightarrow> acts ns = {}"
  by (metis acts_controls acts_simps(1))

lemmas row_defs =
  proxyHosts_row_def redirectionHosts_row_def deadHosts_row_def streams_row_def upstreams_row_def accessLists_row_def
  customPages_row_def certificates_row_def host_actions_def stream_actions_def page_actions_def cert_actions_def
  enabledToggle_def on_off_def status_node_def

lemma cell_acts [simp]:
  "acts (domain_nodes ds x) = {}" "acts (tls_cell c) = {}" "acts (redirect_nodes h) = {}" "acts (protocol_nodes a b) = {}"
  "acts (described n d) = {}" "acts (map TextN ts) = {}" "acts (expiryCell de now t) = {}"
  by (rule no_acts, simp add: controls_texts)+

lemma note_acts [simp]: "acts (pending_notes ts) = {}"
  by (rule no_acts) (simp add: pending_notes_def controls_def filter_empty_conv)

lemma read_only_rows:
  "acts (row_nodes (proxyHosts_row False pools als h)) \<subseteq> reading_acts"
  "acts (row_nodes (redirectionHosts_row False r)) \<subseteq> reading_acts"
  "acts (row_nodes (deadHosts_row False d)) \<subseteq> reading_acts"
  "acts (row_nodes (streams_row False s)) \<subseteq> reading_acts"
  "acts (row_nodes (upstreams_row False u)) \<subseteq> reading_acts"
  "acts (row_nodes (accessLists_row False l)) \<subseteq> reading_acts"
  "acts (row_nodes (customPages_row fmt False c)) \<subseteq> reading_acts"
  "acts (row_nodes (certificates_row de now False ren t)) \<subseteq> reading_acts"
  by (simp_all add: row_defs reading_acts_def)

lemmas read_only_bodies =
  proxyHosts_two.body_acts [OF read_only_rows(1) frame_acts(3)]
  redirectionHosts_two.body_acts [OF read_only_rows(2) frame_acts(3)]
  deadHosts_two.body_acts [OF read_only_rows(3) frame_acts(3)]
  streams_two.body_acts [OF read_only_rows(4) frame_acts(3)]
  upstreams_two.body_acts [OF read_only_rows(5) frame_acts(3)]
  accessLists_two.body_acts [OF read_only_rows(6) frame_acts(3)]
  customPages_two.body_acts [OF read_only_rows(7) frame_acts(3)]
  certificates_two.body_acts [OF read_only_rows(8) frame_acts(3)]

text \<open>
  C5. Write permission on the list pages, in both layouts and in every state. Without it a page leads to
  nothing but searching, reloading and looking at a custom page, and the tab of the DNS credentials is
  not there. With it every row leads to exactly its switches, its editor and its delete confirmation,
  and a certificate of Let's Encrypt that is not being renewed to its renewal.
\<close>

theorem write_controls:
  "acts (proxyHosts_page m False pools als p1) \<subseteq> reading_acts \<and>
   acts (redirectionHosts_page m False p2) \<subseteq> reading_acts \<and>
   acts (deadHosts_page m False p3) \<subseteq> reading_acts \<and>
   acts (streams_page m False p4) \<subseteq> reading_acts \<and>
   acts (upstreams_page m False p5) \<subseteq> reading_acts \<and>
   acts (accessLists_page m False p6) \<subseteq> reading_acts \<and>
   acts (customPages_page fmt m False p7) \<subseteq> reading_acts \<and>
   acts (certificates_page de now tasks m False p9) \<subseteq> reading_acts \<and>
   js ''DNS providers'' \<notin> set (certificates_tabs False) \<and>
   acts (renderCard (proxyHosts_card True pools als h)) =
     {FlipEnabled h (\<not> or_default (ph_enabled h) True), FlipMaintenance h (\<not> maintenance_on h), EditRow h, DeleteRow h} \<and>
   acts (renderCard (redirectionHosts_card True r)) = {FlipEnabled r (\<not> rh_enabled r), EditRow r, DeleteRow r} \<and>
   acts (renderCard (deadHosts_card True d)) = {FlipEnabled d (\<not> dh_enabled d), EditRow d, DeleteRow d} \<and>
   acts (renderCard (streams_card True s)) = {FlipEnabled s (\<not> sr_enabled s), EditRow s, DeleteRow s} \<and>
   acts (renderCard (upstreams_card True u)) = {FlipEnabled u (\<not> or_default (u_enabled u) True), EditRow u, DeleteRow u} \<and>
   acts (renderCard (accessLists_card True l)) = {EditRow l, DeleteRow l} \<and>
   acts (renderCard (customPages_card fmt True c)) =
     {PreviewRow c, GoTo (js ''/custom-pages/'' @ str_int (ps_id c)), DeleteRow c} \<and>
   acts (renderCard (certificates_card de now True ren t)) =
     (if ct_provider t = js ''letsencrypt'' \<and> ren \<noteq> Some (ct_id t) then {RenewRow t} else {}) \<union> {DeleteRow t}"
  by (intro conjI)
    (simp_all add: frame_acts read_only_bodies proxyHosts_page_def redirectionHosts_page_def deadHosts_page_def streams_page_def upstreams_page_def
      accessLists_page_def customPages_page_def certificates_page_def Let_def cert_banner_def
      certificates_tabs_def js_def proxyHosts_two.row_acts redirectionHosts_two.row_acts deadHosts_two.row_acts
      streams_two.row_acts upstreams_two.row_acts accessLists_two.row_acts customPages_two.row_acts
      certificates_two.row_acts row_defs insert_commute)

end
