(* ===== verification/Locations_Editor.thy ===== *)
theory Locations_Editor
  imports Page_Layouts
begin

text \<open>
  The editor of the routes of a proxy host, \<^verbatim>\<open>components/proxy-hosts/locations-editor.tsx\<close>: the root route
  and the locations, each a line of controls, as a table or as cards; what the controls do to the form
  of the dialog. Placeholders of the inputs are left out.
\<close>

section \<open>Controls\<close>

definition poolLabel :: "upstream \<Rightarrow> jstring" where
  "poolLabel pool = u_name pool @ js '' ('' @ count_text (u_backends pool) @ js '' backends)''"

primrec LOCATION_KIND_LABELS :: "locationTargetMode \<Rightarrow> jstring" where
  "LOCATION_KIND_LABELS LPool = js ''Pool''"
| "LOCATION_KIND_LABELS LHost = js ''Single host''"
| "LOCATION_KIND_LABELS LDefaultSite = js ''Default site''"
| "LOCATION_KIND_LABELS LCustomPage = js ''Custom page''"
| "LOCATION_KIND_LABELS LErrorPage = js ''Error page''"

definition ROOT_KINDS :: "locationTargetMode list" where
  "ROOT_KINDS = [LPool, LHost]"

definition LOCATION_KINDS :: "locationTargetMode list" where
  "LOCATION_KINDS = [LPool, LHost, LDefaultSite, LCustomPage, LErrorPage]"

text \<open>The kind whose name is picked; the options of the picker are names of kinds.\<close>

definition kind_of_name :: "jstring \<Rightarrow> locationTargetMode" where
  "kind_of_name v =
     (if v = target_name LPool then LPool else if v = target_name LHost then LHost
      else if v = target_name LDefaultSite then LDefaultSite
      else if v = target_name LCustomPage then LCustomPage else LErrorPage)"

definition kindSelect ::
  "locationTargetMode \<Rightarrow> (locationTargetMode \<Rightarrow> 'a) \<Rightarrow> jstring \<Rightarrow> bool \<Rightarrow> locationTargetMode list \<Rightarrow> 'a node" where
  "kindSelect k onChange label disabled kinds =
     PickerN label (map (\<lambda>k. (target_name k, LOCATION_KIND_LABELS k)) kinds) (target_name k) [] disabled
       (\<lambda>v. onChange (kind_of_name v))"

definition ERROR_CODE_LABELS :: "int \<Rightarrow> jstring" where
  "ERROR_CODE_LABELS code =
     (if code = 400 then js ''Bad request'' else if code = 401 then js ''Authentication required''
      else if code = 403 then js ''Access denied'' else if code = 404 then js ''Not found''
      else if code = 500 then js ''Something went wrong'' else if code = 502 then js ''Bad gateway''
      else if code = 503 then js ''Service unavailable'' else js ''Gateway timeout'')"

definition errorCodeSelect :: "jstring \<Rightarrow> (jstring \<Rightarrow> 'a) \<Rightarrow> bool \<Rightarrow> jstring \<Rightarrow> 'a node" where
  "errorCodeSelect v onChange disabled label =
     PickerN label
       (map (\<lambda>code. (str_int code, str_int code @ js '' '' @ em_dash @ js '' '' @ ERROR_CODE_LABELS code)) ERROR_CODES)
       v [] disabled onChange"

definition pageSelect :: "jstring \<Rightarrow> (jstring \<Rightarrow> 'a) \<Rightarrow> pageSummary list \<Rightarrow> bool \<Rightarrow> jstring \<Rightarrow> 'a node list" where
  "pageSelect v onChange pages disabled label =
     searchableSelect label (from_entries (map (\<lambda>p. (str_int (ps_id p), ps_name p)) pages)) v
       (if length pages = 0 then js ''No pages yet'' else js ''Choose a page'') [] (disabled \<or> length pages = 0) onChange"

definition poolSelect :: "jstring \<Rightarrow> (jstring \<Rightarrow> 'a) \<Rightarrow> upstream list \<Rightarrow> bool \<Rightarrow> 'a node list" where
  "poolSelect v onChange pools disabled =
     (let noPools = (length pools = 0)
      in searchableSelect (js ''Upstream pool'') (from_entries (map (\<lambda>p. (str_int (u_id p), poolLabel p)) pools)) v
           (if noPools then js ''No pools '' @ em_dash @ js '' create one first'' else js ''Select a pool'')
           [] (disabled \<or> noPools) onChange)"

definition HTTP_SCHEMES :: "httpScheme list" where "HTTP_SCHEMES = [Http, Https]"

definition scheme_of_name :: "jstring \<Rightarrow> httpScheme" where
  "scheme_of_name v = (if v = scheme_name Http then Http else Https)"

definition schemeSelect :: "httpScheme \<Rightarrow> (httpScheme \<Rightarrow> 'a) \<Rightarrow> bool \<Rightarrow> 'a node" where
  "schemeSelect v onChange disabled =
     PickerN (js ''Forward scheme'') (map (\<lambda>s. (scheme_name s, scheme_name s)) HTTP_SCHEMES) (scheme_name v) [] disabled
       (\<lambda>x. onChange (scheme_of_name x))"

text \<open>The patches that the target cell hands up, each of one field.\<close>

datatype targetPatch =
    UpstreamId jstring | ForwardHost jstring | ForwardPort jstring | CustomPageId jstring | ErrorCode jstring

definition targetCell ::
  "locationTargetMode \<Rightarrow> jstring \<Rightarrow> jstring \<Rightarrow> jstring \<Rightarrow> jstring option \<Rightarrow> jstring option \<Rightarrow> (targetPatch \<Rightarrow> 'a) \<Rightarrow>
   upstream list \<Rightarrow> pageSummary list option \<Rightarrow> bool \<Rightarrow> jstring \<Rightarrow> 'a node list" where
  "targetCell mode upId fwdHost fwdPort pageId code onChange pools pages disabled labelPrefix =
     (case mode of
        LDefaultSite \<Rightarrow> [TextN (js ''Follows Settings '' @ [8594] @ js '' Default site.'')]
      | LCustomPage \<Rightarrow>
          pageSelect (or_default pageId []) (\<lambda>v. onChange (CustomPageId v)) (or_default pages []) disabled
            (labelPrefix @ js '' page'')
      | LErrorPage \<Rightarrow>
          [errorCodeSelect (or_default code []) (\<lambda>v. onChange (ErrorCode v)) disabled (labelPrefix @ js '' status code'')]
      | LPool \<Rightarrow> poolSelect upId (\<lambda>v. onChange (UpstreamId v)) pools disabled
      | LHost \<Rightarrow>
          [FieldN (labelPrefix @ js '' forward host'') fwdHost disabled (\<lambda>v. onChange (ForwardHost v)),
           FieldN (labelPrefix @ js '' forward port'') fwdPort disabled (\<lambda>v. onChange (ForwardPort v))])"

section \<open>What the controls do\<close>

datatype locationPatch = RowPath jstring | RowKind locationTargetMode | RowTarget targetPatch | RowScheme httpScheme

datatype rootPatch =
    RootKind locationTargetMode | RootUpstreamId jstring | RootForwardHost jstring | RootForwardPort jstring | RootScheme httpScheme

text \<open>\<open>EditRoot None\<close> is a patch with no field: what the root makes of a patch that it has no field for.\<close>

datatype editorAct = AddLocation | EditRoot "rootPatch option" | EditLocation jstring locationPatch | RemoveLocation jstring

fun root_of_target :: "targetPatch \<Rightarrow> rootPatch option" where
  "root_of_target (UpstreamId v) = Some (RootUpstreamId v)"
| "root_of_target (ForwardHost v) = Some (RootForwardHost v)"
| "root_of_target (ForwardPort v) = Some (RootForwardPort v)"
| "root_of_target _ = None"

fun patch_target :: "targetPatch \<Rightarrow> locationRow \<Rightarrow> locationRow" where
  "patch_target (UpstreamId v) r = r\<lparr>lr_upstreamId := v\<rparr>"
| "patch_target (ForwardHost v) r = r\<lparr>lr_forwardHost := v\<rparr>"
| "patch_target (ForwardPort v) r = r\<lparr>lr_forwardPort := v\<rparr>"
| "patch_target (CustomPageId v) r = r\<lparr>lr_customPageId := v\<rparr>"
| "patch_target (ErrorCode v) r = r\<lparr>lr_errorCode := v\<rparr>"

fun patch_location :: "locationPatch \<Rightarrow> locationRow \<Rightarrow> locationRow" where
  "patch_location (RowPath v) r = r\<lparr>lr_path := v\<rparr>"
| "patch_location (RowKind k) r = r\<lparr>lr_targetMode := k\<rparr>"
| "patch_location (RowTarget t) r = patch_target t r"
| "patch_location (RowScheme s) r = r\<lparr>lr_scheme := s\<rparr>"

fun root_mode :: "locationTargetMode \<Rightarrow> targetMode" where
  "root_mode LPool = PoolTarget"
| "root_mode _ = HostTarget"

fun patch_root :: "rootPatch \<Rightarrow> proxyHostFormState \<Rightarrow> proxyHostFormState" where
  "patch_root (RootKind k) f = f\<lparr>fs_rootTargetMode := root_mode k\<rparr>"
| "patch_root (RootUpstreamId v) f = f\<lparr>fs_rootUpstreamId := v\<rparr>"
| "patch_root (RootForwardHost v) f = f\<lparr>fs_rootForwardHost := v\<rparr>"
| "patch_root (RootForwardPort v) f = f\<lparr>fs_rootForwardPort := v\<rparr>"
| "patch_root (RootScheme s) f = f\<lparr>fs_rootScheme := s\<rparr>"

definition on_form :: "(proxyHostFormState \<Rightarrow> proxyHostFormState) \<Rightarrow> proxyHostDialog \<Rightarrow> proxyHostDialog" where
  "on_form g d = d\<lparr>hd_form := g (hd_form d)\<rparr>"

fun edit_step :: "proxyHostDialog \<Rightarrow> editorAct \<Rightarrow> proxyHostDialog" where
  "edit_step d AddLocation = addRow d"
| "edit_step d (EditRoot None) = d"
| "edit_step d (EditRoot (Some p)) = on_form (patch_root p) d"
| "edit_step d (EditLocation key p) =
     on_form (\<lambda>f. f\<lparr>fs_locations := updateRow key (patch_location p) (fs_locations f)\<rparr>) d"
| "edit_step d (RemoveLocation key) =
     on_form (\<lambda>f. f\<lparr>fs_locations := removeRow key (fs_locations f)\<rparr>) d"

section \<open>The editor\<close>

primrec mode_kind :: "targetMode \<Rightarrow> locationTargetMode" where
  "mode_kind PoolTarget = LPool"
| "mode_kind HostTarget = LHost"

definition root_path_node :: "editorAct node" where
  "root_path_node = FieldN (js ''Root path'') (js ''/'') True (\<lambda>v. EditRoot None)"

definition root_kind_node :: "bool \<Rightarrow> proxyHostFormState \<Rightarrow> editorAct node" where
  "root_kind_node disabled f =
     kindSelect (mode_kind (fs_rootTargetMode f)) (\<lambda>k. EditRoot (Some (RootKind k))) (js ''Root target kind'') disabled ROOT_KINDS"

definition root_target_nodes :: "upstream list \<Rightarrow> bool \<Rightarrow> proxyHostFormState \<Rightarrow> editorAct node list" where
  "root_target_nodes pools disabled f =
     targetCell (mode_kind (fs_rootTargetMode f)) (fs_rootUpstreamId f) (fs_rootForwardHost f) (fs_rootForwardPort f) None None
       (\<lambda>p. EditRoot (root_of_target p)) pools None disabled (js ''Root'')"

definition root_scheme_node :: "bool \<Rightarrow> proxyHostFormState \<Rightarrow> editorAct node" where
  "root_scheme_node disabled f = schemeSelect (fs_rootScheme f) (\<lambda>s. EditRoot (Some (RootScheme s))) disabled"

definition row_path_node :: "bool \<Rightarrow> locationRow \<Rightarrow> editorAct node" where
  "row_path_node disabled r =
     FieldN (js ''Location path'') (lr_path r) disabled (\<lambda>v. EditLocation (lr_key r) (RowPath v))"

definition row_kind_node :: "bool \<Rightarrow> locationRow \<Rightarrow> editorAct node" where
  "row_kind_node disabled r =
     kindSelect (lr_targetMode r) (\<lambda>k. EditLocation (lr_key r) (RowKind k)) (js ''Location target kind'') disabled LOCATION_KINDS"

definition row_target_nodes ::
  "upstream list \<Rightarrow> pageSummary list \<Rightarrow> bool \<Rightarrow> locationRow \<Rightarrow> editorAct node list" where
  "row_target_nodes pools pages disabled r =
     targetCell (lr_targetMode r) (lr_upstreamId r) (lr_forwardHost r) (lr_forwardPort r) (Some (lr_customPageId r))
       (Some (lr_errorCode r)) (\<lambda>p. EditLocation (lr_key r) (RowTarget p)) pools (Some pages) disabled (js ''Location'')"

definition row_scheme_node :: "bool \<Rightarrow> locationRow \<Rightarrow> editorAct node" where
  "row_scheme_node disabled r = schemeSelect (lr_scheme r) (\<lambda>s. EditLocation (lr_key r) (RowScheme s)) disabled"

definition remove_node :: "bool \<Rightarrow> locationRow \<Rightarrow> editorAct node" where
  "remove_node disabled r = ButtonN (js ''Remove location'') disabled (RemoveLocation (lr_key r))"

definition root_card :: "upstream list \<Rightarrow> bool \<Rightarrow> proxyHostFormState \<Rightarrow> editorAct rowCard" where
  "root_card pools disabled f =
     mkCard [TextN (js ''Root route'')] None
       [(js ''Path'', ElementFact [root_path_node]), (js ''Kind'', ElementFact [root_kind_node disabled f]),
        (js ''Target'', ElementFact (root_target_nodes pools disabled f)),
        (js ''Scheme'', ElementFact [root_scheme_node disabled f])]
       None"

definition location_card ::
  "upstream list \<Rightarrow> pageSummary list \<Rightarrow> bool \<Rightarrow> nat \<times> locationRow \<Rightarrow> editorAct rowCard" where
  "location_card pools pages disabled ir =
     (case ir of (index, r) \<Rightarrow>
        mkCard [TextN (js ''Location '' @ str_nat (index + 1))] None
          [(js ''Path'', ElementFact [row_path_node disabled r]), (js ''Kind'', ElementFact [row_kind_node disabled r]),
           (js ''Target'', ElementFact (row_target_nodes pools pages disabled r)),
           (js ''Scheme'', ElementFact [row_scheme_node disabled r])]
          (Some [remove_node disabled r]))"

definition editor_cards ::
  "upstream list \<Rightarrow> pageSummary list \<Rightarrow> bool \<Rightarrow> proxyHostFormState \<Rightarrow> editorAct cardsView" where
  "editor_cards pools pages disabled f =
     rowCards False False []
       (root_card pools disabled f # map (location_card pools pages disabled) (enumerate 0 (fs_locations f)))"

definition editor_head :: "jstring list" where
  "editor_head = map js [''Path'', ''Kind'', ''Target'', ''Scheme'', '''']"

definition editor_table ::
  "upstream list \<Rightarrow> pageSummary list \<Rightarrow> bool \<Rightarrow> proxyHostFormState \<Rightarrow> editorAct tableView" where
  "editor_table pools pages disabled f =
     \<lparr>tv_head = editor_head,
      tv_body =
        EntryRow None
          [[root_path_node], [root_kind_node disabled f], root_target_nodes pools disabled f, [root_scheme_node disabled f], []] #
        map (\<lambda>r. EntryRow None
                   [[row_path_node disabled r], [row_kind_node disabled r], row_target_nodes pools pages disabled r,
                    [row_scheme_node disabled r], [remove_node disabled r]])
          (fs_locations f)\<rparr>"

definition locationsEditor ::
  "bool \<Rightarrow> upstream list \<Rightarrow> pageSummary list \<Rightarrow> bool \<Rightarrow> proxyHostFormState \<Rightarrow> editorAct node list" where
  "locationsEditor isMobile pools pages disabled f =
     [ButtonN (js ''Add location'') disabled AddLocation] @
     body_nodes (if isMobile then CardsBody (editor_cards pools pages disabled f)
                 else TableBody (editor_table pools pages disabled f)) @
     [TextN (js ''/ is the host's root route. Extra rows are prefix matches (location ^~) '' @ em_dash @
        js '' the longest matching path wins.'')]"

section \<open>Both layouts\<close>

lemma location_controls:
  "controls (renderCard (location_card pools pages dis (i, r))) =
   controls ([row_path_node dis r, row_kind_node dis r] @ row_target_nodes pools pages dis r @ [row_scheme_node dis r, remove_node dis r])"
  by (simp add: location_card_def page_defs)

lemma locations_controls:
  "controls (concat (map (renderCard \<circ> location_card pools pages dis) (enumerate n rs))) =
   controls (concat (map (\<lambda>r. [row_path_node dis r, row_kind_node dis r] @ row_target_nodes pools pages dis r @
                               [row_scheme_node dis r, remove_node dis r]) rs))"
  by (induction rs arbitrary: n) (simp_all add: location_controls)

lemma editor_layouts:
  "controls (locationsEditor True pools pages dis f) = controls (locationsEditor False pools pages dis f)"
  using locations_controls [of pools pages dis 0 "fs_locations f"]
  by (simp add: locationsEditor_def editor_cards_def editor_table_def rowCards_def root_card_def page_defs comp_def)

section \<open>The rows keep their keys\<close>

text \<open>A key tells a stored location by its id, or an added one by a number not given before.\<close>

definition key_known :: "nat \<Rightarrow> jstring \<Rightarrow> bool" where
  "key_known seq k \<longleftrightarrow> (\<exists>i. k = js ''loc-'' @ str_int i) \<or> (\<exists>n \<le> seq. k = js ''loc-new-'' @ str_nat n)"

definition editor_inv :: "proxyHostDialog \<Rightarrow> bool" where
  "editor_inv d \<longleftrightarrow>
     distinct (map lr_key (fs_locations (hd_form d))) \<and>
     (\<forall>r \<in> set (fs_locations (hd_form d)). key_known (hd_rowSeq d) (lr_key r))"

lemma patch_target_key [simp]: "lr_key (patch_target t r) = lr_key r"
  by (cases t) simp_all

lemma patch_row_key [simp]: "lr_key (patch_location p r) = lr_key r"
  by (cases p) simp_all

lemma patch_root_rows [simp]: "fs_locations (patch_root p f) = fs_locations f"
  by (cases p) simp_all

lemma updateRow_keys [simp]: "map lr_key (updateRow k (patch_location p) rs) = map lr_key rs"
  by (simp add: updateRow_def)

lemma known_new: "key_known seq k \<Longrightarrow> k \<noteq> js ''loc-new-'' @ str_nat (seq + 1)"
proof -
  have "str_int i \<noteq> 110 # t" for i t
    using hd_str_nat [of "nat i"] by (cases "str_nat (nat i)") (auto simp: str_int_def is_digit_def)
  then show "key_known seq k \<Longrightarrow> k \<noteq> js ''loc-new-'' @ str_nat (seq + 1)"
    by (auto simp: key_known_def js_def) metis
qed

lemma edit_inv: "editor_inv d \<Longrightarrow> editor_inv (edit_step d a)"
proof (induction d a rule: edit_step.induct)
  case (1 d)
  then have "\<forall>r \<in> set (fs_locations (hd_form d)). lr_key r \<noteq> js ''loc-new-'' @ str_nat (hd_rowSeq d + 1)"
    using known_new by (auto simp: editor_inv_def)
  with 1 show ?case
    by (auto simp: editor_inv_def addRow_def newLocationRow_def Let_def key_known_def)
next
  case (4 d key p)
  then have "\<forall>r \<in> set (updateRow key (patch_location p) (fs_locations (hd_form d))). key_known (hd_rowSeq d) (lr_key r)"
    by (auto simp: editor_inv_def updateRow_def)
  with 4 show ?case by (simp add: editor_inv_def on_form_def)
qed (auto simp: editor_inv_def on_form_def removeRow_def distinct_map_filter)

interpretation editor: machine edit_step editor_inv
  by unfold_locales (rule edit_inv)

text \<open>The rows of a stored host have its ids in their keys.\<close>

lemma open_rows:
  "fs_locations (hd_form (openHostDialog host hasPools seq)) =
     (case host of Some h \<Rightarrow> map row_of_location (or_default (ph_locations h) []) | None \<Rightarrow> [])"
  by (simp add: openHostDialog_def stateFromHost_def split: option.split)

lemma open_inv:
  assumes "distinct (map lo_id (case host of Some h \<Rightarrow> or_default (ph_locations h) [] | None \<Rightarrow> []))"
  shows "editor_inv (openHostDialog host hasPools seq)"
proof -
  have key: "lr_key (row_of_location l) = js ''loc-'' @ str_int (lo_id l)" for l
    by (simp add: row_of_location_def)
  show ?thesis
    using assms
    by (cases host) (auto simp: editor_inv_def open_rows key key_known_def comp_def distinct_map inj_on_def)
qed

section \<open>A control shows what was put into it\<close>

definition row_line :: "upstream list \<Rightarrow> pageSummary list \<Rightarrow> bool \<Rightarrow> locationRow \<Rightarrow> editorAct node list" where
  "row_line pools pages disabled r =
     [row_path_node disabled r, row_kind_node disabled r] @ row_target_nodes pools pages disabled r @
     [row_scheme_node disabled r, remove_node disabled r]"

definition root_line :: "upstream list \<Rightarrow> bool \<Rightarrow> proxyHostFormState \<Rightarrow> editorAct node list" where
  "root_line pools disabled f =
     [root_path_node, root_kind_node disabled f] @ root_target_nodes pools disabled f @ [root_scheme_node disabled f]"

lemma editor_lines:
  "controls (locationsEditor isMobile pools pages dis f) =
     ButtonN (js ''Add location'') dis AddLocation #
     controls (root_line pools dis f @ concat (map (row_line pools pages dis) (fs_locations f)))"
proof -
  have "controls (locationsEditor False pools pages dis f) =
     ButtonN (js ''Add location'') dis AddLocation #
     controls (root_line pools dis f @ concat (map (row_line pools pages dis) (fs_locations f)))"
    by (simp add: locationsEditor_def editor_table_def root_line_def row_line_def [abs_def] comp_def)
  then show ?thesis using editor_layouts [of pools pages dis f] by (cases isMobile) simp_all
qed

lemma kind_of_name_target [simp]: "kind_of_name (target_name k) = k"
  by (cases k) (simp_all add: kind_of_name_def js_def)

lemma root_kinds_kept: "k \<in> set ROOT_KINDS \<Longrightarrow> mode_kind (root_mode k) = k"
  by (auto simp: ROOT_KINDS_def)

lemma scheme_of_name_scheme [simp]: "scheme_of_name (scheme_name s) = s"
  by (cases s) (simp_all add: scheme_of_name_def js_def)

lemma target_patch_shows:
  assumes "n \<in> set (row_target_nodes pools pages dis r)" and "entered n x = Some a"
  shows "\<exists>t. a = EditLocation (lr_key r) (RowTarget t) \<and>
             shows_value (row_target_nodes pools pages dis (patch_target t r)) (node_name n) x"
  using assms
  by (cases "lr_targetMode r"; cases x)
    (auto simp: row_target_nodes_def targetCell_def shows_value_def pageSelect_def poolSelect_def Let_def
      searchableSelect_def errorCodeSelect_def or_default_def split: if_splits)

lemma row_patch_shows:
  assumes "n \<in> set (row_line pools pages dis r)" and "entered n x = Some a"
  shows "\<exists>p. a = EditLocation (lr_key r) p \<and> shows_value (row_line pools pages dis (patch_location p r)) (node_name n) x"
proof (cases "n \<in> set (row_target_nodes pools pages dis r)")
  case True
  from target_patch_shows [OF this assms(2)] obtain t where
    "a = EditLocation (lr_key r) (RowTarget t)"
    "shows_value (row_target_nodes pools pages dis (patch_target t r)) (node_name n) x" by blast
  then show ?thesis by (intro exI [of _ "RowTarget t"]) (auto simp: shows_value_def row_line_def)
next
  case False
  with assms show ?thesis
    by (cases x) (auto simp: row_line_def row_path_node_def row_kind_node_def row_scheme_node_def remove_node_def kindSelect_def
        schemeSelect_def shows_value_def split: if_splits)
qed

lemma root_patch_shows:
  assumes "n \<in> set (root_line pools dis f)" and "entered n x = Some a"
  shows "\<exists>p. a = EditRoot (Some p) \<and> shows_value (root_line pools dis (patch_root p f)) (node_name n) x"
  using assms
  by (cases "fs_rootTargetMode f"; cases x)
    (auto simp: root_line_def root_path_node_def root_kind_node_def root_scheme_node_def kindSelect_def schemeSelect_def
      root_target_nodes_def targetCell_def poolSelect_def searchableSelect_def Let_def shows_value_def
      root_kinds_kept split: if_splits)

lemma nothing_while_disabled: "acts (locationsEditor m pools pages True f) = {}"
proof -
  have cell: "acts (targetCell k u h pt pg c g ps pgs True l) = {}" for k u h pt pg c ps pgs l and g :: "targetPatch \<Rightarrow> editorAct"
    by (cases k) (simp_all add: targetCell_def pageSelect_def poolSelect_def searchableSelect_def errorCodeSelect_def Let_def)
  have "acts (row_line pools pages True r) = {}" for r
    by (simp add: row_line_def row_path_node_def row_kind_node_def row_scheme_node_def remove_node_def kindSelect_def
        schemeSelect_def row_target_nodes_def cell)
  then have rows: "acts (concat (map (row_line pools pages True) rs)) = {}" for rs by (induction rs) simp_all
  have "acts (root_line pools True f) = {}"
    by (simp add: root_line_def root_path_node_def root_kind_node_def root_scheme_node_def kindSelect_def
        schemeSelect_def root_target_nodes_def cell)
  with rows have "acts (controls (locationsEditor m pools pages True f)) = {}"
    by (simp add: editor_lines acts_controls del: controls_append)
  then show ?thesis by (simp add: acts_controls)
qed

text \<open>
  C27. The routes of a proxy host, after any editing of a dialog that was opened on a host whose locations
  have different ids. The table and the cards offer the same controls in the same order. No two
  locations share a key. Putting a value into a control of a location changes that location alone, and
  the control of the same name then shows the value; the same for the root route, which a control of it
  changes alone. Adding a location appends one under a new key, and removing one keeps the others.
  While a save is under way the editor leads to nothing.
\<close>

theorem route_editor:
  assumes "distinct (map lo_id (case host of Some h \<Rightarrow> or_default (ph_locations h) [] | None \<Rightarrow> []))"
    and "d = foldl edit_step (openHostDialog host hasPools seq) es" and "rows = fs_locations (hd_form d)"
  shows "controls (locationsEditor True pools pages dis (hd_form d)) =
           controls (locationsEditor False pools pages dis (hd_form d)) \<and>
    distinct (map lr_key rows) \<and>
    (\<forall>r \<in> set rows. \<forall>n \<in> set (row_line pools pages dis r). \<forall>x a. entered n x = Some a \<longrightarrow>
       (\<exists>r'. lr_key r' = lr_key r \<and> shows_value (row_line pools pages dis r') (node_name n) x \<and>
             hd_form (edit_step d a) =
               (hd_form d)\<lparr>fs_locations := map (\<lambda>q. if lr_key q = lr_key r then r' else q) rows\<rparr>)) \<and>
    (\<forall>n \<in> set (root_line pools dis (hd_form d)). \<forall>x a. entered n x = Some a \<longrightarrow>
       fs_locations (hd_form (edit_step d a)) = rows \<and>
       shows_value (root_line pools dis (hd_form (edit_step d a))) (node_name n) x) \<and>
    (\<exists>r. fs_locations (hd_form (edit_step d AddLocation)) = rows @ [r] \<and> lr_key r \<notin> lr_key ` set rows) \<and>
    (\<forall>r \<in> set rows. fs_locations (hd_form (edit_step d (RemoveLocation (lr_key r)))) = remove1 r rows) \<and>
    acts (locationsEditor m pools pages True (hd_form d)) = {}"
proof (intro conjI ballI allI impI editor_layouts nothing_while_disabled)
  have inv: "editor_inv d"
    using editor.run_inv [OF open_inv [OF assms(1)]] by (simp add: assms(2))
  then show dist: "distinct (map lr_key rows)" by (simp add: editor_inv_def assms(3))
  show "\<exists>r'. lr_key r' = lr_key r \<and> shows_value (row_line pools pages dis r') (node_name n) x \<and>
             hd_form (edit_step d a) = (hd_form d)\<lparr>fs_locations := map (\<lambda>q. if lr_key q = lr_key r then r' else q) rows\<rparr>"
    if r: "r \<in> set rows" and n: "n \<in> set (row_line pools pages dis r)" "entered n x = Some a" for r n x a
  proof -
    from row_patch_shows [OF n] obtain p where
      p: "a = EditLocation (lr_key r) p" "shows_value (row_line pools pages dis (patch_location p r)) (node_name n) x" by blast
    have "q = r" if "q \<in> set rows" "lr_key q = lr_key r" for q
      using dist r that by (auto simp: distinct_map inj_on_def)
    then have "updateRow (lr_key r) (patch_location p) rows = map (\<lambda>q. if lr_key q = lr_key r then patch_location p r else q) rows"
      by (auto simp: updateRow_def)
    then show ?thesis
      using p by (intro exI [of _ "patch_location p r"]) (simp add: on_form_def assms(3))
  qed
  show "fs_locations (hd_form (edit_step d a)) = rows"
    "shows_value (root_line pools dis (hd_form (edit_step d a))) (node_name n) x"
    if "n \<in> set (root_line pools dis (hd_form d))" "entered n x = Some a" for n x a
    using root_patch_shows [OF that] by (auto simp: on_form_def assms(3))
  show "\<exists>r. fs_locations (hd_form (edit_step d AddLocation)) = rows @ [r] \<and> lr_key r \<notin> lr_key ` set rows"
    using inv by (auto simp: addRow_def newLocationRow_def Let_def editor_inv_def assms(3)) (metis Suc_eq_plus1 known_new)
  show "fs_locations (hd_form (edit_step d (RemoveLocation (lr_key r)))) = remove1 r rows" if "r \<in> set rows" for r
  proof -
    have "filter (\<lambda>q. lr_key q \<noteq> lr_key r) rows = filter (\<lambda>q. q \<noteq> r) rows"
      using dist that by (auto intro!: filter_cong simp: distinct_map inj_on_def)
    then show ?thesis
      using dist by (simp add: on_form_def removeRow_def assms(3) distinct_remove1_removeAll removeAll_filter_not_eq distinct_map
          neq_commute eq_commute)
  qed
qed

text \<open>A new host: a location is added and its path is typed.\<close>

definition demo_edit :: proxyHostDialog where
  "demo_edit = foldl edit_step (openHostDialog None False 0) [AddLocation, EditLocation (js ''loc-new-1'') (RowPath (js ''/api/''))]"

theorem route_editor_witness:
  "map lr_path (fs_locations (hd_form demo_edit)) = [js ''/api/''] \<and>
   acts (locationsEditor True [] [] True (hd_form demo_edit)) = {} \<and>
   distinct (map lr_key (fs_locations (hd_form demo_edit)))"
  using route_editor [of None demo_edit False 0 _ "fs_locations (hd_form demo_edit)" "[]" "[]" False True, OF _ demo_edit_def refl]
  by (simp add: demo_edit_def openHostDialog_def stateFromHost_def addRow_def newLocationRow_def Let_def on_form_def
      updateRow_def js_def str_nat.simps)

end
