(* ===== verification/Host_Dialogs.thy ===== *)
theory Host_Dialogs
  imports Locations_Editor
begin

text \<open>
  What the dialogs of the four kinds of hosts render, and what their controls do to the form:
  \<^verbatim>\<open>proxy-host-dialog.tsx\<close>, \<^verbatim>\<open>redirection-host-dialog.tsx\<close>, \<^verbatim>\<open>dead-host-dialog.tsx\<close> and \<^verbatim>\<open>stream-dialog.tsx\<close>, with
  \<^verbatim>\<open>components/hosts/certificate-select.tsx\<close> and \<^verbatim>\<open>toggle-row.tsx\<close>; and the dialogs composed with their
  field of domain tags. A control is named by its label; help texts that stand beside a control are left
  out, and so are placeholders of inputs.
\<close>

section \<open>Parts the dialogs share\<close>

datatype 'd formAct = Change "'d \<Rightarrow> 'd" | CancelDialog | SubmitDialog

type_synonym 'd formNodes = "'d formAct node list"

definition toggleRow :: "string \<Rightarrow> string \<Rightarrow> bool \<Rightarrow> (bool \<Rightarrow> 'a) \<Rightarrow> bool \<Rightarrow> 'a node list" where
  "toggleRow label hint checked onCheckedChange disabled =
     [SwitchN (js label) checked disabled onCheckedChange, TextN (js hint)]"

text \<open>A row of switches: key, label and hint of each.\<close>

definition toggleGrid ::
  "(toggleKey \<times> string \<times> string) list \<Rightarrow> (toggleKey \<Rightarrow> bool) \<Rightarrow> bool \<Rightarrow> (toggleKey \<Rightarrow> bool \<Rightarrow> 'a) \<Rightarrow> 'a node list" where
  "toggleGrid defs values disabled onChange =
     concat (map (\<lambda>(key, label, hint). toggleRow label hint (values key) (onChange key) disabled) defs)"

definition TLS_TOGGLES :: "(toggleKey \<times> string \<times> string) list" where
  "TLS_TOGGLES =
     [(Ssl_forced, ''Force SSL'', ''Redirect :80 to HTTPS''),
      (Http2_support, ''HTTP/2'', ''Enable HTTP/2 on the TLS listener''),
      (Hsts_enabled, ''HSTS'', ''Emit a Strict-Transport-Security header''),
      (Hsts_subdomains, ''HSTS subdomains'', ''Include subdomains in HSTS'')]"

definition certificateLabel :: "certificate \<Rightarrow> jstring" where
  "certificateLabel c =
     (case ct_domain_names c of
        d # _ \<Rightarrow> if d \<noteq> [] then ct_name c @ js '' ('' @ d @ js '')'' else ct_name c
      | [] \<Rightarrow> ct_name c)"

definition certificateSelect ::
  "jstring \<Rightarrow> (jstring \<Rightarrow> 'a) \<Rightarrow> certificate list \<Rightarrow> bool \<Rightarrow> string \<Rightarrow> 'a node list" where
  "certificateSelect v onValueChange certs disabled noneLabel =
     searchableSelect (js ''SSL certificate'')
       (from_entries ((NO_CERTIFICATE, js noneLabel) # map (\<lambda>c. (str_int (ct_id c), certificateLabel c)) certs))
       v (js ''Choose'' @ [8230]) [] disabled onValueChange"

definition dialog_alert :: "jstring option \<Rightarrow> 'a node list" where
  "dialog_alert err = (case err of Some e \<Rightarrow> if e = [] then [] else [TextN e] | None \<Rightarrow> [])"

definition dialog_footer :: "bool \<Rightarrow> bool \<Rightarrow> string \<Rightarrow> 'd formNodes" where
  "dialog_footer saving isEdit create =
     [ButtonN (js ''Cancel'') saving CancelDialog,
      ButtonN (if saving then js ''Saving'' @ [8230] else if isEdit then js ''Save changes'' else js create) saving SubmitDialog]"

text \<open>The picked value of a form is shown by its picker, and taking \<open>None\<close> is always possible.\<close>

lemma none_listed: "NO_CERTIFICATE \<in> fst ` set (from_entries ((NO_CERTIFICATE, l) # es))"
proof -
  have "map_of (from_entries ((NO_CERTIFICATE, l) # es)) NO_CERTIFICATE \<noteq> None"
    by (simp add: from_entries_map map_add_def split: option.split)
  then show ?thesis by (simp add: map_of_eq_None_iff)
qed

section \<open>Forms that show what was put into them\<close>

text \<open>
  Putting a value into a control makes the form show it under the name of the control, and no other
  control that the form shows before and after changes.
\<close>

definition controlled :: "('d \<Rightarrow> 'd formNodes) \<Rightarrow> 'd \<Rightarrow> bool" where
  "controlled form_of d \<longleftrightarrow>
     (\<forall>n \<in> set (form_of d). \<forall>x g. entered n x = Some (Change g) \<longrightarrow>
        form_values (form_of (g d)) (node_name n) = Some x \<and>
        (\<forall>l v v'. l \<noteq> node_name n \<longrightarrow> form_values (form_of d) l = Some v \<longrightarrow> form_values (form_of (g d)) l = Some v' \<longrightarrow>
           v' = v))"

text \<open>
  What a control is bound to: a part of the state, by name. The locale says what the bindings of a form
  owe, and what a form of bound controls then shows.
\<close>

datatype 'd binding =
    TextB string "'d \<Rightarrow> jstring"
  | BoolB string "'d \<Rightarrow> bool"
  | TagsB string "'d \<Rightarrow> jstring list"

fun b_name :: "'d binding \<Rightarrow> jstring" where
  "b_name (TextB l g) = js l"
| "b_name (BoolB l g) = js l"
| "b_name (TagsB l g) = js l"

fun b_get :: "'d binding \<Rightarrow> 'd \<Rightarrow> ctlValue" where
  "b_get (TextB l g) d = TextValue (g d)"
| "b_get (BoolB l g) d = BoolValue (g d)"
| "b_get (TagsB l g) d = TagsValue (g d)"

text \<open>
  A control that shows a value shows the one of its binding, and what is put into it is got back, leaves
  the other bindings alone, and leaves the control in the form.
\<close>

definition form_labels :: "'a node list \<Rightarrow> jstring list" where
  "form_labels ns = map node_name (filter (\<lambda>n. shown n \<noteq> None) ns)"

lemma form_labels_simps [simp]:
  "form_labels [] = []"
  "form_labels (n # ns) = (if shown n \<noteq> None then node_name n # form_labels ns else form_labels ns)"
  "form_labels (ns @ ms) = form_labels ns @ form_labels ms"
  by (simp_all add: form_labels_def)

definition bound_node :: "'d binding list \<Rightarrow> ('d \<Rightarrow> 'd formNodes) \<Rightarrow> 'd \<Rightarrow> 'd formAct node \<Rightarrow> bool" where
  "bound_node bs form_of d n \<longleftrightarrow>
     (if shown n = None then True
      else list_ex (\<lambda>b. node_name n = b_name b \<and> shown n = Some (b_get b d) \<and>
             (\<forall>x g. entered n x = Some (Change g) \<longrightarrow>
                b_get b (g d) = x \<and> list_all (\<lambda>b'. b_name b' = b_name b \<or> b_get b' (g d) = b_get b' d) bs \<and>
                node_name n \<in> set (form_labels (form_of (g d))))) bs)"

lemma bound_values:
  assumes "list_all (bound_node bs F d) ns" and "distinct (map b_name bs)" and "b \<in> set bs"
  shows "form_values ns (b_name b) = None \<or> form_values ns (b_name b) = Some (b_get b d)"
  using assms(1)
proof (induction ns)
  case (Cons n ns)
  have "shown n = Some (b_get b d)" if "node_name n = b_name b" "shown n \<noteq> None"
  proof -
    from Cons.prems that(2) obtain b' where b': "b' \<in> set bs" "node_name n = b_name b'" "shown n = Some (b_get b' d)"
      by (auto simp: bound_node_def list_ex_iff)
    with that(1) assms(2,3) have "b' = b" by (auto simp: distinct_map inj_on_def)
    with b' show ?thesis by simp
  qed
  with Cons show ?case by auto
qed simp

lemma bound_names:
  assumes "list_all (bound_node bs F d) ns" and "form_values ns l = Some v"
  shows "\<exists>b \<in> set bs. l = b_name b"
  using assms
  by (induction ns) (auto simp: bound_node_def list_ex_iff split: if_splits)

lemma present_value: "l \<in> set (form_labels ns) \<Longrightarrow> form_values ns l \<noteq> None"
  by (induction ns) (auto split: if_splits)

lemma entered_shown: "entered n x = Some a \<Longrightarrow> shown n \<noteq> None"
  by (induction n x rule: entered.induct) auto

locale bound_form =
  fixes form_of :: "'d \<Rightarrow> 'd formNodes" and bs :: "'d binding list"
  assumes names: "distinct (map b_name bs)"
    and bound: "list_all (bound_node bs form_of d) (form_of d)"
begin

theorem form_controlled: "controlled form_of d"
  unfolding controlled_def
proof (intro ballI allI impI conjI)
  fix n x g
  assume n: "n \<in> set (form_of d)" "entered n x = Some (Change g)"
  with bound [of d] have "bound_node bs form_of d n" by (simp add: list_all_iff)
  with n(2) entered_shown [OF n(2)] obtain b where b: "b \<in> set bs" "node_name n = b_name b" "b_get b (g d) = x"
      "\<forall>b' \<in> set bs. b_name b' = b_name b \<or> b_get b' (g d) = b_get b' d"
      "node_name n \<in> set (form_labels (form_of (g d)))"
    unfolding bound_node_def list_all_iff by (auto simp: list_ex_iff [of _ bs])
  with present_value [OF b(5)] show "form_values (form_of (g d)) (node_name n) = Some x"
    using bound_values [OF bound names b(1), of "g d"] by auto
  fix l v v'
  assume l: "l \<noteq> node_name n" "form_values (form_of d) l = Some v" "form_values (form_of (g d)) l = Some v'"
  from bound_names [OF bound l(2)] obtain b' where b': "b' \<in> set bs" "l = b_name b'" by blast
  with l bound_values [OF bound names b'(1), of d] bound_values [OF bound names b'(1), of "g d"] b(2,4)
  show "v' = v" by auto
qed

end

section \<open>404 hosts\<close>

definition DEAD_DETAILS_TOGGLES :: "(toggleKey \<times> string \<times> string) list" where
  "DEAD_DETAILS_TOGGLES =
     [(Crowdsec_enabled, ''CrowdSec protection'',
       ''Refuse IPs CrowdSec has banned (and inspect requests with the AppSec WAF). While CrowdSec is unreachable this host refuses traffic.'')]"

definition on_dead :: "(deadForm \<Rightarrow> deadForm) \<Rightarrow> deadDialog formAct" where
  "on_dead g = Change (\<lambda>d. d\<lparr>dd_form := g (dd_form d)\<rparr>)"

definition dead_panel :: "certificate list \<Rightarrow> bool \<Rightarrow> deadDialog \<Rightarrow> deadDialog formNodes" where
  "dead_panel certs saving d =
     (case dd_tab d of
        DetailsTab \<Rightarrow>
          TagsN (js ''Domain names'') (df_domains (dd_form d)) saving (\<lambda>ds. on_dead (\<lambda>p. p\<lparr>df_domains := ds\<rparr>)) #
          toggleRow ''Enabled'' ''Disabled hosts are excluded from the nginx config'' (df_enabled (dd_form d))
            (\<lambda>v. on_dead (\<lambda>p. p\<lparr>df_enabled := v\<rparr>)) saving @
          toggleGrid DEAD_DETAILS_TOGGLES (df_toggles (dd_form d)) saving (\<lambda>k v. Change (setDeadToggle k v))
      | SslTab \<Rightarrow>
          certificateSelect (df_certificateId (dd_form d)) (\<lambda>v. on_dead (\<lambda>p. p\<lparr>df_certificateId := v\<rparr>)) certs saving
            ''None (HTTP only)'' @
          toggleGrid TLS_TOGGLES (df_toggles (dd_form d))
            (saving \<or> certificateIdFromValue (df_certificateId (dd_form d)) = None) (\<lambda>k v. Change (setDeadToggle k v)))"

definition dead_dialog_nodes ::
  "certificate list \<Rightarrow> bool \<Rightarrow> jstring option \<Rightarrow> deadDialog \<Rightarrow> deadDialog formNodes" where
  "dead_dialog_nodes certs saving err d =
     [TextN (js (if dd_host d \<noteq> None then ''Edit 404 host'' else ''New 404 host'')),
      TextN (js ''Answer for a set of domains and return a 404 for every request.''),
      ButtonN (js ''Details'') False (Change (\<lambda>d. d\<lparr>dd_tab := DetailsTab\<rparr>)),
      ButtonN (js ''SSL'') False (Change (\<lambda>d. d\<lparr>dd_tab := SslTab\<rparr>))] @
     dead_panel certs saving d @ dialog_alert err @ dialog_footer saving (dd_host d \<noteq> None) ''Create host''"

definition dead_bindings :: "deadDialog binding list" where
  "dead_bindings =
     [TagsB ''Domain names'' (\<lambda>d. df_domains (dd_form d)), BoolB ''Enabled'' (\<lambda>d. df_enabled (dd_form d)),
      BoolB ''CrowdSec protection'' (\<lambda>d. df_toggles (dd_form d) Crowdsec_enabled),
      TextB ''SSL certificate'' (\<lambda>d. df_certificateId (dd_form d)),
      BoolB ''Force SSL'' (\<lambda>d. df_toggles (dd_form d) Ssl_forced),
      BoolB ''HTTP/2'' (\<lambda>d. df_toggles (dd_form d) Http2_support),
      BoolB ''HSTS'' (\<lambda>d. df_toggles (dd_form d) Hsts_enabled),
      BoolB ''HSTS subdomains'' (\<lambda>d. df_toggles (dd_form d) Hsts_subdomains)]"

lemmas form_parts =
  toggleRow_def toggleGrid_def certificateSelect_def searchableSelect_def Let_def TLS_TOGGLES_def dialog_footer_def

text \<open>What a change can be read off from what was entered.\<close>

lemma entered_change:
  "entered (SwitchN l c dis f) x = Some (Change g) \<longleftrightarrow> (\<exists>b. x = BoolValue b \<and> \<not> dis \<and> b \<noteq> c \<and> f b = Change g)"
  "entered (FieldN l v dis h) x = Some (Change g) \<longleftrightarrow> (\<exists>t. x = TextValue t \<and> \<not> dis \<and> h t = Change g)"
  "entered (PickerN l xs v off dis h) x = Some (Change g) \<longleftrightarrow>
     (\<exists>t. x = TextValue t \<and> \<not> dis \<and> t \<in> fst ` set xs \<and> t \<notin> set off \<and> h t = Change g)"
  "entered (TagsN l ts dis k) x = Some (Change g) \<longleftrightarrow> (\<exists>us. x = TagsValue us \<and> \<not> dis \<and> k us = Change g)"
  by (cases x; auto)+

definition TLS_LABELS :: "string list" where
  "TLS_LABELS = [''SSL certificate'', ''Force SSL'', ''HTTP/2'', ''HSTS'', ''HSTS subdomains'']"

definition dead_labels :: "hostTab \<Rightarrow> string list" where
  "dead_labels t = (case t of DetailsTab \<Rightarrow> [''Domain names'', ''Enabled'', ''CrowdSec protection''] | SslTab \<Rightarrow> TLS_LABELS)"

lemmas dead_nodes = dead_panel_def DEAD_DETAILS_TOGGLES_def form_parts on_dead_def setDeadToggle_def

lemma dead_form_labels: "form_labels (dead_panel certs saving d) = map js (dead_labels (dd_tab d))"
  by (cases "dd_tab d") (simp_all add: dead_nodes dead_labels_def TLS_LABELS_def)

lemma dead_bound:
  "(\<And>d'. form_labels (F d') = map js (dead_labels (dd_tab d'))) \<Longrightarrow>
   list_all (bound_node dead_bindings F d) (dead_panel certs saving d)"
  by (cases "dd_tab d")
    (auto simp: dead_nodes bound_node_def dead_bindings_def entered_change dead_labels_def TLS_LABELS_def)

interpretation dead_form: bound_form "dead_panel certs saving" dead_bindings
  by (unfold_locales, simp add: dead_bindings_def, rule dead_bound [OF dead_form_labels])

section \<open>Redirection hosts\<close>

definition REDIRECT_SCHEMES :: "redirectScheme list" where
  "REDIRECT_SCHEMES = [AutoScheme, HttpScheme, HttpsScheme]"

primrec SCHEME_LABELS :: "redirectScheme \<Rightarrow> jstring" where
  "SCHEME_LABELS AutoScheme = js ''auto (keep request scheme)''"
| "SCHEME_LABELS HttpScheme = js ''http''"
| "SCHEME_LABELS HttpsScheme = js ''https''"

definition redirect_scheme_of :: "jstring \<Rightarrow> redirectScheme" where
  "redirect_scheme_of v =
     (if v = redirect_scheme_name AutoScheme then AutoScheme
      else if v = redirect_scheme_name HttpScheme then HttpScheme else HttpsScheme)"

definition REDIRECT_HTTP_CODES :: "int list" where
  "REDIRECT_HTTP_CODES = [300, 301, 302, 303, 307, 308]"

definition REDIRECT_CODE_LABELS :: "int \<Rightarrow> jstring" where
  "REDIRECT_CODE_LABELS c =
     (if c = 300 then js ''300 Multiple Choices'' else if c = 301 then js ''301 Moved Permanently''
      else if c = 302 then js ''302 Found (temporary)'' else if c = 303 then js ''303 See Other''
      else if c = 307 then js ''307 Temporary Redirect'' else if c = 308 then js ''308 Permanent Redirect''
      else str_int c)"

definition REDIRECT_DETAILS_TOGGLES :: "(toggleKey \<times> string \<times> string) list" where
  "REDIRECT_DETAILS_TOGGLES =
     [(Block_exploits, ''Block exploits'', ''Block common exploit probes''),
      (Crowdsec_enabled, ''CrowdSec protection'',
       ''Refuse IPs CrowdSec has banned (and inspect requests with the AppSec WAF). While CrowdSec is unreachable this host refuses traffic.'')]"

definition on_redirection :: "(redirectionForm \<Rightarrow> redirectionForm) \<Rightarrow> redirectionDialog formAct" where
  "on_redirection g = Change (\<lambda>d. d\<lparr>rd_form := g (rd_form d)\<rparr>)"

text \<open>The options of the status codes are codes, so that what is picked parses.\<close>

definition redirect_code_node :: "bool \<Rightarrow> redirectionForm \<Rightarrow> redirectionDialog formAct node" where
  "redirect_code_node saving f =
     PickerN (js ''HTTP status code'') (map (\<lambda>c. (str_int c, REDIRECT_CODE_LABELS c)) REDIRECT_HTTP_CODES)
       (str_int (rf_forwardHttpCode f)) [] saving
       (\<lambda>v. on_redirection (\<lambda>p. case parseInt v of Num c \<Rightarrow> p\<lparr>rf_forwardHttpCode := c\<rparr> | NaN \<Rightarrow> p))"

definition redirect_scheme_node :: "bool \<Rightarrow> redirectionForm \<Rightarrow> redirectionDialog formAct node" where
  "redirect_scheme_node saving f =
     PickerN (js ''Forward scheme'') (map (\<lambda>s. (redirect_scheme_name s, SCHEME_LABELS s)) REDIRECT_SCHEMES)
       (redirect_scheme_name (rf_forwardScheme f)) [] saving
       (\<lambda>v. on_redirection (\<lambda>p. p\<lparr>rf_forwardScheme := redirect_scheme_of v\<rparr>))"

definition redirection_panel :: "certificate list \<Rightarrow> bool \<Rightarrow> redirectionDialog \<Rightarrow> redirectionDialog formNodes" where
  "redirection_panel certs saving d =
     (let f = rd_form d
      in case rd_tab d of
           DetailsTab \<Rightarrow>
             [FieldN (js ''Forward domain'') (rf_forwardDomainName f) saving
                (\<lambda>v. on_redirection (\<lambda>p. p\<lparr>rf_forwardDomainName := v\<rparr>)),
              redirect_scheme_node saving f, redirect_code_node saving f] @
             toggleRow ''Preserve path'' ''Append the original request URI to the target'' (rf_preservePath f)
               (\<lambda>v. on_redirection (\<lambda>p. p\<lparr>rf_preservePath := v\<rparr>)) saving @
             toggleGrid REDIRECT_DETAILS_TOGGLES (rf_toggles f) saving (\<lambda>k v. Change (setRedirectionToggle k v)) @
             toggleRow ''Enabled'' ''Disabled hosts are excluded from the nginx config'' (rf_enabled f)
               (\<lambda>v. on_redirection (\<lambda>p. p\<lparr>rf_enabled := v\<rparr>)) saving
         | SslTab \<Rightarrow>
             certificateSelect (rf_certificateId f) (\<lambda>v. on_redirection (\<lambda>p. p\<lparr>rf_certificateId := v\<rparr>)) certs saving
               ''None (HTTP only)'' @
             toggleGrid TLS_TOGGLES (rf_toggles f) (saving \<or> certificateIdFromValue (rf_certificateId f) = None)
               (\<lambda>k v. Change (setRedirectionToggle k v)))"

definition redirection_form_nodes :: "certificate list \<Rightarrow> bool \<Rightarrow> redirectionDialog \<Rightarrow> redirectionDialog formNodes" where
  "redirection_form_nodes certs saving d =
     TagsN (js ''Domain names'') (rf_domains (rd_form d)) saving (\<lambda>ds. on_redirection (\<lambda>p. p\<lparr>rf_domains := ds\<rparr>)) #
     redirection_panel certs saving d"

definition redirection_dialog_nodes ::
  "certificate list \<Rightarrow> bool \<Rightarrow> jstring option \<Rightarrow> redirectionDialog \<Rightarrow> redirectionDialog formNodes" where
  "redirection_dialog_nodes certs saving err d =
     [TextN (js (if rd_host d \<noteq> None then ''Edit redirection host'' else ''New redirection host'')),
      TextN (js ''Answer for a set of domains and redirect them to another domain.''),
      ButtonN (js ''Details'') False (Change (\<lambda>d. d\<lparr>rd_tab := DetailsTab\<rparr>)),
      ButtonN (js ''SSL'') False (Change (\<lambda>d. d\<lparr>rd_tab := SslTab\<rparr>))] @
     redirection_form_nodes certs saving d @ dialog_alert err @ dialog_footer saving (rd_host d \<noteq> None) ''Create host''"

definition redirection_bindings :: "redirectionDialog binding list" where
  "redirection_bindings =
     [TagsB ''Domain names'' (\<lambda>d. rf_domains (rd_form d)), TextB ''Forward domain'' (\<lambda>d. rf_forwardDomainName (rd_form d)),
      TextB ''Forward scheme'' (\<lambda>d. redirect_scheme_name (rf_forwardScheme (rd_form d))),
      TextB ''HTTP status code'' (\<lambda>d. str_int (rf_forwardHttpCode (rd_form d))),
      BoolB ''Preserve path'' (\<lambda>d. rf_preservePath (rd_form d)),
      BoolB ''Block exploits'' (\<lambda>d. rf_toggles (rd_form d) Block_exploits),
      BoolB ''CrowdSec protection'' (\<lambda>d. rf_toggles (rd_form d) Crowdsec_enabled),
      BoolB ''Enabled'' (\<lambda>d. rf_enabled (rd_form d)), TextB ''SSL certificate'' (\<lambda>d. rf_certificateId (rd_form d)),
      BoolB ''Force SSL'' (\<lambda>d. rf_toggles (rd_form d) Ssl_forced),
      BoolB ''HTTP/2'' (\<lambda>d. rf_toggles (rd_form d) Http2_support),
      BoolB ''HSTS'' (\<lambda>d. rf_toggles (rd_form d) Hsts_enabled),
      BoolB ''HSTS subdomains'' (\<lambda>d. rf_toggles (rd_form d) Hsts_subdomains)]"

lemma redirect_scheme_of_name [simp]: "redirect_scheme_of (redirect_scheme_name s) = s"
  by (cases s) (simp_all add: redirect_scheme_of_def js_def)

definition redirection_labels :: "hostTab \<Rightarrow> string list" where
  "redirection_labels t =
     ''Domain names'' #
     (case t of
        DetailsTab \<Rightarrow>
          [''Forward domain'', ''Forward scheme'', ''HTTP status code'', ''Preserve path'', ''Block exploits'',
           ''CrowdSec protection'', ''Enabled'']
      | SslTab \<Rightarrow> TLS_LABELS)"

lemmas redirection_nodes =
  redirection_form_nodes_def redirection_panel_def REDIRECT_DETAILS_TOGGLES_def form_parts on_redirection_def
  redirect_code_node_def redirect_scheme_node_def setRedirectionToggle_def

lemma redirection_form_labels: "form_labels (redirection_form_nodes certs saving d) = map js (redirection_labels (rd_tab d))"
  by (cases "rd_tab d") (simp_all add: redirection_nodes redirection_labels_def TLS_LABELS_def)

lemma redirection_bound:
  "(\<And>d'. form_labels (F d') = map js (redirection_labels (rd_tab d'))) \<Longrightarrow>
   list_all (bound_node redirection_bindings F d) (redirection_form_nodes certs saving d)"
  by (cases "rd_tab d")
    (auto simp: redirection_nodes bound_node_def redirection_bindings_def entered_change redirection_labels_def TLS_LABELS_def)

interpretation redirection_form: bound_form "redirection_form_nodes certs saving" redirection_bindings
  by (unfold_locales, simp add: redirection_bindings_def, rule redirection_bound [OF redirection_form_labels])

section \<open>Streams\<close>

text \<open>The picker of pools lists those that nginx renders for streams; the two radio buttons are one picker.\<close>

definition stream_poolLabel :: "upstream \<Rightarrow> jstring" where
  "stream_poolLabel p = u_name p @ js '' '' @ em_dash @ js '' '' @ count_text (u_backends p) @ js '' backend(s)''"

definition streamPools :: "upstream list \<Rightarrow> upstream list" where
  "streamPools pools = filter (\<lambda>p. u_context p = Some StreamContext \<or> u_context p = Some BothContexts) pools"

definition on_stream :: "(streamForm \<Rightarrow> streamForm) \<Rightarrow> streamDialog formAct" where
  "on_stream g = Change (\<lambda>d. d\<lparr>sd_form := g (sd_form d)\<rparr>)"

definition STREAM_MODES :: "targetMode list" where
  "STREAM_MODES = [HostTarget, PoolTarget]"

definition stream_target_node :: "bool \<Rightarrow> streamForm \<Rightarrow> streamDialog formAct node" where
  "stream_target_node saving f =
     PickerN (js ''Forward to'')
       (map (\<lambda>mode. (target_name (mode_kind mode), LOCATION_KIND_LABELS (mode_kind mode))) STREAM_MODES)
       (target_name (mode_kind (st_targetMode f))) [] saving
       (\<lambda>v. on_stream (\<lambda>p. p\<lparr>st_targetMode := root_mode (kind_of_name v)\<rparr>))"

definition stream_form_nodes :: "certificate list \<Rightarrow> upstream list \<Rightarrow> bool \<Rightarrow> streamDialog \<Rightarrow> streamDialog formNodes" where
  "stream_form_nodes certs pools saving d =
     (let f = sd_form d
      in case sd_tab d of
           DetailsTab \<Rightarrow>
             [FieldN (js ''Incoming port'') (st_incomingPort f) saving (\<lambda>v. on_stream (\<lambda>p. p\<lparr>st_incomingPort := v\<rparr>))] @
             (if st_targetMode f = HostTarget
              then [FieldN (js ''Forward port'') (st_forwardPort f) saving (\<lambda>v. on_stream (\<lambda>p. p\<lparr>st_forwardPort := v\<rparr>))]
              else []) @
             [stream_target_node saving f] @
             (if st_targetMode f = HostTarget
              then [FieldN (js ''Forward host'') (st_forwardHost f) saving (\<lambda>v. on_stream (\<lambda>p. p\<lparr>st_forwardHost := v\<rparr>))]
              else searchableSelect (js ''Upstream pool'')
                     (from_entries (map (\<lambda>p. (str_int (u_id p), stream_poolLabel p)) (streamPools pools)))
                     (st_upstreamId f) (js ''Choose a pool'') [] saving (\<lambda>v. on_stream (\<lambda>p. p\<lparr>st_upstreamId := v\<rparr>))) @
             toggleRow ''TCP'' ''Forward TCP on the incoming port'' (st_tcp f) (\<lambda>v. on_stream (\<lambda>p. p\<lparr>st_tcp := v\<rparr>)) saving @
             toggleRow ''UDP'' ''Forward UDP on the incoming port'' (st_udp f) (\<lambda>v. on_stream (\<lambda>p. p\<lparr>st_udp := v\<rparr>)) saving @
             toggleRow ''Enabled'' ''Disabled streams are excluded from the nginx config'' (st_enabled f)
               (\<lambda>v. on_stream (\<lambda>p. p\<lparr>st_enabled := v\<rparr>)) saving
         | SslTab \<Rightarrow>
             certificateSelect (st_certificateId f) (\<lambda>v. on_stream (\<lambda>p. p\<lparr>st_certificateId := v\<rparr>)) certs saving
               ''None (plain TCP/UDP)'')"

definition stream_dialog_nodes ::
  "certificate list \<Rightarrow> upstream list \<Rightarrow> bool \<Rightarrow> jstring option \<Rightarrow> streamDialog \<Rightarrow> streamDialog formNodes" where
  "stream_dialog_nodes certs pools saving err d =
     [TextN (js (if sd_stream d \<noteq> None then ''Edit stream'' else ''New stream'')),
      TextN (js ''Forward raw TCP and/or UDP traffic from a listening port to a backend.''),
      ButtonN (js ''Details'') False (Change (\<lambda>d. d\<lparr>sd_tab := DetailsTab\<rparr>)),
      ButtonN (js ''SSL'') False (Change (\<lambda>d. d\<lparr>sd_tab := SslTab\<rparr>))] @
     stream_form_nodes certs pools saving d @ dialog_alert err @ dialog_footer saving (sd_stream d \<noteq> None) ''Create stream''"

definition stream_bindings :: "streamDialog binding list" where
  "stream_bindings =
     [TextB ''Incoming port'' (\<lambda>d. st_incomingPort (sd_form d)), TextB ''Forward port'' (\<lambda>d. st_forwardPort (sd_form d)),
      TextB ''Forward to'' (\<lambda>d. target_name (mode_kind (st_targetMode (sd_form d)))),
      TextB ''Forward host'' (\<lambda>d. st_forwardHost (sd_form d)), TextB ''Upstream pool'' (\<lambda>d. st_upstreamId (sd_form d)),
      BoolB ''TCP'' (\<lambda>d. st_tcp (sd_form d)), BoolB ''UDP'' (\<lambda>d. st_udp (sd_form d)),
      BoolB ''Enabled'' (\<lambda>d. st_enabled (sd_form d)), TextB ''SSL certificate'' (\<lambda>d. st_certificateId (sd_form d))]"

lemma root_mode_kind [simp]: "root_mode (mode_kind m) = m"
  by (cases m) simp_all

definition stream_labels :: "streamDialog \<Rightarrow> string list" where
  "stream_labels d =
     (case sd_tab d of
        DetailsTab \<Rightarrow>
          (if st_targetMode (sd_form d) = HostTarget
           then [''Incoming port'', ''Forward port'', ''Forward to'', ''Forward host'', ''TCP'', ''UDP'', ''Enabled'']
           else [''Incoming port'', ''Forward to'', ''Upstream pool'', ''TCP'', ''UDP'', ''Enabled''])
      | SslTab \<Rightarrow> [''SSL certificate''])"

lemmas stream_nodes = stream_form_nodes_def form_parts on_stream_def stream_target_node_def

lemma stream_form_labels: "form_labels (stream_form_nodes certs pools saving d) = map js (stream_labels d)"
  by (cases "sd_tab d") (simp_all add: stream_nodes stream_labels_def)

lemma stream_bound:
  "(\<And>d'. form_labels (F d') = map js (stream_labels d')) \<Longrightarrow>
   list_all (bound_node stream_bindings F d) (stream_form_nodes certs pools saving d)"
  by (cases "sd_tab d"; cases "st_targetMode (sd_form d) = HostTarget")
    (auto simp: stream_nodes bound_node_def stream_bindings_def entered_change stream_labels_def)

interpretation stream_form: bound_form "stream_form_nodes certs pools saving" stream_bindings
  by (unfold_locales, simp add: stream_bindings_def, rule stream_bound [OF stream_form_labels])

section \<open>Proxy hosts\<close>

definition certLabel :: "certificate \<Rightarrow> jstring" where
  "certLabel c =
     (if ct_status c \<noteq> js ''active'' then ct_name c @ js '' '' @ em_dash @ js '' '' @ ct_status c else ct_name c)"

definition FORWARDING_TOGGLES :: "(toggleKey \<times> string \<times> string) list" where
  "FORWARDING_TOGGLES =
     [(Caching_enabled, ''Cache assets'', ''Cache static assets''),
      (Block_exploits, ''Block exploits'', ''Block common exploit probes''),
      (Allow_websocket_upgrade, ''Websockets'', ''Pass Upgrade/Connection headers'')]"

definition SECURITY_TOGGLES :: "(toggleKey \<times> string \<times> string) list" where
  "SECURITY_TOGGLES =
     [(Crowdsec_enabled, ''CrowdSec protection'', ''Enforce CrowdSec bans (and the AppSec WAF) for this host at the edge''),
      (Maintenance_enabled, ''Under maintenance'', ''Serve the maintenance page with a 503 instead of proxying'')]"

definition patch_host :: "(proxyHostFormState \<Rightarrow> proxyHostFormState) \<Rightarrow> proxyHostDialog formAct" where
  "patch_host g = Change (\<lambda>d. d\<lparr>hd_form := g (hd_form d)\<rparr>)"

definition access_list_nodes :: "accessList list \<Rightarrow> bool \<Rightarrow> proxyHostFormState \<Rightarrow> proxyHostDialog formNodes" where
  "access_list_nodes als saving f =
     searchableSelect (js ''Access list'')
       (from_entries ((NO_ACCESS_LIST, js ''None (public)'') # map (\<lambda>l. (str_int (ar_id l), ar_name l)) als))
       (fs_accessListId f) (js ''Choose'' @ [8230]) [] saving (\<lambda>v. patch_host (\<lambda>p. p\<lparr>fs_accessListId := v\<rparr>))"

text \<open>A certificate that is not active is listed but cannot be picked here.\<close>

definition host_certificate_nodes :: "certificate list \<Rightarrow> bool \<Rightarrow> proxyHostFormState \<Rightarrow> proxyHostDialog formNodes" where
  "host_certificate_nodes certs saving f =
     searchableSelect (js ''Certificate'')
       (from_entries ((NO_CERTIFICATE, js ''None (HTTP only)'') # map (\<lambda>c. (str_int (ct_id c), certLabel c)) certs))
       (fs_certificateId f) (js ''Choose'' @ [8230])
       (map (\<lambda>c. str_int (ct_id c)) (filter (\<lambda>c. ct_status c \<noteq> js ''active'') certs)) saving
       (\<lambda>v. patch_host (\<lambda>p. p\<lparr>fs_certificateId := v\<rparr>))"

definition host_panel :: "certificate list \<Rightarrow> bool \<Rightarrow> proxyHostDialog \<Rightarrow> proxyHostDialog formNodes" where
  "host_panel certs saving d =
     (let f = hd_form d
      in case hd_tab d of
           ForwardingTab \<Rightarrow> toggleGrid FORWARDING_TOGGLES (fs_toggles f) saving (\<lambda>k v. Change (setToggle k v))
         | CertificateTab \<Rightarrow>
             host_certificate_nodes certs saving f @
             toggleGrid TLS_TOGGLES (fs_toggles f) (saving \<or> fs_certificateId f = NO_CERTIFICATE) (\<lambda>k v. Change (setToggle k v))
         | AdvancedTab \<Rightarrow>
             toggleGrid SECURITY_TOGGLES (fs_toggles f) saving (\<lambda>k v. Change (setToggle k v)) @
             (if fs_toggles f Maintenance_enabled
              then [FieldN (js ''Allowed while under maintenance'') (hd_allowText d) saving (\<lambda>v. Change (setAllowText v))]
              else []) @
             [FieldN (js ''Advanced nginx config'') (fs_advancedConfig f) saving
                (\<lambda>v. patch_host (\<lambda>p. p\<lparr>fs_advancedConfig := v\<rparr>))])"

definition host_form_nodes ::
  "certificate list \<Rightarrow> accessList list \<Rightarrow> bool \<Rightarrow> proxyHostDialog \<Rightarrow> proxyHostDialog formNodes" where
  "host_form_nodes certs als saving d =
     [TagsN (js ''Domain names'') (fs_domains (hd_form d)) saving (\<lambda>ds. patch_host (\<lambda>p. p\<lparr>fs_domains := ds\<rparr>))] @
     access_list_nodes als saving (hd_form d) @
     toggleRow ''Enabled'' ''Disabled hosts are excluded from the nginx config'' (fs_enabled (hd_form d))
       (\<lambda>v. patch_host (\<lambda>p. p\<lparr>fs_enabled := v\<rparr>)) saving @
     host_panel certs saving d"

text \<open>The editor of the routes is at the end of the forwarding tab.\<close>

definition host_dialog_nodes ::
  "bool \<Rightarrow> upstream list \<Rightarrow> pageSummary list \<Rightarrow> certificate list \<Rightarrow> accessList list \<Rightarrow> bool \<Rightarrow> jstring option \<Rightarrow>
   proxyHostDialog \<Rightarrow> proxyHostDialog formNodes" where
  "host_dialog_nodes isMobile pools pages certs als saving err d =
     [TextN (js (if hd_host d \<noteq> None then ''Edit proxy host'' else ''New proxy host'')),
      TextN (js ''Terminate domain names and forward matching traffic to an upstream pool or a single backend.''),
      ButtonN (js ''Forwarding'') False (Change (\<lambda>d. d\<lparr>hd_tab := ForwardingTab\<rparr>)),
      ButtonN (js ''Certificate'') False (Change (\<lambda>d. d\<lparr>hd_tab := CertificateTab\<rparr>)),
      ButtonN (js ''Advanced'') False (Change (\<lambda>d. d\<lparr>hd_tab := AdvancedTab\<rparr>))] @
     host_form_nodes certs als saving d @
     (if hd_tab d = ForwardingTab
      then map (map_node (\<lambda>a. Change (\<lambda>d. edit_step d a))) (locationsEditor isMobile pools pages saving (hd_form d)) else []) @
     dialog_alert err @ dialog_footer saving (hd_host d \<noteq> None) ''Create host''"

definition host_bindings :: "proxyHostDialog binding list" where
  "host_bindings =
     [TagsB ''Domain names'' (\<lambda>d. fs_domains (hd_form d)), TextB ''Access list'' (\<lambda>d. fs_accessListId (hd_form d)),
      BoolB ''Enabled'' (\<lambda>d. fs_enabled (hd_form d)), TextB ''Certificate'' (\<lambda>d. fs_certificateId (hd_form d)),
      BoolB ''Cache assets'' (\<lambda>d. fs_toggles (hd_form d) Caching_enabled),
      BoolB ''Block exploits'' (\<lambda>d. fs_toggles (hd_form d) Block_exploits),
      BoolB ''Websockets'' (\<lambda>d. fs_toggles (hd_form d) Allow_websocket_upgrade),
      BoolB ''Force SSL'' (\<lambda>d. fs_toggles (hd_form d) Ssl_forced),
      BoolB ''HTTP/2'' (\<lambda>d. fs_toggles (hd_form d) Http2_support),
      BoolB ''HSTS'' (\<lambda>d. fs_toggles (hd_form d) Hsts_enabled),
      BoolB ''HSTS subdomains'' (\<lambda>d. fs_toggles (hd_form d) Hsts_subdomains),
      BoolB ''CrowdSec protection'' (\<lambda>d. fs_toggles (hd_form d) Crowdsec_enabled),
      BoolB ''Under maintenance'' (\<lambda>d. fs_toggles (hd_form d) Maintenance_enabled),
      TextB ''Allowed while under maintenance'' hd_allowText,
      TextB ''Advanced nginx config'' (\<lambda>d. fs_advancedConfig (hd_form d))]"

definition host_labels :: "proxyHostDialog \<Rightarrow> string list" where
  "host_labels d =
     [''Domain names'', ''Access list'', ''Enabled''] @
     (case hd_tab d of
        ForwardingTab \<Rightarrow> [''Cache assets'', ''Block exploits'', ''Websockets'']
      | CertificateTab \<Rightarrow> [''Certificate'', ''Force SSL'', ''HTTP/2'', ''HSTS'', ''HSTS subdomains'']
      | AdvancedTab \<Rightarrow>
          [''CrowdSec protection'', ''Under maintenance''] @
          (if fs_toggles (hd_form d) Maintenance_enabled then [''Allowed while under maintenance''] else []) @
          [''Advanced nginx config''])"

lemmas host_nodes =
  host_panel_def FORWARDING_TOGGLES_def SECURITY_TOGGLES_def form_parts patch_host_def
  access_list_nodes_def host_certificate_nodes_def

lemma host_form_labels: "form_labels (host_form_nodes certs als saving d) = map js (host_labels d)"
  by (cases "hd_tab d") (simp_all add: host_form_nodes_def host_nodes host_labels_def)

lemma host_top_bound:
  "(\<And>d'. form_labels (F d') = map js (host_labels d')) \<Longrightarrow>
   list_all (bound_node host_bindings F d)
     ([TagsN (js ''Domain names'') (fs_domains (hd_form d)) saving (\<lambda>ds. patch_host (\<lambda>p. p\<lparr>fs_domains := ds\<rparr>))] @
      access_list_nodes als saving (hd_form d) @
      toggleRow ''Enabled'' ''Disabled hosts are excluded from the nginx config'' (fs_enabled (hd_form d))
        (\<lambda>v. patch_host (\<lambda>p. p\<lparr>fs_enabled := v\<rparr>)) saving)"
  by (auto simp: host_nodes bound_node_def host_bindings_def entered_change host_labels_def)

lemma host_panel_bound:
  "(\<And>d'. form_labels (F d') = map js (host_labels d')) \<Longrightarrow> list_all (bound_node host_bindings F d) (host_panel certs saving d)"
  by (cases "hd_tab d")
    (auto simp: host_nodes bound_node_def host_bindings_def entered_change host_labels_def setToggle_def setAllowText_def)

interpretation host_form: bound_form "host_form_nodes certs als saving" host_bindings
proof
  show "distinct (map b_name host_bindings)" by (simp add: host_bindings_def js_def)
  show "list_all (bound_node host_bindings (host_form_nodes certs als saving) d) (host_form_nodes certs als saving d)" for d
    using host_top_bound [OF host_form_labels] host_panel_bound [OF host_form_labels]
    unfolding host_form_nodes_def [of certs als saving d] by simp
qed

section \<open>While a save is under way\<close>

lemma saving_panels:
  "acts (dead_panel certs True d) = {}" "acts (redirection_form_nodes certs True r) = {}"
  "acts (stream_form_nodes certs pools True s) = {}" "acts (host_form_nodes certs als True h) = {}"
proof -
  show "acts (dead_panel certs True d) = {}"
    by (cases "dd_tab d") (simp_all add: dead_panel_def DEAD_DETAILS_TOGGLES_def form_parts)
  show "acts (redirection_form_nodes certs True r) = {}"
    by (cases "rd_tab r") (simp_all add: redirection_form_nodes_def redirection_panel_def REDIRECT_DETAILS_TOGGLES_def form_parts
        redirect_code_node_def redirect_scheme_node_def)
  show "acts (stream_form_nodes certs pools True s) = {}"
    by (cases "sd_tab s") (simp_all add: stream_form_nodes_def form_parts stream_target_node_def)
  show "acts (host_form_nodes certs als True h) = {}"
    by (cases "hd_tab h") (simp_all add: host_form_nodes_def host_panel_def FORWARDING_TOGGLES_def SECURITY_TOGGLES_def
        form_parts access_list_nodes_def host_certificate_nodes_def)
qed

lemma acts_map_node: "acts (map (map_node f) ns) = f ` acts ns"
proof -
  have "node_acts (map_node f n) = f ` node_acts n" for n by (cases n) (auto simp: image_image)
  then show ?thesis by (induction ns) (simp_all add: image_Un)
qed


section \<open>The field of domain tags in a dialog\<close>

text \<open>
  The field is above the tabs in the dialogs of proxy and redirection hosts, and in the Details tab of the
  dialog of 404 hosts (\<open>inPanel\<close>). \<open>keepMounted\<close> says whether the tabs keep a hidden panel; where they do not,
  its field is gone with its text and its own flag, and starts anew when the tab is shown again, while
  the domains and the flag that the dialog was told stay with the dialog.
\<close>

record tagsDialog =
  tg_field :: tags_input
  tg_tab :: hostTab

datatype tagsDialogEvent = FieldEvent tagsEvent | ShowTab hostTab

fun tagsDialog_step :: "bool \<Rightarrow> bool \<Rightarrow> tagsDialog \<Rightarrow> tagsDialogEvent \<Rightarrow> tagsDialog" where
  "tagsDialog_step inPanel keepMounted s (FieldEvent e) =
     (if inPanel \<and> tg_tab s \<noteq> DetailsTab then s else s\<lparr>tg_field := tags_step (tg_field s) e\<rparr>)"
| "tagsDialog_step inPanel keepMounted s (ShowTab t) =
     (if inPanel \<and> \<not> keepMounted \<and> tg_tab s = DetailsTab \<and> t \<noteq> DetailsTab
      then s\<lparr>tg_tab := t, tg_field := (tg_field s)\<lparr>ti_pending := [], ti_invalid := False\<rparr>\<rparr>
      else s\<lparr>tg_tab := t\<rparr>)"

definition openTags :: "jstring list \<Rightarrow> tagsDialog" where
  "openTags tags = \<lparr>tg_field = \<lparr>ti_tags = tags, ti_pending = [], ti_invalid = False, ti_reported = False\<rparr>, tg_tab = DetailsTab\<rparr>"

text \<open>The dialog of a 404 host with what its field has told it.\<close>

definition told :: "tagsDialog \<Rightarrow> deadDialog \<Rightarrow> deadDialog" where
  "told s d =
     d\<lparr>dd_form := (dd_form d)\<lparr>df_domains := ti_tags (tg_field s)\<rparr>, dd_tab := tg_tab s,
       dd_domainsInvalid := ti_reported (tg_field s)\<rparr>"

lemma tagsDialog_inv:
  "\<not> inPanel \<or> keepMounted \<Longrightarrow> tags_inv (tg_field s) \<Longrightarrow> tags_inv (tg_field (tagsDialog_step inPanel keepMounted s e))"
  by (cases e) (auto simp: tags_step_inv)

interpretation tags_above: machine "tagsDialog_step False keepMounted" "\<lambda>s. tags_inv (tg_field s)"
  by unfold_locales (simp add: tagsDialog_inv)

interpretation tags_kept: machine "tagsDialog_step inPanel True" "\<lambda>s. tags_inv (tg_field s)"
  by unfold_locales (simp add: tagsDialog_inv)

lemma commit_keeps_report:
  "ti_reported t \<Longrightarrow> \<not> ti_invalid t \<Longrightarrow> \<not> ti_invalid (commit v t) \<Longrightarrow> ti_reported (commit v t)"
  by (auto simp: commit_def Let_def report_def split: prod.splits if_splits)

lemma step_keeps_report:
  "ti_reported t \<Longrightarrow> \<not> ti_invalid t \<Longrightarrow> \<not> ti_invalid (tags_step t e) \<Longrightarrow> ti_reported (tags_step t e)"
  by (cases e)
    (auto simp: onKeyDown_def onPaste_def remove_tag_def onInput_def Let_def report_def commit_keeps_report split: if_splits)

lemma stale_step:
  assumes "ti_reported (tg_field s)" "\<not> ti_invalid (tg_field s)" "\<not> ti_invalid (tg_field (tagsDialog_step inPanel keepMounted s e))"
  shows "ti_reported (tg_field (tagsDialog_step inPanel keepMounted s e))"
  using assms by (cases e) (auto simp: step_keeps_report split: if_splits)

text \<open>No entry is refused on the way: after every event the field shows no error.\<close>

fun no_error :: "bool \<Rightarrow> bool \<Rightarrow> tagsDialog \<Rightarrow> tagsDialogEvent list \<Rightarrow> bool" where
  "no_error inPanel keepMounted s [] = True"
| "no_error inPanel keepMounted s (e # es) =
     (let s' = tagsDialog_step inPanel keepMounted s e in \<not> ti_invalid (tg_field s') \<and> no_error inPanel keepMounted s' es)"

lemma stale_run:
  "ti_reported (tg_field s) \<Longrightarrow> \<not> ti_invalid (tg_field s) \<Longrightarrow> no_error inPanel keepMounted s es \<Longrightarrow>
   ti_reported (tg_field (foldl (tagsDialog_step inPanel keepMounted) s es))"
  by (induction es arbitrary: s) (auto simp: Let_def stale_step)

definition lost_entry :: "tagsDialogEvent list" where
  "lost_entry = [FieldEvent (Input (js ''-x'')), FieldEvent Blur, ShowTab SslTab, ShowTab DetailsTab]"

lemma lost_entry_run:
  "foldl (tagsDialog_step True False) (openTags tags) lost_entry =
     \<lparr>tg_field = \<lparr>ti_tags = tags, ti_pending = [], ti_invalid = False, ti_reported = True\<rparr>, tg_tab = DetailsTab\<rparr>"
proof -
  have "addDomains tags (js ''-x'') = (tags, [js ''-x''])"
    by (simp add: addDomains_eq entries_def split_runs.simps normalizeDomain_def js_def is_sep_def trim_no_ws is_ws_def
        toLowerCase_def lower_unit_def lower_shift_def isValidDomain_def is_label_def is_alnum_def char_class_defs startsWith_def keep_first_def)
  then show ?thesis
    by (simp add: lost_entry_def openTags_def onInput_def commit_def report_def Let_def js_def trim_no_ws is_ws_def)
qed


text \<open>The option "None" of a certificate picker comes after the certificates: keys that are numbers go first.\<close>

lemma none_comes_last:
  assumes "\<forall>c \<in> set certs. 0 \<le> ct_id c \<and> ct_id c < 2 ^ 32 - 1"
  shows "fst (last (object_entries (from_entries ((NO_CERTIFICATE, l) # map (\<lambda>c. (str_int (ct_id c), f c)) certs)))) = NO_CERTIFICATE"
proof -
  let ?es = "from_entries ((NO_CERTIFICATE, l) # map (\<lambda>c. (str_int (ct_id c), f c)) certs)"
  have keys: "fst ` set ?es = insert NO_CERTIFICATE ((\<lambda>c. str_int (ct_id c)) ` set certs)"
    by (metis (no_types, lifting) dom_map_of_conv_image_fst from_entries_map image_image image_insert fst_conv image_cong
        list.simps(15) set_map set_rev)
  have none: "array_index NO_CERTIFICATE = None"
    by (simp add: array_index_def NO_CERTIFICATE_def js_def parseInt_def trimStart_def is_ws_def is_digit_def)
  have num: "array_index k \<noteq> None" if "k \<in> (\<lambda>c. str_int (ct_id c)) ` set certs" for k
    using that assms by (auto simp: array_index_def)
  have rest: "\<forall>e \<in> set (filter (\<lambda>e. array_index (fst e) = None) ?es). fst e = NO_CERTIFICATE"
  proof
    fix e assume e: "e \<in> set (filter (\<lambda>e. array_index (fst e) = None) ?es)"
    then have "fst e \<in> insert NO_CERTIFICATE ((\<lambda>c. str_int (ct_id c)) ` set certs)" using keys by force
    then show "fst e = NO_CERTIFICATE" using e num [of "fst e"] by (simp del: image_iff) blast
  qed
  have "NO_CERTIFICATE \<in> fst ` set ?es" by (rule none_listed)
  then have ne: "filter (\<lambda>e. array_index (fst e) = None) ?es \<noteq> []" using none by (force simp: filter_empty_conv)
  have "fst (last (filter (\<lambda>e. array_index (fst e) = None) ?es)) = NO_CERTIFICATE"
    by (rule bspec [OF rest last_in_set [OF ne]])
  moreover have "last (object_entries ?es) = last (filter (\<lambda>e. array_index (fst e) = None) ?es)"
    unfolding object_entries_def by (rule last_appendR [OF ne])
  ultimately show ?thesis by (simp only:)
qed

end
