(* ===== verification/Row_Dialogs.thy ===== *)
theory Row_Dialogs
  imports Host_Dialogs
begin

text \<open>
  The two dialogs whose forms have rows that can be added and removed: the pool of backends
  (\<^verbatim>\<open>components/upstreams/upstream-dialog.tsx\<close>) and the access list with its users and rules
  (\<^verbatim>\<open>components/access-lists/access-list-dialog.tsx\<close>). What they render and what their controls do; the rows
  of a pool have two layouts. Placeholders of inputs are left out.
\<close>

section \<open>Forms with rows\<close>

text \<open>
  What the lines of a form show, and what a form with rows promises: a value put into a control of a
  line changes what that control shows and nothing else, and the button of a line removes its row.
\<close>

definition row_values :: "('d \<Rightarrow> 'r list) \<Rightarrow> ('d \<Rightarrow> nat \<Rightarrow> 'd formNodes) \<Rightarrow> 'd \<Rightarrow> (jstring \<rightharpoonup> ctlValue) list" where
  "row_values rows_of line d = map (\<lambda>i. form_values (line d i)) [0..<length (rows_of d)]"

definition row_edits ::
  "('d \<Rightarrow> 'r list) \<Rightarrow> ('r list \<Rightarrow> 'd \<Rightarrow> 'd) \<Rightarrow> ('d \<Rightarrow> nat \<Rightarrow> 'd formNodes) \<Rightarrow> 'd \<Rightarrow> bool" where
  "row_edits rows_of put line d \<longleftrightarrow>
     (\<forall>i < length (rows_of d). \<forall>n \<in> set (line d i).
        (\<forall>x g. entered n x = Some (Change g) \<longrightarrow>
           row_values rows_of line (g d) =
             (row_values rows_of line d)[i := (row_values rows_of line d ! i)(node_name n \<mapsto> x)] \<and>
           put [] (g d) = put [] d) \<and>
        (\<forall>l g. n = ButtonN l False (Change g) \<longrightarrow> g d = put (remove_index i (rows_of d)) d))"

locale row_editor =
  fixes rows_of :: "'d \<Rightarrow> 'r list" and put :: "'r list \<Rightarrow> 'd \<Rightarrow> 'd" and line :: "'d \<Rightarrow> nat \<Rightarrow> 'd formNodes"
    and vals :: "'r \<Rightarrow> jstring \<rightharpoonup> ctlValue" and ok :: "'d \<Rightarrow> bool"
  assumes rows_put: "rows_of (put rs d) = rs" and put_put: "put rs (put qs d) = put rs d"
    and line_shows: "i < length (rows_of d) \<Longrightarrow> form_values (line d i) = vals (rows_of d ! i)"
    and edits: "ok d \<Longrightarrow> i < length (rows_of d) \<Longrightarrow> n \<in> set (line d i) \<Longrightarrow> entered n x = Some (Change g) \<Longrightarrow>
      \<exists>r. g d = put ((rows_of d)[i := r]) d \<and> vals r = (vals (rows_of d ! i))(node_name n \<mapsto> x)"
    and removes: "ok d \<Longrightarrow> i < length (rows_of d) \<Longrightarrow> ButtonN l False (Change g) \<in> set (line d i) \<Longrightarrow>
      g d = put (remove_index i (rows_of d)) d"
begin

lemma row_values_vals: "row_values rows_of line d = map vals (rows_of d)"
  unfolding row_values_def using line_shows by (auto intro!: nth_equalityI)

theorem rows_edit: "ok d \<Longrightarrow> row_edits rows_of put line d"
  unfolding row_edits_def
proof (intro allI ballI impI conjI)
  fix i n x g
  assume d: "ok d" and i: "i < length (rows_of d)" and n: "n \<in> set (line d i)"
  {
    assume "entered n x = Some (Change g)"
    from edits [OF d i n this] obtain r where
      r: "g d = put ((rows_of d)[i := r]) d" "vals r = (vals (rows_of d ! i))(node_name n \<mapsto> x)" by blast
    with i show "row_values rows_of line (g d) =
        (row_values rows_of line d)[i := (row_values rows_of line d ! i)(node_name n \<mapsto> x)]"
      by (simp add: row_values_vals rows_put map_update)
    from r show "put [] (g d) = put [] d" by (simp add: put_put)
  }
  fix l
  assume "n = ButtonN l False (Change g)"
  with removes [OF d i] n show "g d = put (remove_index i (rows_of d)) d" by simp
qed

end

section \<open>The dialog of a pool\<close>

primrec CONTEXT_LABELS :: "upstreamContext \<Rightarrow> jstring" where
  "CONTEXT_LABELS HttpContext = js ''HTTP only (proxy hosts)''"
| "CONTEXT_LABELS StreamContext = js ''Streams only (TCP/UDP)''"
| "CONTEXT_LABELS BothContexts = js ''Both''"

definition lb_of_name :: "jstring \<Rightarrow> lbMethod" where
  "lb_of_name v =
     (if v = lb_name Round_robin then Round_robin else if v = lb_name Least_conn then Least_conn
      else if v = lb_name Ip_hash then Ip_hash else if v = lb_name Hash then Hash else Random)"

definition context_of_name :: "jstring \<Rightarrow> upstreamContext" where
  "context_of_name v =
     (if v = context_name HttpContext then HttpContext else if v = context_name StreamContext then StreamContext
      else BothContexts)"

definition POOL_CONTEXTS :: "upstreamContext list" where
  "POOL_CONTEXTS = [HttpContext, StreamContext, BothContexts]"

definition on_pool :: "poolEvent \<Rightarrow> poolForm formAct" where
  "on_pool e = Change (\<lambda>f. pool_step f e)"

definition pool_top :: "bool \<Rightarrow> poolForm \<Rightarrow> poolForm formNodes" where
  "pool_top saving f =
     [FieldN (js ''Name'') (poolForm.pf_name f) saving (\<lambda>v. on_pool (SetName v)),
      PickerN (js ''Load-balancing method'') (map (\<lambda>m. (lb_name m, LB_METHOD_LABELS m)) (methods_for (pf_context f)))
        (lb_name (pf_lbMethod f)) [] saving (\<lambda>v. on_pool (PickMethod (lb_of_name v))),
      PickerN (js ''Context'') (map (\<lambda>c. (context_name c, CONTEXT_LABELS c)) POOL_CONTEXTS)
        (context_name (pf_context f)) [] saving (\<lambda>v. on_pool (ChangeContext (context_of_name v))),
      TextN (js ''Where this pool may be attached. Streams cannot use IP hash.''),
      FieldN (js ''Description'') (pf_description f) saving (\<lambda>v. on_pool (SetDescription v)),
      SwitchN (js ''Enabled'') (pf_enabled f) saving (\<lambda>b. on_pool (SetPoolEnabled b))]"

definition down_switch :: "bool \<Rightarrow> backendRow \<Rightarrow> poolForm formAct node" where
  "down_switch saving r =
     SwitchN (js ''Administratively down'') (br_down r) saving (\<lambda>v. on_pool (UpdateRow (br_key r) (RowDown v)))"

definition backend_input ::
  "bool \<Rightarrow> backendRow \<Rightarrow> string \<Rightarrow> jstring \<Rightarrow> (jstring \<Rightarrow> rowPatch) \<Rightarrow> poolForm formAct node" where
  "backend_input saving r label v patch = FieldN (js label) v saving (\<lambda>x. on_pool (UpdateRow (br_key r) (patch x)))"

definition remove_backend :: "bool \<Rightarrow> backendRow \<Rightarrow> poolForm formAct node" where
  "remove_backend saving r = ButtonN (js ''Remove backend'') saving (on_pool (RemoveRow (br_key r)))"

definition backend_card :: "bool \<Rightarrow> nat \<times> backendRow \<Rightarrow> poolForm formAct rowCard" where
  "backend_card saving ir =
     (case ir of (index, r) \<Rightarrow>
        mkCard [TextN (if trim (br_host r) \<noteq> [] then trim (br_host r) else js ''Backend '' @ str_nat (index + 1))]
          (Some [TextN (js ''Down''), down_switch saving r])
          [(js ''Host'', ElementFact [backend_input saving r ''Backend host'' (br_host r) RowHost]),
           (js ''Port'', ElementFact [backend_input saving r ''Backend port'' (br_port r) RowPort]),
           (js ''Weight'', ElementFact [backend_input saving r ''Weight'' (br_weight r) RowWeight]),
           (js ''Max fails'', ElementFact [backend_input saving r ''Max fails'' (br_max_fails r) RowMaxFails]),
           (js ''Fail timeout (seconds)'',
            ElementFact [backend_input saving r ''Fail timeout (seconds)'' (br_fail_timeout r) RowFailTimeout])]
          (Some [remove_backend saving r]))"

definition backend_head :: "jstring list" where
  "backend_head = map js [''Host'', ''Port'', ''Weight'', ''Max fails'', ''Fail timeout'', ''Down'', '''']"

definition backend_row :: "bool \<Rightarrow> backendRow \<Rightarrow> poolForm formAct tableRow" where
  "backend_row saving r =
     EntryRow None
       [[backend_input saving r ''Backend host'' (br_host r) RowHost],
        [backend_input saving r ''Backend port'' (br_port r) RowPort],
        [backend_input saving r ''Weight'' (br_weight r) RowWeight],
        [backend_input saving r ''Max fails'' (br_max_fails r) RowMaxFails],
        [backend_input saving r ''Fail timeout (seconds)'' (br_fail_timeout r) RowFailTimeout],
        [down_switch saving r], [remove_backend saving r]]"

definition no_backends :: "'a node list" where
  "no_backends = [TextN (js ''No backends yet '' @ em_dash @ js '' add one to route traffic.'')]"

definition pool_rows :: "bool \<Rightarrow> bool \<Rightarrow> poolForm \<Rightarrow> poolForm formAct listBody" where
  "pool_rows isMobile saving f =
     (if isMobile
      then CardsBody (rowCards False (pf_rows f = []) no_backends (map (backend_card saving) (enumerate 0 (pf_rows f))))
      else TableBody
        \<lparr>tv_head = backend_head, tv_body = tableBody_of False 7 7 no_backends (backend_row saving) (pf_rows f)\<rparr>)"

definition pool_dialog_nodes :: "bool \<Rightarrow> bool \<Rightarrow> jstring option \<Rightarrow> poolForm \<Rightarrow> poolForm formNodes" where
  "pool_dialog_nodes isMobile saving err f =
     [TextN (js (if pf_upstream f \<noteq> None then ''Edit upstream pool'' else ''New upstream pool'')),
      TextN (js ''A pool is a load-balanced set of backend servers a proxy host forwards to.'')] @
     pool_top saving f @
     [TextN (js ''Backends''), ButtonN (js ''Add backend'') saving (on_pool AddRow)] @
     body_nodes (pool_rows isMobile saving f) @
     [TextN (js ''Health checks are passive: a backend is taken out of rotation after Max fails failed attempts within the Fail timeout window.'')] @
     dialog_alert err @ dialog_footer saving (pf_upstream f \<noteq> None) ''Create pool''"

text \<open>The controls of a row, and what they show.\<close>

definition pool_line :: "bool \<Rightarrow> poolForm \<Rightarrow> nat \<Rightarrow> poolForm formNodes" where
  "pool_line saving f i = row_nodes (backend_row saving (pf_rows f ! i))"

definition backend_vals :: "backendRow \<Rightarrow> jstring \<rightharpoonup> ctlValue" where
  "backend_vals r =
     [js ''Backend host'' \<mapsto> TextValue (br_host r), js ''Backend port'' \<mapsto> TextValue (br_port r),
      js ''Weight'' \<mapsto> TextValue (br_weight r), js ''Max fails'' \<mapsto> TextValue (br_max_fails r),
      js ''Fail timeout (seconds)'' \<mapsto> TextValue (br_fail_timeout r),
      js ''Administratively down'' \<mapsto> BoolValue (br_down r)]"

lemmas backend_nodes =
  pool_line_def backend_row_def backend_input_def down_switch_def remove_backend_def on_pool_def

lemma backend_layouts:
  "mset (controls (renderCard (backend_card saving (i, r)))) = mset (controls (row_nodes (backend_row saving r)))"
  by (simp add: backend_card_def backend_row_def backend_input_def down_switch_def remove_backend_def page_defs)

lemma backends_layouts:
  "mset (controls (concat (map (renderCard \<circ> backend_card saving) (enumerate n rs)))) =
   mset (controls (concat (map (row_nodes \<circ> backend_row saving) rs)))"
  by (induction rs arbitrary: n) (simp_all add: backend_layouts)

lemma pool_layouts:
  "mset (controls (pool_dialog_nodes True saving err f)) = mset (controls (pool_dialog_nodes False saving err f))"
  using backends_layouts [of saving 0 "pf_rows f"]
  by (simp add: pool_dialog_nodes_def pool_rows_def rowCards_def tableBody_of_def enumerate_eq_zip comp_def)

text \<open>The rows keep distinct keys, and the method shown is one that is offered.\<close>

definition backend_key :: "nat \<Rightarrow> jstring \<Rightarrow> bool" where
  "backend_key seq k \<longleftrightarrow> (\<exists>i. k = js ''existing-'' @ str_int i) \<or> (\<exists>n \<le> seq. k = js ''new-'' @ str_nat n)"

definition pool_ok :: "poolForm \<Rightarrow> bool" where
  "pool_ok f \<longleftrightarrow>
     distinct (map br_key (pf_rows f)) \<and> (\<forall>r \<in> set (pf_rows f). backend_key (pf_rowSeq f) (br_key r)) \<and>
     pf_lbMethod f \<in> set (methods_for (pf_context f))"

lemma new_key: "backend_key seq k \<Longrightarrow> k \<noteq> js ''new-'' @ str_nat (Suc seq)"
  by (auto simp: backend_key_def js_def)

lemma method_offered:
  "pf_lbMethod f \<in> set (methods_for (pf_context f)) \<Longrightarrow>
   pf_lbMethod (changeContext c f) \<in> set (methods_for (pf_context (changeContext c f)))"
  by (cases "pf_lbMethod f"; cases c) (auto simp: changeContext_def methods_for_def LB_METHODS_def Let_def)

lemma pool_step_ok: "pool_ok f \<Longrightarrow> pool_ok (pool_step f e)"
proof (cases e)
  case (ChangeContext c)
  assume "pool_ok f"
  then have "pf_lbMethod (changeContext c f) \<in> set (methods_for (pf_context (changeContext c f)))"
    by (intro method_offered) (simp add: pool_ok_def)
  moreover have "pf_rows (changeContext c f) = pf_rows f" "pf_rowSeq (changeContext c f) = pf_rowSeq f"
    by (simp_all add: changeContext_def Let_def)
  ultimately show ?thesis using \<open>pool_ok f\<close> ChangeContext by (simp add: pool_ok_def)
next
  case (UpdateRow key p)
  have "map br_key (map (\<lambda>r. if br_key r = key then patch_row p r else r) (pf_rows f)) = map br_key (pf_rows f)" by simp
  moreover assume "pool_ok f"
  ultimately show ?thesis using UpdateRow by (auto simp: pool_ok_def simp del: map_map)
next
  case AddRow
  assume "pool_ok f"
  then have "\<forall>r \<in> set (pf_rows f). br_key r \<noteq> js ''new-'' @ str_nat (Suc (pf_rowSeq f))"
    using new_key by (auto simp: pool_ok_def)
  with \<open>pool_ok f\<close> AddRow show ?thesis
    by (auto simp: pool_ok_def add_row_def newRow_def Let_def backend_key_def)
qed (auto simp: pool_ok_def distinct_map_filter)

interpretation pool_rows_form: machine pool_step pool_ok
  by unfold_locales (rule pool_step_ok)

lemma openPool_ok: "(case up of Some u \<Rightarrow> pool_stored u | None \<Rightarrow> True) \<Longrightarrow> pool_ok (openPool up seq)"
  by (cases up)
    (auto simp: pool_ok_def openPool_def pool_stored_def newRow_def Let_def rowFromBackend_def backend_key_def comp_def
      distinct_map inj_on_def methods_for_def LB_METHODS_def)

lemma keyed_update:
  assumes "distinct (map k rows)" and "i < length rows"
  shows "map (\<lambda>r. if k r = k (rows ! i) then h r else r) rows = rows[i := h (rows ! i)]"
proof -
  have "j = i" if "k (rows ! j) = k (rows ! i)" "j < length rows" for j
    using that assms nth_eq_iff_index_eq [OF assms(1), of j i] by simp
  with assms(2) show ?thesis by (intro nth_equalityI) (auto simp: nth_list_update)
qed

lemma keyed_remove:
  assumes "distinct (map k rows)" and "i < length rows"
  shows "filter (\<lambda>r. k r \<noteq> k (rows ! i)) rows = remove_index i rows"
proof -
  define l r ys where "l = take i rows" and "r = drop (Suc i) rows" and "ys = rows ! i"
  have rows: "rows = l @ ys # r" using assms(2) by (simp add: l_def r_def ys_def id_take_nth_drop [symmetric])
  have "distinct (map k (l @ ys # r))" using assms(1) by (simp only: rows [symmetric])
  then have "\<forall>q \<in> set (l @ r). k q \<noteq> k ys" by (auto simp: image_iff)
  then have "filter (\<lambda>r. k r \<noteq> k ys) (l @ ys # r) = l @ r" by (simp add: filter_id_conv)
  with rows have "filter (\<lambda>r. k r \<noteq> k ys) rows = l @ r" by metis
  then show ?thesis by (simp add: remove_index_def l_def r_def ys_def)
qed

lemma backend_vals_patch:
  "backend_vals (patch_row (RowHost v) r) = (backend_vals r)(js ''Backend host'' \<mapsto> TextValue v)"
  "backend_vals (patch_row (RowPort v) r) = (backend_vals r)(js ''Backend port'' \<mapsto> TextValue v)"
  "backend_vals (patch_row (RowWeight v) r) = (backend_vals r)(js ''Weight'' \<mapsto> TextValue v)"
  "backend_vals (patch_row (RowMaxFails v) r) = (backend_vals r)(js ''Max fails'' \<mapsto> TextValue v)"
  "backend_vals (patch_row (RowFailTimeout v) r) = (backend_vals r)(js ''Fail timeout (seconds)'' \<mapsto> TextValue v)"
  "backend_vals (patch_row (RowDown b) r) = (backend_vals r)(js ''Administratively down'' \<mapsto> BoolValue b)"
  by (rule ext, simp add: backend_vals_def)+

lemma backend_edit:
  assumes "n \<in> set (pool_line saving f i)" and "entered n x = Some (Change g)"
  shows "\<exists>p. g = (\<lambda>f'. pool_step f' (UpdateRow (br_key (pf_rows f ! i)) p)) \<and>
             backend_vals (patch_row p (pf_rows f ! i)) = (backend_vals (pf_rows f ! i))(node_name n \<mapsto> x)"
proof -
  let ?r = "pf_rows f ! i"
  have field: "\<exists>v. x = TextValue v \<and> g = (\<lambda>f'. pool_step f' (UpdateRow (br_key ?r) (patch v)))"
    if "n = backend_input saving ?r l u patch" for l u patch
    using assms(2) that by (auto simp: backend_input_def entered_change on_pool_def)
  have switch: "\<exists>b. x = BoolValue b \<and> g = (\<lambda>f'. pool_step f' (UpdateRow (br_key ?r) (RowDown b)))"
    if "n = down_switch saving ?r"
    using assms(2) that by (auto simp: down_switch_def entered_change on_pool_def)
  have input: ?thesis if "n = backend_input saving ?r l u patch"
    "\<And>v. backend_vals (patch_row (patch v) ?r) = (backend_vals ?r)(js l \<mapsto> TextValue v)" for l u patch
    using field [OF that(1)] that(2) by (auto simp: that(1) backend_input_def)
  from assms(1) show ?thesis
    unfolding pool_line_def backend_row_def row_nodes.simps concat.simps append.simps list.set insert_iff empty_iff
  proof (elim disjE FalseE)
    assume n: "n = down_switch saving ?r"
    from switch [OF n] show ?thesis by (auto simp: n down_switch_def backend_vals_patch(6) [symmetric] simp del: patch_row.simps)
  next
    assume "n = remove_backend saving ?r"
    with assms(2) show ?thesis by (simp add: remove_backend_def)
  qed (erule input, rule backend_vals_patch)+
qed

interpretation pool_editor: row_editor pf_rows "\<lambda>rs f. f\<lparr>pf_rows := rs\<rparr>" "pool_line saving" backend_vals pool_ok
  for saving
proof unfold_locales
  fix f :: poolForm and i :: nat
  show "form_values (pool_line saving f i) = backend_vals (pf_rows f ! i)"
    by (rule ext) (simp add: backend_nodes backend_vals_def)
  fix n x g
  assume f: "pool_ok f" "i < length (pf_rows f)"
  then have keys: "distinct (map br_key (pf_rows f))" by (simp add: pool_ok_def)
  show "\<exists>r. g f = f\<lparr>pf_rows := (pf_rows f)[i := r]\<rparr> \<and> backend_vals r = (backend_vals (pf_rows f ! i))(node_name n \<mapsto> x)"
    if "n \<in> set (pool_line saving f i)" "entered n x = Some (Change g)"
    using backend_edit [OF that] keyed_update [OF keys f(2)] by auto
  show "g f = f\<lparr>pf_rows := remove_index i (pf_rows f)\<rparr>"
    if "ButtonN l False (Change g) \<in> set (pool_line saving f i)" for l
    using that keyed_remove [OF keys f(2)] by (auto simp: backend_nodes)
qed simp_all

text \<open>The fields above the rows: the method falls back when its context no longer has it.\<close>

lemma lb_of_lb_name [simp]: "lb_of_name (lb_name m) = m"
  by (cases m) (simp_all add: lb_of_name_def js_def)

lemma context_of_context_name [simp]: "context_of_name (context_name c) = c"
  by (cases c) (simp_all add: context_of_name_def js_def)

definition top_vals :: "poolForm \<Rightarrow> jstring \<rightharpoonup> ctlValue" where
  "top_vals f =
     [js ''Name'' \<mapsto> TextValue (poolForm.pf_name f), js ''Load-balancing method'' \<mapsto> TextValue (lb_name (pf_lbMethod f)),
      js ''Context'' \<mapsto> TextValue (context_name (pf_context f)), js ''Description'' \<mapsto> TextValue (pf_description f),
      js ''Enabled'' \<mapsto> BoolValue (pf_enabled f)]"

lemma top_shows: "form_values (pool_top saving f) = top_vals f"
  by (rule ext) (simp add: pool_top_def top_vals_def)

lemma top_vals_step:
  "top_vals (pool_step f (SetName v)) = (top_vals f)(js ''Name'' \<mapsto> TextValue v)"
  "m \<in> set (methods_for (pf_context f)) \<Longrightarrow>
     top_vals (pool_step f (PickMethod m)) = (top_vals f)(js ''Load-balancing method'' \<mapsto> TextValue (lb_name m))"
  "top_vals (pool_step f (SetDescription v)) = (top_vals f)(js ''Description'' \<mapsto> TextValue v)"
  "top_vals (pool_step f (SetPoolEnabled b)) = (top_vals f)(js ''Enabled'' \<mapsto> BoolValue b)"
  "top_vals (pool_step f (ChangeContext c)) =
     (if c \<noteq> HttpContext \<and> pf_lbMethod f = Ip_hash
      then (top_vals f)(js ''Context'' \<mapsto> TextValue (context_name c), js ''Load-balancing method'' \<mapsto> TextValue (js ''round_robin''))
      else (top_vals f)(js ''Context'' \<mapsto> TextValue (context_name c)))"
  by (rule ext, simp add: top_vals_def changeContext_def Let_def)+

lemma context_name_http [simp]: "context_name c = js ''http'' \<longleftrightarrow> c = HttpContext"
  by (cases c) simp_all

lemma top_edit:
  assumes "n \<in> set (pool_top saving f)" and "entered n x = Some (Change g)"
  shows "\<exists>e. g = (\<lambda>f'. pool_step f' e) \<and> pf_rows (g f) = pf_rows f \<and>
    top_vals (g f) =
      (if node_name n = js ''Context'' \<and> x \<noteq> TextValue (js ''http'') \<and> pf_lbMethod f = Ip_hash
       then (top_vals f)(node_name n \<mapsto> x, js ''Load-balancing method'' \<mapsto> TextValue (js ''round_robin''))
       else (top_vals f)(node_name n \<mapsto> x))"
proof -
  have rows: "pf_rows (pool_step f (ChangeContext c)) = pf_rows f" "pf_rows (pool_step f (PickMethod m)) = pf_rows f"
    "pf_rows (pool_step f (SetName v)) = pf_rows f" "pf_rows (pool_step f (SetDescription v)) = pf_rows f"
    "pf_rows (pool_step f (SetPoolEnabled b)) = pf_rows f" for c m v b
    by (simp_all add: changeContext_def Let_def)
  from assms(1) show ?thesis
    unfolding pool_top_def list.set insert_iff empty_iff
  proof (elim disjE FalseE)
    assume n: "n = PickerN (js ''Context'') (map (\<lambda>c. (context_name c, CONTEXT_LABELS c)) POOL_CONTEXTS)
        (context_name (pf_context f)) [] saving (\<lambda>v. on_pool (ChangeContext (context_of_name v)))"
    with assms(2) obtain c where "x = TextValue (context_name c)" "g = (\<lambda>f'. pool_step f' (ChangeContext c))"
      by (auto simp: entered_change on_pool_def)
    with n show ?thesis using rows by (auto simp: top_vals_step(5) simp del: pool_step.simps intro: exI [of _ "ChangeContext c"])
  qed (use assms(2) in \<open>auto simp: entered_change on_pool_def top_vals_step rows simp del: pool_step.simps\<close>)
qed

lemma pool_waits: "acts (pool_dialog_nodes m True err f) = {}"
proof -
  have "acts (row_nodes (backend_row True r)) = {}" for r by (simp add: backend_nodes)
  then have "acts (concat (map (row_nodes \<circ> backend_row True) rs)) = {}" for rs by (induction rs) simp_all
  then have "acts (body_nodes (pool_rows False True f)) = {}"
    by (simp add: pool_rows_def tableBody_of_def no_backends_def)
  then have table: "acts (pool_dialog_nodes False True err f) = {}"
    by (simp add: pool_dialog_nodes_def pool_top_def dialog_footer_def dialog_alert_def split: option.split)
  have "set (controls (pool_dialog_nodes True True err f)) = set (controls (pool_dialog_nodes False True err f))"
    using pool_layouts by (rule mset_eq_setD)
  then have "acts (controls (pool_dialog_nodes True True err f)) = acts (controls (pool_dialog_nodes False True err f))"
    by (simp only: acts_def)
  with table show ?thesis by (cases m) (simp_all only: acts_controls)
qed



section \<open>The dialog of an access list\<close>

definition DIRECTIVE_LABELS :: "directive \<Rightarrow> jstring" where
  "DIRECTIVE_LABELS d = (case d of Allow \<Rightarrow> js ''Allow'' | Deny \<Rightarrow> js ''Deny'')"

definition directive_name :: "directive \<Rightarrow> jstring" where
  "directive_name d = (case d of Allow \<Rightarrow> js ''allow'' | Deny \<Rightarrow> js ''deny'')"

definition directive_of_name :: "jstring \<Rightarrow> directive" where
  "directive_of_name v = (if v = directive_name Allow then Allow else Deny)"

definition ACCESS_LIST_DIRECTIVES :: "directive list" where
  "ACCESS_LIST_DIRECTIVES = [Allow, Deny]"

definition openAccessDialog :: "accessList option \<Rightarrow> accessListDialog" where
  "openAccessDialog lst = \<lparr>ad_list = lst, ad_form = stateFromList lst, ad_tab = Details\<rparr>"

definition patch_list :: "(accessListForm \<Rightarrow> accessListForm) \<Rightarrow> accessListDialog formAct" where
  "patch_list changes = Change (\<lambda>d. d\<lparr>ad_form := changes (ad_form d)\<rparr>)"

definition detailsPanel :: "bool \<Rightarrow> accessListDialog \<Rightarrow> accessListDialog formNodes" where
  "detailsPanel disabled d =
     (let form = ad_form d
      in [FieldN (js ''Name'') (al_name form) disabled (\<lambda>v. patch_list (\<lambda>f. f\<lparr>al_name := v\<rparr>)),
          SwitchN (js ''Satisfy Any'') (al_satisfyAny form) disabled (\<lambda>b. patch_list (\<lambda>f. f\<lparr>al_satisfyAny := b\<rparr>)),
          TextN (satisfyDescription (al_satisfyAny form)),
          SwitchN (js ''Pass Auth'') (al_passAuth form) disabled (\<lambda>b. patch_list (\<lambda>f. f\<lparr>al_passAuth := b\<rparr>)),
          TextN (js ''Forward the Authorization header to the upstream instead of stripping it.'')])"

text \<open>The panels of rows build the new rows from those they were rendered with.\<close>

definition user_line :: "bool \<Rightarrow> accessListDialog \<Rightarrow> nat \<Rightarrow> accessListDialog formNodes" where
  "user_line disabled d index =
     (let rows = al_users (ad_form d); row = rows ! index; onChange = (\<lambda>rows. patch_list (\<lambda>f. f\<lparr>al_users := rows\<rparr>))
      in [FieldN (js ''Username'') (au_username row) disabled
            (\<lambda>v. onChange (updateUser index (\<lambda>r. r\<lparr>au_username := v\<rparr>) rows)),
          FieldN (js ''Password'') (au_password row) disabled
            (\<lambda>v. onChange (updateUser index (\<lambda>r. r\<lparr>au_password := v\<rparr>) rows)),
          ButtonN (js ''Remove user '' @ str_nat (index + 1)) disabled (onChange (remove_index index rows))])"

definition authUsersPanel :: "bool \<Rightarrow> accessListDialog \<Rightarrow> accessListDialog formNodes" where
  "authUsersPanel disabled d =
     (let rows = al_users (ad_form d)
      in [TextN (js ''HTTP basic-auth credentials. With no users the basic-auth gate lets everyone through.''),
          TextN (js ''Username''), TextN (js ''Password'')] @
         concat (map (user_line disabled d) [0..<length rows]) @
         [ButtonN (js ''Add user'') disabled (patch_list (\<lambda>f. f\<lparr>al_users := rows @ [blankUserRow]\<rparr>))])"

definition client_line :: "bool \<Rightarrow> accessListDialog \<Rightarrow> nat \<Rightarrow> accessListDialog formNodes" where
  "client_line disabled d index =
     (let rows = al_clients (ad_form d); row = rows ! index; onChange = (\<lambda>rows. patch_list (\<lambda>f. f\<lparr>al_clients := rows\<rparr>))
      in [PickerN (js ''Directive'') (map (\<lambda>x. (directive_name x, DIRECTIVE_LABELS x)) ACCESS_LIST_DIRECTIVES)
            (directive_name (cr_directive row)) [] disabled
            (\<lambda>v. onChange (updateClient index (\<lambda>r. r\<lparr>cr_directive := directive_of_name v\<rparr>) rows)),
          FieldN (js ''Address'') (cr_address row) disabled
            (\<lambda>v. onChange (updateClient index (\<lambda>r. r\<lparr>cr_address := v\<rparr>) rows)),
          ButtonN (js ''Remove rule '' @ str_nat (index + 1)) disabled (onChange (remove_index index rows))])"

definition clientRulesPanel :: "bool \<Rightarrow> accessListDialog \<Rightarrow> accessListDialog formNodes" where
  "clientRulesPanel disabled d =
     (let rows = al_clients (ad_form d)
      in [TextN (js ''Allow/deny rules for an IP, a CIDR range, or '' @ quoted (js ''all'') @
            js ''. With no rules the IP gate lets everyone through.''),
          TextN (js ''Directive''), TextN (js ''Address'')] @
         concat (map (client_line disabled d) [0..<length rows]) @
         [ButtonN (js ''Add rule'') disabled (patch_list (\<lambda>f. f\<lparr>al_clients := rows @ [blankClientRow]\<rparr>))])"

definition access_dialog_nodes :: "bool \<Rightarrow> jstring option \<Rightarrow> accessListDialog \<Rightarrow> accessListDialog formNodes" where
  "access_dialog_nodes saving err d =
     [TextN (js (if ad_list d \<noteq> None then ''Edit access list'' else ''New access list'')),
      TextN (js ''An authorization gate you can attach to one or more proxy hosts. Basic-auth users and IP rules are saved together with the settings.''),
      ButtonN (js ''Details'') False (Change (\<lambda>d. d\<lparr>ad_tab := Details\<rparr>)),
      ButtonN (js ''Authorization'') False (Change (\<lambda>d. d\<lparr>ad_tab := Authorization\<rparr>)),
      ButtonN (js ''Access'') False (Change (\<lambda>d. d\<lparr>ad_tab := Access\<rparr>))] @
     (case ad_tab d of
        Details \<Rightarrow> detailsPanel saving d
      | Authorization \<Rightarrow> authUsersPanel saving d
      | Access \<Rightarrow> clientRulesPanel saving d) @
     dialog_alert err @ dialog_footer saving (ad_list d \<noteq> None) ''Create list''"

text \<open>The dialogs that its controls lead to.\<close>

inductive edited :: "('d \<Rightarrow> 'd formNodes) \<Rightarrow> 'd \<Rightarrow> 'd \<Rightarrow> bool" for view d0 where
  edited_start: "edited view d0 d0"
| edited_step: "edited view d0 d \<Longrightarrow> Change g \<in> acts (view d) \<Longrightarrow> edited view d0 (g d)"

definition user_vals :: "authUserRow \<Rightarrow> jstring \<rightharpoonup> ctlValue" where
  "user_vals r = [js ''Username'' \<mapsto> TextValue (au_username r), js ''Password'' \<mapsto> TextValue (au_password r)]"

definition client_vals :: "clientRow \<Rightarrow> jstring \<rightharpoonup> ctlValue" where
  "client_vals r =
     [js ''Directive'' \<mapsto> TextValue (directive_name (cr_directive r)), js ''Address'' \<mapsto> TextValue (cr_address r)]"

lemma directive_of_directive_name [simp]: "directive_of_name (directive_name d) = d"
  by (cases d) (simp_all add: directive_of_name_def directive_name_def)

lemmas line_defs = user_line_def client_line_def patch_list_def Let_def

interpretation users_editor: row_editor "\<lambda>d. al_users (ad_form d)" "\<lambda>rs d. d\<lparr>ad_form := (ad_form d)\<lparr>al_users := rs\<rparr>\<rparr>"
  "user_line saving" user_vals "\<lambda>d. True" for saving
proof unfold_locales
  fix d i n x g
  assume i: "i < length (al_users (ad_form d))" and n: "n \<in> set (user_line saving d i)" "entered n x = Some (Change g)"
  let ?row = "al_users (ad_form d) ! i"
  have "user_vals (?row\<lparr>au_username := v\<rparr>) = (user_vals ?row)(js ''Username'' \<mapsto> TextValue v)"
    "user_vals (?row\<lparr>au_password := v\<rparr>) = (user_vals ?row)(js ''Password'' \<mapsto> TextValue v)" for v
    by (rule ext, simp add: user_vals_def)+
  then show "\<exists>r. g d = d\<lparr>ad_form := (ad_form d)\<lparr>al_users := (al_users (ad_form d))[i := r]\<rparr>\<rparr> \<and>
      user_vals r = (user_vals ?row)(node_name n \<mapsto> x)"
    using n i by (intro exI [of _ "al_users (ad_form (g d)) ! i"]) (auto simp: line_defs entered_change updateUser_def)
qed (auto simp: line_defs user_vals_def fun_eq_iff)

interpretation clients_editor: row_editor "\<lambda>d. al_clients (ad_form d)" "\<lambda>rs d. d\<lparr>ad_form := (ad_form d)\<lparr>al_clients := rs\<rparr>\<rparr>"
  "client_line saving" client_vals "\<lambda>d. True" for saving
proof unfold_locales
  fix d i n x g
  assume i: "i < length (al_clients (ad_form d))" and n: "n \<in> set (client_line saving d i)" "entered n x = Some (Change g)"
  let ?row = "al_clients (ad_form d) ! i"
  have "client_vals (?row\<lparr>cr_directive := v\<rparr>) = (client_vals ?row)(js ''Directive'' \<mapsto> TextValue (directive_name v))"
    "client_vals (?row\<lparr>cr_address := a\<rparr>) = (client_vals ?row)(js ''Address'' \<mapsto> TextValue a)" for v a
    by (rule ext, simp add: client_vals_def)+
  then show "\<exists>r. g d = d\<lparr>ad_form := (ad_form d)\<lparr>al_clients := (al_clients (ad_form d))[i := r]\<rparr>\<rparr> \<and>
      client_vals r = (client_vals ?row)(node_name n \<mapsto> x)"
    using n i by (intro exI [of _ "al_clients (ad_form (g d)) ! i"]) (auto simp: line_defs entered_change updateClient_def)
qed (auto simp: line_defs client_vals_def fun_eq_iff)

definition details_bindings :: "accessListDialog binding list" where
  "details_bindings =
     [TextB ''Name'' (\<lambda>d. al_name (ad_form d)), BoolB ''Satisfy Any'' (\<lambda>d. al_satisfyAny (ad_form d)),
      BoolB ''Pass Auth'' (\<lambda>d. al_passAuth (ad_form d))]"

interpretation details_form: bound_form "detailsPanel saving" details_bindings for saving
  by unfold_locales
    (auto simp: details_bindings_def detailsPanel_def bound_node_def entered_change patch_list_def Let_def)

text \<open>
  The rows that came from the stored list stay in its order, each at most once, and new rows have no id.
\<close>

definition access_inv :: "accessList option \<Rightarrow> accessListDialog \<Rightarrow> bool" where
  "access_inv lst d \<longleftrightarrow>
     ad_list d = lst \<and>
     subseq (List.map_filter au_id (al_users (ad_form d))) (List.map_filter au_id (al_users (stateFromList lst))) \<and>
     subseq (List.map_filter cr_id (al_clients (ad_form d))) (List.map_filter cr_id (al_clients (stateFromList lst)))"

lemma map_filter_append: "List.map_filter f (xs @ ys) = List.map_filter f xs @ List.map_filter f ys"
  by (simp add: List.map_filter_def)

lemma map_filter_update: "f y = f (xs ! i) \<Longrightarrow> List.map_filter f (xs[i := y]) = List.map_filter f xs"
  by (induction xs arbitrary: i) (auto split: nat.splits option.splits)

lemma map_filter_remove: "subseq (List.map_filter f (remove_index i xs)) (List.map_filter f xs)"
proof -
  have "List.map_filter f xs = List.map_filter f (take i xs) @ List.map_filter f (drop i xs)"
    by (metis append_take_drop_id map_filter_append)
  moreover have "subseq (List.map_filter f (drop (Suc i) xs)) (List.map_filter f (drop i xs))"
    by (cases "i < length xs") (auto simp: Cons_nth_drop_Suc [symmetric] split: option.splits)
  ultimately show ?thesis by (simp add: remove_index_def map_filter_append list_emb_append_mono)
qed

lemma remove_keeps_order: "subseq (List.map_filter f xs) ys \<Longrightarrow> subseq (List.map_filter f (remove_index i xs)) ys"
  using map_filter_remove subseq_order.order_trans by blast

lemma user_rows_ids:
  "List.map_filter au_id (updateUser i (\<lambda>r. r\<lparr>au_username := v\<rparr>) rows) = List.map_filter au_id rows"
  "List.map_filter au_id (updateUser i (\<lambda>r. r\<lparr>au_password := v\<rparr>) rows) = List.map_filter au_id rows"
  "List.map_filter au_id (rows @ [blankUserRow]) = List.map_filter au_id rows"
  by (simp_all add: updateUser_def map_filter_update map_filter_append blankUserRow_def)

lemma client_rows_ids:
  "List.map_filter cr_id (updateClient i (\<lambda>r. r\<lparr>cr_directive := c\<rparr>) rows) = List.map_filter cr_id rows"
  "List.map_filter cr_id (updateClient i (\<lambda>r. r\<lparr>cr_address := v\<rparr>) rows) = List.map_filter cr_id rows"
  "List.map_filter cr_id (rows @ [blankClientRow]) = List.map_filter cr_id rows"
  by (simp_all add: updateClient_def map_filter_update map_filter_append blankClientRow_def)

lemma acts_concat_map: "acts (concat (map h xs)) = (\<Union>x \<in> set xs. acts (h x))"
  by (induction xs) auto

lemma dialog_ends_acts: "Change g \<notin> acts (dialog_alert err)" "Change g \<notin> acts (dialog_footer saving e l)"
  by (auto simp: dialog_alert_def dialog_footer_def split: option.splits if_splits)

lemma access_step_inv:
  assumes "access_inv lst d" and "Change g \<in> acts (access_dialog_nodes saving err d)"
  shows "access_inv lst (g d)"
proof -
  have users: "Change g \<in> acts (authUsersPanel saving d) \<Longrightarrow> access_inv lst (g d)"
    using assms(1)
    by (auto simp: authUsersPanel_def acts_concat_map line_defs access_inv_def user_rows_ids
        intro: remove_keeps_order split: if_splits)
  have clients: "Change g \<in> acts (clientRulesPanel saving d) \<Longrightarrow> access_inv lst (g d)"
    using assms(1)
    by (auto simp: clientRulesPanel_def acts_concat_map line_defs access_inv_def client_rows_ids
        intro: remove_keeps_order split: if_splits)
  have details: "Change g \<in> acts (detailsPanel saving d) \<Longrightarrow> access_inv lst (g d)"
    using assms(1) by (auto simp: detailsPanel_def patch_list_def Let_def access_inv_def split: if_splits)
  have tabs: "access_inv lst (d\<lparr>ad_tab := t\<rparr>)" for t using assms(1) by (simp add: access_inv_def)
  show ?thesis
    using assms(2) users clients details
    by (cases "ad_tab d") (auto simp: access_dialog_nodes_def dialog_ends_acts tabs)
qed

lemma edited_access: "edited (access_dialog_nodes saving err) (openAccessDialog lst) d \<Longrightarrow> access_inv lst d"
proof (induction rule: edited.induct)
  case edited_start
  show ?case by (simp add: access_inv_def openAccessDialog_def)
qed (rule access_step_inv)

lemma access_waits: "acts (access_dialog_nodes True err d) = range (\<lambda>t. Change (\<lambda>d. d\<lparr>ad_tab := t\<rparr>))"
proof -
  have "range h = {h Details, h Authorization, h Access}" for h :: "accessListTab \<Rightarrow> accessListDialog formAct"
    by (auto simp: image_iff) (metis accessListTab.exhaust)
  moreover have "acts (dialog_alert err) = {}" by (simp add: dialog_alert_def split: option.split)
  ultimately show ?thesis
    by (cases "ad_tab d")
      (auto simp: access_dialog_nodes_def detailsPanel_def authUsersPanel_def clientRulesPanel_def acts_concat_map line_defs
        dialog_footer_def)
qed


text \<open>A stored list is opened, a user is added on the second tab.\<close>

definition demo_access :: "accessList option" where
  "demo_access =
     Some \<lparr>ar_id = 4, ar_name = js ''office'', ar_satisfy_any = None, ar_pass_auth = None, ar_auth_users = Some [(1, js ''alice'')],
       ar_client_rules = None\<rparr>"


end
