(* ===== verification/Shell.thy ===== *)
theory Shell
  imports Effects Dialog_Flow
begin

text \<open>
  Parts around the pages: the banner about a configuration that nginx refuses
  (\<^verbatim>\<open>components/nginx-status\<close>), the notice about a newer build (\<^verbatim>\<open>components/update-notice.tsx\<close>), the loads
  of the dashboard (\<^verbatim>\<open>components/dashboard/dashboard-view.tsx\<close>) and the texts of the audit log
  (\<^verbatim>\<open>components/audit-log/lib.ts\<close>).
\<close>

section \<open>The object nginx complains about\<close>

record culprit =
  cu_label :: jstring
  cu_href :: jstring

definition CULPRIT_KINDS :: "(string \<times> string \<times> string) list" where
  "CULPRIT_KINDS =
     [(''proxy'', ''Proxy host #'', ''/proxy-hosts''), (''redirect'', ''Redirection host #'', ''/redirection-hosts''),
      (''dead'', ''404 host #'', ''/dead-hosts''), (''upstream'', ''Upstream pool #'', ''/upstreams''),
      (''stream'', ''Stream #'', ''/streams''),
      (''default-tls'', ''The default TLS site for certificate #'', ''/certificates'')]"

text \<open>One alternative of the pattern at a position: the name, digits, and the suffix after them.\<close>

definition match_kind :: "string \<Rightarrow> jstring \<Rightarrow> jstring option" where
  "match_kind k s =
     (let pre = js ''megoopm-'' @ js k @ js ''-''; r = drop (length pre) s; ds = takeWhile is_digit r
      in if startsWith s pre \<and> ds \<noteq> [] \<and> startsWith (dropWhile is_digit r) (js ''.conf'') then Some ds else None)"

fun match_kinds :: "(string \<times> string \<times> string) list \<Rightarrow> jstring \<Rightarrow> culprit option" where
  "match_kinds [] s = None"
| "match_kinds ((k, label, href) # ks) s =
     (case match_kind k s of
        Some ds \<Rightarrow> Some \<lparr>cu_label = js label @ ds, cu_href = js href\<rparr>
      | None \<Rightarrow> match_kinds ks s)"

fun culpritOf :: "jstring \<Rightarrow> culprit option" where
  "culpritOf [] = match_kinds CULPRIT_KINDS []"
| "culpritOf (c # s) =
     (case match_kinds CULPRIT_KINDS (c # s) of Some x \<Rightarrow> Some x | None \<Rightarrow> culpritOf s)"

section \<open>The banner\<close>

record nginxStatus =
  ns_ok :: "bool option"
  ns_output :: "jstring option"

text \<open>A load that failed keeps what is shown.\<close>

definition statusLoaded :: "nginxStatus option \<Rightarrow> thrown + nginxStatus \<Rightarrow> nginxStatus option" where
  "statusLoaded s r = (case r of Inr st \<Rightarrow> Some st | Inl e \<Rightarrow> s)"

definition event_reloads :: "jstring \<Rightarrow> bool" where
  "event_reloads kind = startsWith kind (js ''config.'')"

definition nginx_banner :: "bool \<Rightarrow> nginxStatus option \<Rightarrow> (jstring \<times> culprit option) option" where
  "nginx_banner isAdmin s =
     (case s of
        None \<Rightarrow> None
      | Some st \<Rightarrow>
          if \<not> isAdmin \<or> ns_ok st \<noteq> Some False then None
          else let output = (case ns_output st of Some t \<Rightarrow> t | None \<Rightarrow> []) in Some (output, culpritOf output))"

definition retryApply :: "'w api_env \<Rightarrow> toast list \<Rightarrow> 'w \<Rightarrow> toast list \<times> 'w" where
  "retryApply env toasts w =
     (case run_endpoint env (nginx NginxReload) w of
        (Inr v, w') \<Rightarrow> (toasts @ [ToastSuccess (js ''Apply requested'')], w')
      | (Inl e, w') \<Rightarrow> (toasts @ [ToastError (de_message (describeError e))], w'))"

section \<open>The notice about a newer build\<close>

definition CHECK_EVERY_MS :: int where "CHECK_EVERY_MS = 5 * 60000"

definition CONFIRM_AFTER_MS :: int where "CONFIRM_AFTER_MS = 30000"

text \<open>\<open>un_log\<close> lists the answers that told a build, for the properties; the code does not keep it.\<close>

record updateNotice =
  un_offered :: "jstring option"
  un_declined :: "jstring option"
  un_seen :: "jstring option"
  un_confirm :: bool
  un_log :: "jval list"

definition openNotice :: updateNotice where
  "openNotice = \<lparr>un_offered = None, un_declined = None, un_seen = None, un_confirm = False, un_log = []\<rparr>"

definition newer_build :: "jstring \<Rightarrow> jval \<Rightarrow> jstring option" where
  "newer_build own i = (case i of Str s \<Rightarrow> if s = [] \<or> s = own then None else Some s | _ \<Rightarrow> None)"

text \<open>The answer of a check: \<open>None\<close> is a server that is down or refuses.\<close>

definition checked :: "jstring \<Rightarrow> jval option \<Rightarrow> updateNotice \<Rightarrow> updateNotice" where
  "checked own answer s =
     (case answer of
        None \<Rightarrow> s
      | Some i \<Rightarrow>
          (let s1 = s\<lparr>un_log := un_log s @ [i]\<rparr>
           in case newer_build own i of
                None \<Rightarrow> s1\<lparr>un_seen := None\<rparr>
              | Some b \<Rightarrow>
                  if un_seen s \<noteq> Some b then s1\<lparr>un_seen := Some b, un_confirm := True\<rparr>
                  else if Some b \<noteq> un_declined s then s1\<lparr>un_offered := Some b\<rparr> else s1))"

definition later :: "updateNotice \<Rightarrow> updateNotice" where
  "later s = (case un_offered s of None \<Rightarrow> s | Some b \<Rightarrow> s\<lparr>un_declined := Some b, un_offered := None\<rparr>)"

datatype noticeEvent = Checked "jval option" | Later | ConfirmTimer

primrec notice_step :: "jstring \<Rightarrow> updateNotice \<Rightarrow> noticeEvent \<Rightarrow> updateNotice" where
  "notice_step own s (Checked answer) = checked own answer s"
| "notice_step own s Later = later s"
| "notice_step own s ConfirmTimer = s\<lparr>un_confirm := False\<rparr>"

section \<open>The dashboard\<close>

record ('s, 't, 'v) dashboardView =
  db_summary :: "'s option"
  db_threats :: "'t list"
  db_visitors :: "'v option"
  db_error :: "jstring option"
  db_loading :: bool

definition openDashboard :: "('s, 't, 'v) dashboardView" where
  "openDashboard = \<lparr>db_summary = None, db_threats = [], db_visitors = None, db_error = None, db_loading = True\<rparr>"

definition dashboardLoaded ::
  "thrown + 's \<Rightarrow> thrown + 't list \<Rightarrow> thrown + 'v \<Rightarrow> ('s, 't, 'v) dashboardView \<Rightarrow> ('s, 't, 'v) dashboardView" where
  "dashboardLoaded summary threats visitors s =
     (let s1 = (case summary of
                  Inr x \<Rightarrow> s\<lparr>db_summary := Some x, db_error := None\<rparr>
                | Inl e \<Rightarrow> s\<lparr>db_error := Some (js ''Could not load the dashboard.'')\<rparr>);
          s2 = (case threats of Inr ts \<Rightarrow> s1\<lparr>db_threats := ts\<rparr> | Inl e \<Rightarrow> s1);
          s3 = (case visitors of Inr v \<Rightarrow> s2\<lparr>db_visitors := Some v\<rparr> | Inl e \<Rightarrow> s2)
      in s3\<lparr>db_loading := False\<rparr>)"

section \<open>The texts of the audit log\<close>

definition MAX_SUMMARY :: nat where "MAX_SUMMARY = 120"

datatype tone = Destructive | Positive | Neutral

definition actionTone :: "jstring \<Rightarrow> tone" where
  "actionTone action =
     (if action = js ''delete'' \<or> action = js ''disable'' then Destructive
      else if action = js ''create'' \<or> action = js ''enable'' then Positive
      else Neutral)"

definition describeObject :: "jstring \<Rightarrow> int option \<Rightarrow> jstring" where
  "describeObject objectType objectId =
     (let ws = map (\<lambda>c. if c = 95 then 32 else c) objectType;
          label = toUpperCase (take 1 ws) @ drop 1 ws
      in case objectId of None \<Rightarrow> label | Some i \<Rightarrow> label @ js '' #'' @ str_int i)"

fun renderValue :: "jval \<Rightarrow> jstring" where
  "renderValue Null = js ''none''"
| "renderValue Undef = js ''none''"
| "renderValue (Arr vs) = join (js '', '') (map renderValue vs)"
| "renderValue (Obj kvs) = js ''{'' @ [8230] @ js ''}''"
| "renderValue v = js_String v"

definition renderChange :: "jstring \<times> jval \<Rightarrow> jstring" where
  "renderChange kv =
     fst kv @ js '': '' @
     (case snd kv of
        Arr [a, b] \<Rightarrow> renderValue a @ js '' '' @ [8594] @ js '' '' @ renderValue b
      | v \<Rightarrow> renderValue v)"

definition renderChanges :: "jval object \<Rightarrow> jstring" where
  "renderChanges changes = join (js '', '') (map renderChange (own_order changes))"

definition summary_part :: "jstring \<times> jval \<Rightarrow> jstring" where
  "summary_part kv =
     (case snd kv of
        Obj changes \<Rightarrow> if fst kv = js ''changes'' then renderChanges changes else fst kv @ js '': '' @ renderValue (snd kv)
      | v \<Rightarrow> fst kv @ js '': '' @ renderValue v)"

definition summarise :: "jval object \<Rightarrow> jstring" where
  "summarise meta =
     (let parts = map summary_part (own_order meta)
      in if parts = [] then [8212]
         else let line = join (js '', '') parts
              in if MAX_SUMMARY < length line then take (MAX_SUMMARY - 1) line @ [8230] else line)"

section \<open>Properties\<close>

definition conf_name :: "string \<Rightarrow> jstring \<Rightarrow> jstring" where
  "conf_name k ds = js ''megoopm-'' @ js k @ js ''-'' @ ds @ js ''.conf''"

lemma match_kind_iff:
  "match_kind k s = Some ds \<longleftrightarrow> ds \<noteq> [] \<and> list_all is_digit ds \<and> startsWith s (conf_name k ds)"
proof -
  let ?pre = "js ''megoopm-'' @ js k @ js ''-''"
  have dot: "takeWhile is_digit (js ''.conf'' @ t) = []" for t by (simp add: js_def is_digit_def)
  show ?thesis
  proof (cases "startsWith s ?pre")
    case True
    then obtain r where s: "s = ?pre @ r" by (auto simp: startsWith_prefix prefix_def)
    have d: "drop (length ?pre) s = r" unfolding s by (rule append_eq_conv_conj [THEN iffD1, THEN conjunct2, symmetric]) simp
    have st: "startsWith s (conf_name k ds) \<longleftrightarrow> (\<exists>t. r = ds @ js ''.conf'' @ t)"
      unfolding s by (auto simp: startsWith_prefix prefix_def conf_name_def)
    have "match_kind k s = Some ds \<longleftrightarrow>
        takeWhile is_digit r = ds \<and> ds \<noteq> [] \<and> (\<exists>t. dropWhile is_digit r = js ''.conf'' @ t)"
      using True unfolding match_kind_def Let_def d by (auto simp: startsWith_prefix prefix_def)
    also have "\<dots> \<longleftrightarrow> ds \<noteq> [] \<and> list_all is_digit ds \<and> (\<exists>t. r = ds @ js ''.conf'' @ t)"
    proof
      assume a: "takeWhile is_digit r = ds \<and> ds \<noteq> [] \<and> (\<exists>t. dropWhile is_digit r = js ''.conf'' @ t)"
      then have "r = ds @ dropWhile is_digit r" by (metis takeWhile_dropWhile_id)
      with a show "ds \<noteq> [] \<and> list_all is_digit ds \<and> (\<exists>t. r = ds @ js ''.conf'' @ t)"
        by (metis list_all_iff set_takeWhileD)
    next
      assume a: "ds \<noteq> [] \<and> list_all is_digit ds \<and> (\<exists>t. r = ds @ js ''.conf'' @ t)"
      then obtain t where r: "r = ds @ js ''.conf'' @ t" by blast
      have all: "\<And>x. x \<in> set ds \<Longrightarrow> is_digit x" using a by (simp add: list_all_iff)
      have "takeWhile is_digit r = ds" unfolding r using all by (simp add: takeWhile_append2 dot)
      moreover have "dropWhile is_digit r = js ''.conf'' @ t"
        unfolding r using all by (simp add: dropWhile_append2) (simp add: js_def is_digit_def)
      ultimately show "takeWhile is_digit r = ds \<and> ds \<noteq> [] \<and> (\<exists>t. dropWhile is_digit r = js ''.conf'' @ t)"
        using a by blast
    qed
    finally show ?thesis unfolding st .
  next
    case False
    then have "\<not> startsWith s (conf_name k ds)"
      by (auto simp: startsWith_prefix prefix_def conf_name_def)
    with False show ?thesis by (simp add: match_kind_def Let_def)
  qed
qed

text \<open>A name in the output: where it stands, some kind and number of it are found.\<close>

definition names :: "(string \<times> string \<times> string) list \<Rightarrow> jstring \<Rightarrow> culprit \<Rightarrow> bool" where
  "names ks out x \<longleftrightarrow>
     (\<exists>k label href ds. (k, label, href) \<in> set ks \<and> ds \<noteq> [] \<and> list_all is_digit ds \<and> sublist (conf_name k ds) out \<and>
        x = \<lparr>cu_label = js label @ ds, cu_href = js href\<rparr>)"

definition begins :: "(string \<times> string \<times> string) list \<Rightarrow> jstring \<Rightarrow> culprit \<Rightarrow> bool" where
  "begins ks out x \<longleftrightarrow>
     (\<exists>k label href ds. (k, label, href) \<in> set ks \<and> ds \<noteq> [] \<and> list_all is_digit ds \<and> startsWith out (conf_name k ds) \<and>
        x = \<lparr>cu_label = js label @ ds, cu_href = js href\<rparr>)"

lemma match_kinds_Some: "match_kinds ks s = Some x \<Longrightarrow> begins ks s x"
proof (induction ks s rule: match_kinds.induct)
  case (2 k label href ks s)
  then show ?case
    by (cases "match_kind k s") (auto simp: begins_def match_kind_iff)
qed simp

lemma match_kinds_None: "match_kinds ks s = None \<Longrightarrow> \<not> begins ks s x"
proof (induction ks s rule: match_kinds.induct)
  case (2 k label href ks s)
  then have n: "match_kind k s = None" and "\<not> begins ks s x" by (auto split: option.splits)
  moreover have "\<not> startsWith s (conf_name k ds)" if "ds \<noteq> []" "list_all is_digit ds" for ds
    using n that match_kind_iff [of k s ds] by auto
  ultimately show ?case by (auto simp: begins_def)
qed (simp add: begins_def)

lemma names_Cons: "names ks (c # s) x \<longleftrightarrow> begins ks (c # s) x \<or> names ks s x"
  unfolding names_def begins_def sublist_Cons_right startsWith_prefix by blast

lemma names_Nil: "\<not> names ks [] x"
  by (auto simp: names_def conf_name_def)

lemma culpritOf_correct:
  "(case culpritOf out of Some x \<Rightarrow> names CULPRIT_KINDS out x | None \<Rightarrow> \<forall>x. \<not> names CULPRIT_KINDS out x)"
proof (induction out)
  case Nil
  have "\<not> begins CULPRIT_KINDS [] x" for x
    by (auto simp: begins_def conf_name_def startsWith_prefix)
  then have "match_kinds CULPRIT_KINDS [] = None"
    using match_kinds_Some [of CULPRIT_KINDS "[]"] by (cases "match_kinds CULPRIT_KINDS []") auto
  then show ?case by (simp add: names_Nil)
next
  case (Cons c s)
  then show ?case
    using match_kinds_Some [of CULPRIT_KINDS "c # s"] match_kinds_None [of CULPRIT_KINDS "c # s"]
    by (cases "match_kinds CULPRIT_KINDS (c # s)") (auto simp: names_Cons split: option.splits)
qed

definition notice_inv :: "jstring \<Rightarrow> updateNotice \<Rightarrow> bool" where
  "notice_inv own s \<longleftrightarrow>
     un_seen s = (if un_log s = [] then None else newer_build own (last (un_log s))) \<and>
     (case un_offered s of
        None \<Rightarrow> True
      | Some b \<Rightarrow> b \<noteq> own \<and> b \<noteq> [] \<and> un_declined s \<noteq> Some b \<and> sublist [Str b, Str b] (un_log s))"

lemma newer_build_Some: "newer_build own i = Some b \<longleftrightarrow> i = Str b \<and> b \<noteq> [] \<and> b \<noteq> own"
  by (cases i) (auto simp: newer_build_def)

lemma newer_build_Str [simp]: "newer_build own (Str b) = (if b = [] \<or> b = own then None else Some b)"
  by (simp add: newer_build_def)

lemma sublist_snoc_two: "xs \<noteq> [] \<Longrightarrow> last xs = a \<Longrightarrow> sublist [a, a] (xs @ [a])"
proof -
  assume "xs \<noteq> []" "last xs = a"
  then have "xs @ [a] = butlast xs @ [a, a] @ []" by (metis append_Cons append_Nil append_assoc append_butlast_last_id)
  then show ?thesis unfolding sublist_def by blast
qed

lemma sublist_longer: "sublist xs ys \<Longrightarrow> sublist xs (ys @ zs)"
  by (meson sublist_append_rightI sublist_order.order_trans)

interpretation update_notice: machine "notice_step own" "notice_inv own" for own
proof
  fix s e
  assume inv: "notice_inv own s"
  show "notice_inv own (notice_step own s e)"
  proof (cases e)
    case (Checked answer)
    show ?thesis
    proof (cases answer)
      case (Some i)
      have log: "un_seen s = Some b \<Longrightarrow> un_log s \<noteq> [] \<and> last (un_log s) = Str b" for b
        using inv newer_build_Some [of own "last (un_log s)" b] by (simp add: notice_inv_def split: if_splits)
      show ?thesis
        using inv Checked Some
        by (auto simp: notice_inv_def checked_def Let_def newer_build_Some dest!: log
            intro: sublist_snoc_two sublist_longer split: option.splits)
    qed (use inv Checked in \<open>simp add: checked_def\<close>)
  qed (use inv in \<open>auto simp: notice_inv_def later_def split: option.splits\<close>)
qed

lemma openNotice_inv: "notice_inv own openNotice"
  by (simp add: notice_inv_def openNotice_def)

lemma summarise_length: "length (summarise meta) \<le> 120"
  by (simp add: summarise_def Let_def MAX_SUMMARY_def)

lemma status_last:
  "foldl statusLoaded s rs = (case find (\<lambda>r. \<not> isl r) (rev rs) of Some r \<Rightarrow> Some (projr r) | None \<Rightarrow> s)"
proof (induction rs rule: rev_induct)
  case (snoc r rs)
  then show ?case by (cases r) (simp_all add: statusLoaded_def)
qed simp


end
