(* ===== verification/Dashboard_Cards.thy ===== *)
theory Dashboard_Cards
  imports Layouts Shell Security
begin

text \<open>
  The dashboard as it renders: the short figures (\<^verbatim>\<open>lib/format.ts\<close>, \<^verbatim>\<open>components/ui/count.tsx\<close>), the flags
  (\<^verbatim>\<open>components/ui/country-flag.tsx\<close>), the stat cards, the visitors, the map of origins and the boundary
  around it (\<^verbatim>\<open>components/dashboard\<close>). How the browser writes a local time is a parameter, and so is the
  drawing of the map, which is a library; what is handed to it is modelled.
\<close>

section \<open>Figures\<close>

text \<open>
  \<open>Intl.NumberFormat("en")\<close> for whole numbers: groups of three digits. In compact notation with at most one
  fraction digit, rounded half away from zero, the unit is the smallest at which the rounded number is
  below a thousand; from a quadrillion on there is no larger unit than T.
\<close>

fun group_digits :: "jstring \<Rightarrow> jstring" where
  "group_digits (a # b # c # d # ds) = a # b # c # 44 # group_digits (d # ds)"
| "group_digits ds = ds"

definition sign_text :: "int \<Rightarrow> jstring" where
  "sign_text v = (if v < 0 then [45] else [])"

definition formatExact :: "int \<Rightarrow> jstring" where
  "formatExact v = sign_text v @ rev (group_digits (rev (str_nat (nat \<bar>v\<bar>))))"

definition tenths :: "nat \<Rightarrow> nat \<Rightarrow> nat" where
  "tenths n u = (20 * n + u) div (2 * u)"

definition compact_unit :: "nat \<Rightarrow> nat \<times> jstring" where
  "compact_unit n =
     (if tenths n (10 ^ 3) < 10000 then (10 ^ 3, js ''K'')
      else if tenths n (10 ^ 6) < 10000 then (10 ^ 6, js ''M'')
      else if tenths n (10 ^ 9) < 10000 then (10 ^ 9, js ''B'') else (10 ^ 12, js ''T''))"

definition tenths_text :: "nat \<Rightarrow> jstring" where
  "tenths_text t = str_nat (t div 10) @ (if t mod 10 = 0 then [] else 46 # str_nat (t mod 10))"

definition formatCount :: "int \<Rightarrow> jstring" where
  "formatCount v =
     (let n = nat \<bar>v\<bar>
      in sign_text v @
         (if n < 1000 then str_nat n
          else (case compact_unit n of (u, letter) \<Rightarrow> tenths_text (tenths n u) @ letter)))"

definition countN :: "int \<Rightarrow> 'a node list" where
  "countN v = (let short = formatCount v in if \<bar>v\<bar> < 1000 then [TextN short] else [TitledN (formatExact v) short])"

definition countryFlag :: "jstring option \<Rightarrow> 'a node list" where
  "countryFlag country =
     (case country of
        Some s \<Rightarrow> if length s \<noteq> 2 then [] else [TitledN (toUpperCase s) (toUpperCase s)]
      | None \<Rightarrow> [])"

text \<open>The groups read back as the number, and the short form is within half of its last digit.\<close>

lemma group_digits_back: "44 \<notin> set ds \<Longrightarrow> filter (\<lambda>c. c \<noteq> 44) (group_digits ds) = ds"
  by (induction ds rule: group_digits.induct) auto

lemma formatExact_back: "filter (\<lambda>c. c \<noteq> 44) (formatExact v) = sign_text v @ str_nat (nat \<bar>v\<bar>)"
proof -
  have "44 \<notin> set (str_nat n)" for n using str_nat_digits [of n] by (auto simp: list_all_iff is_digit_def)
  then have "filter (\<lambda>c. c \<noteq> 44) (rev (group_digits (rev (str_nat n)))) = str_nat n" for n
    by (simp add: rev_filter [symmetric] group_digits_back)
  then show ?thesis by (simp add: formatExact_def sign_text_def)
qed

lemma tenths_near: "0 < u \<Longrightarrow> 2 * (tenths n u * u) \<le> 20 * n + u \<and> 20 * n < 2 * (tenths n u * u) + u"
proof -
  assume "0 < u"
  define q where "q = (20 * n + u) div (2 * u)"
  have "2 * u * q \<le> 20 * n + u" by (simp add: q_def)
  moreover have "20 * n + u < 2 * u * (q + 1)"
    using \<open>0 < u\<close> by (metis q_def add.commute dividend_less_times_div mult_pos_pos plus_1_eq_Suc mult_Suc_right zero_less_numeral)
  moreover have "tenths n u = q" by (simp add: tenths_def q_def)
  ultimately show ?thesis by (simp add: algebra_simps)
qed

lemma tenths_bounds:
  assumes "1000 \<le> n" and "n < 999950 * 10 ^ 9" and "compact_unit n = (u, s)"
  shows "10 \<le> tenths n u \<and> tenths n u < 10000"
  using assms by (auto simp: compact_unit_def tenths_def split: if_splits)

section \<open>The stat cards\<close>

record certificateHealth =
  ch_expiring_soon :: int
  ch_expired :: int
  ch_failed :: int
  ch_total :: int

record configHealth =
  cf_ha_enabled :: bool
  cf_config_version :: int
  cf_nodes_total :: int
  cf_nodes_in_sync :: int
  cf_nodes_stale :: int
  cf_converged :: bool
  cf_last_apply_ok :: "bool option"
  cf_last_apply_at :: "jstring option"

record securitySummary =
  ss_active_decisions :: int
  ss_alerts_24h :: int
  ss_top_scenarios :: "jstring list"

text \<open>The rate is kept as the text of the number.\<close>

record trafficSummary =
  tr_active_connections :: "int option"
  tr_requests_per_second :: "jstring option"
  tr_stale_nodes :: int

record inventoryCounts =
  iv_proxy_hosts_enabled :: int
  iv_proxy_hosts_total :: int
  iv_redirection_hosts :: int
  iv_dead_hosts :: int
  iv_streams :: int

record dashboardSummary =
  sm_certificates :: certificateHealth
  sm_config :: configHealth
  sm_security :: "securitySummary option"
  sm_traffic :: trafficSummary
  sm_inventory :: inventoryCounts

definition statCard :: "string \<Rightarrow> 'a node list \<Rightarrow> 'a node list" where
  "statCard title children = TextN (js title) # children"

definition figure :: "'a node list \<Rightarrow> string \<Rightarrow> 'a node list" where
  "figure v label = v @ [TextN (js label)]"

definition certificatesCard :: "certificateHealth \<Rightarrow> 'a node list" where
  "certificatesCard c =
     (let needsAttention = ch_expiring_soon c + ch_expired c + ch_failed c
      in statCard ''Certificates''
           (if needsAttention = 0
            then [TextN (js ''All healthy '' @ em_dash @ js '' '' @ str_int (ch_total c) @ js '' in total.'')]
            else figure [TextN (str_int (ch_expiring_soon c))] ''expiring in 30 days'' @
                 figure [TextN (str_int (ch_expired c))] ''expired'' @ figure [TextN (str_int (ch_failed c))] ''failed''))"

definition dot_when :: "jstring option \<Rightarrow> jstring" where
  "dot_when x = (case x of Some t \<Rightarrow> if t = [] then [] else js '' '' @ [183] @ js '' '' @ t | None \<Rightarrow> [])"

definition singleNodeConfig :: "(jstring \<Rightarrow> jstring) \<Rightarrow> configHealth \<Rightarrow> 'a node list" where
  "singleNodeConfig toLocaleString config =
     (case cf_last_apply_ok config of
        None \<Rightarrow> [TextN (js ''No config applied yet.'')]
      | Some ok \<Rightarrow>
          (let whn = (case cf_last_apply_at config of Some t \<Rightarrow> if t = [] then None else Some (toLocaleString t) | None \<Rightarrow> None)
           in if \<not> ok
              then [TextN (js ''Last apply failed''), TextN (js ''nginx kept the previous config'' @ dot_when whn)]
              else [TextN (js ''Applied''), TextN (js ''nginx is running the current config'' @ dot_when whn)]))"

definition configHealthCard :: "(jstring \<Rightarrow> jstring) \<Rightarrow> configHealth \<Rightarrow> 'a node list" where
  "configHealthCard toLocaleString config =
     (if \<not> cf_ha_enabled config then statCard ''nginx config'' (singleNodeConfig toLocaleString config)
      else statCard ''Config health''
        [TextN (str_int (cf_nodes_in_sync config) @ js '' of '' @ str_int (cf_nodes_total config)),
         TextN (js ''nodes on config version '' @ str_int (cf_config_version config)),
         TextN (js (if cf_converged config then ''In sync'' else ''Not converged'') @
           (if 0 < cf_nodes_stale config
            then js '' '' @ [183] @ js '' '' @ str_int (cf_nodes_stale config) @ js '' not seen recently'' else []))])"

definition shortScenario :: "jstring \<Rightarrow> jstring" where
  "shortScenario scenario =
     (if 47 \<notin> set scenario then scenario else rev (takeWhile (\<lambda>c. c \<noteq> 47) (rev scenario)))"

definition securityCard :: "securitySummary option \<Rightarrow> 'a node list" where
  "securityCard security =
     statCard ''Security''
       (case security of
          None \<Rightarrow> [TextN (js ''CrowdSec unavailable '' @ em_dash @ js '' no data to show.'')]
        | Some s \<Rightarrow>
            figure (countN (ss_active_decisions s)) ''active bans'' @ figure (countN (ss_alerts_24h s)) ''recent alerts'' @
            (if ss_top_scenarios s \<noteq> []
             then TextN (js ''Top scenarios'') # map (\<lambda>x. TitledN x (shortScenario x)) (ss_top_scenarios s) else []))"

definition trafficCard :: "trafficSummary \<Rightarrow> 'a node list" where
  "trafficCard traffic =
     statCard ''Live traffic''
       (case tr_active_connections traffic of
          None \<Rightarrow> [TextN (js ''No data yet '' @ em_dash @ js '' waiting for the first sample.'')]
        | Some connections \<Rightarrow>
            figure [TextN (str_int connections)] ''active connections'' @
            figure [TextN (case tr_requests_per_second traffic of Some r \<Rightarrow> r | None \<Rightarrow> js ''0'')] ''req/s (15s avg)'' @
            (if 0 < tr_stale_nodes traffic
             then [TextN (str_int (tr_stale_nodes traffic) @ js '' node'' @ (if tr_stale_nodes traffic = 1 then [] else js ''s'') @
                     js '' not reporting '' @ em_dash @ js '' totals exclude '' @
                     js (if tr_stale_nodes traffic = 1 then ''it'' else ''them'') @ js ''.'')]
             else []))"

definition inventoryCard :: "inventoryCounts \<Rightarrow> 'a node list" where
  "inventoryCard i =
     statCard ''Inventory''
       [TextN (str_int (iv_proxy_hosts_enabled i) @ js '' of '' @ str_int (iv_proxy_hosts_total i)),
        TextN (js ''proxy hosts enabled''),
        TextN (str_int (iv_redirection_hosts i) @ js '' redirects '' @ [183] @ js '' '' @ str_int (iv_dead_hosts i) @
          js '' 404 hosts '' @ [183] @ js '' '' @ str_int (iv_streams i) @ js '' streams'')]"

section \<open>Visitors\<close>

record countryCount =
  cc_country :: jstring
  cc_requests :: int
  cc_visitors :: int

record visitorRow =
  vr_ip :: jstring
  vr_country :: "jstring option"
  vr_requests :: int

record visitorSummary =
  vs_days :: int
  vs_total_visitors :: int
  vs_total_requests :: int
  vs_countries :: "countryCount list"
  vs_top_ips :: "visitorRow list"

definition country_line :: "countryCount \<Rightarrow> 'a node list" where
  "country_line r =
     countryFlag (Some (cc_country r)) @ countN (cc_requests r) @ countN (cc_visitors r) @
     [TextN (js '' visitor'' @ (if cc_visitors r = 1 then [] else js ''s''))]"

definition address_line :: "visitorRow \<Rightarrow> 'a node list" where
  "address_line r =
     TextN (vr_ip r) #
     (case vr_country r of
        Some c \<Rightarrow> if c = [] then [TextN (js ''unknown'')] else countryFlag (Some c)
      | None \<Rightarrow> [TextN (js ''unknown'')]) @ countN (vr_requests r)"

definition visitorsCard :: "visitorSummary \<Rightarrow> 'a node list" where
  "visitorsCard v =
     (let recorded = 0 < vs_total_visitors v;
          window = (if vs_days v = 1 then js ''today'' else js ''the last '' @ str_int (vs_days v) @ js '' days'')
      in [TextN (js ''Visitors''), TextN (js ''Distinct addresses that reached a managed host over '' @ window @ js ''.'')] @
         (if \<not> recorded
          then [TextN (js ''No visitors recorded yet '' @ em_dash @ js '' counting starts after the next flush.'')]
          else figure (countN (vs_total_visitors v)) ''distinct visitors'' @ figure (countN (vs_total_requests v)) ''requests'' @
               (if vs_countries v \<noteq> []
                then TextN (js ''By country'') # concat (map country_line (take 8 (vs_countries v))) else []) @
               (if vs_top_ips v \<noteq> []
                then TextN (js ''Busiest addresses'') # concat (map address_line (take 8 (vs_top_ips v))) else [])))"

section \<open>The map of origins\<close>

datatype layer = TrafficLayer | ThreatsLayer

datatype band = B1 | B2 | B3 | B4 | B5

definition BUCKETS :: "band list" where "BUCKETS = [B1, B2, B3, B4, B5]"

text \<open>
  Whole numbers: for counts below \<open>2 ^ 50\<close> the quotient in floating point has the same floor.
\<close>

definition bucketFor :: "int \<Rightarrow> int \<Rightarrow> band" where
  "bucketFor n busiest =
     (if busiest \<le> 0 then BUCKETS ! 0
      else let index = min (int (length BUCKETS) - 1) (n * int (length BUCKETS) div busiest)
           in BUCKETS ! nat (max 0 index))"

record threatPoint =
  tp_country :: jstring
  tp_count :: int

record origin =
  og_country :: jstring
  og_count :: int

record originMap =
  om_layer :: layer
  om_canDraw :: bool

definition openMap :: originMap where
  "openMap = \<lparr>om_layer = TrafficLayer, om_canDraw = True\<rparr>"

definition active_origins :: "layer \<Rightarrow> countryCount list \<Rightarrow> threatPoint list \<Rightarrow> origin list" where
  "active_origins l traffic threats =
     (case l of
        TrafficLayer \<Rightarrow> map (\<lambda>r. \<lparr>og_country = cc_country r, og_count = cc_requests r\<rparr>) traffic
      | ThreatsLayer \<Rightarrow> map (\<lambda>r. \<lparr>og_country = tp_country r, og_count = tp_count r\<rparr>) threats)"

definition busiest_of :: "origin list \<Rightarrow> int" where
  "busiest_of rows = fold max (map og_count rows) 0"

definition map_values :: "origin list \<Rightarrow> (jstring \<times> band) list" where
  "map_values active =
     (let busiest = busiest_of active
      in from_entries (map (\<lambda>r. (toUpperCase (og_country r), bucketFor (og_count r) busiest)) active))"

text \<open>
  What the map does: a layer is picked; the library that draws fails, where a drawing that was given up
  since does not count. Without a canvas nothing is drawn any more.
\<close>

datatype mapEvent = PickLayer layer | DrawFailed bool

primrec map_step :: "originMap \<Rightarrow> mapEvent \<Rightarrow> originMap" where
  "map_step m (PickLayer l) = m\<lparr>om_layer := l\<rparr>"
| "map_step m (DrawFailed cancelled) = (if cancelled then m else m\<lparr>om_canDraw := False\<rparr>)"

definition drawn :: "originMap \<Rightarrow> countryCount list \<Rightarrow> threatPoint list \<Rightarrow> (layer \<times> (jstring \<times> band) list) option" where
  "drawn m traffic threats =
     (if om_canDraw m then Some (om_layer m, map_values (active_origins (om_layer m) traffic threats)) else None)"

definition layer_name :: "layer \<Rightarrow> jstring" where
  "layer_name l = (case l of TrafficLayer \<Rightarrow> js ''Traffic'' | ThreatsLayer \<Rightarrow> js ''Threats'')"

definition origin_line :: "origin \<Rightarrow> 'a node list" where
  "origin_line r = countryFlag (Some (og_country r)) @ countN (og_count r)"

definition originMapN :: "countryCount list \<Rightarrow> threatPoint list \<Rightarrow> originMap \<Rightarrow> mapEvent node list" where
  "originMapN traffic threats m =
     (let active = active_origins (om_layer m) traffic threats
      in [TextN (js ''Request origins''),
          TextN (case om_layer m of
                   TrafficLayer \<Rightarrow> js ''Every request that reached a managed host.''
                 | ThreatsLayer \<Rightarrow> js ''Where CrowdSec flagged requests came from '' @ em_dash @ js '' only what was flagged.'')] @
         map (\<lambda>option. ButtonN (layer_name option) False (PickLayer option)) [TrafficLayer, ThreatsLayer] @
         (if active = []
          then [TextN (case om_layer m of
                         TrafficLayer \<Rightarrow> js ''Nothing shaded yet '' @ em_dash @ js '' no requests have been counted.''
                       | ThreatsLayer \<Rightarrow> js ''Nothing shaded '' @ em_dash @ js '' CrowdSec has flagged no requests. That means nothing was detected, not that nothing happened.'')]
          else concat (map origin_line active)))"

section \<open>The page\<close>

definition panelBoundary :: "string \<Rightarrow> bool \<Rightarrow> 'a node list \<Rightarrow> 'a node list" where
  "panelBoundary title failed children =
     (if failed
      then [TextN (js title),
            TextN (js ''This panel failed to render. The rest of the dashboard is unaffected; the browser console has the details.'')]
      else children)"

type_synonym dashboardPage = "(dashboardSummary, threatPoint, visitorSummary) dashboardView"

definition summary_cards :: "(jstring \<Rightarrow> jstring) \<Rightarrow> dashboardSummary \<Rightarrow> 'a node list" where
  "summary_cards toLocaleString s =
     certificatesCard (sm_certificates s) @ configHealthCard toLocaleString (sm_config s) @ securityCard (sm_security s) @
     trafficCard (sm_traffic s) @ inventoryCard (sm_inventory s)"

definition dashboard_nodes :: "(jstring \<Rightarrow> jstring) \<Rightarrow> bool \<Rightarrow> originMap \<Rightarrow> dashboardPage \<Rightarrow> mapEvent node list" where
  "dashboard_nodes toLocaleString map_failed m s =
     (if db_loading s then []
      else [TextN (js ''Dashboard''), TextN (js ''Instance health, traffic and attack origins.'')] @
        (case db_error s of Some e \<Rightarrow> [TextN e] | None \<Rightarrow> []) @
        (case db_summary s of Some x \<Rightarrow> summary_cards toLocaleString x | None \<Rightarrow> []) @
        (case db_visitors s of Some v \<Rightarrow> visitorsCard v | None \<Rightarrow> []) @
        panelBoundary ''Request origins'' map_failed
          (originMapN (case db_visitors s of Some v \<Rightarrow> vs_countries v | None \<Rightarrow> []) (db_threats s) m))"

section \<open>What the dashboard shows\<close>

definition last_ok :: "('e + 'a) list \<Rightarrow> 'a option" where
  "last_ok rs = fold (\<lambda>r acc. case r of Inr x \<Rightarrow> Some x | Inl e \<Rightarrow> acc) rs None"

definition load_dashboard ::
  "dashboardPage \<Rightarrow> (thrown + dashboardSummary) \<times> (thrown + threatPoint list) \<times> (thrown + visitorSummary) \<Rightarrow> dashboardPage" where
  "load_dashboard s r = (case r of (a, b, c) \<Rightarrow> dashboardLoaded a b c s)"

lemma last_ok_snoc [simp]: "last_ok [] = None" "last_ok (rs @ [r]) = (case r of Inr x \<Rightarrow> Some x | Inl e \<Rightarrow> last_ok rs)"
  by (simp_all add: last_ok_def split: sum.split)

lemma loads_settled:
  "let d = foldl load_dashboard openDashboard rs
   in db_summary d = last_ok (map fst rs) \<and>
      db_threats d = (case last_ok (map (fst \<circ> snd) rs) of Some ts \<Rightarrow> ts | None \<Rightarrow> []) \<and>
      db_visitors d = last_ok (map (snd \<circ> snd) rs) \<and>
      db_loading d = (rs = []) \<and>
      db_error d = (if rs \<noteq> [] \<and> isl (fst (last rs)) then Some (js ''Could not load the dashboard.'') else None)"
proof (induction rs rule: rev_induct)
  case Nil
  show ?case by (simp add: openDashboard_def)
next
  case (snoc r rs)
  obtain a b c where "r = (a, b, c)" by (cases r)
  with snoc show ?case by (cases a; cases b; cases c) (simp_all add: load_dashboard_def dashboardLoaded_def Let_def)
qed

primrec band_no :: "band \<Rightarrow> nat" where
  "band_no B1 = 0"
| "band_no B2 = 1"
| "band_no B3 = 2"
| "band_no B4 = 3"
| "band_no B5 = 4"

lemma BUCKETS_no: "k < 5 \<Longrightarrow> band_no (BUCKETS ! k) = k"
  by (simp add: BUCKETS_def numeral_eq_Suc less_Suc_eq) auto

lemma bucket_share:
  assumes "0 < b" and "0 \<le> n"
  shows "let k = band_no (bucketFor n b) in int k * b \<le> 5 * n \<and> (k = 4 \<or> 5 * n < (int k + 1) * b)"
proof -
  define q where "q = n * 5 div b"
  have "n * 5 = q * b + n * 5 mod b" by (simp add: q_def)
  moreover have "0 \<le> n * 5 mod b" "n * 5 mod b < b" using assms(1) by simp_all
  moreover have "(q + 1) * b = q * b + b" by (simp add: algebra_simps)
  ultimately have q: "q * b \<le> n * 5" "n * 5 < (q + 1) * b" by linarith+
  have q0: "0 \<le> q" using assms by (simp add: q_def pos_imp_zdiv_nonneg_iff)
  have "band_no (bucketFor n b) = nat (min 4 q)"
    using assms(1) q0 BUCKETS_no [of "nat (min 4 q)"] by (simp add: bucketFor_def q_def [symmetric] BUCKETS_def Let_def)
  moreover have "4 * b \<le> q * b" if "4 < q" using that assms(1) by (intro mult_right_mono) simp_all
  ultimately show ?thesis using q q0 by (cases "q \<le> 4") (auto simp: Let_def min_def)
qed

lemma bucket_top: "0 < b \<Longrightarrow> bucketFor b b = B5"
  by (simp add: bucketFor_def BUCKETS_def Let_def)

lemma fold_max_in: "0 < fold max xs (0 :: int) \<Longrightarrow> fold max xs 0 \<in> set xs"
proof -
  have "fold max xs a = a \<or> fold max xs a \<in> set xs" for a :: int
  proof (induction xs arbitrary: a)
    case (Cons x xs)
    from Cons [of "max x a"] show ?case by (auto simp: max_def split: if_splits)
  qed simp
  from this [of 0] show "0 < fold max xs 0 \<Longrightarrow> fold max xs 0 \<in> set xs" by auto
qed

lemma map_failed_iff: "om_canDraw (foldl map_step m es) \<longleftrightarrow> om_canDraw m \<and> DrawFailed False \<notin> set es"
proof (induction es arbitrary: m)
  case (Cons e es)
  then show ?case by (cases e) auto
qed simp

lemma values_of_distinct:
  assumes "distinct (map (\<lambda>r. toUpperCase (og_country r)) active)" and "r \<in> set active"
  shows "map_of (map_values active) (toUpperCase (og_country r)) = Some (bucketFor (og_count r) (busiest_of active))"
  unfolding map_values_def Let_def from_entries_map
  by (rule map_of_is_SomeI) (use assms in \<open>auto simp: comp_def rev_map [symmetric]\<close>)


end
