(* ===== verification/Security_Charts.thy ===== *)
theory Security_Charts
  imports Dashboard_Cards
begin

text \<open>
  What the security page shows of decisions and alerts: the tiles and the two charts
  (\<^verbatim>\<open>components/security/security-metrics.tsx\<close>) and the details of one row
  (\<^verbatim>\<open>components/security/details-dialog.tsx\<close>). Heights and widths are exact percentages; how the browser
  writes a local time is a parameter.
\<close>

section \<open>Charts\<close>

definition WINDOW_BUCKETS :: nat where "WINDOW_BUCKETS = 12"

definition BUCKET_MS :: int where "BUCKET_MS = 2 * 60 * 60 * 1000"

definition statTile :: "string \<Rightarrow> int \<Rightarrow> 'a node list" where
  "statTile label v = TextN (js label) # countN v"

record bar =
  ba_title :: jstring
  ba_figure :: "int option"
  ba_height :: rat
  ba_minHeight :: nat

text \<open>Nothing in the window, or the label of the picture, its bars and the time of the first.\<close>

datatype chart = NoAlerts | Chart jstring "bar list" jstring

definition chart_max :: "int list \<Rightarrow> int" where
  "chart_max ns = fold max ns 1"

definition bar_of :: "(int \<Rightarrow> jstring) \<Rightarrow> int \<Rightarrow> timeBucket \<Rightarrow> bar" where
  "bar_of bucketLabel mx b =
     \<lparr>ba_title = bucketLabel (tb_startMs b) @ js '' '' @ em_dash @ js '' '' @ str_nat (tb_count b) @ js '' alert'' @
        (if tb_count b = 1 then [] else js ''s''),
      ba_figure = (if 0 < tb_count b then Some (int (tb_count b)) else None),
      ba_height = of_nat (tb_count b) / of_int mx * 100,
      ba_minHeight = (if 0 < tb_count b then 4 else 0)\<rparr>"

definition alertsTimeline :: "date_env \<Rightarrow> (int \<Rightarrow> jstring) \<Rightarrow> alert list \<Rightarrow> int \<Rightarrow> chart" where
  "alertsTimeline de bucketLabel alerts nowMs =
     (let buckets = buildTimeline de alerts nowMs BUCKET_MS WINDOW_BUCKETS;
          mx = chart_max (map (\<lambda>b. int (tb_count b)) buckets);
          total = sum_list (map tb_count buckets)
      in if total = 0 then NoAlerts
         else Chart (str_nat total @ js '' alerts over the last 24 hours'') (map (bar_of bucketLabel mx) buckets)
                (bucketLabel (tb_startMs (buckets ! 0))))"

record offenderBar =
  ob_key :: jstring
  ob_country :: "jstring option"
  ob_width :: rat
  ob_count :: int

definition offenderBars :: "(jstring \<Rightarrow> jstring \<Rightarrow> int) \<Rightarrow> alert list \<Rightarrow> offenderBar list" where
  "offenderBars localeCompare alerts =
     (let offenders = topOffenders localeCompare alerts 5; mx = chart_max (map of_count offenders)
      in map (\<lambda>x. \<lparr>ob_key = of_key x, ob_country = of_country x,
                   ob_width = max (of_int (of_count x) / of_int mx * 100) 4, ob_count = of_count x\<rparr>) offenders)"

text \<open>The totals of the service where they are known, otherwise what the page has; bans among its decisions.\<close>

definition security_tiles ::
  "jstring list \<Rightarrow> alert list \<Rightarrow> int option \<Rightarrow> int option \<Rightarrow> int option \<Rightarrow> 'a node list" where
  "security_tiles decision_types alerts decisionsTotal alertsTotal bansTotal =
     (let decisionCount = (case decisionsTotal of Some n \<Rightarrow> n | None \<Rightarrow> int (length decision_types));
          alertCount = (case alertsTotal of Some n \<Rightarrow> n | None \<Rightarrow> int (length alerts));
          bans = (case bansTotal of Some n \<Rightarrow> n | None \<Rightarrow> int (length (filter (\<lambda>t. t = js ''ban'') decision_types)))
      in statTile ''Active decisions'' decisionCount @ statTile ''Active bans'' bans @ statTile ''Recent alerts'' alertCount)"

section \<open>Details of a decision\<close>

text \<open>A row of details: nothing, and an empty text, are an em dash.\<close>

definition detailRow :: "string \<Rightarrow> 'a factValue \<Rightarrow> 'a node list" where
  "detailRow label v = TextN (js label) # fact_nodes v"

definition opt_fact :: "jstring option \<Rightarrow> 'a factValue" where
  "opt_fact x = (case x of Some s \<Rightarrow> StringFact s | None \<Rightarrow> NullFact)"

definition absolute_time :: "date_env \<Rightarrow> (int \<Rightarrow> jstring) \<Rightarrow> jstring option \<Rightarrow> jstring option" where
  "absolute_time de toLocaleString stamp =
     (case stamp of
        None \<Rightarrow> None
      | Some s \<Rightarrow>
          if s = [] then None
          else Some (case date_parse de s of Some t \<Rightarrow> toLocaleString t | None \<Rightarrow> s))"

definition truthy_text :: "jstring option \<Rightarrow> bool" where
  "truthy_text x \<longleftrightarrow> (case x of Some s \<Rightarrow> s \<noteq> [] | None \<Rightarrow> False)"

record decisionRow = decision +
  dr_type :: jstring
  dr_duration :: jstring
  dr_until :: "jstring option"
  dr_scenario :: "jstring option"
  dr_origin :: "jstring option"
  dr_simulated :: bool
  dr_country :: "jstring option"

definition flag_fact :: "jstring option \<Rightarrow> 'a factValue" where
  "flag_fact c = (if truthy_text c then ElementFact (countryFlag c @ [TextN (the c)]) else NullFact)"

definition decisionDetails :: "date_env \<Rightarrow> (int \<Rightarrow> jstring) \<Rightarrow> decisionRow \<Rightarrow> 'a node list" where
  "decisionDetails de toLocaleString d =
     [TextN (dn_value d), TextN (js ''What the bouncer is enforcing, and why.'')] @
     detailRow ''Decision id'' (opt_fact (map_option str_int (dn_id d))) @
     detailRow ''Remediation'' (StringFact (dr_type d)) @ detailRow ''Scope'' (StringFact (dn_scope d)) @
     detailRow ''Duration'' (StringFact (dr_duration d)) @
     (if truthy_text (dr_until d) then detailRow ''Expires'' (opt_fact (absolute_time de toLocaleString (dr_until d))) else []) @
     detailRow ''Scenario'' (opt_fact (dr_scenario d)) @ detailRow ''Origin'' (opt_fact (dr_origin d)) @
     (if dr_simulated d then detailRow ''Simulated'' (StringFact (js ''Recorded but not enforced'')) else []) @
     detailRow ''Country'' (flag_fact (dr_country d))"

section \<open>Details of an alert\<close>

text \<open>Coordinates are kept as the texts of the numbers; a source that is missing has none of its fields.\<close>

record alertRow = alert +
  aw_id :: "int option"
  aw_scenario :: "jstring option"
  aw_message :: "jstring option"
  aw_as_name :: "jstring option"
  aw_latitude :: "jstring option"
  aw_longitude :: "jstring option"
  aw_stop_at :: "jstring option"
  aw_decisions :: "decisionRow list option"

type_synonym metaPairs = "(jstring \<times> jstring) list"

record inspectedAlert =
  ia_machine_id :: "jstring option"
  ia_uuid :: "jstring option"
  ia_simulated :: bool
  ia_meta :: "metaPairs option"
  ia_events :: "(jstring option \<times> metaPairs option) list option"

record alertDialog =
  av_inspected :: "inspectedAlert option"
  av_error :: "jstring option"

definition openAlertDetails :: alertDialog where
  "openAlertDetails = \<lparr>av_inspected = None, av_error = None\<rparr>"

text \<open>What the dialog asks for, and what an answer does to it; closed, it takes none.\<close>

definition alert_request :: "alertRow \<Rightarrow> endpoint option" where
  "alert_request a = map_option (\<lambda>i. crowdsec (GetAlert i)) (aw_id a)"

definition alertInspected :: "bool \<Rightarrow> thrown + inspectedAlert \<Rightarrow> alertDialog \<Rightarrow> alertDialog" where
  "alertInspected active r s =
     (if \<not> active then s
      else case r of
        Inr full \<Rightarrow> s\<lparr>av_inspected := Some full\<rparr>
      | Inl e \<Rightarrow> s\<lparr>av_error := Some (de_message (describeError e))\<rparr>)"

definition pairTable :: "metaPairs \<Rightarrow> 'a node list" where
  "pairTable pairs = concat (map (\<lambda>(k, v). [TextN k, TextN v]) pairs)"

definition decision_line :: "decisionRow \<Rightarrow> jstring" where
  "decision_line d =
     dr_type d @ js '' '' @ [183] @ js '' '' @ dn_scope d @ js '' '' @ dn_value d @ js '' '' @ [183] @ js '' '' @ dr_duration d"

definition alert_ip :: "alertRow \<Rightarrow> jstring option" where
  "alert_ip a = (case al_source_ip a of Some i \<Rightarrow> Some i | None \<Rightarrow> al_source_value a)"

definition alert_title :: "alertRow \<Rightarrow> jstring" where
  "alert_title a =
     (case alert_ip a of
        Some i \<Rightarrow> i
      | None \<Rightarrow> (case aw_scenario a of Some s \<Rightarrow> s | None \<Rightarrow> js ''Alert''))"

definition source_fact :: "alertRow \<Rightarrow> 'a factValue" where
  "source_fact a =
     (if truthy_text (alert_ip a) then ElementFact (countryFlag (al_source_cn a) @ [TextN (the (alert_ip a))]) else NullFact)"

definition alert_own :: "date_env \<Rightarrow> (int \<Rightarrow> jstring) \<Rightarrow> alertRow \<Rightarrow> 'a node list" where
  "alert_own de toLocaleString a =
     [TextN (alert_title a), TextN (js ''What CrowdSec saw, and what it did about it.'')] @
     detailRow ''Alert id'' (opt_fact (map_option str_int (aw_id a))) @ detailRow ''Scenario'' (opt_fact (aw_scenario a)) @
     detailRow ''Message'' (opt_fact (aw_message a)) @ detailRow ''Events'' (opt_fact (map_option str_int (al_events_count a))) @
     detailRow ''Source'' (source_fact a) @ detailRow ''Network'' (opt_fact (aw_as_name a)) @
     (case (aw_latitude a, aw_longitude a) of
        (Some x, Some y) \<Rightarrow> detailRow ''Coordinates'' (ElementFact [TextN (x @ js '', '' @ y)])
      | _ \<Rightarrow> []) @
     detailRow ''First seen'' (opt_fact (absolute_time de toLocaleString
       (case al_start_at a of Some t \<Rightarrow> Some t | None \<Rightarrow> al_created_at a))) @
     detailRow ''Last seen'' (opt_fact (absolute_time de toLocaleString (aw_stop_at a)))"

definition alert_more :: "inspectedAlert option \<Rightarrow> 'a node list" where
  "alert_more ins =
     (case ins of
        None \<Rightarrow> []
      | Some i \<Rightarrow>
          (if truthy_text (ia_machine_id i) then detailRow ''Machine'' (opt_fact (ia_machine_id i)) else []) @
          (if truthy_text (ia_uuid i) then detailRow ''UUID'' (ElementFact [TextN (the (ia_uuid i))]) else []) @
          (if ia_simulated i then detailRow ''Simulated'' (StringFact (js ''Recorded but not enforced'')) else []))"

definition alert_decisions :: "alertRow \<Rightarrow> 'a node list" where
  "alert_decisions a =
     (let decisions = (case aw_decisions a of Some ds \<Rightarrow> ds | None \<Rightarrow> [])
      in detailRow ''Decisions''
           (ElementFact (if decisions = [] then [TextN (js ''No decisions were taken.'')]
                         else map (\<lambda>d. TextN (decision_line d)) decisions)))"

definition event_nodes :: "date_env \<Rightarrow> (int \<Rightarrow> jstring) \<Rightarrow> jstring option \<times> metaPairs option \<Rightarrow> 'a node list" where
  "event_nodes de toLocaleString e =
     TextN (case absolute_time de toLocaleString (fst e) of Some t \<Rightarrow> t | None \<Rightarrow> em_dash) #
     pairTable (case snd e of Some ps \<Rightarrow> ps | None \<Rightarrow> [])"

definition alert_rest :: "date_env \<Rightarrow> (int \<Rightarrow> jstring) \<Rightarrow> alertRow \<Rightarrow> alertDialog \<Rightarrow> 'a node list" where
  "alert_rest de toLocaleString a s =
     (if truthy_text (av_error s) then [TextN (the (av_error s))]
      else if av_inspected s = None \<and> aw_id a \<noteq> None then []
      else
        (let mt = (case av_inspected s of Some i \<Rightarrow> (case ia_meta i of Some m \<Rightarrow> m | None \<Rightarrow> []) | None \<Rightarrow> []);
             evs = (case av_inspected s of Some i \<Rightarrow> (case ia_events i of Some es \<Rightarrow> es | None \<Rightarrow> []) | None \<Rightarrow> [])
         in (if mt \<noteq> [] then TextN (js ''Context'') # pairTable mt else []) @
            (if evs \<noteq> []
             then TextN (js ''Events ('' @ str_nat (length evs) @ js '')'') # concat (map (event_nodes de toLocaleString) evs)
             else [])))"

definition alertDetails :: "date_env \<Rightarrow> (int \<Rightarrow> jstring) \<Rightarrow> alertRow \<Rightarrow> alertDialog \<Rightarrow> 'a node list" where
  "alertDetails de toLocaleString a s =
     alert_own de toLocaleString a @ alert_more (av_inspected s) @ alert_decisions a @ alert_rest de toLocaleString a s"

section \<open>What the charts show\<close>

lemma chart_max_bounds: "1 \<le> chart_max ns" "n \<in> set ns \<Longrightarrow> n \<le> chart_max ns"
  by (auto simp: chart_max_def fold_max_ge)

lemma chart_max_in: "list_all (\<lambda>n. 0 \<le> n) ns \<Longrightarrow> \<exists>n \<in> set ns. n \<noteq> 0 \<Longrightarrow> chart_max ns \<in> set ns"
proof -
  have "fold max ns a = a \<or> fold max ns a \<in> set ns" for a :: int
  proof (induction ns arbitrary: a)
    case (Cons x xs)
    from Cons [of "max x a"] show ?case by (auto simp: max_def split: if_splits)
  qed simp
  from this [of 1] show "list_all (\<lambda>n. 0 \<le> n) ns \<Longrightarrow> \<exists>n \<in> set ns. n \<noteq> 0 \<Longrightarrow> chart_max ns \<in> set ns"
    using chart_max_bounds(2) [of _ ns] unfolding chart_max_def list_all_iff by (metis int_one_le_iff_zero_less le_less order_antisym)
qed

text \<open>An alert of the window is counted in one bucket.\<close>

lemma filter_partition:
  "sum_list (map (\<lambda>i. length (filter (\<lambda>a. h a = Some i) xs)) [0..<k]) = length (filter (\<lambda>a. \<exists>i < k. h a = Some i) xs)"
proof (induction xs)
  case (Cons x xs)
  have "sum_list (map (\<lambda>i. (if h x = Some i then 1 else 0) + n i) [0..<k]) =
      (if \<exists>i < k. h x = Some i then 1 else 0) + sum_list (map n [0..<k])" for n :: "nat \<Rightarrow> nat"
    by (induction k) (auto simp: less_Suc_eq)
  from this [of "\<lambda>i. length (filter (\<lambda>a. h a = Some i) xs)"] Cons show ?case
    by (simp add: if_distrib [of length] if_distrib [of "\<lambda>n. n + _"] cong: if_cong)
qed simp

definition in_window :: "date_env \<Rightarrow> int \<Rightarrow> alert \<Rightarrow> bool" where
  "in_window de nowMs a \<longleftrightarrow>
     (case alert_time de a of Some t \<Rightarrow> nowMs - int WINDOW_BUCKETS * BUCKET_MS < t | None \<Rightarrow> False)"

lemma index_in_window: "(\<exists>i < WINDOW_BUCKETS. bucket_index de nowMs BUCKET_MS WINDOW_BUCKETS a = Some i) \<longleftrightarrow> in_window de nowMs a"
proof (cases "alert_time de a")
  case None
  then show ?thesis by (simp add: bucket_index_def in_window_def)
next
  case (Some t)
  define k where "k = max 0 ((nowMs - t) div BUCKET_MS)"
  from Some have "bucket_index de nowMs BUCKET_MS WINDOW_BUCKETS a = (if int WINDOW_BUCKETS \<le> k then None else Some (WINDOW_BUCKETS - 1 - nat k))"
    by (simp add: bucket_index_def k_def Let_def)
  then have "(\<exists>i < WINDOW_BUCKETS. bucket_index de nowMs BUCKET_MS WINDOW_BUCKETS a = Some i) \<longleftrightarrow> k < 12"
    by (auto simp: WINDOW_BUCKETS_def)
  also have "\<dots> \<longleftrightarrow> (nowMs - t) div 7200000 < 12" by (simp add: k_def BUCKET_MS_def)
  also have "\<dots> \<longleftrightarrow> nowMs - t < 86400000"
  proof -
    have "nowMs - t = 7200000 * ((nowMs - t) div 7200000) + (nowMs - t) mod 7200000"
      "0 \<le> (nowMs - t) mod 7200000" "(nowMs - t) mod 7200000 < 7200000" by simp_all
    then show ?thesis by linarith
  qed
  finally show ?thesis using Some by (auto simp: in_window_def WINDOW_BUCKETS_def BUCKET_MS_def)
qed

definition in_bucket :: "date_env \<Rightarrow> int \<Rightarrow> nat \<Rightarrow> alert \<Rightarrow> bool" where
  "in_bucket de nowMs i a \<longleftrightarrow>
     (let start = nowMs - int (WINDOW_BUCKETS - i) * BUCKET_MS
      in case alert_time de a of
           Some t \<Rightarrow> start < t \<and> (t \<le> start + BUCKET_MS \<or> i = WINDOW_BUCKETS - 1)
         | None \<Rightarrow> False)"

lemma index_in_bucket:
  "i < WINDOW_BUCKETS \<Longrightarrow> bucket_index de nowMs BUCKET_MS WINDOW_BUCKETS a = Some i \<longleftrightarrow> in_bucket de nowMs i a"
  using bucket_index_interval [of BUCKET_MS i WINDOW_BUCKETS de nowMs a]
  by (auto simp: in_bucket_def Let_def BUCKET_MS_def split: option.splits)

lemma timeline_buckets:
  "length (buildTimeline de alerts nowMs BUCKET_MS WINDOW_BUCKETS) = WINDOW_BUCKETS"
  "i < WINDOW_BUCKETS \<Longrightarrow>
     tb_count (buildTimeline de alerts nowMs BUCKET_MS WINDOW_BUCKETS ! i) =
       length (filter (\<lambda>a. bucket_index de nowMs BUCKET_MS WINDOW_BUCKETS a = Some i) alerts)"
proof -
  let ?r = "map (\<lambda>i. \<lparr>tb_startMs = nowMs - int (WINDOW_BUCKETS - i) * BUCKET_MS, tb_count = 0\<rparr>) [0..<WINDOW_BUCKETS]"
  show "i < WINDOW_BUCKETS \<Longrightarrow>
     tb_count (buildTimeline de alerts nowMs BUCKET_MS WINDOW_BUCKETS ! i) =
       length (filter (\<lambda>a. bucket_index de nowMs BUCKET_MS WINDOW_BUCKETS a = Some i) alerts)"
    using fold_count_alert [of i ?r de nowMs BUCKET_MS WINDOW_BUCKETS alerts] by (simp add: buildTimeline_def Let_def)
  show "length (buildTimeline de alerts nowMs BUCKET_MS WINDOW_BUCKETS) = WINDOW_BUCKETS"
    using fold_count_alert [of 0 ?r de nowMs BUCKET_MS WINDOW_BUCKETS alerts]
    by (simp add: buildTimeline_def Let_def WINDOW_BUCKETS_def)
qed

lemma timeline_total:
  "sum_list (map tb_count (buildTimeline de alerts nowMs BUCKET_MS WINDOW_BUCKETS)) = length (filter (in_window de nowMs) alerts)"
proof -
  have "map tb_count (buildTimeline de alerts nowMs BUCKET_MS WINDOW_BUCKETS) =
      map (\<lambda>i. length (filter (\<lambda>a. bucket_index de nowMs BUCKET_MS WINDOW_BUCKETS a = Some i) alerts)) [0..<WINDOW_BUCKETS]"
    by (intro nth_equalityI) (simp_all add: timeline_buckets)
  then show ?thesis by (simp add: filter_partition index_in_window)
qed

lemma pct_bounds: "0 \<le> n \<Longrightarrow> n \<le> mx \<Longrightarrow> 1 \<le> mx \<Longrightarrow> 0 \<le> (of_int n / of_int mx * 100 :: rat) \<and> (of_int n / of_int mx * 100 :: rat) \<le> 100"
  by (simp add: divide_le_eq)

lemma timeline_chart:
  "case alertsTimeline de bucketLabel alerts nowMs of
     NoAlerts \<Rightarrow> filter (in_window de nowMs) alerts = []
   | Chart label bars first \<Rightarrow>
       label = str_nat (length (filter (in_window de nowMs) alerts)) @ js '' alerts over the last 24 hours'' \<and>
       length bars = 12 \<and> list_all (\<lambda>b. 0 \<le> ba_height b \<and> ba_height b \<le> 100) bars \<and>
       list_ex (\<lambda>b. ba_height b = 100) bars \<and>
       list_all (\<lambda>i. ba_figure (bars ! i) =
         (let n = length (filter (in_bucket de nowMs i) alerts)
          in if n = 0 then None else Some (int n))) [0..<12]"
proof -
  define tl where "tl = buildTimeline de alerts nowMs BUCKET_MS WINDOW_BUCKETS"
  define ns where "ns = map (\<lambda>b. int (tb_count b)) tl"
  define bars where "bars = map (bar_of bucketLabel (chart_max ns)) tl"
  have total: "sum_list (map tb_count tl) = length (filter (in_window de nowMs) alerts)" by (simp add: tl_def timeline_total)
  have view: "alertsTimeline de bucketLabel alerts nowMs =
      (if sum_list (map tb_count tl) = 0 then NoAlerts
       else Chart (str_nat (sum_list (map tb_count tl)) @ js '' alerts over the last 24 hours'') bars
              (bucketLabel (tb_startMs (tl ! 0))))"
    by (simp add: alertsTimeline_def tl_def [symmetric] ns_def [symmetric] bars_def Let_def)
  have heights: "list_all (\<lambda>b. 0 \<le> ba_height b \<and> ba_height b \<le> 100) bars"
    using chart_max_bounds(1) [of ns] chart_max_bounds(2) [of _ ns] pct_bounds [of "int (tb_count b)" "chart_max ns" for b]
    by (auto simp: list_all_iff bars_def bar_of_def ns_def)
  have top: "list_ex (\<lambda>b. ba_height b = 100) bars" if "sum_list (map tb_count tl) \<noteq> 0"
  proof -
    from that have "chart_max ns \<in> set ns" by (intro chart_max_in) (auto simp: ns_def list_all_iff)
    then obtain b where "b \<in> set tl" "int (tb_count b) = chart_max ns" by (auto simp: ns_def)
    moreover from this(2) have "(of_nat (tb_count b) :: rat) = of_int (chart_max ns)" by (metis of_int_of_nat_eq)
    ultimately show ?thesis
      using chart_max_bounds(1) [of ns] by (force simp: list_ex_iff bars_def bar_of_def)
  qed
  have figures: "ba_figure (bars ! i) = (let n = length (filter (in_bucket de nowMs i) alerts)
      in if n = 0 then None else Some (int n))" if "i < 12" for i
  proof -
    have i: "i < WINDOW_BUCKETS" using that by (simp add: WINDOW_BUCKETS_def)
    have "tb_count (tl ! i) = length (filter (in_bucket de nowMs i) alerts)"
      using timeline_buckets(2) [OF i, of de alerts nowMs] by (simp only: tl_def index_in_bucket [OF i])
    moreover have "i < length tl" using i by (simp add: tl_def timeline_buckets)
    ultimately show ?thesis by (simp add: bars_def bar_of_def Let_def)
  qed
  have len: "length bars = 12"
    using timeline_buckets(1) [of de alerts nowMs] by (simp add: bars_def tl_def WINDOW_BUCKETS_def)
  show ?thesis using total heights top figures len by (auto simp: view list_all_iff)
qed

text \<open>What is relied on of \<open>localeCompare\<close>: it orders any two texts, and consistently.\<close>

definition total_compare :: "(jstring \<Rightarrow> jstring \<Rightarrow> int) \<Rightarrow> bool" where
  "total_compare cmp \<longleftrightarrow>
     (\<forall>a b. cmp a b \<le> 0 \<or> cmp b a \<le> 0) \<and> (\<forall>a b c. cmp a b \<le> 0 \<longrightarrow> cmp b c \<le> 0 \<longrightarrow> cmp a c \<le> 0)"

lemma offender_pos:
  assumes "x \<in> set (topOffenders localeCompare alerts limit)"
  shows "1 \<le> of_count x"
proof -
  have one: "1 \<le> alert_events a" for a by (simp add: alert_events_def Let_def)
  have "set (sort_by (offender_le localeCompare) (all_offenders alerts)) = set (all_offenders alerts)"
    by (metis mset_sort_by set_mset_mset)
  then have x: "x \<in> set (all_offenders alerts)" using assms by (metis in_set_takeD topOffenders_def)
  then obtain a where a: "a \<in> set alerts" "alertSourceKey a = Some (of_key x)"
    using all_offenders_keys [of alerts] by blast
  then have "alert_events a \<in> set (map alert_events (filter (\<lambda>a. alertSourceKey a = Some (of_key x)) alerts))" by simp
  then have "alert_events a \<le> events_of (of_key x) alerts"
    unfolding events_of_def by (rule member_le_sum_list) (use one in \<open>auto intro: order_trans [OF zero_le_one]\<close>)
  with one [of a] x all_offenders_keys [of alerts] show ?thesis by fastforce
qed

lemma width_mono: "1 \<le> mx \<Longrightarrow> m \<le> n \<Longrightarrow> max (of_int m / of_int mx * 100 :: rat) 4 \<le> max (of_int n / of_int mx * 100) 4"
  by (intro max.mono mult_right_mono divide_right_mono) simp_all



end
