(* ===== verification/Profile_Cards.thy ===== *)
theory Profile_Cards
  imports Accounts Login_Form Js_Date
begin

text \<open>
  The rest of the profile page: the name (\<^verbatim>\<open>profile-view.tsx\<close>), the API keys (\<^verbatim>\<open>api-keys-card.tsx\<close>) and the
  passkeys (\<^verbatim>\<open>passkeys-card.tsx\<close>). Local dates are a parameter (\<open>keyTime\<close>): the ISO text of now plus a
  number of days, and of a picked date. The prompt of the browser for a passkey is a parameter too.
\<close>

section \<open>The name\<close>

record profileName =
  pn_fullName :: jstring
  pn_error :: "jstring option"
  pn_toasts :: "toast list"

definition saveProfile :: "'w api_env \<Rightarrow> ('w, 'a) io \<Rightarrow> profileName \<Rightarrow> 'w \<Rightarrow> profileName \<times> 'w" where
  "saveProfile env refresh_user c w =
     (let body = Obj [(js ''full_name'', Str (trim (pn_fullName c)))]
      in case bind_io (run_endpoint env (users (UpdateMe body))) (\<lambda>_. refresh_user) w of
           (Inr x, w') \<Rightarrow> (c\<lparr>pn_error := None, pn_toasts := pn_toasts c @ [ToastSuccess (js ''Profile saved'')]\<rparr>, w')
         | (Inl e, w') \<Rightarrow> (c\<lparr>pn_error := Some (de_message (describeError e))\<rparr>, w'))"

section \<open>API keys\<close>

record apiKey =
  ak_id :: int
  ak_name :: jstring
  ak_enabled :: bool
  ak_expires_at :: "jstring option"
  ak_last_used_at :: "jstring option"

datatype expiryChoice = InDays nat | CustomDate | NeverExpires

definition EXPIRY_OPTIONS :: "(expiryChoice \<times> jstring) list" where
  "EXPIRY_OPTIONS =
     [(InDays 30, js ''30 days''), (InDays 90, js ''90 days''), (InDays 365, js ''1 year''),
      (CustomDate, js ''Custom date''), (NeverExpires, js ''Never'')]"

record keyTime =
  kt_plus_days :: "nat \<Rightarrow> jstring"
  kt_iso :: "jstring \<Rightarrow> thrown + jstring"

definition hasExpired :: "date_env \<Rightarrow> int \<Rightarrow> apiKey \<Rightarrow> bool" where
  "hasExpired de now k =
     (case ak_expires_at k of
        None \<Rightarrow> False
      | Some t \<Rightarrow> (case date_parse de t of Some ms \<Rightarrow> ms \<le> now | None \<Rightarrow> False))"

definition expiry_fact :: "date_env \<Rightarrow> (jstring \<Rightarrow> jstring) \<Rightarrow> int \<Rightarrow> apiKey \<Rightarrow> jstring" where
  "expiry_fact de local_date now k =
     (case ak_expires_at k of
        None \<Rightarrow> js ''No expiry''
      | Some t \<Rightarrow> if hasExpired de now k then js ''Expired'' else js ''Expires '' @ local_date t)"

definition used_fact :: "(jstring \<Rightarrow> jstring) \<Rightarrow> apiKey \<Rightarrow> jstring" where
  "used_fact local_date k =
     (case ak_last_used_at k of
        Some t \<Rightarrow> if t = [] then js ''Never used'' else js ''Last used '' @ local_date t
      | None \<Rightarrow> js ''Never used'')"

definition expiresAt :: "keyTime \<Rightarrow> expiryChoice \<Rightarrow> jstring \<Rightarrow> thrown + jstring option" where
  "expiresAt tm choice customDate =
     (case choice of
        InDays n \<Rightarrow> Inr (Some (kt_plus_days tm n))
      | NeverExpires \<Rightarrow> Inr None
      | CustomDate \<Rightarrow>
          if customDate = [] then Inr None
          else (case kt_iso tm customDate of Inl e \<Rightarrow> Inl e | Inr t \<Rightarrow> Inr (Some t)))"

datatype keyMode = KeyIdle | KeyCreate | KeyCreated jval | KeyDelete apiKey

record keysCard =
  ks_keys :: "apiKey list"
  ks_mode :: keyMode
  ks_name :: jstring
  ks_choice :: expiryChoice
  ks_customDate :: jstring
  ks_acknowledged :: bool
  ks_error :: "jstring option"
  ks_toasts :: "toast list"

definition openKeys :: keysCard where
  "openKeys =
     \<lparr>ks_keys = [], ks_mode = KeyIdle, ks_name = [], ks_choice = InDays 30, ks_customDate = [],
      ks_acknowledged = False, ks_error = None, ks_toasts = []\<rparr>"

definition resetKeys :: "keysCard \<Rightarrow> keysCard" where
  "resetKeys s =
     s\<lparr>ks_mode := KeyIdle, ks_name := [], ks_choice := InDays 30, ks_customDate := [],
       ks_acknowledged := False, ks_error := None\<rparr>"

definition loadKeys :: "'w api_env \<Rightarrow> (jval \<Rightarrow> apiKey list) \<Rightarrow> keysCard \<Rightarrow> 'w \<Rightarrow> keysCard \<times> 'w" where
  "loadKeys env rd s w =
     (case run_endpoint env (users ApiKeys) w of
        (Inr v, w') \<Rightarrow> (s\<lparr>ks_keys := rd v\<rparr>, w')
      | (Inl e, w') \<Rightarrow> (s\<lparr>ks_error := Some (de_message (describeError e))\<rparr>, w'))"

definition create_disabled :: "keysCard \<Rightarrow> bool" where
  "create_disabled s \<longleftrightarrow> trim (ks_name s) = [] \<or> ks_choice s = CustomDate \<and> ks_customDate s = []"

definition key_body :: "jstring \<Rightarrow> jstring option \<Rightarrow> jval" where
  "key_body name expires =
     Obj [(js ''name'', Str (trim name)), (js ''expires_at'', case expires of Some t \<Rightarrow> Str t | None \<Rightarrow> Null)]"

definition createKey ::
  "'w api_env \<Rightarrow> (jval \<Rightarrow> apiKey list) \<Rightarrow> keyTime \<Rightarrow> keysCard \<Rightarrow> 'w \<Rightarrow> keysCard \<times> 'w" where
  "createKey env rd tm s w =
     (let s1 = s\<lparr>ks_error := None\<rparr>;
          failed = (\<lambda>e. s1\<lparr>ks_error := Some (de_message (describeError e))\<rparr>)
      in case expiresAt tm (ks_choice s) (ks_customDate s) of
           Inl e \<Rightarrow> (failed e, w)
         | Inr expires \<Rightarrow>
             (case run_endpoint env (users (CreateApiKey (key_body (ks_name s) expires))) w of
                (Inl e, w') \<Rightarrow> (failed e, w')
              | (Inr v, w') \<Rightarrow>
                  (case member v (js ''token'') of
                     Inl e \<Rightarrow> ((failed e)\<lparr>ks_name := []\<rparr>, w')
                   | Inr tok \<Rightarrow> loadKeys env rd (s1\<lparr>ks_name := [], ks_mode := KeyCreated tok\<rparr>) w')))"

definition put_key_enabled :: "bool \<Rightarrow> apiKey \<Rightarrow> apiKey" where
  "put_key_enabled b k = k\<lparr>ak_enabled := b\<rparr>"

definition setKeyEnabled :: "'w api_env \<Rightarrow> apiKey \<Rightarrow> bool \<Rightarrow> keysCard \<Rightarrow> 'w \<Rightarrow> keysCard \<times> 'w" where
  "setKeyEnabled env k b s w =
     (let s1 = s\<lparr>ks_keys := flip ak_id put_key_enabled (ak_id k) b (ks_keys s)\<rparr>
      in case run_endpoint env (users (SetApiKeyEnabled (ak_id k) b)) w of
           (Inr v, w') \<Rightarrow> (s1, w')
         | (Inl e, w') \<Rightarrow>
             (s1\<lparr>ks_keys := flip ak_id put_key_enabled (ak_id k) (\<not> b) (ks_keys s1),
                 ks_toasts := ks_toasts s @ [ToastError (de_message (describeError e))]\<rparr>, w'))"

definition revokeKey :: "'w api_env \<Rightarrow> (jval \<Rightarrow> apiKey list) \<Rightarrow> apiKey \<Rightarrow> keysCard \<Rightarrow> 'w \<Rightarrow> keysCard \<times> 'w" where
  "revokeKey env rd k s w =
     (case run_endpoint env (users (DeleteApiKey (ak_id k))) w of
        (Inr v, w') \<Rightarrow>
          loadKeys env rd (resetKeys (s\<lparr>ks_toasts := ks_toasts s @ [ToastSuccess (ak_name k @ js '' revoked'')]\<rparr>)) w'
      | (Inl e, w') \<Rightarrow> (s\<lparr>ks_error := Some (de_message (describeError e))\<rparr>, w'))"

datatype keyEvent =
    LoadKeys
  | NewKey
  | TypeKeyName jstring
  | PickExpiry expiryChoice
  | PickDate jstring
  | CreateKey
  | CopyToken bool
  | Acknowledge bool
  | DoneKey
  | CancelKey
  | PickDeleteKey apiKey
  | DeleteKey
  | ToggleKey apiKey bool

text \<open>The controls of the card, each only where the mode of the card shows it.\<close>

fun keys_step ::
  "'w api_env \<Rightarrow> (jval \<Rightarrow> apiKey list) \<Rightarrow> keyTime \<Rightarrow> keysCard \<times> 'w \<Rightarrow> keyEvent \<Rightarrow> keysCard \<times> 'w" where
  "keys_step env rd tm (s, w) LoadKeys = loadKeys env rd s w"
| "keys_step env rd tm (s, w) NewKey = (if ks_mode s = KeyIdle then s\<lparr>ks_mode := KeyCreate\<rparr> else s, w)"
| "keys_step env rd tm (s, w) (TypeKeyName n) = (if ks_mode s = KeyCreate then s\<lparr>ks_name := n\<rparr> else s, w)"
| "keys_step env rd tm (s, w) (PickExpiry c) = (if ks_mode s = KeyCreate then s\<lparr>ks_choice := c\<rparr> else s, w)"
| "keys_step env rd tm (s, w) (PickDate d) =
     (if ks_mode s = KeyCreate \<and> ks_choice s = CustomDate then s\<lparr>ks_customDate := d\<rparr> else s, w)"
| "keys_step env rd tm (s, w) CreateKey =
     (if ks_mode s = KeyCreate \<and> \<not> create_disabled s then createKey env rd tm s w else (s, w))"
| "keys_step env rd tm (s, w) (CopyToken ok) =
     ((case ks_mode s of
         KeyCreated tok \<Rightarrow>
           s\<lparr>ks_toasts := ks_toasts s @ [if ok then ToastSuccess (js ''API key copied'')
               else ToastError (js ''Could not copy. Select the key and copy it by hand.'')]\<rparr>
       | _ \<Rightarrow> s), w)"
| "keys_step env rd tm (s, w) (Acknowledge b) =
     ((case ks_mode s of KeyCreated tok \<Rightarrow> s\<lparr>ks_acknowledged := b\<rparr> | _ \<Rightarrow> s), w)"
| "keys_step env rd tm (s, w) DoneKey =
     ((case ks_mode s of KeyCreated tok \<Rightarrow> if ks_acknowledged s then resetKeys s else s | _ \<Rightarrow> s), w)"
| "keys_step env rd tm (s, w) CancelKey =
     ((case ks_mode s of KeyCreate \<Rightarrow> resetKeys s | KeyDelete k \<Rightarrow> resetKeys s | _ \<Rightarrow> s), w)"
| "keys_step env rd tm (s, w) (PickDeleteKey k) =
     (if ks_mode s = KeyIdle then s\<lparr>ks_mode := KeyDelete k\<rparr> else s, w)"
| "keys_step env rd tm (s, w) DeleteKey =
     (case ks_mode s of KeyDelete k \<Rightarrow> revokeKey env rd k s w | _ \<Rightarrow> (s, w))"
| "keys_step env rd tm (s, w) (ToggleKey k b) =
     (if ks_mode s = KeyIdle then setKeyEnabled env k b s w else (s, w))"

text \<open>
  The switch of one key over time: what it shows, what is stored, and the changes under way. It is
  not disabled while a change is under way, and the service may handle the changes in any order.
\<close>

record keySwitch =
  kw_shown :: bool
  kw_stored :: bool
  kw_inflight :: "bool list"

datatype keySwitchEvent = ClickKey | ServeKey nat

primrec keySwitch_step :: "keySwitch \<Rightarrow> keySwitchEvent \<Rightarrow> keySwitch" where
  "keySwitch_step s ClickKey =
     s\<lparr>kw_shown := \<not> kw_shown s, kw_inflight := kw_inflight s @ [\<not> kw_shown s]\<rparr>"
| "keySwitch_step s (ServeKey i) =
     (if i < length (kw_inflight s)
      then s\<lparr>kw_stored := kw_inflight s ! i, kw_inflight := take i (kw_inflight s) @ drop (Suc i) (kw_inflight s)\<rparr>
      else s)"

section \<open>Passkeys\<close>

definition MAX_PASSKEYS :: nat where "MAX_PASSKEYS = 10"

record passkey =
  pk_id :: int
  pk_name :: jstring

datatype passkeyMode = PkIdle | PkAdd | PkRemove passkey

record passkeysCard =
  pk_available :: bool
  pk_passkeys :: "passkey list"
  pk_mode :: passkeyMode
  pk_code :: jstring
  pk_newName :: jstring
  pk_error :: "jstring option"
  pk_note :: "jstring option"
  pk_toasts :: "toast list"

definition resetPasskeys :: "passkeysCard \<Rightarrow> passkeysCard" where
  "resetPasskeys s = s\<lparr>pk_mode := PkIdle, pk_code := [], pk_newName := [], pk_error := None\<rparr>"

definition loadPasskeys :: "'w api_env \<Rightarrow> (jval \<Rightarrow> passkey list) \<Rightarrow> passkeysCard \<Rightarrow> 'w \<Rightarrow> passkeysCard \<times> 'w" where
  "loadPasskeys env rd s w =
     (case run_endpoint env (users Passkeys) w of
        (Inr v, w') \<Rightarrow> (s\<lparr>pk_passkeys := rd v\<rparr>, w')
      | (Inl e, w') \<Rightarrow> (s\<lparr>pk_error := Some (de_message (describeError e))\<rparr>, w'))"

definition prompt_error :: "webAuthnFailure \<Rightarrow> jstring" where
  "prompt_error kind =
     (case kind of
        Origin \<Rightarrow> ORIGIN_MISMATCH_MESSAGE
      | Unsupported \<Rightarrow> js ''This browser does not support passkeys.''
      | _ \<Rightarrow> js ''The passkey could not be created. Try again.'')"

definition addPasskey ::
  "'w api_env \<Rightarrow> (jval \<Rightarrow> ('w, jval) io) \<Rightarrow> (jval \<Rightarrow> passkey list) \<Rightarrow> passkeysCard \<Rightarrow> 'w \<Rightarrow> passkeysCard \<times> 'w" where
  "addPasskey env startRegistration rd s w =
     (let s1 = s\<lparr>pk_error := None, pk_note := None\<rparr>;
          failed = (\<lambda>e. s1\<lparr>pk_error := Some (de_message (describeError e))\<rparr>)
      in case run_endpoint env (users (PasskeyOptions (pk_code s))) w of
           (Inl e, w1) \<Rightarrow> (failed e, w1)
         | (Inr v, w1) \<Rightarrow>
             (case member v (js ''nonce'') of
                Inl e \<Rightarrow> (failed e, w1)
              | Inr nonce \<Rightarrow>
                  (case startRegistration (get_prop v (js ''options'')) w1 of
                     (Inl e, w2) \<Rightarrow>
                       (case classifyWebAuthnError (thrown_value e) of
                          Cancelled \<Rightarrow> (resetPasskeys (s1\<lparr>pk_note := Some (js ''No passkey was added.'')\<rparr>), w2)
                        | kind \<Rightarrow> (s1\<lparr>pk_error := Some (prompt_error kind)\<rparr>, w2))
                   | (Inr cred, w2) \<Rightarrow>
                       (case run_endpoint env (users (RegisterPasskey
                               (Obj [(js ''nonce'', nonce), (js ''name'', Str (pk_newName s)), (js ''credential'', cred)]))) w2 of
                          (Inl e, w3) \<Rightarrow> (failed e, w3)
                        | (Inr v3, w3) \<Rightarrow>
                            loadPasskeys env rd
                              (resetPasskeys (s1\<lparr>pk_toasts := pk_toasts s @ [ToastSuccess (js ''Passkey added'')]\<rparr>)) w3))))"

definition removePasskey_flow ::
  "'w api_env \<Rightarrow> (jval \<Rightarrow> passkey list) \<Rightarrow> passkey \<Rightarrow> passkeysCard \<Rightarrow> 'w \<Rightarrow> passkeysCard \<times> 'w" where
  "removePasskey_flow env rd p s w =
     (case run_endpoint env (users (RemovePasskey (pk_id p) (pk_code s))) w of
        (Inr v, w') \<Rightarrow>
          loadPasskeys env rd (resetPasskeys (s\<lparr>pk_toasts := pk_toasts s @ [ToastSuccess (js ''Passkey removed'')]\<rparr>)) w'
      | (Inl e, w') \<Rightarrow> (s\<lparr>pk_error := Some (de_message (describeError e))\<rparr>, w'))"

datatype passkeyEvent =
    StartAdd
  | StartRemove passkey
  | TypePkCode jstring
  | TypePkName jstring
  | CancelPk
  | ContinuePk

fun passkeys_step ::
  "'w api_env \<Rightarrow> (jval \<Rightarrow> ('w, jval) io) \<Rightarrow> (jval \<Rightarrow> passkey list) \<Rightarrow> passkeysCard \<times> 'w \<Rightarrow> passkeyEvent \<Rightarrow> passkeysCard \<times> 'w" where
  "passkeys_step env prompt rd (s, w) StartAdd =
     (if pk_mode s = PkIdle \<and> length (pk_passkeys s) < MAX_PASSKEYS then s\<lparr>pk_note := None, pk_mode := PkAdd\<rparr> else s, w)"
| "passkeys_step env prompt rd (s, w) (StartRemove p) =
     (if pk_mode s = PkIdle then s\<lparr>pk_note := None, pk_mode := PkRemove p\<rparr> else s, w)"
| "passkeys_step env prompt rd (s, w) (TypePkCode c) = (if pk_mode s \<noteq> PkIdle then s\<lparr>pk_code := c\<rparr> else s, w)"
| "passkeys_step env prompt rd (s, w) (TypePkName n) = (if pk_mode s = PkAdd then s\<lparr>pk_newName := n\<rparr> else s, w)"
| "passkeys_step env prompt rd (s, w) CancelPk = (if pk_mode s \<noteq> PkIdle then resetPasskeys s else s, w)"
| "passkeys_step env prompt rd (s, w) ContinuePk =
     (if pk_code s = [] then (s, w)
      else case pk_mode s of
             PkIdle \<Rightarrow> (s, w)
           | PkAdd \<Rightarrow> addPasskey env prompt rd s w
           | PkRemove p \<Rightarrow> removePasskey_flow env rd p s w)"

definition passkeys_shown :: "bool \<Rightarrow> passkeysCard \<Rightarrow> bool" where
  "passkeys_shown enabled s \<longleftrightarrow> enabled \<and> pk_available s"

section \<open>Properties\<close>

lemma loadKeys_keeps:
  "ks_mode (fst (loadKeys env rd s w)) = ks_mode s" "ks_acknowledged (fst (loadKeys env rd s w)) = ks_acknowledged s"
  by (simp_all add: loadKeys_def split: prod.split sum.split)

lemma token_kept:
  assumes "ks_mode s = KeyCreated tok"
  shows "ks_mode (fst (keys_step env rd tm (s, w) e)) = (if e = DoneKey \<and> ks_acknowledged s then KeyIdle else KeyCreated tok)"
  using assms by (cases e) (simp_all add: loadKeys_keeps resetKeys_def)

lemma token_from_service:
  assumes "ks_mode (fst (createKey env rd tm s w)) = KeyCreated tok" and "ks_mode s = KeyCreate"
  shows "\<exists>expires v w'. expiresAt tm (ks_choice s) (ks_customDate s) = Inr expires \<and>
    run_endpoint env (users (CreateApiKey (key_body (ks_name s) expires))) w = (Inr v, w') \<and>
    member v (js ''token'') = Inr tok"
  using assms
  by (auto simp: createKey_def Let_def loadKeys_keeps split: sum.splits prod.splits)

lemma expires_null:
  "\<not> create_disabled s \<Longrightarrow> expiresAt tm (ks_choice s) (ks_customDate s) = Inr None \<longleftrightarrow> ks_choice s = NeverExpires"
  by (auto simp: create_disabled_def expiresAt_def split: expiryChoice.splits sum.splits)

lemma created_token:
  assumes "ks_mode (fst (createKey env rd tm s w)) = KeyCreated tok" and "ks_mode s = KeyCreate" and "\<not> create_disabled s"
  shows "\<exists>expires v w'. run_endpoint env (users (CreateApiKey (key_body (ks_name s) expires))) w = (Inr v, w') \<and>
    member v (js ''token'') = Inr tok \<and> (expires = None \<longleftrightarrow> ks_choice s = NeverExpires)"
proof -
  obtain expires v w' where e: "expiresAt tm (ks_choice s) (ks_customDate s) = Inr expires"
    and r: "run_endpoint env (users (CreateApiKey (key_body (ks_name s) expires))) w = (Inr v, w')"
    and t: "member v (js ''token'') = Inr tok"
    using token_from_service [OF assms(1,2)] by blast
  have "expires = None \<longleftrightarrow> ks_choice s = NeverExpires" using e expires_null [OF assms(3), of tm] by auto
  with r t show ?thesis by blast
qed

text \<open>Without overlapping changes the switch is right; with them it need not be.\<close>

lemma keySwitch_race:
  "kw_shown (foldl keySwitch_step \<lparr>kw_shown = False, kw_stored = False, kw_inflight = []\<rparr>
     [ClickKey, ClickKey, ServeKey 1, ServeKey 0]) = False \<and>
   kw_stored (foldl keySwitch_step \<lparr>kw_shown = False, kw_stored = False, kw_inflight = []\<rparr>
     [ClickKey, ClickKey, ServeKey 1, ServeKey 0]) = True"
  by simp

lemma passkey_cancelled:
  assumes "run_endpoint env (users (PasskeyOptions (pk_code s))) w = (Inr v, w1)"
    and "member v (js ''nonce'') = Inr nonce"
    and "prompt (get_prop v (js ''options'')) w1 = (Inl e, w2)"
    and "classifyWebAuthnError (thrown_value e) = Cancelled"
  shows "addPasskey env prompt rd s w = (resetPasskeys (s\<lparr>pk_error := None, pk_note := Some (js ''No passkey was added.'')\<rparr>), w2)"
  using assms by (simp add: addPasskey_def Let_def)

definition passkeys_inv :: "passkeysCard \<Rightarrow> bool" where
  "passkeys_inv s \<longleftrightarrow> (pk_mode s = PkIdle \<longrightarrow> pk_code s = [] \<and> pk_newName s = [])"

lemma loadPasskeys_keeps:
  "pk_mode (fst (loadPasskeys env rd s w)) = pk_mode s" "pk_code (fst (loadPasskeys env rd s w)) = pk_code s"
  "pk_newName (fst (loadPasskeys env rd s w)) = pk_newName s"
  by (simp_all add: loadPasskeys_def split: prod.split sum.split)

lemma passkey_flows_inv:
  assumes "passkeys_inv s" and "pk_mode s \<noteq> PkIdle"
  shows "passkeys_inv (fst (addPasskey env prompt rd s w))" "passkeys_inv (fst (removePasskey_flow env rd p s w))"
  using assms
  by (auto simp: addPasskey_def removePasskey_flow_def Let_def passkeys_inv_def resetPasskeys_def loadPasskeys_keeps
      split: sum.split prod.split webAuthnFailure.split)

interpretation passkey_card: machine "passkeys_step env prompt rd" "\<lambda>sw. passkeys_inv (fst sw)" for env prompt rd
proof
  fix sw :: "passkeysCard \<times> 'a" and e
  assume inv: "passkeys_inv (fst sw)"
  show "passkeys_inv (fst (passkeys_step env prompt rd sw e))"
  proof (cases sw)
    case (Pair s w)
    with inv have "passkeys_inv s" by simp
    with Pair show ?thesis
      by (cases e)
        (auto simp: passkey_flows_inv split: passkeyMode.split, auto simp: passkeys_inv_def resetPasskeys_def)
  qed
qed


end
