(* ===== verification/Spec2Isabelle.thy ===== *)
theory Spec2Isabelle
  imports Login_Form Paged_Lists Live_View Page_Editor Backups Whitelists Crowdsec_Cards Row_Dialogs Security_Charts Profile_Cards Shell
begin

text \<open>
  \<^bold>\<open>MegooPM, the web application.\<close> MegooPM manages an nginx reverse proxy: proxy hosts, redirections, 404
  hosts, streams, upstream pools, access lists, certificates, custom pages, users and the
  CrowdSec security engine. A Python service owns the data; this development models the TypeScript
  application under \<^verbatim>\<open>src/frontend/src\<close> that talks to it. The service is a parameter: every request
  goes through an environment record (\<open>api_env\<close>) whose \<open>env_fetch\<close> may answer anything and may
  change its own state \<open>'w\<close>, so the theorems hold for every behaviour of the service.

  \<^bold>\<open>How the parts interact.\<close> A view or dialog keeps a form, validates it, builds a JSON payload and
  calls a client of \<^verbatim>\<open>lib/api/resources\<close>, which calls \<open>apiFetch\<close>; that adds the bearer token of the
  session cookie and, after a 401, asks the auth provider for a new one and retries once. Failures
  are described by \<open>describeError\<close> and shown in the dialog, the page or a toast. Three parts run on
  their own: the event stream, the live log socket and the polling of tasks.

  \<^bold>\<open>Conventions.\<close> A JavaScript string is a list of UTF-16 code units (\<open>jstring\<close>), a dynamic value is a
  \<open>jval\<close>, an object an association list in insertion order. A number is an \<open>int\<close> where the code keeps
  it whole, \<open>jsnum\<close> where NaN can arise and a rational with infinities where \<open>Number\<close> parses decimals.
  An asynchronous function is a state transformer \<open>'w \<Rightarrow> (thrown + 'a) \<times> 'w\<close>; a thrown value is \<open>Inl\<close>. A
  component that reacts to events over time is a step function on a record, and its theorems range
  over every list of events. Each handler is modelled whole, from its guards to its
  \<open>finally\<close>.

  \<^bold>\<open>Theories, in the order of their imports.\<close>

  \<^item> \<open>Js_Prelude\<close>, \<open>Js_Number\<close>, \<open>Js_Value\<close>, \<open>Js_Uri\<close>, \<open>Js_Date\<close>: what the code uses of the language and its
    library (strings, \<open>trim\<close>, \<open>split\<close>, case mapping, \<open>parseInt\<close>, \<open>Number\<close>, \<open>toFixed\<close>, objects, percent
    encoding, UTF-8 lengths, \<open>Date.parse\<close> and the calendar), with the lemma collections.
  \<^item> \<open>Machines\<close>: the locales of step machines with an invariant, of absorbing states, of capped
    exponential delays and of keyed stores; each is interpreted by the components below.
  \<^item> \<open>Api_Client\<close> (\<^verbatim>\<open>lib/api/client.ts\<close>, \<^verbatim>\<open>errors.ts\<close>, \<open>describeError\<close>): the request, the single retry
    (C1).
  \<^item> \<open>Auth_Session\<close> (\<^verbatim>\<open>lib/auth/session.ts\<close>, \<^verbatim>\<open>proxy.ts\<close>, \<^verbatim>\<open>config/nav.ts\<close>): cookies, the route guard, the
    destination after a sign-in, the menu by role (C2 to C4). \<open>Recent_Accounts\<close>: the remembered
    accounts (C6).
  \<^item> \<open>Effects\<close>, \<open>Auth_Context\<close>, \<open>Login_Form\<close> (\<^verbatim>\<open>lib/auth/context.tsx\<close>, \<^verbatim>\<open>login-form.tsx\<close>): the session
    over time, the refresher, the sign-in form with codes and passkeys (C7 to C10).
  \<^item> \<open>Domains\<close>: the tag input of domain names and its machine.
  \<^item> \<open>Resources\<close>: every endpoint of \<^verbatim>\<open>lib/api/resources\<close> as verb, path, query and body.
    \<open>Dialog_Flow\<close>: the save flow of dialogs and the optimistic switch of rows, with the contracts
    (locales \<open>submit_dialog\<close>, \<open>row_switch\<close>) that the dialogs interpret.
  \<^item> \<open>Proxy_Hosts\<close> (C13, C14), \<open>Upstreams\<close> (C17), \<open>Access_Lists\<close> (C19), \<open>Settings_Forms\<close> (C20),
    \<open>Other_Hosts\<close> (streams, redirections, 404 hosts, the guarded switch; C24), \<open>Certificates\<close> (expiry,
    the issue dialog, DNS credentials; C26): forms, validation, payloads, submits, round trips
    of stored objects.
  \<^item> \<open>Accounts\<close> (users, the forms of an emailed link, password and two-factor cards; C16),
    \<open>Profile_Cards\<close> (API keys and passkeys; C15), \<open>Backups\<close> (the page, the schedule card, the restore; C21).
  \<^item> \<open>List_View\<close>, \<open>List_Pages\<close>: search, reload, switches and delete confirmation of the ten list pages,
    composed with a service that handles and answers requests in any order (locale \<open>list_page\<close>; C18),
    and the tasks of the certificates page.
  \<^item> \<open>Layouts\<close>: what a component renders, as data: a list of nodes (texts, badges, links, buttons,
    switches, fields, pickers, tag inputs), each control with the act it performs, and the two layouts
    of a list (cards on a phone, a table elsewhere; locale \<open>two_layouts\<close>). \<open>Page_Layouts\<close>: the ten list
    pages in that language; every text and every act of a row is in both layouts (C11), and who may
    not write gets no control that writes (C5). \<open>Locations_Editor\<close>: the routes of a proxy host, where
    both layouts edit the row they show (C27). \<open>Host_Dialogs\<close>: the dialogs of the four host kinds,
    whose controls are bound to the form (locale \<open>bound_form\<close>; C35), and the domain flag, which the 404
    dialog does not clear (C12).
  \<^item> \<open>Event_Stream\<close>: the frame parser for every chunking, the reconnecting subscription, the polling of
    a task (C29 to C31). \<open>Live_Logs\<close>: the socket and the buffers, which refine the full log (C32, C33).
    \<open>Live_View\<close>: the page on top of it, its rows, columns, cells and the window of rows (C22).
  \<^item> \<open>Security\<close>: the timeline, the offenders, the paging arithmetic, schedules and status lines (C34,
    C36). \<open>Paged_Lists\<close>: the lists of the security page and the audit log as machines of requests
    and answers (C37, C38). \<open>Whitelists\<close>: manual decisions, the whitelist editor and its preview (C23).
    \<open>Crowdsec_Cards\<close>: rule updates, community blocklist, body limit and the tabs that poll (C28).
  \<^item> \<open>Custom_Pages\<close>, \<open>Page_Editor\<close>: sizes, the image round trip, the script check and the handlers of
    the page editor (C39, C40).
  \<^item> \<open>Shell\<close>: the banner about a refused configuration, the notice about a newer build, the loads of the
    dashboard and the texts of the audit log (C25).

  \<^bold>\<open>Parameters.\<close> The network and the token refresher (\<open>api_env\<close>), \<open>JSON.parse\<close> and \<open>JSON.stringify\<close> where a
  round trip is claimed (with the law that parsing inverts writing), the clock, timers, the time zone
  and \<open>toLocaleString\<close>, \<open>new Function\<close> (\<open>compiles\<close>), the passkey prompt of the browser, and in the editor
  what other handlers do while a request is under way (\<open>meanwhile\<close>). Readers of answers (\<open>rd\<close>, \<open>wire\<close>)
  stand for the types the service promises.

  \<^bold>\<open>Fuel.\<close> Only the polling loop takes fuel; C31 shows that a number of rounds computed from the
  timeout and the interval is enough, given a clock that a timer moves on by at least its delay.
  Every other loop terminates by a proved measure.

  \<^bold>\<open>Not modelled.\<close> Style, icons and placeholders, the rendering of the parts not named above, the
  components under \<^verbatim>\<open>components/ui\<close> that only style a primitive, the generated schema (types only), the cards and the map of the dashboard, the CodeMirror wrapper, rendering
  that depends on the locale of the browser, and the Python service, which the theorems quantify
  over. In \<open>Live_Logs\<close> the local time of a line and the text download are left out, since they
  convert binary floating point seconds.
\<close>

end
